(* ===== verification/Prelude.thy ===== *)
theory Prelude
  imports Main "HOL-Library.Word"
begin

text \<open>
  Shared vocabulary of the development: the machine integers, the ways a C++ expression can
  fail, a small error monad over sums, arenas (the objects behind \<open>std::shared_ptr\<close>), the
  string operations the code uses (\<open>find\<close>, \<open>substr\<close>, splitting, \<open>std::to_string\<close>) and the
  lemma collections the component theories rewrite with.
\<close>

named_theorems arena_simps "reading and writing arenas"
named_theorems model_defs "definitions of operations that proofs unfold"

section \<open>Machine integers\<close>

type_synonym u64 = "64 word"
type_synonym u32 = "32 word"

lemma unat_Suc_u64: "unat (x + 1 :: u64) = Suc (unat x)" if "unat x < 2 ^ 64 - 1"
  using that by (simp add: unat_word_ariths)

lemma less_Suc_u64: "(x :: u64) < x + 1" if "unat x < 2 ^ 64 - 1"
  using that by (simp add: word_less_nat_alt unat_Suc_u64)

lemma of_nat_inj_u64:
  "(of_nat p :: u64) = of_nat q \<longleftrightarrow> p = q" if "p < 2 ^ 64" "q < 2 ^ 64"
proof
  assume "(of_nat p :: u64) = of_nat q"
  then have "unat (of_nat p :: u64) = unat (of_nat q :: u64)" by simp
  with that show "p = q" by (simp add: unat_of_nat take_bit_nat_eq_self)
qed simp

lemma unat_of_nat_u64 [simp]: "p < 2 ^ 64 \<Longrightarrow> unat (of_nat p :: u64) = p"
  by (simp add: unat_of_nat take_bit_nat_eq_self)

section \<open>Failures of C++ expressions\<close>

text \<open>
  What can happen instead of a value: an exception of the standard library (thrown by
  \<open>value()\<close> on an empty \<open>expected\<close> or \<open>optional\<close>, \<open>std::get\<close> on the wrong alternative, a
  \<open>runtime_error\<close> or \<open>invalid_argument\<close> with its message), an exception of a third-party library, an
  exception that leaves a \<open>noexcept\<close> function (\<open>std::terminate\<close>), or undefined behaviour (a null
  pointer, an empty optional or expected read through \<open>->\<close>, an index out of bounds).
\<close>

datatype cpp_error =
    Bad_expected_access
  | Bad_optional_access
  | Bad_variant_access
  | Runtime_error string
  | Invalid_argument string
  | Library_error
  | Terminate
  | Null_dereference
  | Undefined_behaviour
  | Empty_optional_dereference
  | Out_of_bounds

text \<open>What \<open>catch(const std::exception&)\<close> catches: undefined behaviour it does not.\<close>

fun is_exception :: "cpp_error \<Rightarrow> bool" where
  "is_exception (Runtime_error _) = True"
| "is_exception (Invalid_argument _) = True"
| "is_exception Library_error = True"
| "is_exception Bad_expected_access = True"
| "is_exception Bad_optional_access = True"
| "is_exception Bad_variant_access = True"
| "is_exception _ = False"

section \<open>The error monad\<close>

fun bind_sum :: "'e + 'a \<Rightarrow> ('a \<Rightarrow> 'e + 'b) \<Rightarrow> 'e + 'b" where
  "bind_sum (Inl e) f = Inl e"
| "bind_sum (Inr x) f = f x"

lemma bind_sum_eq_Inr:
  "bind_sum m f = Inr y \<longleftrightarrow> (\<exists>x. m = Inr x \<and> f x = Inr y)"
  by (cases m) auto

lemma bind_sum_eq_Inl:
  "bind_sum m f = Inl e \<longleftrightarrow> m = Inl e \<or> (\<exists>x. m = Inr x \<and> f x = Inl e)"
  by (cases m) auto

lemma bind_sum_Inr_right [simp]: "bind_sum m Inr = m"
  by (cases m) auto

lemma bind_sum_assoc: "bind_sum (bind_sum m f) g = bind_sum m (\<lambda>x. bind_sum (f x) g)"
  by (cases m) auto

text \<open>A loop whose body may fail: it stops at the first failure.\<close>

fun try_map :: "('a \<Rightarrow> 'e + 'b) \<Rightarrow> 'a list \<Rightarrow> 'e + 'b list" where
  "try_map f [] = Inr []"
| "try_map f (x # xs) =
     bind_sum (f x) (\<lambda>y. bind_sum (try_map f xs) (\<lambda>ys. Inr (y # ys)))"

lemma try_map_total: "(\<And>x. x \<in> set xs \<Longrightarrow> f x = Inr (g x)) \<Longrightarrow> try_map f xs = Inr (map g xs)"
  by (induction xs) auto

lemma try_map_append:
  "try_map f (xs @ ys) =
     bind_sum (try_map f xs) (\<lambda>us. bind_sum (try_map f ys) (\<lambda>vs. Inr (us @ vs)))"
  by (induction xs) (simp_all add: bind_sum_assoc)

lemma try_map_Inr_length: "try_map f xs = Inr ys \<Longrightarrow> length ys = length xs"
  by (induction xs arbitrary: ys) (auto simp: bind_sum_eq_Inr)

lemma try_map_fails:
  "x \<in> set xs \<Longrightarrow> f x = Inl e \<Longrightarrow> \<exists>e'. try_map f xs = Inl e'"
  by (induction xs) (auto simp: bind_sum_eq_Inl, metis bind_sum.simps(1) bind_sum.simps(2) obj_sumE)

text \<open>\<open>expected::error()\<close> and \<open>expected::value()\<close> for results of type \<open>'e + 'a\<close>.\<close>

fun is_ok :: "'e + 'a \<Rightarrow> bool" where
  "is_ok (Inl _) = False"
| "is_ok (Inr _) = True"

lemma is_ok_iff: "is_ok r \<longleftrightarrow> (\<exists>x. r = Inr x)"
  by (cases r) auto

section \<open>Arenas: the objects behind shared pointers\<close>

text \<open>
  \<open>std::make_shared\<close> puts a new object behind a pointer no other object has; the object lives as long
  as a pointer to it does. An arena is the list of the objects made so far and a pointer is an
  index, so a pointer that the program still holds always reads the object it was made for.
\<close>

type_synonym 'a arena = "'a list"

definition deref :: "'a arena \<Rightarrow> nat \<Rightarrow> 'a option" where
  "deref xs p = (if p < length xs then Some (xs ! p) else None)"

definition make_shared :: "'a \<Rightarrow> 'a arena \<Rightarrow> 'a arena \<times> nat" where
  "make_shared x xs = (xs @ [x], length xs)"

definition assign :: "nat \<Rightarrow> 'a \<Rightarrow> 'a arena \<Rightarrow> 'a arena" where
  "assign p x xs = xs[p := x]"

lemma deref_snoc [arena_simps]:
  "deref (xs @ [x]) p = (if p = length xs then Some x else deref xs p)"
  by (auto simp: deref_def nth_append)

lemma deref_assign [arena_simps]:
  "deref (assign q x xs) p = (if p = q \<and> q < length xs then Some x else deref xs p)"
  by (auto simp: deref_def assign_def)

lemma length_assign [simp]: "length (assign p x xs) = length xs"
  by (simp add: assign_def)

lemma deref_SomeD: "deref xs p = Some x \<Longrightarrow> p < length xs \<and> xs ! p = x"
  by (auto simp: deref_def split: if_splits)

lemma deref_in_range [simp]: "p < length xs \<Longrightarrow> deref xs p = Some (xs ! p)"
  by (simp add: deref_def)

lemma deref_None_iff: "deref xs p = None \<longleftrightarrow> length xs \<le> p"
  by (auto simp: deref_def)

lemma nth_assign: "p < length xs \<Longrightarrow> assign q x xs ! p = (if p = q then x else xs ! p)"
  by (auto simp: assign_def)

text \<open>A member function called through a pointer.\<close>

definition through :: "nat \<Rightarrow> ('a \<Rightarrow> 'a) \<Rightarrow> 'a arena \<Rightarrow> 'a arena" where
  "through p f xs = (case deref xs p of Some x \<Rightarrow> assign p (f x) xs | None \<Rightarrow> xs)"

lemma length_through [simp]: "length (through p f xs) = length xs"
  by (simp add: through_def split: option.splits)

lemma nth_through: "q < length xs \<Longrightarrow> through p f xs ! q = (if q = p then f (xs ! p) else xs ! q)"
  by (auto simp: through_def nth_assign deref_def)

lemma deref_through [arena_simps]:
  "deref (through p f xs) q = (if q = p then map_option f (deref xs p) else deref xs q)"
  by (auto simp: through_def deref_def nth_assign)

lemma map_through: "(\<And>x. g (f x) = g x) \<Longrightarrow> map g (through p f xs) = map g xs"
  by (rule nth_equalityI) (auto simp: nth_through)

section \<open>Unordered maps\<close>

text \<open>\<open>emplace\<close> inserts when the key is absent and tells whether it did; \<open>erase\<close> removes the key.\<close>

definition emplace :: "'k \<Rightarrow> 'v \<Rightarrow> ('k \<Rightarrow> 'v option) \<Rightarrow> ('k \<Rightarrow> 'v option) \<times> bool" where
  "emplace k v m = (case m k of None \<Rightarrow> (m(k \<mapsto> v), True) | Some _ \<Rightarrow> (m, False))"

definition erase :: "'k \<Rightarrow> ('k \<Rightarrow> 'v option) \<Rightarrow> 'k \<Rightarrow> 'v option" where
  "erase k m = m(k := None)"

lemma emplace_absent: "m k = None \<Longrightarrow> emplace k v m = (m(k \<mapsto> v), True)"
  by (simp add: emplace_def)

lemma emplace_present: "m k = Some u \<Longrightarrow> emplace k v m = (m, False)"
  by (simp add: emplace_def)

lemma fst_emplace_apply:
  "fst (emplace k v m) j = (if j = k \<and> m k = None then Some v else m j)"
  by (auto simp: emplace_def split: option.splits)

lemma erase_apply [simp]: "erase k m j = (if j = k then None else m j)"
  by (simp add: erase_def)

section \<open>Strings\<close>

text \<open>\<open>s.starts_with(p)\<close>, and \<open>s.find(p)\<close>: the first position where \<open>p\<close> occurs, if any.\<close>

fun is_prefix :: "string \<Rightarrow> string \<Rightarrow> bool" where
  "is_prefix [] s = True"
| "is_prefix (x # xs) [] = False"
| "is_prefix (x # xs) (y # ys) = (x = y \<and> is_prefix xs ys)"

fun str_find :: "string \<Rightarrow> string \<Rightarrow> nat option" where
  "str_find p [] = (if p = [] then Some 0 else None)"
| "str_find p (c # cs) =
     (if is_prefix p (c # cs) then Some 0 else map_option Suc (str_find p cs))"

lemma is_prefix_iff: "is_prefix p s \<longleftrightarrow> (\<exists>r. s = p @ r)"
  by (induction p s rule: is_prefix.induct) auto

lemma is_prefix_append [simp]: "is_prefix p (p @ s)"
  by (auto simp: is_prefix_iff)

lemma str_find_prefix: "is_prefix p s \<Longrightarrow> str_find p s = Some 0"
  by (cases s) (auto simp: is_prefix_iff)

lemma str_find_Some: "str_find p s = Some n \<Longrightarrow> is_prefix p (drop n s) \<and> n \<le> length s"
proof (induction s arbitrary: n)
  case Nil
  then show ?case by (auto split: if_splits)
next
  case (Cons c cs)
  then show ?case by (cases n) (auto split: if_splits)
qed

lemma str_find_None: "str_find p s = None \<longleftrightarrow> (\<forall>u v. s \<noteq> u @ p @ v)"
proof (induction s)
  case Nil
  then show ?case by auto
next
  case (Cons c cs)
  show ?case
  proof (cases "is_prefix p (c # cs)")
    case True
    then obtain r where "c # cs = [] @ p @ r" by (auto simp: is_prefix_iff)
    with True show ?thesis by (metis option.distinct(1) str_find.simps(2))
  next
    case False
    then have "(\<exists>u v. c # cs = u @ p @ v) \<longleftrightarrow> (\<exists>u v. cs = u @ p @ v)"
      by (metis append_Cons append_Nil is_prefix_iff list.inject neq_Nil_conv)
    with False Cons.IH show ?thesis by auto
  qed
qed

text \<open>\<open>std::to_string\<close> of an unsigned integer, and its inverse.\<close>

fun nat_to_string :: "nat \<Rightarrow> string" where
  "nat_to_string n =
     (if n < 10 then [char_of (48 + n)]
      else nat_to_string (n div 10) @ [char_of (48 + n mod 10)])"

declare nat_to_string.simps [simp del]

definition is_digit :: "char \<Rightarrow> bool" where
  "is_digit c \<longleftrightarrow> 48 \<le> (of_char c :: nat) \<and> (of_char c :: nat) \<le> 57"

definition digits_value :: "string \<Rightarrow> nat" where
  "digits_value s = foldl (\<lambda>a c. 10 * a + (of_char c - 48)) 0 s"

lemma digits_value_snoc: "digits_value (s @ [c]) = 10 * digits_value s + (of_char c - 48)"
  by (simp add: digits_value_def)

lemma digits_value_nat_to_string [simp]: "digits_value (nat_to_string n) = n"
proof (induction n rule: nat_to_string.induct)
  case (1 n)
  show ?case
  proof (cases "n < 10")
    case True
    then show ?thesis
      by (subst nat_to_string.simps) (simp add: digits_value_def)
  next
    case False
    have d: "n mod 10 < 10" by simp
    from False "1.IH" have "digits_value (nat_to_string n) = 10 * (n div 10) + n mod 10"
      using d by (subst nat_to_string.simps) (simp add: digits_value_snoc)
    then show ?thesis by simp
  qed
qed

lemma nat_to_string_inj [simp]: "nat_to_string m = nat_to_string n \<longleftrightarrow> m = n"
  by (metis digits_value_nat_to_string)

lemma nat_to_string_digits: "c \<in> set (nat_to_string n) \<Longrightarrow> is_digit c"
proof (induction n rule: nat_to_string.induct)
  case (1 n)
  then show ?case
    by (subst (asm) nat_to_string.simps) (auto simp: is_digit_def split: if_splits)
qed

lemma nat_to_string_nonempty [simp]: "nat_to_string n \<noteq> []"
  by (subst nat_to_string.simps) simp

definition u64_to_string :: "u64 \<Rightarrow> string" where
  "u64_to_string w = nat_to_string (unat w)"

lemma u64_to_string_inj [simp]: "u64_to_string v = u64_to_string w \<longleftrightarrow> v = w"
  by (simp add: u64_to_string_def word_unat_eq_iff)

end
