(* ===== verification/Types.thy ===== *)
theory Types
  imports Prelude
begin

text \<open>
  The data of the public interface (\<open>src/lib/scord/types.hpp\<close>, \<open>types.h\<close>, \<open>types.cpp\<close>): return codes,
  enumerations and the value classes. A class with a private implementation (\<open>m_pimpl\<close>) is the record of
  the fields of its implementation; its copy constructor and assignment copy those fields, which is
  what passing a record does. A scoped enumeration has its named constants as constructors and one more,
  \<open>..._other k\<close>, for the integer \<open>k\<close> past the last named constant, which a \<open>static_cast\<close> from a
  C enumeration or a deserialised integer can produce.
\<close>

section \<open>Return codes\<close>

text \<open>
  \<open>ADM_return_t\<close>: the constants are numbered from 0 in this order; \<open>ADM_UNNAMED k\<close> is the integer \<open>14 + k\<close>
  (so \<open>ADM_ERR_MAX\<close>, which is 512, is \<open>ADM_UNNAMED 498\<close>).
\<close>

datatype adm_return =
    ADM_SUCCESS
  | ADM_ESNAFU
  | ADM_EBADARGS
  | ADM_ENOMEM
  | ADM_EEXISTS
  | ADM_ENOENT
  | ADM_EADHOC_BUSY
  | ADM_EADHOC_TYPE_UNSUPPORTED
  | ADM_EADHOC_DIR_CREATE_FAILED
  | ADM_EADHOC_DIR_EXISTS
  | ADM_ESUBPROCESS_ERROR
  | ADM_ENO_RESOURCES
  | ADM_ETIMEOUT
  | ADM_EOTHER
  | ADM_UNNAMED nat

type_synonym error_code = adm_return

fun return_code :: "adm_return \<Rightarrow> nat" where
  "return_code ADM_SUCCESS = 0"
| "return_code ADM_ESNAFU = 1"
| "return_code ADM_EBADARGS = 2"
| "return_code ADM_ENOMEM = 3"
| "return_code ADM_EEXISTS = 4"
| "return_code ADM_ENOENT = 5"
| "return_code ADM_EADHOC_BUSY = 6"
| "return_code ADM_EADHOC_TYPE_UNSUPPORTED = 7"
| "return_code ADM_EADHOC_DIR_CREATE_FAILED = 8"
| "return_code ADM_EADHOC_DIR_EXISTS = 9"
| "return_code ADM_ESUBPROCESS_ERROR = 10"
| "return_code ADM_ENO_RESOURCES = 11"
| "return_code ADM_ETIMEOUT = 12"
| "return_code ADM_EOTHER = 13"
| "return_code (ADM_UNNAMED k) = 14 + k"

definition named_returns :: "adm_return list" where
  "named_returns =
     [ADM_SUCCESS, ADM_ESNAFU, ADM_EBADARGS, ADM_ENOMEM, ADM_EEXISTS, ADM_ENOENT, ADM_EADHOC_BUSY,
      ADM_EADHOC_TYPE_UNSUPPORTED, ADM_EADHOC_DIR_CREATE_FAILED, ADM_EADHOC_DIR_EXISTS,
      ADM_ESUBPROCESS_ERROR, ADM_ENO_RESOURCES, ADM_ETIMEOUT, ADM_EOTHER]"

text \<open>The constructor \<open>error_code(int32_t)\<close>, on the non-negative codes.\<close>

definition error_code_of :: "nat \<Rightarrow> error_code" where
  "error_code_of n = (if n < 14 then named_returns ! n else ADM_UNNAMED (n - 14))"

lemma error_code_of_return_code [simp]: "error_code_of (return_code e) = e"
  by (cases e) (simp_all add: error_code_of_def named_returns_def)

lemma less_14: "n < (14::nat) \<Longrightarrow> n \<in> {0,1,2,3,4,5,6,7,8,9,10,11,12,13}"
  by (simp, presburger)

lemma return_code_error_code_of [simp]: "return_code (error_code_of n) = n"
proof (cases "n < 14")
  case True
  from less_14 [OF this] show ?thesis
    by (auto simp: error_code_of_def named_returns_def)
next
  case False
  then show ?thesis by (simp add: error_code_of_def)
qed

lemma return_code_inject: "return_code d = return_code e \<longleftrightarrow> d = e"
  by (metis error_code_of_return_code)

text \<open>Return codes are ordered as the integers they stand for.\<close>

instantiation adm_return :: linorder
begin

definition less_eq_adm_return :: "adm_return \<Rightarrow> adm_return \<Rightarrow> bool" where
  "less_eq_adm_return d e \<longleftrightarrow> return_code d \<le> return_code e"

definition less_adm_return :: "adm_return \<Rightarrow> adm_return \<Rightarrow> bool" where
  "less_adm_return d e \<longleftrightarrow> return_code d < return_code e"

instance
  by standard (auto simp: less_eq_adm_return_def less_adm_return_def return_code_inject)

end

text \<open>\<open>error_code::operator bool\<close>: an error code is true when it is success.\<close>

definition ec_bool :: "error_code \<Rightarrow> bool" where
  "ec_bool ec \<longleftrightarrow> ec = ADM_SUCCESS"

lemma ec_bool_simps [simp]:
  "ec_bool ADM_SUCCESS" "\<not> ec_bool ADM_ESNAFU" "\<not> ec_bool ADM_ENOENT" "\<not> ec_bool ADM_EEXISTS"
  "\<not> ec_bool ADM_EADHOC_BUSY" "\<not> ec_bool ADM_ENO_RESOURCES" "\<not> ec_bool ADM_EOTHER"
  by (simp_all add: ec_bool_def)

text \<open>
  \<open>error_code::name()\<close>, the text the formatter of error codes prints. The switch has no case for
  \<open>ADM_ENO_RESOURCES\<close>.
\<close>

fun error_code_name :: "error_code \<Rightarrow> string" where
  "error_code_name ADM_SUCCESS = ''ADM_SUCCESS''"
| "error_code_name ADM_ESNAFU = ''ADM_ESNAFU''"
| "error_code_name ADM_EBADARGS = ''ADM_EBADARGS''"
| "error_code_name ADM_ENOMEM = ''ADM_ENOMEM''"
| "error_code_name ADM_EEXISTS = ''ADM_EEXISTS''"
| "error_code_name ADM_ENOENT = ''ADM_ENOENT''"
| "error_code_name ADM_EADHOC_BUSY = ''ADM_EADHOC_BUSY''"
| "error_code_name ADM_EADHOC_TYPE_UNSUPPORTED = ''ADM_EADHOC_TYPE_UNSUPPORTED''"
| "error_code_name ADM_EADHOC_DIR_CREATE_FAILED = ''ADM_EADHOC_DIR_CREATE_FAILED''"
| "error_code_name ADM_EADHOC_DIR_EXISTS = ''ADM_EADHOC_DIR_EXISTS''"
| "error_code_name ADM_ESUBPROCESS_ERROR = ''ADM_ESUBPROCESS_ERROR''"
| "error_code_name ADM_ETIMEOUT = ''ADM_ETIMEOUT''"
| "error_code_name ADM_EOTHER = ''ADM_EOTHER''"
| "error_code_name _ = ''INVALID_ERROR_VALUE''"

text \<open>
  \<open>adm_errlist\<close> and \<open>ADM_strerror\<close> of \<open>errors.c\<close>: a sparse array of messages indexed by the code, clamped
  at \<open>ADM_ERR_MAX\<close>; entries without a message fall back to the one of \<open>ADM_EOTHER\<close>.
\<close>

definition ADM_ERR_MAX :: nat where
  "ADM_ERR_MAX = 512"

definition adm_errmsgs :: "string list" where
  "adm_errmsgs =
     [''Success'', ''Internal error'', ''Bad arguments'', ''Cannot allocate memory'',
      ''Entity already exists'', ''Entity does not exist'', ''Adhoc storage already in use'',
      ''Unsupported adhoc storage type'', ''Cannot create adhoc storage directory'',
      ''Adhoc storage directory already exists'', ''Subprocess error'', ''No resources available'',
      ''Timeout'', ''Undetermined error'']"

definition adm_errlist :: "nat \<Rightarrow> string option" where
  "adm_errlist n =
     (if n < length adm_errmsgs then Some (adm_errmsgs ! n)
      else if n = ADM_ERR_MAX then Some ''Unknown error''
      else None)"

definition ADM_strerror :: "nat \<Rightarrow> string" where
  "ADM_strerror errnum =
     (let errnum = (if ADM_ERR_MAX < errnum then ADM_ERR_MAX else errnum)
      in case adm_errlist errnum of
           Some s \<Rightarrow> s
         | None \<Rightarrow> (case adm_errlist (return_code ADM_EOTHER) of Some s \<Rightarrow> s | None \<Rightarrow> []))"

definition error_code_message :: "error_code \<Rightarrow> string" where
  "error_code_message ec = ADM_strerror (return_code ec)"

section \<open>Enumerations\<close>

text \<open>
  For each enumeration: its constants, the integer a constant stands for (\<open>static_cast\<close> to the C
  enumeration) and the constant of an integer (\<open>static_cast\<close> from it).
\<close>

datatype node_type =
    node_regular
  | node_administrative
  | node_type_other nat

fun node_type_code :: "node_type \<Rightarrow> nat" where
  "node_type_code node_regular = 0"
| "node_type_code node_administrative = 1"
| "node_type_code (node_type_other k) = 2 + k"

definition node_type_of :: "nat \<Rightarrow> node_type" where
  "node_type_of n =
     (if n = 0 then node_regular else if n = 1 then node_administrative else node_type_other (n - 2))"

lemma node_type_cast [simp]: "node_type_of (node_type_code x) = x" "node_type_code (node_type_of n) = n"
  by (cases x, simp_all add: node_type_of_def, presburger?)

datatype adhoc_type =
    adhoc_gekkofs
  | adhoc_dataclay
  | adhoc_expand
  | adhoc_hercules
  | adhoc_type_other nat

fun adhoc_type_code :: "adhoc_type \<Rightarrow> nat" where
  "adhoc_type_code adhoc_gekkofs = 0"
| "adhoc_type_code adhoc_dataclay = 1"
| "adhoc_type_code adhoc_expand = 2"
| "adhoc_type_code adhoc_hercules = 3"
| "adhoc_type_code (adhoc_type_other k) = 4 + k"

definition adhoc_type_of :: "nat \<Rightarrow> adhoc_type" where
  "adhoc_type_of n =
     (if n = 0 then adhoc_gekkofs else if n = 1 then adhoc_dataclay else if n = 2 then adhoc_expand else if n = 3 then adhoc_hercules else adhoc_type_other (n - 4))"

lemma adhoc_type_cast [simp]: "adhoc_type_of (adhoc_type_code x) = x" "adhoc_type_code (adhoc_type_of n) = n"
  by (cases x, simp_all add: adhoc_type_of_def, presburger?)

datatype execution_mode =
    mode_in_job_shared
  | mode_in_job_dedicated
  | mode_separate_new
  | mode_separate_existing
  | execution_mode_other nat

fun execution_mode_code :: "execution_mode \<Rightarrow> nat" where
  "execution_mode_code mode_in_job_shared = 0"
| "execution_mode_code mode_in_job_dedicated = 1"
| "execution_mode_code mode_separate_new = 2"
| "execution_mode_code mode_separate_existing = 3"
| "execution_mode_code (execution_mode_other k) = 4 + k"

definition execution_mode_of :: "nat \<Rightarrow> execution_mode" where
  "execution_mode_of n =
     (if n = 0 then mode_in_job_shared else if n = 1 then mode_in_job_dedicated else if n = 2 then mode_separate_new else if n = 3 then mode_separate_existing else execution_mode_other (n - 4))"

lemma execution_mode_cast [simp]: "execution_mode_of (execution_mode_code x) = x" "execution_mode_code (execution_mode_of n) = n"
  by (cases x, simp_all add: execution_mode_of_def, presburger?)

datatype access_type =
    access_read_only
  | access_write_only
  | access_read_write
  | access_type_other nat

fun access_type_code :: "access_type \<Rightarrow> nat" where
  "access_type_code access_read_only = 0"
| "access_type_code access_write_only = 1"
| "access_type_code access_read_write = 2"
| "access_type_code (access_type_other k) = 3 + k"

definition access_type_of :: "nat \<Rightarrow> access_type" where
  "access_type_of n =
     (if n = 0 then access_read_only else if n = 1 then access_write_only else if n = 2 then access_read_write else access_type_other (n - 3))"

lemma access_type_cast [simp]: "access_type_of (access_type_code x) = x" "access_type_code (access_type_of n) = n"
  by (cases x, simp_all add: access_type_of_def, presburger?)

datatype pfs_type =
    pfs_lustre
  | pfs_gpfs
  | pfs_type_other nat

fun pfs_type_code :: "pfs_type \<Rightarrow> nat" where
  "pfs_type_code pfs_lustre = 0"
| "pfs_type_code pfs_gpfs = 1"
| "pfs_type_code (pfs_type_other k) = 2 + k"

definition pfs_type_of :: "nat \<Rightarrow> pfs_type" where
  "pfs_type_of n =
     (if n = 0 then pfs_lustre else if n = 1 then pfs_gpfs else pfs_type_other (n - 2))"

lemma pfs_type_cast [simp]: "pfs_type_of (pfs_type_code x) = x" "pfs_type_code (pfs_type_of n) = n"
  by (cases x, simp_all add: pfs_type_of_def, presburger?)

datatype transfer_mapping =
    mapping_one_to_one
  | mapping_one_to_n
  | mapping_n_to_n
  | transfer_mapping_other nat

fun transfer_mapping_code :: "transfer_mapping \<Rightarrow> nat" where
  "transfer_mapping_code mapping_one_to_one = 0"
| "transfer_mapping_code mapping_one_to_n = 1"
| "transfer_mapping_code mapping_n_to_n = 2"
| "transfer_mapping_code (transfer_mapping_other k) = 3 + k"

definition transfer_mapping_of :: "nat \<Rightarrow> transfer_mapping" where
  "transfer_mapping_of n =
     (if n = 0 then mapping_one_to_one else if n = 1 then mapping_one_to_n else if n = 2 then mapping_n_to_n else transfer_mapping_other (n - 3))"

lemma transfer_mapping_cast [simp]: "transfer_mapping_of (transfer_mapping_code x) = x" "transfer_mapping_code (transfer_mapping_of n) = n"
  by (cases x, simp_all add: transfer_mapping_of_def, presburger?)

datatype transfer_state_type =
    tx_queued
  | tx_running
  | tx_finished
  | tx_failed
  | tx_cancelled
  | transfer_state_type_other nat

fun transfer_state_type_code :: "transfer_state_type \<Rightarrow> nat" where
  "transfer_state_type_code tx_queued = 0"
| "transfer_state_type_code tx_running = 1"
| "transfer_state_type_code tx_finished = 2"
| "transfer_state_type_code tx_failed = 3"
| "transfer_state_type_code tx_cancelled = 4"
| "transfer_state_type_code (transfer_state_type_other k) = 5 + k"

definition transfer_state_type_of :: "nat \<Rightarrow> transfer_state_type" where
  "transfer_state_type_of n =
     (if n = 0 then tx_queued else if n = 1 then tx_running else if n = 2 then tx_finished else if n = 3 then tx_failed else if n = 4 then tx_cancelled else transfer_state_type_other (n - 5))"

lemma transfer_state_type_cast [simp]: "transfer_state_type_of (transfer_state_type_code x) = x" "transfer_state_type_code (transfer_state_type_of n) = n"
  by (cases x, simp_all add: transfer_state_type_of_def, presburger?)

datatype qos_subclass =
    qos_class_bandwidth
  | qos_class_iops
  | qos_subclass_other nat

fun qos_subclass_code :: "qos_subclass \<Rightarrow> nat" where
  "qos_subclass_code qos_class_bandwidth = 0"
| "qos_subclass_code qos_class_iops = 1"
| "qos_subclass_code (qos_subclass_other k) = 2 + k"

definition qos_subclass_of :: "nat \<Rightarrow> qos_subclass" where
  "qos_subclass_of n =
     (if n = 0 then qos_class_bandwidth else if n = 1 then qos_class_iops else qos_subclass_other (n - 2))"

lemma qos_subclass_cast [simp]: "qos_subclass_of (qos_subclass_code x) = x" "qos_subclass_code (qos_subclass_of n) = n"
  by (cases x, simp_all add: qos_subclass_of_def, presburger?)

datatype qos_scope =
    qos_scope_dataset
  | qos_scope_node
  | qos_scope_job
  | qos_scope_transfer
  | qos_scope_other nat

fun qos_scope_code :: "qos_scope \<Rightarrow> nat" where
  "qos_scope_code qos_scope_dataset = 0"
| "qos_scope_code qos_scope_node = 1"
| "qos_scope_code qos_scope_job = 2"
| "qos_scope_code qos_scope_transfer = 3"
| "qos_scope_code (qos_scope_other k) = 4 + k"

definition qos_scope_of :: "nat \<Rightarrow> qos_scope" where
  "qos_scope_of n =
     (if n = 0 then qos_scope_dataset else if n = 1 then qos_scope_node else if n = 2 then qos_scope_job else if n = 3 then qos_scope_transfer else qos_scope_other (n - 4))"

lemma qos_scope_cast [simp]: "qos_scope_of (qos_scope_code x) = x" "qos_scope_code (qos_scope_of n) = n"
  by (cases x, simp_all add: qos_scope_of_def, presburger?)

section \<open>Value classes\<close>

type_synonym job_id = u64
type_synonym slurm_job_id = u64
type_synonym transfer_id = u64

record server =
  server_protocol :: string
  server_address :: string

record node =
  hostname :: string
  get_type :: node_type

text \<open>\<open>node(std::string hostname, node::type = regular)\<close>.\<close>

definition mk_node :: "string \<Rightarrow> node" where
  "mk_node h = \<lparr>hostname = h, get_type = node_regular\<rparr>"

record adhoc_resources =
  adhoc_nodes :: "node list"

record adhoc_ctx =
  controller_address :: string
  data_stager_address :: string
  exec_mode :: execution_mode
  ctx_access_type :: access_type
  walltime :: u32
  should_flush :: bool

record adhoc_storage =
  adhoc_kind :: adhoc_type
  adhoc_name :: string
  adhoc_id :: u64
  adhoc_context :: adhoc_ctx
  adhoc_res :: adhoc_resources

definition adhoc_update_ctx :: "adhoc_ctx \<Rightarrow> adhoc_storage \<Rightarrow> adhoc_storage" where
  "adhoc_update_ctx new_ctx a = a\<lparr>adhoc_context := new_ctx\<rparr>"

definition adhoc_update_resources :: "adhoc_resources \<Rightarrow> adhoc_storage \<Rightarrow> adhoc_storage" where
  "adhoc_update_resources new_resources a = a\<lparr>adhoc_res := new_resources\<rparr>"

record pfs_ctx =
  mount_point :: string

record pfs_storage =
  pfs_kind :: pfs_type
  pfs_name :: string
  pfs_id :: u64
  pfs_context :: pfs_ctx

definition pfs_update_ctx :: "pfs_ctx \<Rightarrow> pfs_storage \<Rightarrow> pfs_storage" where
  "pfs_update_ctx new_ctx p = p\<lparr>pfs_context := new_ctx\<rparr>"

record dataset =
  dataset_id :: string

record dataset_route =
  route_source :: dataset
  route_destination :: dataset

record job_resources =
  job_nodes :: "node list"

record job_requirements =
  req_inputs :: "dataset_route list"
  req_outputs :: "dataset_route list"
  req_expected_outputs :: "dataset_route list"
  req_adhoc_storage :: "adhoc_storage option"

record job =
  job_id :: u64
  job_slurm_id :: u64

record job_info =
  adhoc_controller_address :: string
  info_uuid :: string
  procs_for_io :: u32

record transfer =
  tx_id :: u64

record transfer_state =
  tx_status :: transfer_state_type

subsection \<open>Quality of service\<close>

text \<open>
  The data of an entity is a \<open>std::variant\<close>; the scope is a separate field. A limit made by the default
  constructor has no implementation object, which the C interface relies on when it makes a vector
  of limits, so a limit is an optional implementation.
\<close>

datatype qos_data = Q_dataset dataset | Q_node node | Q_job job | Q_transfer transfer

record qos_entity =
  ent_scope :: qos_scope
  ent_data :: qos_data

record qos_limit_impl =
  lim_subclass :: qos_subclass
  lim_value :: u64
  lim_entity :: "qos_entity option"

type_synonym qos_limit = "qos_limit_impl option"

text \<open>\<open>entity::data<T>()\<close> is \<open>std::get<T>\<close>: it throws when the variant holds another alternative.\<close>

fun entity_data_dataset :: "qos_entity \<Rightarrow> cpp_error + dataset" where
  "entity_data_dataset e = (case ent_data e of Q_dataset d \<Rightarrow> Inr d | _ \<Rightarrow> Inl Bad_variant_access)"

fun entity_data_node :: "qos_entity \<Rightarrow> cpp_error + node" where
  "entity_data_node e = (case ent_data e of Q_node n \<Rightarrow> Inr n | _ \<Rightarrow> Inl Bad_variant_access)"

fun entity_data_job :: "qos_entity \<Rightarrow> cpp_error + job" where
  "entity_data_job e = (case ent_data e of Q_job j \<Rightarrow> Inr j | _ \<Rightarrow> Inl Bad_variant_access)"

fun entity_data_transfer :: "qos_entity \<Rightarrow> cpp_error + transfer" where
  "entity_data_transfer e = (case ent_data e of Q_transfer t \<Rightarrow> Inr t | _ \<Rightarrow> Inl Bad_variant_access)"

text \<open>\<open>limit::value()\<close>, through the implementation pointer.\<close>

fun limit_value :: "qos_limit \<Rightarrow> cpp_error + u64" where
  "limit_value None = Inl Null_dereference"
| "limit_value (Some l) = Inr (lim_value l)"

fun limit_subclass :: "qos_limit \<Rightarrow> cpp_error + qos_subclass" where
  "limit_subclass None = Inl Null_dereference"
| "limit_subclass (Some l) = Inr (lim_subclass l)"

text \<open>Copying a limit copies the implementation through the pointer.\<close>

fun limit_copy :: "qos_limit \<Rightarrow> cpp_error + qos_limit" where
  "limit_copy None = Inl Null_dereference"
| "limit_copy (Some l) = Inr (Some l)"

lemma limit_copy_Inr: "limit_copy l = Inr l' \<longleftrightarrow> l \<noteq> None \<and> l' = l"
  by (cases l) auto

end
