(* ===== verification/InternalTypes.thy ===== *)
theory InternalTypes
  imports Types Complex_Main
begin

text \<open>
  The objects the daemon keeps about what clients register (\<open>src/src/scord/internal_types.hpp\<close>, \<open>.cpp\<close>).
  Jobs and adhoc storages point at each other through shared pointers; a pointer is an index into
  the arena of the objects the job manager or the adhoc storage manager has made. The mutex of an
  adhoc storage makes each operation on its client atomic, which is what one application of a
  function is. A \<open>float\<close> is the real number it stands for.
\<close>

type_synonym jptr = nat
type_synonym aptr = nat

section \<open>Jobs\<close>

record job_metadata =
  jm_job :: job
  jm_resources :: "job_resources option"
  jm_requirements :: "job_requirements option"
  jm_adhoc_metadata_ptr :: "aptr option"

definition mk_job_metadata ::
  "job \<Rightarrow> job_resources \<Rightarrow> job_requirements \<Rightarrow> aptr option \<Rightarrow> job_metadata" where
  "mk_job_metadata j res reqs a =
     \<lparr>jm_job = j, jm_resources = Some res, jm_requirements = Some reqs, jm_adhoc_metadata_ptr = a\<rparr>"

text \<open>\<open>io_procs\<close> returns the size of the vector, a \<open>size_t\<close>, as a \<open>uint32_t\<close>.\<close>

definition io_procs :: "job_metadata \<Rightarrow> u32" where
  "io_procs m = (case jm_resources m of Some r \<Rightarrow> of_nat (length (job_nodes r)) | None \<Rightarrow> 0)"

definition job_metadata_update :: "job_resources \<Rightarrow> job_metadata \<Rightarrow> job_metadata" where
  "job_metadata_update res m = m\<lparr>jm_resources := Some res\<rparr>"

section \<open>Adhoc storages\<close>

record adhoc_storage_metadata =
  am_uuid :: string
  am_adhoc_storage :: adhoc_storage
  am_client_info :: "jptr option"

definition mk_adhoc_storage_metadata :: "string \<Rightarrow> adhoc_storage \<Rightarrow> adhoc_storage_metadata" where
  "mk_adhoc_storage_metadata u a = \<lparr>am_uuid = u, am_adhoc_storage = a, am_client_info = None\<rparr>"

definition am_controller_address :: "adhoc_storage_metadata \<Rightarrow> string" where
  "am_controller_address m = controller_address (adhoc_context (am_adhoc_storage m))"

definition am_data_stager_address :: "adhoc_storage_metadata \<Rightarrow> string" where
  "am_data_stager_address m = data_stager_address (adhoc_context (am_adhoc_storage m))"

definition adhoc_storage_metadata_update ::
  "adhoc_resources \<Rightarrow> adhoc_storage_metadata \<Rightarrow> adhoc_storage_metadata" where
  "adhoc_storage_metadata_update res m =
     m\<lparr>am_adhoc_storage := adhoc_update_resources res (am_adhoc_storage m)\<rparr>"

definition am_add_client_info ::
  "jptr \<Rightarrow> adhoc_storage_metadata \<Rightarrow> adhoc_storage_metadata \<times> error_code" where
  "am_add_client_info j m =
     (case am_client_info m of
        Some _ \<Rightarrow> (m, ADM_EADHOC_BUSY)
      | None \<Rightarrow> (m\<lparr>am_client_info := Some j\<rparr>, ADM_SUCCESS))"

definition am_remove_client_info :: "adhoc_storage_metadata \<Rightarrow> adhoc_storage_metadata" where
  "am_remove_client_info m = m\<lparr>am_client_info := None\<rparr>"

section \<open>Parallel file systems\<close>

record pfs_storage_metadata =
  pm_pfs_storage :: pfs_storage
  pm_client_info :: "jptr option"

definition mk_pfs_storage_metadata :: "pfs_storage \<Rightarrow> pfs_storage_metadata" where
  "mk_pfs_storage_metadata p = \<lparr>pm_pfs_storage = p, pm_client_info = None\<rparr>"

definition pfs_storage_metadata_update :: "pfs_ctx \<Rightarrow> pfs_storage_metadata \<Rightarrow> pfs_storage_metadata" where
  "pfs_storage_metadata_update ctx m = m\<lparr>pm_pfs_storage := pfs_update_ctx ctx (pm_pfs_storage m)\<rparr>"

section \<open>Transfers\<close>

text \<open>The handle is a value of the Cargo library: a type parameter, as in the template.\<close>

record 'h transfer_metadata =
  tm_id :: u64
  tm_handle :: 'h
  tm_qos :: "qos_limit list"
  tm_measured_bandwidth :: real

definition mk_transfer_metadata :: "u64 \<Rightarrow> 'h \<Rightarrow> qos_limit list \<Rightarrow> 'h transfer_metadata" where
  "mk_transfer_metadata i h q =
     \<lparr>tm_id = i, tm_handle = h, tm_qos = q, tm_measured_bandwidth = -1\<rparr>"

definition transfer_metadata_update :: "real \<Rightarrow> 'h transfer_metadata \<Rightarrow> 'h transfer_metadata" where
  "transfer_metadata_update bw m = m\<lparr>tm_measured_bandwidth := bw\<rparr>"

section \<open>Facts\<close>

lemma job_metadata_update_simps [simp]:
  "jm_job (job_metadata_update r m) = jm_job m"
  "jm_resources (job_metadata_update r m) = Some r"
  "jm_requirements (job_metadata_update r m) = jm_requirements m"
  "jm_adhoc_metadata_ptr (job_metadata_update r m) = jm_adhoc_metadata_ptr m"
  by (simp_all add: job_metadata_update_def)

lemma mk_job_metadata_simps [simp]:
  "jm_job (mk_job_metadata j r q a) = j"
  "jm_resources (mk_job_metadata j r q a) = Some r"
  "jm_requirements (mk_job_metadata j r q a) = Some q"
  "jm_adhoc_metadata_ptr (mk_job_metadata j r q a) = a"
  by (simp_all add: mk_job_metadata_def)

lemma adhoc_storage_metadata_update_simps [simp]:
  "am_uuid (adhoc_storage_metadata_update r m) = am_uuid m"
  "am_client_info (adhoc_storage_metadata_update r m) = am_client_info m"
  "adhoc_id (am_adhoc_storage (adhoc_storage_metadata_update r m)) = adhoc_id (am_adhoc_storage m)"
  "adhoc_kind (am_adhoc_storage (adhoc_storage_metadata_update r m)) = adhoc_kind (am_adhoc_storage m)"
  "adhoc_name (am_adhoc_storage (adhoc_storage_metadata_update r m)) = adhoc_name (am_adhoc_storage m)"
  "adhoc_context (am_adhoc_storage (adhoc_storage_metadata_update r m)) =
     adhoc_context (am_adhoc_storage m)"
  "adhoc_res (am_adhoc_storage (adhoc_storage_metadata_update r m)) = r"
  by (simp_all add: adhoc_storage_metadata_update_def adhoc_update_resources_def)

lemma mk_adhoc_storage_metadata_simps [simp]:
  "am_uuid (mk_adhoc_storage_metadata u a) = u"
  "am_adhoc_storage (mk_adhoc_storage_metadata u a) = a"
  "am_client_info (mk_adhoc_storage_metadata u a) = None"
  by (simp_all add: mk_adhoc_storage_metadata_def)

lemma am_remove_client_info_simps [simp]:
  "am_uuid (am_remove_client_info m) = am_uuid m"
  "am_adhoc_storage (am_remove_client_info m) = am_adhoc_storage m"
  "am_client_info (am_remove_client_info m) = None"
  by (simp_all add: am_remove_client_info_def)

lemma am_add_client_info_simps [simp]:
  "am_uuid (fst (am_add_client_info j m)) = am_uuid m"
  "am_adhoc_storage (fst (am_add_client_info j m)) = am_adhoc_storage m"
  "am_client_info (fst (am_add_client_info j m)) =
     (case am_client_info m of None \<Rightarrow> Some j | Some k \<Rightarrow> Some k)"
  by (simp_all add: am_add_client_info_def split: option.splits)

lemma transfer_metadata_simps [simp]:
  "tm_id (transfer_metadata_update b m) = tm_id m"
  "tm_handle (transfer_metadata_update b m) = tm_handle m"
  "tm_qos (transfer_metadata_update b m) = tm_qos m"
  "tm_measured_bandwidth (transfer_metadata_update b m) = b"
  "tm_id (mk_transfer_metadata i h q) = i"
  "tm_handle (mk_transfer_metadata i h q) = h"
  "tm_qos (mk_transfer_metadata i h q) = q"
  "tm_measured_bandwidth (mk_transfer_metadata i h q) = -1"
  by (simp_all add: transfer_metadata_update_def mk_transfer_metadata_def)

lemma pfs_storage_metadata_simps [simp]:
  "pfs_id (pm_pfs_storage (pfs_storage_metadata_update c m)) = pfs_id (pm_pfs_storage m)"
  "pfs_context (pm_pfs_storage (pfs_storage_metadata_update c m)) = c"
  "pfs_name (pm_pfs_storage (pfs_storage_metadata_update c m)) = pfs_name (pm_pfs_storage m)"
  "pfs_kind (pm_pfs_storage (pfs_storage_metadata_update c m)) = pfs_kind (pm_pfs_storage m)"
  "pm_pfs_storage (mk_pfs_storage_metadata p) = p"
  "pm_client_info (pfs_storage_metadata_update c m) = pm_client_info m"
  by (simp_all add: pfs_storage_metadata_update_def pfs_update_ctx_def mk_pfs_storage_metadata_def)

lemma io_procs_small:
  "jm_resources m = Some r \<Longrightarrow> length (job_nodes r) < 2 ^ 32 \<Longrightarrow> unat (io_procs m) = length (job_nodes r)"
  by (simp add: io_procs_def unat_of_nat take_bit_nat_eq_self)

end
