(* ===== verification/Registry.thy ===== *)
theory Registry
  imports Types
begin

text \<open>
  What the four managers of the daemon have in common: a table from identifiers to shared pointers, a
  counter that numbers the objects (a function-local \<open>static std::atomic_uint64_t\<close>, incremented before
  the lock is taken and before the table is looked at), and the arena of the objects made. The laws
  are about one creation, one removal and one change through a pointer; the lemmas are about every
  sequence of them.
\<close>

datatype ('a, 'b) reg_op = R_create 'a | R_remove u64 | R_modify 'b

fun creations :: "('a, 'b) reg_op list \<Rightarrow> nat" where
  "creations [] = 0"
| "creations (R_create _ # ops) = Suc (creations ops)"
| "creations (_ # ops) = creations ops"

locale registry =
  fixes tab :: "'s \<Rightarrow> u64 \<Rightarrow> nat option"
    and cur :: "'s \<Rightarrow> u64"
    and objs :: "'s \<Rightarrow> 'm list"
    and ident :: "'m \<Rightarrow> u64"
    and create :: "'a \<Rightarrow> 's \<Rightarrow> 's \<times> (error_code + nat)"
    and remove :: "u64 \<Rightarrow> 's \<Rightarrow> 's"
    and modify :: "'b \<Rightarrow> 's \<Rightarrow> 's"
  assumes create_free: "tab s (cur s) = None \<Longrightarrow>
      snd (create a s) = Inr (length (objs s)) \<and>
      tab (fst (create a s)) = (tab s)(cur s \<mapsto> length (objs s)) \<and>
      (\<exists>m. objs (fst (create a s)) = objs s @ [m] \<and> ident m = cur s)"
    and create_taken: "tab s (cur s) = Some p \<Longrightarrow>
      snd (create a s) = Inl ADM_EEXISTS \<and> tab (fst (create a s)) = tab s \<and>
      objs (fst (create a s)) = objs s"
    and create_cur: "cur (fst (create a s)) = cur s + 1"
    and remove_tab: "tab (remove k s) = erase k (tab s)"
    and remove_cur: "cur (remove k s) = cur s"
    and remove_objs: "objs (remove k s) = objs s"
    and modify_tab: "tab (modify b s) = tab s"
    and modify_cur: "cur (modify b s) = cur s"
    and modify_ident: "map ident (objs (modify b s)) = map ident (objs s)"
begin

text \<open>Well-formed: the counter has not wrapped, and object number \<open>p\<close> has identifier \<open>p\<close>.\<close>

definition wf :: "'s \<Rightarrow> bool" where
  "wf s \<longleftrightarrow>
     map ident (objs s) = map of_nat [0..<unat (cur s)] \<and>
     (\<forall>k p. tab s k = Some p \<longrightarrow> k < cur s \<and> p = unat k)"

lemma wf_empty: "objs s = [] \<Longrightarrow> cur s = 0 \<Longrightarrow> (\<And>k. tab s k = None) \<Longrightarrow> wf s"
  by (simp add: wf_def)

lemma wf_length: "wf s \<Longrightarrow> length (objs s) = unat (cur s)"
  unfolding wf_def by (metis length_map length_upt minus_nat.diff_0)

lemma wf_tab: "wf s \<Longrightarrow> tab s k = Some p \<Longrightarrow> k < cur s \<and> p = unat k"
  by (auto simp: wf_def)

lemma wf_ident_nth:
  assumes "wf s" "p < length (objs s)"
  shows "ident (objs s ! p) = of_nat p"
proof -
  from assms have "map ident (objs s) ! p = map of_nat [0..<unat (cur s)] ! p"
    by (simp add: wf_def)
  with assms show ?thesis by (simp add: wf_length)
qed

lemma wf_pointer:
  assumes "wf s" "tab s k = Some p"
  shows "p < length (objs s) \<and> ident (objs s ! p) = k"
proof -
  from assms have k: "k < cur s" and p: "p = unat k" by (auto dest: wf_tab)
  then have "p < length (objs s)" using assms by (simp add: wf_length word_less_nat_alt)
  moreover from this have "ident (objs s ! p) = of_nat p" using assms by (simp add: wf_ident_nth)
  ultimately show ?thesis using p by simp
qed

lemma wf_cur_free: "wf s \<Longrightarrow> tab s (cur s) = None"
  using wf_tab [of s "cur s"] by (cases "tab s (cur s)") auto

text \<open>Two identifiers never share an object.\<close>

lemma wf_tab_inj: "wf s \<Longrightarrow> tab s k = Some p \<Longrightarrow> tab s l = Some p \<Longrightarrow> k = l"
  by (metis wf_tab word_unat_eq_iff)

lemma create_result: "wf s \<Longrightarrow> snd (create a s) = Inr (length (objs s))"
  using create_free wf_cur_free by blast

lemma create_tab: "wf s \<Longrightarrow> tab (fst (create a s)) = (tab s)(cur s \<mapsto> length (objs s))"
  using create_free wf_cur_free by blast

lemma create_objs: "wf s \<Longrightarrow> \<exists>m. objs (fst (create a s)) = objs s @ [m] \<and> ident m = cur s"
  using create_free wf_cur_free by blast

lemma wf_create:
  assumes s: "wf s" and room: "unat (cur s) < 2 ^ 64 - 1"
  shows "wf (fst (create a s))"
proof -
  from create_objs [OF s] obtain m where
    m: "objs (fst (create a s)) = objs s @ [m]" "ident m = cur s" by blast
  have up: "unat (cur s + 1) = Suc (unat (cur s))" using room by (rule unat_Suc_u64)
  have less: "k < cur s + 1" if "k < cur s" for k
    using that less_Suc_u64 [OF room] by (rule order.strict_trans)
  from s m up less less_Suc_u64 [OF room] show ?thesis
    unfolding wf_def create_cur create_tab [OF s]
    by (auto simp: wf_length [OF s] split: if_splits)
qed

lemma wf_remove: "wf s \<Longrightarrow> wf (remove k s)"
  by (simp add: wf_def remove_tab remove_cur remove_objs)

lemma wf_modify: "wf s \<Longrightarrow> wf (modify b s)"
  by (simp add: wf_def modify_tab modify_cur modify_ident)

fun reg_step :: "('a, 'b) reg_op \<Rightarrow> 's \<Rightarrow> 's" where
  "reg_step (R_create a) s = fst (create a s)"
| "reg_step (R_remove k) s = remove k s"
| "reg_step (R_modify b) s = modify b s"

fun reg_run :: "('a, 'b) reg_op list \<Rightarrow> 's \<Rightarrow> 's" where
  "reg_run [] s = s"
| "reg_run (x # xs) s = reg_run xs (reg_step x s)"

lemma reg_run_append: "reg_run (xs @ ys) s = reg_run ys (reg_run xs s)"
  by (induction xs arbitrary: s) auto

lemma reg_step_counter:
  assumes "wf s" "unat (cur s) + creations [x] < 2 ^ 64"
  shows "wf (reg_step x s) \<and> unat (cur (reg_step x s)) = unat (cur s) + creations [x]"
proof (cases x)
  case (R_create a)
  with assms have "unat (cur s) < 2 ^ 64 - 1" by simp
  with R_create assms(1) show ?thesis
    by (simp add: wf_create create_cur unat_Suc_u64)
qed (use assms in \<open>simp_all add: wf_remove wf_modify remove_cur modify_cur\<close>)

lemma creations_Cons: "creations (x # xs) = creations [x] + creations xs"
  by (cases x) auto

lemma reg_run_counter:
  "wf s \<Longrightarrow> unat (cur s) + creations xs < 2 ^ 64 \<Longrightarrow>
   wf (reg_run xs s) \<and> unat (cur (reg_run xs s)) = unat (cur s) + creations xs"
proof (induction xs arbitrary: s)
  case (Cons x xs)
  have split: "creations (x # xs) = creations [x] + creations xs" by (rule creations_Cons)
  with Cons.prems have "wf (reg_step x s) \<and> unat (cur (reg_step x s)) = unat (cur s) + creations [x]"
    by (intro reg_step_counter) auto
  with Cons.IH [of "reg_step x s"] Cons.prems split show ?case by simp
qed simp

text \<open>An identifier that is no longer in the table never comes back.\<close>

lemma reg_step_gone:
  assumes "wf s" "unat (cur s) + creations [x] < 2 ^ 64" "k < cur s" "tab s k = None"
  shows "k < cur (reg_step x s) \<and> tab (reg_step x s) k = None"
proof (cases x)
  case (R_create a)
  with assms have "unat (cur s) < 2 ^ 64 - 1" by simp
  then have "cur s < cur s + 1" by (rule less_Suc_u64)
  with R_create assms show ?thesis
    by (auto simp: create_tab create_cur)
qed (use assms in \<open>simp_all add: remove_cur remove_tab modify_cur modify_tab\<close>)

lemma reg_run_gone:
  "wf s \<Longrightarrow> unat (cur s) + creations xs < 2 ^ 64 \<Longrightarrow> k < cur s \<Longrightarrow> tab s k = None \<Longrightarrow>
   tab (reg_run xs s) k = None"
proof (induction xs arbitrary: s)
  case (Cons x xs)
  have split: "creations (x # xs) = creations [x] + creations xs" by (rule creations_Cons)
  with Cons.prems have c: "unat (cur s) + creations [x] < 2 ^ 64" by simp
  with reg_step_counter [of s x] reg_step_gone [of s x k] Cons.prems split
  show ?case by (simp add: Cons.IH)
qed simp

text \<open>A removed identifier stays unknown, whatever is created later.\<close>

lemma removed_never_returns:
  assumes "wf s" "tab s k = Some p" "unat (cur s) + creations xs < 2 ^ 64"
  shows "tab (reg_run xs (remove k s)) k = None"
  using assms
  by (intro reg_run_gone) (auto simp: wf_remove remove_cur remove_tab dest: wf_tab)

text \<open>An identifier keeps its object until it is removed.\<close>

lemma reg_step_kept:
  "wf s \<Longrightarrow> tab s k = Some p \<Longrightarrow> x \<noteq> R_remove k \<Longrightarrow> tab (reg_step x s) k = Some p"
  by (cases x) (auto simp: create_tab wf_cur_free remove_tab modify_tab)

lemma reg_run_kept:
  "wf s \<Longrightarrow> unat (cur s) + creations xs < 2 ^ 64 \<Longrightarrow> tab s k = Some p \<Longrightarrow> R_remove k \<notin> set xs \<Longrightarrow>
   tab (reg_run xs s) k = Some p"
proof (induction xs arbitrary: s)
  case (Cons x xs)
  have split: "creations (x # xs) = creations [x] + creations xs" by (rule creations_Cons)
  with Cons.prems have c: "unat (cur s) + creations [x] < 2 ^ 64" by simp
  from Cons.prems have x: "x \<noteq> R_remove k" by auto
  with reg_step_counter [of s x] reg_step_kept [of s k p x] Cons.prems split c
  show ?case by (simp add: Cons.IH)
qed simp

text \<open>No object made so far has the identifier the next one gets.\<close>

lemma next_ident_fresh:
  assumes "wf s" "m \<in> set (objs s)"
  shows "ident m \<noteq> cur s"
proof
  assume eq: "ident m = cur s"
  from assms(2) obtain q where q: "q < length (objs s)" "m = objs s ! q"
    by (metis in_set_conv_nth)
  with eq assms(1) have "cur s = of_nat q" by (simp add: wf_ident_nth)
  moreover have "unat (of_nat q :: u64) = q"
    using q assms(1) wf_length [OF assms(1)] unsigned_less [of "cur s", where 'a = nat]
    by (intro unat_of_nat_u64) simp
  ultimately show False using q wf_length [OF assms(1)] by simp
qed

text \<open>
  What a client sees of a creation after any sequence of operations: it succeeds, with an
  identifier no object had before, and the identifier resolves until it is removed.
\<close>

lemma created_resolves:
  assumes "wf s" "unat (cur s) + creations xs < 2 ^ 64 - 1"
  shows "\<exists>p m. snd (create a s) = Inr p \<and>
           objs (fst (create a s)) = objs s @ [m] \<and> p = length (objs s) \<and> ident m = cur s \<and>
           (\<forall>m' \<in> set (objs s). ident m' \<noteq> ident m) \<and>
           (R_remove (ident m) \<notin> set xs \<longrightarrow>
              tab (reg_run xs (fst (create a s))) (ident m) = Some p)"
proof -
  from create_objs [OF assms(1)] obtain m where
    m: "objs (fst (create a s)) = objs s @ [m]" "ident m = cur s" by blast
  have room: "unat (cur s) < 2 ^ 64 - 1" using assms(2) by simp
  have kept: "tab (reg_run xs (fst (create a s))) (cur s) = Some (length (objs s))"
    if "R_remove (cur s) \<notin> set xs"
    using that assms room
    by (intro reg_run_kept) (auto simp: wf_create create_cur create_tab unat_Suc_u64)
  from m next_ident_fresh [OF assms(1)] kept create_result [OF assms(1)] show ?thesis by auto
qed

end

text \<open>
  Registries whose objects have a part that no change touches. Two states of one run are related: the
  counter does not go back, an unknown identifier below it stays unknown, and every object keeps that
  part.
\<close>

locale registry_core = registry tab cur objs ident create remove modify
  for tab :: "'s \<Rightarrow> u64 \<Rightarrow> nat option"
    and cur :: "'s \<Rightarrow> u64"
    and objs :: "'s \<Rightarrow> 'm list"
    and ident :: "'m \<Rightarrow> u64"
    and create :: "'a \<Rightarrow> 's \<Rightarrow> 's \<times> (error_code + nat)"
    and remove :: "u64 \<Rightarrow> 's \<Rightarrow> 's"
    and modify :: "'b \<Rightarrow> 's \<Rightarrow> 's" +
  fixes core :: "'m \<Rightarrow> 'c"
  assumes modify_core: "map core (objs (modify b s)) = map core (objs s)"
begin

definition keeps :: "'s \<Rightarrow> 's \<Rightarrow> bool" where
  "keeps s t \<longleftrightarrow>
     cur s \<le> cur t \<and> (\<forall>k < cur s. tab s k = None \<longrightarrow> tab t k = None) \<and>
     (\<exists>ms. map core (objs t) = map core (objs s) @ ms)"

lemma keeps_refl: "keeps s s"
  by (simp add: keeps_def)

lemma keeps_trans:
  assumes st: "keeps s t" and tu: "keeps t u"
  shows "keeps s u"
proof -
  have "tab u k = None" if "k < cur s" "tab s k = None" for k
  proof -
    have "tab t k = None" "k < cur t" using st that by (auto simp: keeps_def)
    with tu show ?thesis by (simp add: keeps_def)
  qed
  moreover have "cur s \<le> cur u" using st tu by (auto simp: keeps_def)
  moreover from st tu obtain xs ys where "map core (objs t) = map core (objs s) @ xs"
    "map core (objs u) = map core (objs t) @ ys" by (auto simp: keeps_def)
  then have "map core (objs u) = map core (objs s) @ (xs @ ys)" by simp
  ultimately show ?thesis unfolding keeps_def by blast
qed

lemma keeps_create:
  assumes "wf s" "unat (cur s) < 2 ^ 64 - 1"
  shows "keeps s (fst (create a s))"
  using create_objs [OF assms(1), of a] less_Suc_u64 [OF assms(2)]
  by (auto simp: keeps_def create_cur create_tab [OF assms(1)])

lemma keeps_remove: "keeps s (remove k s)"
  by (auto simp: keeps_def remove_tab remove_cur remove_objs)

lemma keeps_modify: "keeps s (modify b s)"
  by (auto simp: keeps_def modify_tab modify_cur modify_core)

lemma keeps_object:
  assumes "keeps s t" "p < length (objs s)"
  shows "p < length (objs t) \<and> core (objs t ! p) = core (objs s ! p)"
proof -
  from assms obtain ms where ms: "map core (objs t) = map core (objs s) @ ms"
    by (auto simp: keeps_def)
  then have len: "length (objs s) \<le> length (objs t)" by (metis length_append length_map le_add1)
  with ms assms(2) have "map core (objs t) ! p = core (objs s ! p)" by (simp add: nth_append)
  with len assms(2) show ?thesis by simp
qed

lemma keeps_gone: "keeps s t \<Longrightarrow> k < cur s \<Longrightarrow> tab s k = None \<Longrightarrow> tab t k = None"
  by (auto simp: keeps_def)

end

end
