(* ===== verification/Jobs.thy ===== *)
theory Jobs
  imports InternalTypes Registry
begin

text \<open>
  The job manager (\<open>src/src/scord/job_manager.hpp\<close>). Its state is the two unordered maps, the counter of
  \<open>create\<close> and the arena of the job metadata it made. Every operation holds the manager's mutex from
  its first access to the maps to its last, so each one is a function of the state. A result of
  type \<open>tl::expected\<close> is a sum: the error code, or the pointer.
\<close>

record job_manager =
  m_jobs :: "u64 \<Rightarrow> jptr option"
  m_slurm_to_scord :: "u64 \<Rightarrow> u64 option"
  job_current_id :: u64
  job_objs :: "job_metadata arena"

definition empty_job_manager :: job_manager where
  "empty_job_manager =
     \<lparr>m_jobs = (\<lambda>_. None), m_slurm_to_scord = (\<lambda>_. None), job_current_id = 0, job_objs = []\<rparr>"

text \<open>
  The counter is read and incremented first. \<open>emplace\<close> leaves an entry of the Slurm map alone when
  there is one.
\<close>

definition job_create ::
  "slurm_job_id \<Rightarrow> job_resources \<Rightarrow> job_requirements \<Rightarrow> aptr option \<Rightarrow> job_manager \<Rightarrow>
   job_manager \<times> (error_code + jptr)" where
  "job_create slurm_id resources requirements adhoc_metadata_ptr jm =
     (let jid = job_current_id jm;
          jm = jm\<lparr>job_current_id := jid + 1\<rparr>
      in case m_jobs jm jid of
           None \<Rightarrow>
             (let (arena, p) = make_shared
                    (mk_job_metadata \<lparr>job_id = jid, job_slurm_id = slurm_id\<rparr> resources requirements
                       adhoc_metadata_ptr) (job_objs jm);
                  (jobs, inserted) = emplace jid p (m_jobs jm);
                  jm = jm\<lparr>m_jobs := jobs, job_objs := arena,
                          m_slurm_to_scord := fst (emplace slurm_id jid (m_slurm_to_scord jm))\<rparr>
              in if \<not> inserted then (jm, Inl ADM_ESNAFU) else (jm, Inr p))
         | Some _ \<Rightarrow> (jm, Inl ADM_EEXISTS))"

definition job_update :: "job_id \<Rightarrow> job_resources \<Rightarrow> job_manager \<Rightarrow> job_manager \<times> error_code" where
  "job_update jid resources jm =
     (case m_jobs jm jid of
        Some p \<Rightarrow> (jm\<lparr>job_objs := through p (job_metadata_update resources) (job_objs jm)\<rparr>, ADM_SUCCESS)
      | None \<Rightarrow> (jm, ADM_ENOENT))"

definition job_find :: "job_id \<Rightarrow> job_manager \<Rightarrow> error_code + jptr" where
  "job_find jid jm = (case m_jobs jm jid of Some p \<Rightarrow> Inr p | None \<Rightarrow> Inl ADM_ENOENT)"

definition job_find_by_slurm_id :: "slurm_job_id \<Rightarrow> job_manager \<Rightarrow> error_code + jptr" where
  "job_find_by_slurm_id slurm_id jm =
     (case m_slurm_to_scord jm slurm_id of Some jid \<Rightarrow> job_find jid jm | None \<Rightarrow> Inl ADM_ENOENT)"

text \<open>
  \<open>remove\<close> takes the node out of the first map, erases the Slurm identifier of the job from the second
  and hands the pointer to the caller.
\<close>

definition job_remove :: "job_id \<Rightarrow> job_manager \<Rightarrow> job_manager \<times> (error_code + jptr)" where
  "job_remove jid jm =
     (case m_jobs jm jid of
        Some p \<Rightarrow>
          (jm\<lparr>m_jobs := erase jid (m_jobs jm),
              m_slurm_to_scord :=
                erase (job_slurm_id (jm_job (job_objs jm ! p))) (m_slurm_to_scord jm)\<rparr>,
           Inr p)
      | None \<Rightarrow> (jm, Inl ADM_ENOENT))"

section \<open>The manager is a registry\<close>

lemmas job_op_defs = job_create_def job_update_def job_remove_def Let_def make_shared_def

interpretation job_reg: registry_core m_jobs job_current_id job_objs "\<lambda>m. job_id (jm_job m)"
  "\<lambda>(s, r, q, a). job_create s r q a" "\<lambda>k jm. fst (job_remove k jm)"
  "\<lambda>(k, r) jm. fst (job_update k r jm)"
  "\<lambda>m. (jm_job m, jm_requirements m, jm_adhoc_metadata_ptr m)"
  by unfold_locales
    (auto simp: job_op_defs emplace_absent map_through split: option.splits)

lemma empty_job_manager_wf [simp]: "job_reg.wf empty_job_manager"
  by (rule job_reg.wf_empty) (simp_all add: empty_job_manager_def)

lemma job_create_fresh:
  assumes "job_reg.wf jm"
  shows "job_create s r q a jm =
    (jm\<lparr>m_jobs := (m_jobs jm)(job_current_id jm \<mapsto> length (job_objs jm)),
        m_slurm_to_scord := fst (emplace s (job_current_id jm) (m_slurm_to_scord jm)),
        job_current_id := job_current_id jm + 1,
        job_objs := job_objs jm @
          [mk_job_metadata \<lparr>job_id = job_current_id jm, job_slurm_id = s\<rparr> r q a]\<rparr>,
     Inr (length (job_objs jm)))"
  using job_reg.wf_cur_free [OF assms] by (simp add: job_op_defs emplace_absent)

lemma job_create_wf:
  "job_reg.wf jm \<Longrightarrow> unat (job_current_id jm) < 2 ^ 64 - 1 \<Longrightarrow>
   job_reg.wf (fst (job_create s r q a jm))"
  using job_reg.wf_create [of jm "(s, r, q, a)"] by simp

lemma job_remove_wf: "job_reg.wf jm \<Longrightarrow> job_reg.wf (fst (job_remove k jm))"
  by (rule job_reg.wf_remove)

lemma job_update_wf: "job_reg.wf jm \<Longrightarrow> job_reg.wf (fst (job_update k r jm))"
  using job_reg.wf_modify [of jm "(k, r)"] by simp

section \<open>The Slurm index\<close>

text \<open>
  The index is sound when each of its entries leads to a job in the table with that Slurm
  identifier.
\<close>

definition slurm_sound :: "job_manager \<Rightarrow> bool" where
  "slurm_sound jm \<longleftrightarrow>
     (\<forall>s k. m_slurm_to_scord jm s = Some k \<longrightarrow>
        (\<exists>p. m_jobs jm k = Some p \<and> p < length (job_objs jm) \<and>
             job_slurm_id (jm_job (job_objs jm ! p)) = s))"

definition jobs_ok :: "job_manager \<Rightarrow> bool" where
  "jobs_ok jm \<longleftrightarrow> job_reg.wf jm \<and> slurm_sound jm"

lemma empty_jobs_ok [simp]: "jobs_ok empty_job_manager"
  by (simp add: jobs_ok_def slurm_sound_def) (simp add: empty_job_manager_def)

lemma slurm_soundD:
  "slurm_sound jm \<Longrightarrow> m_slurm_to_scord jm s = Some k \<Longrightarrow>
   \<exists>p. m_jobs jm k = Some p \<and> p < length (job_objs jm) \<and> job_slurm_id (jm_job (job_objs jm ! p)) = s"
  by (auto simp: slurm_sound_def)

lemma job_create_slurm_sound:
  assumes "jobs_ok jm"
  shows "slurm_sound (fst (job_create s r q a jm))"
proof -
  have wf: "job_reg.wf jm" and sl: "slurm_sound jm" using assms by (auto simp: jobs_ok_def)
  have free: "m_jobs jm (job_current_id jm) = None" by (rule job_reg.wf_cur_free [OF wf])
  show ?thesis
    unfolding slurm_sound_def job_create_fresh [OF wf]
    using free by (auto simp: fst_emplace_apply nth_append split: if_splits dest!: slurm_soundD [OF sl])
qed

lemma jm_job_through_update [simp]:
  "jm_job (through p (job_metadata_update r) xs ! q) = jm_job (xs ! q)"
  by (cases "q = p") (auto simp: through_def deref_def assign_def)

lemma job_update_slurm_sound: "slurm_sound jm \<Longrightarrow> slurm_sound (fst (job_update k r jm))"
  by (auto simp: slurm_sound_def job_update_def split: option.splits)

lemma job_remove_slurm_sound:
  assumes "jobs_ok jm"
  shows "slurm_sound (fst (job_remove k jm))"
proof (cases "m_jobs jm k")
  case (Some p)
  have sl: "slurm_sound jm" using assms by (simp add: jobs_ok_def)
  show ?thesis
    unfolding slurm_sound_def job_remove_def
    using Some by (auto split: if_splits dest!: slurm_soundD [OF sl])
next
  case None
  with assms show ?thesis by (simp add: job_remove_def jobs_ok_def)
qed

lemma jobs_ok_create:
  "jobs_ok jm \<Longrightarrow> unat (job_current_id jm) < 2 ^ 64 - 1 \<Longrightarrow> jobs_ok (fst (job_create s r q a jm))"
  by (simp add: jobs_ok_def job_create_wf job_create_slurm_sound [unfolded jobs_ok_def])

lemma jobs_ok_update: "jobs_ok jm \<Longrightarrow> jobs_ok (fst (job_update k r jm))"
  by (simp add: jobs_ok_def job_update_wf job_update_slurm_sound)

lemma jobs_ok_remove: "jobs_ok jm \<Longrightarrow> jobs_ok (fst (job_remove k jm))"
  using job_remove_slurm_sound [of jm k] by (simp add: jobs_ok_def job_remove_wf)

lemma job_find_slurm_sound:
  assumes "jobs_ok jm" "job_find_by_slurm_id s jm = Inr p"
  shows "\<exists>k. m_jobs jm k = Some p \<and> p < length (job_objs jm) \<and>
             jm_job (job_objs jm ! p) = \<lparr>job_id = k, job_slurm_id = s\<rparr>"
proof -
  from assms obtain k where k: "m_slurm_to_scord jm s = Some k" "m_jobs jm k = Some p"
    by (auto simp: job_find_by_slurm_id_def job_find_def split: option.splits)
  have "job_slurm_id (jm_job (job_objs jm ! p)) = s"
    using assms k by (auto simp: jobs_ok_def dest: slurm_soundD)
  moreover have "p < length (job_objs jm) \<and> job_id (jm_job (job_objs jm ! p)) = k"
    using assms k by (auto simp: jobs_ok_def dest: job_reg.wf_pointer)
  ultimately show ?thesis using k by (cases "jm_job (job_objs jm ! p)") auto
qed

end
