(* ===== verification/Adhocs.thy ===== *)
theory Adhocs
  imports InternalTypes Registry
begin

text \<open>
  The adhoc storage manager (\<open>src/src/scord/adhoc_storage_manager.hpp\<close>). \<open>generate_adhoc_uuid\<close> joins the
  name of the type, as the formatter of \<open>src/lib/scord/types.hpp\<close> prints it with the option \<open>e\<close>, and 32
  random characters: the outcome of the random generator is an argument of the model.
\<close>

text \<open>The formatter of \<open>adhoc_storage::type\<close>; \<open>f\<close> is its default presentation.\<close>

fun adhoc_type_format :: "char \<Rightarrow> adhoc_type \<Rightarrow> string" where
  "adhoc_type_format pr adhoc_gekkofs =
     (if pr = CHR ''f'' then ''ADM_ADHOC_STORAGE_GEKKOFS'' else ''gekkofs'')"
| "adhoc_type_format pr adhoc_dataclay =
     (if pr = CHR ''f'' then ''ADM_ADHOC_STORAGE_DATACLAY'' else ''dataclay'')"
| "adhoc_type_format pr adhoc_expand =
     (if pr = CHR ''f'' then ''ADM_ADHOC_STORAGE_EXPAND'' else ''expand'')"
| "adhoc_type_format pr adhoc_hercules =
     (if pr = CHR ''f'' then ''ADM_ADHOC_STORAGE_HERCULES'' else ''hercules'')"
| "adhoc_type_format pr (adhoc_type_other _) = ''unknown''"

definition generate_adhoc_uuid :: "string \<Rightarrow> adhoc_type \<Rightarrow> string" where
  "generate_adhoc_uuid random_string t =
     adhoc_type_format (CHR ''e'') t @ ''-'' @ random_string"

section \<open>Operations\<close>

record adhoc_storage_manager =
  m_adhoc_storages :: "u64 \<Rightarrow> aptr option"
  adhoc_current_id :: u64
  adhoc_objs :: "adhoc_storage_metadata arena"

definition empty_adhoc_manager :: adhoc_storage_manager where
  "empty_adhoc_manager = \<lparr>m_adhoc_storages = (\<lambda>_. None), adhoc_current_id = 0, adhoc_objs = []\<rparr>"

definition adhoc_create ::
  "string \<Rightarrow> adhoc_type \<Rightarrow> string \<Rightarrow> adhoc_ctx \<Rightarrow> adhoc_resources \<Rightarrow> adhoc_storage_manager \<Rightarrow>
   adhoc_storage_manager \<times> (error_code + aptr)" where
  "adhoc_create random_string type name ctx resources am =
     (let aid = adhoc_current_id am;
          am = am\<lparr>adhoc_current_id := aid + 1\<rparr>
      in case m_adhoc_storages am aid of
           None \<Rightarrow>
             (let (arena, p) = make_shared
                    (mk_adhoc_storage_metadata (generate_adhoc_uuid random_string type)
                       \<lparr>adhoc_kind = type, adhoc_name = name, adhoc_id = aid, adhoc_context = ctx,
                        adhoc_res = resources\<rparr>) (adhoc_objs am);
                  (storages, inserted) = emplace aid p (m_adhoc_storages am);
                  am = am\<lparr>m_adhoc_storages := storages, adhoc_objs := arena\<rparr>
              in if \<not> inserted then (am, Inl ADM_ESNAFU) else (am, Inr p))
         | Some _ \<Rightarrow> (am, Inl ADM_EEXISTS))"

definition adhoc_update ::
  "u64 \<Rightarrow> adhoc_resources \<Rightarrow> adhoc_storage_manager \<Rightarrow> adhoc_storage_manager \<times> error_code" where
  "adhoc_update aid new_resources am =
     (case m_adhoc_storages am aid of
        Some p \<Rightarrow>
          (am\<lparr>adhoc_objs := through p (adhoc_storage_metadata_update new_resources) (adhoc_objs am)\<rparr>,
           ADM_SUCCESS)
      | None \<Rightarrow> (am, ADM_ENOENT))"

definition adhoc_find :: "u64 \<Rightarrow> adhoc_storage_manager \<Rightarrow> error_code + aptr" where
  "adhoc_find aid am = (case m_adhoc_storages am aid of Some p \<Rightarrow> Inr p | None \<Rightarrow> Inl ADM_ENOENT)"

definition adhoc_remove :: "u64 \<Rightarrow> adhoc_storage_manager \<Rightarrow> adhoc_storage_manager \<times> error_code" where
  "adhoc_remove aid am =
     (if m_adhoc_storages am aid \<noteq> None
      then (am\<lparr>m_adhoc_storages := erase aid (m_adhoc_storages am)\<rparr>, ADM_SUCCESS)
      else (am, ADM_ENOENT))"

text \<open>
  \<open>adhoc_metadata_ptr->add_client_info(job_metadata_ptr)\<close>, through a pointer the caller holds, and the
  manager's operations of the same names, which look the pointer up first.
\<close>

definition adhoc_ptr_add_client_info ::
  "aptr \<Rightarrow> jptr \<Rightarrow> adhoc_storage_manager \<Rightarrow> adhoc_storage_manager \<times> error_code" where
  "adhoc_ptr_add_client_info p j am =
     (am\<lparr>adhoc_objs := through p (\<lambda>m. fst (am_add_client_info j m)) (adhoc_objs am)\<rparr>,
      snd (am_add_client_info j (adhoc_objs am ! p)))"

definition adhoc_ptr_remove_client_info :: "aptr \<Rightarrow> adhoc_storage_manager \<Rightarrow> adhoc_storage_manager" where
  "adhoc_ptr_remove_client_info p am =
     am\<lparr>adhoc_objs := through p am_remove_client_info (adhoc_objs am)\<rparr>"

definition adhoc_add_client_info ::
  "u64 \<Rightarrow> jptr \<Rightarrow> adhoc_storage_manager \<Rightarrow> adhoc_storage_manager \<times> error_code" where
  "adhoc_add_client_info aid j am =
     (case adhoc_find aid am of
        Inr p \<Rightarrow> adhoc_ptr_add_client_info p j am
      | Inl _ \<Rightarrow> (am, ADM_ENOENT))"

definition adhoc_remove_client_info ::
  "u64 \<Rightarrow> adhoc_storage_manager \<Rightarrow> adhoc_storage_manager \<times> error_code" where
  "adhoc_remove_client_info aid am =
     (case adhoc_find aid am of
        Inr p \<Rightarrow> (adhoc_ptr_remove_client_info p am, ADM_SUCCESS)
      | Inl _ \<Rightarrow> (am, ADM_ENOENT))"

section \<open>The manager is a registry\<close>

lemmas adhoc_op_defs = adhoc_create_def adhoc_update_def adhoc_remove_def adhoc_find_def
  adhoc_ptr_add_client_info_def adhoc_ptr_remove_client_info_def adhoc_add_client_info_def
  adhoc_remove_client_info_def Let_def make_shared_def

text \<open>The changes made through a pointer.\<close>

datatype adhoc_modification =
    Change_resources u64 adhoc_resources
  | Change_add_client aptr jptr
  | Change_remove_client u64

fun adhoc_change :: "adhoc_modification \<Rightarrow> adhoc_storage_manager \<Rightarrow> adhoc_storage_manager" where
  "adhoc_change (Change_resources k r) am = fst (adhoc_update k r am)"
| "adhoc_change (Change_add_client p j) am = fst (adhoc_ptr_add_client_info p j am)"
| "adhoc_change (Change_remove_client k) am = fst (adhoc_remove_client_info k am)"

text \<open>What no operation changes: everything but the nodes and the client.\<close>

definition adhoc_core :: "adhoc_storage_metadata \<Rightarrow> string \<times> adhoc_type \<times> string \<times> u64 \<times> adhoc_ctx" where
  "adhoc_core m =
     (am_uuid m, adhoc_kind (am_adhoc_storage m), adhoc_name (am_adhoc_storage m),
      adhoc_id (am_adhoc_storage m), adhoc_context (am_adhoc_storage m))"

lemma adhoc_change_frame:
  "m_adhoc_storages (adhoc_change c am) = m_adhoc_storages am"
  "adhoc_current_id (adhoc_change c am) = adhoc_current_id am"
  "length (adhoc_objs (adhoc_change c am)) = length (adhoc_objs am)"
  "map (\<lambda>m. adhoc_id (am_adhoc_storage m)) (adhoc_objs (adhoc_change c am)) =
     map (\<lambda>m. adhoc_id (am_adhoc_storage m)) (adhoc_objs am)"
  "map adhoc_core (adhoc_objs (adhoc_change c am)) = map adhoc_core (adhoc_objs am)"
  by (cases c; auto simp: adhoc_op_defs adhoc_core_def map_through split: option.splits sum.splits)+

interpretation adhoc_reg: registry_core m_adhoc_storages adhoc_current_id adhoc_objs
  "\<lambda>m. adhoc_id (am_adhoc_storage m)"
  "\<lambda>(u, t, n, c, r). adhoc_create u t n c r" "\<lambda>k am. fst (adhoc_remove k am)" adhoc_change adhoc_core
  by unfold_locales
    (auto simp: adhoc_change_frame emplace_absent adhoc_op_defs split: option.splits)

lemma empty_adhoc_manager_wf [simp]: "adhoc_reg.wf empty_adhoc_manager"
  by (rule adhoc_reg.wf_empty) (simp_all add: empty_adhoc_manager_def)

lemma adhoc_create_fresh:
  assumes "adhoc_reg.wf am"
  shows "adhoc_create u t n c r am =
    (am\<lparr>m_adhoc_storages := (m_adhoc_storages am)(adhoc_current_id am \<mapsto> length (adhoc_objs am)),
        adhoc_current_id := adhoc_current_id am + 1,
        adhoc_objs := adhoc_objs am @
          [mk_adhoc_storage_metadata (generate_adhoc_uuid u t)
             \<lparr>adhoc_kind = t, adhoc_name = n, adhoc_id = adhoc_current_id am, adhoc_context = c,
              adhoc_res = r\<rparr>]\<rparr>,
     Inr (length (adhoc_objs am)))"
  using adhoc_reg.wf_cur_free [OF assms] by (simp add: adhoc_op_defs emplace_absent)

lemma adhoc_create_wf:
  "adhoc_reg.wf am \<Longrightarrow> unat (adhoc_current_id am) < 2 ^ 64 - 1 \<Longrightarrow>
   adhoc_reg.wf (fst (adhoc_create u t n c r am))"
  using adhoc_reg.wf_create [of am "(u, t, n, c, r)"] by simp

lemma adhoc_remove_wf: "adhoc_reg.wf am \<Longrightarrow> adhoc_reg.wf (fst (adhoc_remove k am))"
  by (rule adhoc_reg.wf_remove)

lemma adhoc_change_wf: "adhoc_reg.wf am \<Longrightarrow> adhoc_reg.wf (adhoc_change c am)"
  by (rule adhoc_reg.wf_modify)

lemmas adhoc_changes =
  adhoc_change_wf [of _ "Change_resources k r" for k r, simplified]
  adhoc_change_wf [of _ "Change_add_client p j" for p j, simplified]
  adhoc_change_wf [of _ "Change_remove_client k" for k, simplified]

text \<open>Clients: what adding and removing one does to the object, and to every other.\<close>

lemma adhoc_ptr_add_client_result:
  assumes "p < length (adhoc_objs am)"
  shows "snd (adhoc_ptr_add_client_info p j am) =
           (if am_client_info (adhoc_objs am ! p) = None then ADM_SUCCESS else ADM_EADHOC_BUSY)"
    and "am_client_info (adhoc_objs (fst (adhoc_ptr_add_client_info p j am)) ! p) =
           (case am_client_info (adhoc_objs am ! p) of None \<Rightarrow> Some j | Some i \<Rightarrow> Some i)"
  using assms
  by (auto simp: adhoc_ptr_add_client_info_def am_add_client_info_def nth_through split: option.splits)

lemma adhoc_remove_client_result:
  assumes "m_adhoc_storages am k = Some p" "p < length (adhoc_objs am)"
  shows "snd (adhoc_remove_client_info k am) = ADM_SUCCESS"
    and "am_client_info (adhoc_objs (fst (adhoc_remove_client_info k am)) ! p) = None"
  using assms by (auto simp: adhoc_op_defs nth_through)

end
