(* ===== verification/PfsStorages.thy ===== *)
theory PfsStorages
  imports InternalTypes Registry
begin

text \<open>The manager of parallel file systems (\<open>src/src/scord/pfs_storage_manager.hpp\<close>).\<close>

record pfs_storage_manager =
  m_pfs_storages :: "u64 \<Rightarrow> nat option"
  pfs_current_id :: u64
  pfs_objs :: "pfs_storage_metadata arena"

definition empty_pfs_manager :: pfs_storage_manager where
  "empty_pfs_manager = \<lparr>m_pfs_storages = (\<lambda>_. None), pfs_current_id = 0, pfs_objs = []\<rparr>"

definition pfs_create ::
  "pfs_type \<Rightarrow> string \<Rightarrow> pfs_ctx \<Rightarrow> pfs_storage_manager \<Rightarrow> pfs_storage_manager \<times> (error_code + nat)" where
  "pfs_create type name ctx pm =
     (let pid = pfs_current_id pm;
          pm = pm\<lparr>pfs_current_id := pid + 1\<rparr>
      in case m_pfs_storages pm pid of
           None \<Rightarrow>
             (let (arena, p) = make_shared
                    (mk_pfs_storage_metadata
                       \<lparr>pfs_kind = type, pfs_name = name, pfs_id = pid, pfs_context = ctx\<rparr>)
                    (pfs_objs pm);
                  (storages, inserted) = emplace pid p (m_pfs_storages pm);
                  pm = pm\<lparr>m_pfs_storages := storages, pfs_objs := arena\<rparr>
              in if \<not> inserted then (pm, Inl ADM_ESNAFU) else (pm, Inr p))
         | Some _ \<Rightarrow> (pm, Inl ADM_EEXISTS))"

definition pfs_update :: "u64 \<Rightarrow> pfs_ctx \<Rightarrow> pfs_storage_manager \<Rightarrow> pfs_storage_manager \<times> error_code" where
  "pfs_update pid new_ctx pm =
     (case m_pfs_storages pm pid of
        Some p \<Rightarrow>
          (pm\<lparr>pfs_objs := through p (pfs_storage_metadata_update new_ctx) (pfs_objs pm)\<rparr>, ADM_SUCCESS)
      | None \<Rightarrow> (pm, ADM_ENOENT))"

definition pfs_find :: "u64 \<Rightarrow> pfs_storage_manager \<Rightarrow> error_code + nat" where
  "pfs_find pid pm = (case m_pfs_storages pm pid of Some p \<Rightarrow> Inr p | None \<Rightarrow> Inl ADM_ENOENT)"

definition pfs_remove :: "u64 \<Rightarrow> pfs_storage_manager \<Rightarrow> pfs_storage_manager \<times> error_code" where
  "pfs_remove pid pm =
     (if m_pfs_storages pm pid \<noteq> None
      then (pm\<lparr>m_pfs_storages := erase pid (m_pfs_storages pm)\<rparr>, ADM_SUCCESS)
      else (pm, ADM_ENOENT))"

section \<open>The manager is a registry\<close>

lemmas pfs_op_defs = pfs_create_def pfs_update_def pfs_remove_def pfs_find_def Let_def make_shared_def

interpretation pfs_reg: registry_core m_pfs_storages pfs_current_id pfs_objs "\<lambda>m. pfs_id (pm_pfs_storage m)"
  "\<lambda>(t, n, c). pfs_create t n c" "\<lambda>k pm. fst (pfs_remove k pm)" "\<lambda>(k, c) pm. fst (pfs_update k c pm)"
  "\<lambda>m. (pfs_kind (pm_pfs_storage m), pfs_name (pm_pfs_storage m), pfs_id (pm_pfs_storage m))"
  by unfold_locales (auto simp: pfs_op_defs emplace_absent map_through split: option.splits)

lemma empty_pfs_manager_wf [simp]: "pfs_reg.wf empty_pfs_manager"
  by (rule pfs_reg.wf_empty) (simp_all add: empty_pfs_manager_def)

lemma pfs_create_fresh:
  assumes "pfs_reg.wf pm"
  shows "pfs_create t n c pm =
    (pm\<lparr>m_pfs_storages := (m_pfs_storages pm)(pfs_current_id pm \<mapsto> length (pfs_objs pm)),
        pfs_current_id := pfs_current_id pm + 1,
        pfs_objs := pfs_objs pm @
          [mk_pfs_storage_metadata
             \<lparr>pfs_kind = t, pfs_name = n, pfs_id = pfs_current_id pm, pfs_context = c\<rparr>]\<rparr>,
     Inr (length (pfs_objs pm)))"
  using pfs_reg.wf_cur_free [OF assms] by (simp add: pfs_op_defs emplace_absent)

lemma pfs_create_wf:
  "pfs_reg.wf pm \<Longrightarrow> unat (pfs_current_id pm) < 2 ^ 64 - 1 \<Longrightarrow> pfs_reg.wf (fst (pfs_create t n c pm))"
  using pfs_reg.wf_create [of pm "(t, n, c)"] by simp

lemma pfs_remove_wf: "pfs_reg.wf pm \<Longrightarrow> pfs_reg.wf (fst (pfs_remove k pm))"
  by (rule pfs_reg.wf_remove)

lemma pfs_update_wf: "pfs_reg.wf pm \<Longrightarrow> pfs_reg.wf (fst (pfs_update k c pm))"
  using pfs_reg.wf_modify [of pm "(k, c)"] by simp

end
