(* ===== verification/Transfers.thy ===== *)
theory Transfers
  imports InternalTypes Registry
begin

text \<open>
  The transfer manager (\<open>src/src/scord/transfer_manager.hpp\<close>), over the type \<open>'h\<close> of the handles of
  the Cargo library. \<open>transfer()\<close> hands out the whole table; \<open>lock()\<close> and \<open>unlock()\<close> take the mutex that the
  other operations take.
\<close>

record 'h transfer_manager =
  m_transfer :: "u64 \<Rightarrow> nat option"
  tx_current_id :: u64
  tx_objs :: "'h transfer_metadata arena"

definition empty_transfer_manager :: "'h transfer_manager" where
  "empty_transfer_manager = \<lparr>m_transfer = (\<lambda>_. None), tx_current_id = 0, tx_objs = []\<rparr>"

definition transfer_create ::
  "'h \<Rightarrow> qos_limit list \<Rightarrow> 'h transfer_manager \<Rightarrow> 'h transfer_manager \<times> (error_code + nat)" where
  "transfer_create tx limits tm =
     (let tid = tx_current_id tm;
          tm = tm\<lparr>tx_current_id := tid + 1\<rparr>
      in case m_transfer tm tid of
           None \<Rightarrow>
             (let (arena, p) = make_shared (mk_transfer_metadata tid tx limits) (tx_objs tm);
                  (table, inserted) = emplace tid p (m_transfer tm);
                  tm = tm\<lparr>m_transfer := table, tx_objs := arena\<rparr>
              in if \<not> inserted then (tm, Inl ADM_ESNAFU) else (tm, Inr p))
         | Some _ \<Rightarrow> (tm, Inl ADM_EEXISTS))"

definition transfer_update :: "transfer_id \<Rightarrow> real \<Rightarrow> 'h transfer_manager \<Rightarrow> 'h transfer_manager \<times> error_code" where
  "transfer_update tid obtained_bw tm =
     (case m_transfer tm tid of
        Some p \<Rightarrow>
          (tm\<lparr>tx_objs := through p (transfer_metadata_update obtained_bw) (tx_objs tm)\<rparr>, ADM_SUCCESS)
      | None \<Rightarrow> (tm, ADM_ENOENT))"

definition transfer_find :: "transfer_id \<Rightarrow> 'h transfer_manager \<Rightarrow> error_code + nat" where
  "transfer_find tid tm = (case m_transfer tm tid of Some p \<Rightarrow> Inr p | None \<Rightarrow> Inl ADM_ENOENT)"

definition transfer_remove :: "transfer_id \<Rightarrow> 'h transfer_manager \<Rightarrow> 'h transfer_manager \<times> (error_code + nat)" where
  "transfer_remove tid tm =
     (case m_transfer tm tid of
        Some p \<Rightarrow> (tm\<lparr>m_transfer := erase tid (m_transfer tm)\<rparr>, Inr p)
      | None \<Rightarrow> (tm, Inl ADM_ENOENT))"

text \<open>\<open>tr_info->update(bw)\<close>, through a pointer.\<close>

definition transfer_ptr_update :: "nat \<Rightarrow> real \<Rightarrow> 'h transfer_manager \<Rightarrow> 'h transfer_manager" where
  "transfer_ptr_update p bw tm = tm\<lparr>tx_objs := through p (transfer_metadata_update bw) (tx_objs tm)\<rparr>"

section \<open>The manager is a registry\<close>

lemmas transfer_op_defs = transfer_create_def transfer_update_def transfer_remove_def transfer_find_def
  transfer_ptr_update_def Let_def make_shared_def

interpretation transfer_reg: registry_core m_transfer tx_current_id tx_objs tm_id
  "\<lambda>(h, l). transfer_create h l" "\<lambda>k tm. fst (transfer_remove k tm)"
  "\<lambda>(p, b). transfer_ptr_update p b" "\<lambda>m. (tm_id m, tm_handle m, tm_qos m)"
  by unfold_locales (auto simp: transfer_op_defs emplace_absent map_through split: option.splits)

lemma empty_transfer_manager_wf [simp]: "transfer_reg.wf empty_transfer_manager"
  by (rule transfer_reg.wf_empty) (simp_all add: empty_transfer_manager_def)

lemma transfer_create_fresh:
  assumes "transfer_reg.wf tm"
  shows "transfer_create h l tm =
    (tm\<lparr>m_transfer := (m_transfer tm)(tx_current_id tm \<mapsto> length (tx_objs tm)),
        tx_current_id := tx_current_id tm + 1,
        tx_objs := tx_objs tm @ [mk_transfer_metadata (tx_current_id tm) h l]\<rparr>,
     Inr (length (tx_objs tm)))"
  using transfer_reg.wf_cur_free [OF assms] by (simp add: transfer_op_defs emplace_absent)

lemma transfer_create_wf:
  "transfer_reg.wf tm \<Longrightarrow> unat (tx_current_id tm) < 2 ^ 64 - 1 \<Longrightarrow>
   transfer_reg.wf (fst (transfer_create h l tm))"
  using transfer_reg.wf_create [of tm "(h, l)"] by simp

lemma transfer_remove_wf: "transfer_reg.wf tm \<Longrightarrow> transfer_reg.wf (fst (transfer_remove k tm))"
  by (rule transfer_reg.wf_remove)

lemma transfer_ptr_update_wf: "transfer_reg.wf tm \<Longrightarrow> transfer_reg.wf (transfer_ptr_update p b tm)"
  using transfer_reg.wf_modify [of tm "(p, b)"] by simp

end
