(* ===== verification/Archive.thy ===== *)
theory Archive
  imports Types
begin

text \<open>
  Serialization of the value classes (\<open>save\<close>, \<open>load\<close> and \<open>serialize\<close> of \<open>src/lib/types.cpp\<close>,
  \<open>src/lib/scord/types.hpp\<close> and \<open>src/common/net/request.hpp\<close>). An archive is the sequence of primitive
  values handed to it: how a primitive value becomes bytes is the business of the archive library,
  which the code only calls. \<open>save\<close> gives the values an object writes; \<open>load\<close> consumes them from the
  front and returns the rest, or \<open>None\<close> when they do not fit. The library writes a vector as
  its length and its elements, an optional and a \<open>unique_ptr\<close> as a flag and the content if there is one, and a
  variant as the index of its alternative and the content.
\<close>

datatype token = T_u64 u64 | T_u32 u32 | T_str string | T_enum nat | T_bool bool | T_size nat

type_synonym 'a saver = "'a \<Rightarrow> token list"
type_synonym 'a loader = "token list \<Rightarrow> ('a \<times> token list) option"

section \<open>The contract of a codec\<close>

text \<open>
  The weaker contract says what a load gives back when some member is not written: \<open>norm x\<close>, and what
  follows is untouched. The full contract gives the object itself.
\<close>

locale codec_upto =
  fixes save :: "'a \<Rightarrow> token list"
    and load :: "token list \<Rightarrow> ('a \<times> token list) option"
    and norm :: "'a \<Rightarrow> 'a"
  assumes load_save_norm: "load (save x @ rest) = Some (norm x, rest)"
begin

lemma load_save_norm_nil: "load (save x) = Some (norm x, [])"
  using load_save_norm [of x "[]"] by simp

lemma save_eq_norm: "save x = save y \<Longrightarrow> norm x = norm y"
  by (metis load_save_norm_nil option.inject prod.inject)

end

locale codec =
  fixes save :: "'a \<Rightarrow> token list"
    and load :: "token list \<Rightarrow> ('a \<times> token list) option"
  assumes load_save: "load (save x @ rest) = Some (x, rest)"
begin

lemma load_save_nil: "load (save x) = Some (x, [])"
  using load_save [of x "[]"] by simp

lemma save_inject: "save x = save y \<Longrightarrow> x = y"
  by (metis load_save_nil option.inject prod.inject)

lemma save_prefix_free: "save x @ u = save y @ v \<Longrightarrow> x = y \<and> u = v"
  by (metis load_save option.inject prod.inject)

lemma concat_save_inject: "length xs = length ys \<Longrightarrow>
    concat (map save xs) = concat (map save ys) \<Longrightarrow> xs = ys"
proof (induction xs arbitrary: ys)
  case Nil
  then show ?case by simp
next
  case (Cons x xs)
  then obtain y ys' where ys: "ys = y # ys'" by (cases ys) auto
  with Cons.prems have "save x @ concat (map save xs) = save y @ concat (map save ys')" by simp
  then have "x = y \<and> concat (map save xs) = concat (map save ys')" by (rule save_prefix_free)
  with Cons ys show ?case by simp
qed

end

sublocale codec \<subseteq> upto: codec_upto save load "\<lambda>x. x"
  by unfold_locales (simp add: load_save)

section \<open>Primitive values and library containers\<close>

definition save_u64 :: "u64 saver" where "save_u64 w = [T_u64 w]"

fun load_u64 :: "u64 loader" where
  "load_u64 (T_u64 w # ts) = Some (w, ts)"
| "load_u64 _ = None"

definition save_u32 :: "u32 saver" where "save_u32 w = [T_u32 w]"

fun load_u32 :: "u32 loader" where
  "load_u32 (T_u32 w # ts) = Some (w, ts)"
| "load_u32 _ = None"

definition save_str :: "string saver" where "save_str s = [T_str s]"

fun load_str :: "string loader" where
  "load_str (T_str s # ts) = Some (s, ts)"
| "load_str _ = None"

definition save_bool :: "bool saver" where "save_bool b = [T_bool b]"

fun load_bool :: "bool loader" where
  "load_bool (T_bool b # ts) = Some (b, ts)"
| "load_bool _ = None"

fun load_enum :: "(nat \<Rightarrow> 'a) \<Rightarrow> 'a loader" where
  "load_enum f (T_enum n # ts) = Some (f n, ts)"
| "load_enum f _ = None"

definition save_list :: "'a saver \<Rightarrow> 'a list saver" where
  "save_list sv xs = T_size (length xs) # concat (map sv xs)"

fun load_n :: "'a loader \<Rightarrow> nat \<Rightarrow> 'a list loader" where
  "load_n ld 0 ts = Some ([], ts)"
| "load_n ld (Suc n) ts =
     (case ld ts of
        None \<Rightarrow> None
      | Some (x, ts') \<Rightarrow> (case load_n ld n ts' of
          None \<Rightarrow> None
        | Some (xs, ts'') \<Rightarrow> Some (x # xs, ts'')))"

fun load_list :: "'a loader \<Rightarrow> 'a list loader" where
  "load_list ld (T_size n # ts) = load_n ld n ts"
| "load_list ld _ = None"

fun save_opt :: "'a saver \<Rightarrow> 'a option saver" where
  "save_opt sv None = [T_bool False]"
| "save_opt sv (Some x) = T_bool True # sv x"

fun load_opt :: "'a loader \<Rightarrow> 'a option loader" where
  "load_opt ld (T_bool False # ts) = Some (None, ts)"
| "load_opt ld (T_bool True # ts) =
     (case ld ts of None \<Rightarrow> None | Some (x, ts') \<Rightarrow> Some (Some x, ts'))"
| "load_opt ld _ = None"

text \<open>
  A \<open>unique_ptr\<close> to the implementation object, which a value class serializes as its only member: a
  flag, then the object. The object of a value class in use is never null.
\<close>

definition save_ptr :: "'a saver \<Rightarrow> 'a saver" where
  "save_ptr sv x = T_bool True # sv x"

fun load_ptr :: "'a loader \<Rightarrow> 'a loader" where
  "load_ptr ld (T_bool True # ts) = ld ts"
| "load_ptr ld _ = None"

text \<open>The primitive codecs keep the contract, and the containers keep it from their elements.\<close>

interpretation u64_codec: codec save_u64 load_u64
  by unfold_locales (simp add: save_u64_def)

interpretation u32_codec: codec save_u32 load_u32
  by unfold_locales (simp add: save_u32_def)

interpretation str_codec: codec save_str load_str
  by unfold_locales (simp add: save_str_def)

interpretation bool_codec: codec save_bool load_bool
  by unfold_locales (simp add: save_bool_def)

context codec_upto
begin

lemma load_n_norm:
  "load_n load (length xs) (concat (map save xs) @ rest) = Some (map norm xs, rest)"
  by (induction xs) (simp_all add: load_save_norm)

lemma load_list_norm: "load_list load (save_list save xs @ rest) = Some (map norm xs, rest)"
  by (simp add: save_list_def load_n_norm)

lemma load_opt_norm: "load_opt load (save_opt save ox @ rest) = Some (map_option norm ox, rest)"
  by (cases ox) (simp_all add: load_save_norm)

lemma load_ptr_norm: "load_ptr load (save_ptr save x @ rest) = Some (norm x, rest)"
  by (simp add: save_ptr_def load_save_norm)

end

context codec
begin

lemma load_list_save: "load_list load (save_list save xs @ rest) = Some (xs, rest)"
  using upto.load_list_norm by simp

lemma load_opt_save: "load_opt load (save_opt save ox @ rest) = Some (ox, rest)"
  using upto.load_opt_norm by (simp add: option.map_ident)

lemma load_ptr_save: "load_ptr load (save_ptr save x @ rest) = Some (x, rest)"
  by (rule upto.load_ptr_norm)

end

section \<open>The value classes\<close>

text \<open>Nodes: \<open>node::impl::save\<close>, \<open>load\<close>, and \<open>node::serialize\<close> of the pointer to them.\<close>

definition node_impl_save :: "node saver" where
  "node_impl_save n = save_str (hostname n) @ [T_enum (node_type_code (get_type n))]"

definition node_impl_load :: "node loader" where
  "node_impl_load ts =
     (case load_str ts of None \<Rightarrow> None | Some (h, ts) \<Rightarrow>
      (case load_enum node_type_of ts of None \<Rightarrow> None | Some (t, ts) \<Rightarrow>
       Some (\<lparr>hostname = h, get_type = t\<rparr>, ts)))"

definition node_save :: "node saver" where "node_save = save_ptr node_impl_save"

definition node_load :: "node loader" where "node_load = load_ptr node_impl_load"

interpretation node_impl_codec: codec node_impl_save node_impl_load
  by unfold_locales (simp add: node_impl_save_def node_impl_load_def save_str_def)

interpretation node_codec: codec node_save node_load
  by unfold_locales (simp add: node_save_def node_load_def node_impl_codec.load_ptr_save)

text \<open>Jobs write their identifier only.\<close>

definition job_impl_save :: "job saver" where
  "job_impl_save j = save_u64 (job_id j)"

text \<open>Loading fills the identifier of an object whose other member is the value \<open>old\<close> it had.\<close>

definition job_impl_load :: "u64 \<Rightarrow> job loader" where
  "job_impl_load old ts =
     (case load_u64 ts of None \<Rightarrow> None | Some (i, ts) \<Rightarrow> Some (\<lparr>job_id = i, job_slurm_id = old\<rparr>, ts))"

definition job_save :: "job saver" where "job_save = save_ptr job_impl_save"

definition job_load :: "u64 \<Rightarrow> job loader" where "job_load old = load_ptr (job_impl_load old)"

interpretation job_codec: codec_upto job_save "job_load old" "\<lambda>j. j\<lparr>job_slurm_id := old\<rparr>" for old
  by unfold_locales
    (simp add: job_load_def job_save_def save_ptr_def job_impl_save_def job_impl_load_def save_u64_def)

text \<open>Transfers and their states.\<close>

definition transfer_impl_save :: "transfer saver" where
  "transfer_impl_save t = save_u64 (tx_id t)"

definition transfer_impl_load :: "transfer loader" where
  "transfer_impl_load ts =
     (case load_u64 ts of None \<Rightarrow> None | Some (i, ts) \<Rightarrow> Some (\<lparr>tx_id = i\<rparr>, ts))"

definition transfer_save :: "transfer saver" where "transfer_save = save_ptr transfer_impl_save"

definition transfer_load :: "transfer loader" where "transfer_load = load_ptr transfer_impl_load"

interpretation transfer_impl_codec: codec transfer_impl_save transfer_impl_load
  by unfold_locales (simp add: transfer_impl_save_def transfer_impl_load_def save_u64_def)

interpretation transfer_codec: codec transfer_save transfer_load
  by unfold_locales (simp add: transfer_save_def transfer_load_def transfer_impl_codec.load_ptr_save)

definition transfer_state_impl_save :: "transfer_state saver" where
  "transfer_state_impl_save t = [T_enum (transfer_state_type_code (tx_status t))]"

definition transfer_state_impl_load :: "transfer_state loader" where
  "transfer_state_impl_load ts =
     (case load_enum transfer_state_type_of ts of
        None \<Rightarrow> None | Some (t, ts) \<Rightarrow> Some (\<lparr>tx_status = t\<rparr>, ts))"

definition transfer_state_save :: "transfer_state saver" where
  "transfer_state_save = save_ptr transfer_state_impl_save"

definition transfer_state_load :: "transfer_state loader" where
  "transfer_state_load = load_ptr transfer_state_impl_load"

interpretation transfer_state_impl_codec: codec transfer_state_impl_save transfer_state_impl_load
  by unfold_locales (simp add: transfer_state_impl_save_def transfer_state_impl_load_def)

interpretation transfer_state_codec: codec transfer_state_save transfer_state_load
  by unfold_locales
    (simp add: transfer_state_save_def transfer_state_load_def transfer_state_impl_codec.load_ptr_save)

text \<open>Datasets and routes.\<close>

definition dataset_impl_save :: "dataset saver" where
  "dataset_impl_save d = save_str (dataset_id d)"

definition dataset_impl_load :: "dataset loader" where
  "dataset_impl_load ts =
     (case load_str ts of None \<Rightarrow> None | Some (i, ts) \<Rightarrow> Some (\<lparr>dataset_id = i\<rparr>, ts))"

definition dataset_save :: "dataset saver" where "dataset_save = save_ptr dataset_impl_save"

definition dataset_load :: "dataset loader" where "dataset_load = load_ptr dataset_impl_load"

interpretation dataset_impl_codec: codec dataset_impl_save dataset_impl_load
  by unfold_locales (simp add: dataset_impl_save_def dataset_impl_load_def save_str_def)

interpretation dataset_codec: codec dataset_save dataset_load
  by unfold_locales (simp add: dataset_save_def dataset_load_def dataset_impl_codec.load_ptr_save)

definition route_impl_save :: "dataset_route saver" where
  "route_impl_save r = dataset_save (route_source r) @ dataset_save (route_destination r)"

definition route_impl_load :: "dataset_route loader" where
  "route_impl_load ts =
     (case dataset_load ts of None \<Rightarrow> None | Some (s, ts) \<Rightarrow>
      (case dataset_load ts of None \<Rightarrow> None | Some (d, ts) \<Rightarrow>
       Some (\<lparr>route_source = s, route_destination = d\<rparr>, ts)))"

definition route_save :: "dataset_route saver" where "route_save = save_ptr route_impl_save"

definition route_load :: "dataset_route loader" where "route_load = load_ptr route_impl_load"

interpretation route_impl_codec: codec route_impl_save route_impl_load
  by unfold_locales (simp add: route_impl_save_def route_impl_load_def dataset_codec.load_save)

interpretation route_codec: codec route_save route_load
  by unfold_locales (simp add: route_save_def route_load_def route_impl_codec.load_ptr_save)

text \<open>Resources are their vector of nodes, for adhoc storages and for jobs.\<close>

definition adhoc_resources_save :: "adhoc_resources saver" where
  "adhoc_resources_save r = save_list node_save (adhoc_nodes r)"

definition adhoc_resources_load :: "adhoc_resources loader" where
  "adhoc_resources_load ts =
     (case load_list node_load ts of None \<Rightarrow> None | Some (ns, ts) \<Rightarrow> Some (\<lparr>adhoc_nodes = ns\<rparr>, ts))"

interpretation adhoc_resources_codec: codec adhoc_resources_save adhoc_resources_load
  by unfold_locales
    (simp add: adhoc_resources_save_def adhoc_resources_load_def node_codec.load_list_save)

definition job_resources_save :: "job_resources saver" where
  "job_resources_save r = save_list node_save (job_nodes r)"

definition job_resources_load :: "job_resources loader" where
  "job_resources_load ts =
     (case load_list node_load ts of None \<Rightarrow> None | Some (ns, ts) \<Rightarrow> Some (\<lparr>job_nodes = ns\<rparr>, ts))"

interpretation job_resources_codec: codec job_resources_save job_resources_load
  by unfold_locales
    (simp add: job_resources_save_def job_resources_load_def node_codec.load_list_save)

text \<open>Contexts and storages.\<close>

definition adhoc_ctx_save :: "adhoc_ctx saver" where
  "adhoc_ctx_save c =
     save_str (controller_address c) @ save_str (data_stager_address c) @
     [T_enum (execution_mode_code (exec_mode c)), T_enum (access_type_code (ctx_access_type c))] @
     save_u32 (walltime c) @ save_bool (should_flush c)"

definition adhoc_ctx_load :: "adhoc_ctx loader" where
  "adhoc_ctx_load ts =
     (case load_str ts of None \<Rightarrow> None | Some (ca, ts) \<Rightarrow>
      (case load_str ts of None \<Rightarrow> None | Some (da, ts) \<Rightarrow>
      (case load_enum execution_mode_of ts of None \<Rightarrow> None | Some (em, ts) \<Rightarrow>
      (case load_enum access_type_of ts of None \<Rightarrow> None | Some (at, ts) \<Rightarrow>
      (case load_u32 ts of None \<Rightarrow> None | Some (wt, ts) \<Rightarrow>
      (case load_bool ts of None \<Rightarrow> None | Some (sf, ts) \<Rightarrow>
       Some (\<lparr>controller_address = ca, data_stager_address = da, exec_mode = em,
              ctx_access_type = at, walltime = wt, should_flush = sf\<rparr>, ts)))))))"

interpretation adhoc_ctx_codec: codec adhoc_ctx_save adhoc_ctx_load
  by unfold_locales
    (simp add: adhoc_ctx_save_def adhoc_ctx_load_def save_str_def save_u32_def save_bool_def)

definition adhoc_storage_impl_save :: "adhoc_storage saver" where
  "adhoc_storage_impl_save a =
     [T_enum (adhoc_type_code (adhoc_kind a))] @ save_str (adhoc_name a) @ save_u64 (adhoc_id a) @
     adhoc_ctx_save (adhoc_context a) @ adhoc_resources_save (adhoc_res a)"

definition adhoc_storage_impl_load :: "adhoc_storage loader" where
  "adhoc_storage_impl_load ts =
     (case load_enum adhoc_type_of ts of None \<Rightarrow> None | Some (k, ts) \<Rightarrow>
      (case load_str ts of None \<Rightarrow> None | Some (n, ts) \<Rightarrow>
      (case load_u64 ts of None \<Rightarrow> None | Some (i, ts) \<Rightarrow>
      (case adhoc_ctx_load ts of None \<Rightarrow> None | Some (c, ts) \<Rightarrow>
      (case adhoc_resources_load ts of None \<Rightarrow> None | Some (r, ts) \<Rightarrow>
       Some (\<lparr>adhoc_kind = k, adhoc_name = n, adhoc_id = i, adhoc_context = c, adhoc_res = r\<rparr>, ts))))))"

definition adhoc_storage_save :: "adhoc_storage saver" where
  "adhoc_storage_save = save_ptr adhoc_storage_impl_save"

definition adhoc_storage_load :: "adhoc_storage loader" where
  "adhoc_storage_load = load_ptr adhoc_storage_impl_load"

interpretation adhoc_storage_impl_codec: codec adhoc_storage_impl_save adhoc_storage_impl_load
  by unfold_locales
    (simp add: adhoc_storage_impl_save_def adhoc_storage_impl_load_def save_str_def save_u64_def
       adhoc_ctx_codec.load_save adhoc_resources_codec.load_save)

interpretation adhoc_storage_codec: codec adhoc_storage_save adhoc_storage_load
  by unfold_locales
    (simp add: adhoc_storage_save_def adhoc_storage_load_def adhoc_storage_impl_codec.load_ptr_save)

text \<open>A path is written as its string.\<close>

definition pfs_ctx_save :: "pfs_ctx saver" where
  "pfs_ctx_save c = save_str (mount_point c)"

definition pfs_ctx_load :: "pfs_ctx loader" where
  "pfs_ctx_load ts =
     (case load_str ts of None \<Rightarrow> None | Some (m, ts) \<Rightarrow> Some (\<lparr>mount_point = m\<rparr>, ts))"

interpretation pfs_ctx_codec: codec pfs_ctx_save pfs_ctx_load
  by unfold_locales (simp add: pfs_ctx_save_def pfs_ctx_load_def save_str_def)

definition pfs_storage_impl_save :: "pfs_storage saver" where
  "pfs_storage_impl_save p =
     [T_enum (pfs_type_code (pfs_kind p))] @ save_str (pfs_name p) @ save_u64 (pfs_id p) @
     pfs_ctx_save (pfs_context p)"

definition pfs_storage_impl_load :: "pfs_storage loader" where
  "pfs_storage_impl_load ts =
     (case load_enum pfs_type_of ts of None \<Rightarrow> None | Some (k, ts) \<Rightarrow>
      (case load_str ts of None \<Rightarrow> None | Some (n, ts) \<Rightarrow>
      (case load_u64 ts of None \<Rightarrow> None | Some (i, ts) \<Rightarrow>
      (case pfs_ctx_load ts of None \<Rightarrow> None | Some (c, ts) \<Rightarrow>
       Some (\<lparr>pfs_kind = k, pfs_name = n, pfs_id = i, pfs_context = c\<rparr>, ts)))))"

definition pfs_storage_save :: "pfs_storage saver" where
  "pfs_storage_save = save_ptr pfs_storage_impl_save"

definition pfs_storage_load :: "pfs_storage loader" where
  "pfs_storage_load = load_ptr pfs_storage_impl_load"

interpretation pfs_storage_impl_codec: codec pfs_storage_impl_save pfs_storage_impl_load
  by unfold_locales
    (simp add: pfs_storage_impl_save_def pfs_storage_impl_load_def save_str_def save_u64_def
       pfs_ctx_codec.load_save)

interpretation pfs_storage_codec: codec pfs_storage_save pfs_storage_load
  by unfold_locales
    (simp add: pfs_storage_save_def pfs_storage_load_def pfs_storage_impl_codec.load_ptr_save)

text \<open>Requirements: three vectors of routes and the optional adhoc storage.\<close>

definition job_requirements_save :: "job_requirements saver" where
  "job_requirements_save r =
     save_list route_save (req_inputs r) @ save_list route_save (req_outputs r) @
     save_list route_save (req_expected_outputs r) @ save_opt adhoc_storage_save (req_adhoc_storage r)"

definition job_requirements_load :: "job_requirements loader" where
  "job_requirements_load ts =
     (case load_list route_load ts of None \<Rightarrow> None | Some (i, ts) \<Rightarrow>
      (case load_list route_load ts of None \<Rightarrow> None | Some (out, ts) \<Rightarrow>
      (case load_list route_load ts of None \<Rightarrow> None | Some (e, ts) \<Rightarrow>
      (case load_opt adhoc_storage_load ts of None \<Rightarrow> None | Some (a, ts) \<Rightarrow>
       Some (\<lparr>req_inputs = i, req_outputs = out, req_expected_outputs = e,
              req_adhoc_storage = a\<rparr>, ts)))))"

interpretation job_requirements_codec: codec job_requirements_save job_requirements_load
  by unfold_locales
    (simp add: job_requirements_save_def job_requirements_load_def route_codec.load_list_save
       adhoc_storage_codec.load_opt_save)

definition job_info_save :: "job_info saver" where
  "job_info_save ji =
     save_str (adhoc_controller_address ji) @ save_str (info_uuid ji) @ save_u32 (procs_for_io ji)"

definition job_info_load :: "job_info loader" where
  "job_info_load ts =
     (case load_str ts of None \<Rightarrow> None | Some (a, ts) \<Rightarrow>
      (case load_str ts of None \<Rightarrow> None | Some (u, ts) \<Rightarrow>
      (case load_u32 ts of None \<Rightarrow> None | Some (p, ts) \<Rightarrow>
       Some (\<lparr>adhoc_controller_address = a, info_uuid = u, procs_for_io = p\<rparr>, ts))))"

interpretation job_info_codec: codec job_info_save job_info_load
  by unfold_locales (simp add: job_info_save_def job_info_load_def save_str_def save_u32_def)

text \<open>
  QoS entities: the scope, then the variant. An entity whose data is a job loses the Slurm identifier,
  as the job does.
\<close>

fun qos_data_save :: "qos_data saver" where
  "qos_data_save (Q_dataset d) = T_size 0 # dataset_save d"
| "qos_data_save (Q_node n) = T_size 1 # node_save n"
| "qos_data_save (Q_job j) = T_size 2 # job_save j"
| "qos_data_save (Q_transfer t) = T_size 3 # transfer_save t"

fun qos_data_load :: "u64 \<Rightarrow> qos_data loader" where
  "qos_data_load old (T_size k # ts) =
     (if k = 0 then map_option (\<lambda>(x, ts'). (Q_dataset x, ts')) (dataset_load ts)
      else if k = 1 then map_option (\<lambda>(x, ts'). (Q_node x, ts')) (node_load ts)
      else if k = 2 then map_option (\<lambda>(x, ts'). (Q_job x, ts')) (job_load old ts)
      else if k = 3 then map_option (\<lambda>(x, ts'). (Q_transfer x, ts')) (transfer_load ts)
      else None)"
| "qos_data_load old _ = None"

fun qos_data_norm :: "u64 \<Rightarrow> qos_data \<Rightarrow> qos_data" where
  "qos_data_norm old (Q_job j) = Q_job (j\<lparr>job_slurm_id := old\<rparr>)"
| "qos_data_norm old d = d"

lemma qos_data_load_save:
  "qos_data_load old (qos_data_save d @ rest) = Some (qos_data_norm old d, rest)"
  by (cases d) (simp_all add: dataset_codec.load_save node_codec.load_save job_codec.load_save_norm
      transfer_codec.load_save)

definition entity_save :: "qos_entity saver" where
  "entity_save = save_ptr (\<lambda>e. T_enum (qos_scope_code (ent_scope e)) # qos_data_save (ent_data e))"

definition entity_load :: "u64 \<Rightarrow> qos_entity loader" where
  "entity_load old = load_ptr (\<lambda>ts.
     (case load_enum qos_scope_of ts of None \<Rightarrow> None | Some (s, ts) \<Rightarrow>
      (case qos_data_load old ts of None \<Rightarrow> None | Some (d, ts) \<Rightarrow>
       Some (\<lparr>ent_scope = s, ent_data = d\<rparr>, ts))))"

definition entity_norm :: "u64 \<Rightarrow> qos_entity \<Rightarrow> qos_entity" where
  "entity_norm old e = e\<lparr>ent_data := qos_data_norm old (ent_data e)\<rparr>"

interpretation entity_codec: codec_upto entity_save "entity_load old" "entity_norm old" for old
  by unfold_locales
    (simp add: entity_save_def entity_load_def save_ptr_def entity_norm_def qos_data_load_save)

text \<open>Limits: a pointer that may be null.\<close>

definition limit_impl_save :: "qos_limit_impl saver" where
  "limit_impl_save l =
     [T_enum (qos_subclass_code (lim_subclass l))] @ save_u64 (lim_value l) @
     save_opt entity_save (lim_entity l)"

definition limit_impl_load :: "u64 \<Rightarrow> qos_limit_impl loader" where
  "limit_impl_load old ts =
     (case load_enum qos_subclass_of ts of None \<Rightarrow> None | Some (c, ts) \<Rightarrow>
      (case load_u64 ts of None \<Rightarrow> None | Some (v, ts) \<Rightarrow>
      (case load_opt (entity_load old) ts of None \<Rightarrow> None | Some (e, ts) \<Rightarrow>
       Some (\<lparr>lim_subclass = c, lim_value = v, lim_entity = e\<rparr>, ts))))"

definition limit_impl_norm :: "u64 \<Rightarrow> qos_limit_impl \<Rightarrow> qos_limit_impl" where
  "limit_impl_norm old l = l\<lparr>lim_entity := map_option (entity_norm old) (lim_entity l)\<rparr>"

interpretation limit_impl_codec: codec_upto limit_impl_save "limit_impl_load old" "limit_impl_norm old"
  for old
  by unfold_locales
    (simp add: limit_impl_save_def limit_impl_load_def limit_impl_norm_def save_u64_def
       entity_codec.load_opt_norm)

definition limit_save :: "qos_limit saver" where "limit_save = save_opt limit_impl_save"

definition limit_load :: "u64 \<Rightarrow> qos_limit loader" where
  "limit_load old = load_opt (limit_impl_load old)"

definition limit_norm :: "u64 \<Rightarrow> qos_limit \<Rightarrow> qos_limit" where
  "limit_norm old = map_option (limit_impl_norm old)"

interpretation limit_codec: codec_upto limit_save "limit_load old" "limit_norm old" for old
  by unfold_locales
    (simp add: limit_save_def limit_load_def limit_norm_def limit_impl_codec.load_opt_norm)

end
