(* ===== verification/Network.thy ===== *)
theory Network
  imports Archive
begin

text \<open>
  What travels between the parts of the system: the description of a call
  (\<open>src/src/common/net/utilities.hpp\<close>) and the responses (\<open>src/src/common/net/request.hpp\<close>).
\<close>

section \<open>Descriptions of calls\<close>

record rpc_info =
  rpc_id :: u64
  rpc_pid :: "u64 option"
  rpc_children :: u64
  rpc_name :: string
  rpc_address :: string

text \<open>
  \<open>new_id\<close> is a counter of the process; \<open>create\<close> takes the next identifier from it. \<open>add_child\<close> is a
  \<open>const\<close> member: the identifier of a child is the number of children, which no one increments.
\<close>

definition new_id :: "u64 \<Rightarrow> u64 \<times> u64" where
  "new_id current = (current + 1, current)"

definition rpc_create :: "u64 \<Rightarrow> string \<Rightarrow> string \<Rightarrow> u64 \<times> rpc_info" where
  "rpc_create current name address =
     (let (current, i) = new_id current
      in (current, \<lparr>rpc_id = i, rpc_pid = None, rpc_children = 0, rpc_name = name,
                    rpc_address = address\<rparr>))"

definition add_child :: "rpc_info \<Rightarrow> string \<Rightarrow> rpc_info" where
  "add_child r address =
     \<lparr>rpc_id = rpc_children r, rpc_pid = Some (rpc_id r), rpc_children = 0, rpc_name = rpc_name r,
      rpc_address = address\<rparr>"

text \<open>
  The formatter prints the direction, the parent if there is one, the identifier, the name and the
  peer. The format library prints a string with \<open>{:?}\<close> quoted and escaped: that is the argument \<open>debug\<close>.
\<close>

definition rpc_format :: "(string \<Rightarrow> string) \<Rightarrow> bool \<Rightarrow> rpc_info \<Rightarrow> string" where
  "rpc_format debug outbound r =
     (if outbound then ''<='' else ''=>'') @
     (case rpc_pid r of Some p \<Rightarrow> '' pid: '' @ u64_to_string p | None \<Rightarrow> []) @
     '' id: '' @ u64_to_string (rpc_id r) @ '' name: '' @ debug (rpc_name r) @ '' '' @
     (if outbound then ''to: '' else ''from: '') @ debug (rpc_address r)"

lemma rpc_create_simps [simp]:
  "fst (rpc_create c n a) = c + 1"
  "rpc_id (snd (rpc_create c n a)) = c"
  "rpc_name (snd (rpc_create c n a)) = n"
  "rpc_address (snd (rpc_create c n a)) = a"
  "rpc_pid (snd (rpc_create c n a)) = None"
  by (simp_all add: rpc_create_def new_id_def)

lemma add_child_simps [simp]:
  "rpc_name (add_child r a) = rpc_name r"
  "rpc_pid (add_child r a) = Some (rpc_id r)"
  "rpc_address (add_child r a) = a"
  by (simp_all add: add_child_def)

section \<open>Responses\<close>

record generic_response =
  resp_op_id :: u64
  resp_error_code :: error_code

record 'v response_with_value = generic_response +
  resp_value :: "'v option"

type_synonym response_with_id = "u64 response_with_value"

definition mk_response :: "u64 \<Rightarrow> error_code \<Rightarrow> generic_response" where
  "mk_response i ec = \<lparr>resp_op_id = i, resp_error_code = ec\<rparr>"

definition mk_response_with :: "u64 \<Rightarrow> error_code \<Rightarrow> 'v option \<Rightarrow> 'v response_with_value" where
  "mk_response_with i ec v = \<lparr>resp_op_id = i, resp_error_code = ec, resp_value = v\<rparr>"

text \<open>
  \<open>value()\<close> is declared \<open>noexcept\<close> and calls \<open>std::optional::value\<close>, whose exception then ends the
  program.
\<close>

definition response_value :: "'v response_with_value \<Rightarrow> cpp_error + 'v" where
  "response_value r = (case resp_value r of Some v \<Rightarrow> Inr v | None \<Rightarrow> Inl Terminate)"

definition response_value_or :: "'v \<Rightarrow> 'v response_with_value \<Rightarrow> 'v" where
  "response_value_or d r = (case resp_value r of Some v \<Rightarrow> v | None \<Rightarrow> d)"

lemma mk_response_simps [simp]:
  "resp_op_id (mk_response i ec) = i" "resp_error_code (mk_response i ec) = ec"
  by (simp_all add: mk_response_def)

lemma mk_response_with_simps [simp]:
  "resp_op_id (mk_response_with i ec v) = i" "resp_error_code (mk_response_with i ec v) = ec"
  "resp_value (mk_response_with i ec v) = v"
  by (simp_all add: mk_response_with_def)

text \<open>\<open>serialize\<close>: the operation, the code, and for a value the optional.\<close>

definition response_save :: "generic_response saver" where
  "response_save r = save_u64 (resp_op_id r) @ [T_enum (return_code (resp_error_code r))]"

definition response_load :: "generic_response loader" where
  "response_load ts =
     (case load_u64 ts of None \<Rightarrow> None | Some (i, ts) \<Rightarrow>
      (case load_enum error_code_of ts of None \<Rightarrow> None | Some (ec, ts) \<Rightarrow>
       Some (mk_response i ec, ts)))"

definition response_with_save :: "'v saver \<Rightarrow> 'v response_with_value saver" where
  "response_with_save sv r =
     response_save (mk_response (resp_op_id r) (resp_error_code r)) @ save_opt sv (resp_value r)"

definition response_with_load :: "'v loader \<Rightarrow> 'v response_with_value loader" where
  "response_with_load ld ts =
     (case response_load ts of None \<Rightarrow> None | Some (g, ts) \<Rightarrow>
      (case load_opt ld ts of None \<Rightarrow> None | Some (v, ts) \<Rightarrow>
       Some (mk_response_with (resp_op_id g) (resp_error_code g) v, ts)))"

interpretation response_codec: codec response_save response_load
  by unfold_locales (simp add: response_save_def response_load_def save_u64_def mk_response_def)

context codec
begin

lemma response_with_load_save:
  "response_with_load load (response_with_save save r @ rest) = Some (r, rest)"
  by (simp add: response_with_save_def response_with_load_def response_codec.load_save load_opt_save
      mk_response_with_def)

end

text \<open>The four responses with a value; a path is written as its string.\<close>

interpretation response_with_id_codec: codec "response_with_save save_u64" "response_with_load load_u64"
  by unfold_locales (rule u64_codec.response_with_load_save)

interpretation response_with_path_codec: codec "response_with_save save_str" "response_with_load load_str"
  by unfold_locales (rule str_codec.response_with_load_save)

interpretation response_with_info_codec:
  codec "response_with_save job_info_save" "response_with_load job_info_load"
  by unfold_locales (rule job_info_codec.response_with_load_save)

interpretation response_with_state_codec:
  codec "response_with_save transfer_state_save" "response_with_load transfer_state_load"
  by unfold_locales (rule transfer_state_codec.response_with_load_save)

end
