(* ===== verification/Scord.thy ===== *)
theory Scord
  imports Jobs Adhocs PfsStorages Transfers Network
begin

text \<open>
  The daemon's RPC server (\<open>src/src/scord/rpc_server.cpp\<close>): one definition per handler, over the state of
  the process. A handler runs as a user-level thread that only gives way to other handlers where it
  waits for another process, so between two such points it is a function of the state. Where a
  handler waits, the field \<open>w_meanwhile\<close> of its world says what the others did in between.
\<close>

section \<open>The other processes\<close>

text \<open>The names of the Cargo library the code mentions.\<close>

datatype cargo_dataset_type =
    cargo_posix | cargo_parallel | cargo_none | cargo_gekkofs | cargo_hercules | cargo_expand
  | cargo_dataclay

record cargo_dataset =
  cargo_path :: string
  cargo_type :: cargo_dataset_type

datatype cargo_state = cargo_pending | cargo_running | cargo_completed | cargo_failed | cargo_other nat

text \<open>
  The state of the daemon. \<open>m_redis\<close> tells whether the connection was made; \<open>redis_log\<close> is the sequence
  of \<open>HMSET\<close> commands sent to the database, and \<open>bw_signals\<close> that of the \<open>bw_control\<close> calls sent to Cargo.
\<close>

record 'h scord =
  sc_rpc_id :: u64
  m_job_manager :: job_manager
  m_adhoc_manager :: adhoc_storage_manager
  m_pfs_manager :: pfs_storage_manager
  m_transfer_manager :: "'h transfer_manager"
  m_redis :: bool
  redis_log :: "(string \<times> (string \<Rightarrow> string option)) list"
  bw_signals :: "('h \<times> int) list"

definition initial_scord :: "bool \<Rightarrow> 'h scord" where
  "initial_scord redis =
     \<lparr>sc_rpc_id = 0, m_job_manager = empty_job_manager, m_adhoc_manager = empty_adhoc_manager,
      m_pfs_manager = empty_pfs_manager, m_transfer_manager = empty_transfer_manager,
      m_redis = redis, redis_log = [], bw_signals = []\<rparr>"

text \<open>
  What a handler meets outside the process: the address of the caller, whether the logger is
  installed, the clock, the random string of a new identifier, whether an address resolves, what the
  \<open>scord-ctl\<close> of an address answers to a call (\<open>None\<close> when the call fails), whether the Redis server takes
  a command, and what the Cargo library returns (\<open>None\<close> when it throws).
\<close>

record 'h world =
  w_address :: string
  w_logging :: bool
  w_now :: nat
  w_random :: string
  w_lookup :: "string \<Rightarrow> bool"
  w_ctl_update :: "string \<Rightarrow> string \<Rightarrow> string \<Rightarrow> adhoc_type \<Rightarrow> adhoc_resources \<Rightarrow> generic_response option"
  w_ctl_deploy :: "string \<Rightarrow> string \<Rightarrow> string \<Rightarrow> adhoc_type \<Rightarrow> adhoc_resources \<Rightarrow>
                     string response_with_value option"
  w_ctl_terminate :: "string \<Rightarrow> string \<Rightarrow> string \<Rightarrow> adhoc_type \<Rightarrow> generic_response option"
  w_redis_ok :: bool
  w_cargo_transfer :: "string \<Rightarrow> cargo_dataset list \<Rightarrow> cargo_dataset list \<Rightarrow> 'h option"
  w_cargo_status :: "'h \<Rightarrow> (cargo_state \<times> real) option"
  w_cargo_state_code :: "cargo_state \<Rightarrow> nat"
  w_cargo_bw_control :: "'h \<Rightarrow> int \<Rightarrow> bool"
  w_round :: "real \<Rightarrow> real"
  w_order :: "u64 list"
  w_meanwhile :: "'h scord \<Rightarrow> 'h scord"

type_synonym ('h, 'r) outcome = "'h scord \<times> (cpp_error + 'r)"

section \<open>Helpers\<close>

text \<open>
  \<open>dataset_process\<close> looks for a scheme anywhere in the identifier and then drops as many characters as the
  scheme has from its front.
\<close>

definition dataset_process :: "string \<Rightarrow> cargo_dataset" where
  "dataset_process i =
     (if str_find ''lustre:'' i \<noteq> None
        then \<lparr>cargo_path = drop (length ''lustre:'') i, cargo_type = cargo_parallel\<rparr>
      else if str_find ''gekkofs:'' i \<noteq> None
        then \<lparr>cargo_path = drop (length ''gekkofs:'') i, cargo_type = cargo_gekkofs\<rparr>
      else if str_find ''hercules:'' i \<noteq> None
        then \<lparr>cargo_path = drop (length ''hercules:'') i, cargo_type = cargo_hercules\<rparr>
      else if str_find ''expand:'' i \<noteq> None
        then \<lparr>cargo_path = drop (length ''expand:'') i, cargo_type = cargo_expand\<rparr>
      else if str_find ''dataclay:'' i \<noteq> None
        then \<lparr>cargo_path = drop (length ''dataclay:'') i, cargo_type = cargo_dataclay\<rparr>
      else if str_find ''posix:'' i \<noteq> None
        then \<lparr>cargo_path = drop (length ''posix:'') i, cargo_type = cargo_posix\<rparr>
      else \<lparr>cargo_path = i, cargo_type = cargo_none\<rparr>)"

text \<open>\<open>init_redis\<close>: the connection is kept when both constructing it and the first command succeed.\<close>

definition init_redis :: "bool \<Rightarrow> bool \<Rightarrow> 'h scord \<Rightarrow> 'h scord" where
  "init_redis connects answers s = s\<lparr>m_redis := connects \<and> answers\<rparr>"

text \<open>\<open>rpc_info::create(RPC_NAME(), get_address(req))\<close>.\<close>

definition enter :: "string \<Rightarrow> 'h world \<Rightarrow> 'h scord \<Rightarrow> 'h scord \<times> rpc_info" where
  "enter function w s =
     (let (c, rpc) = rpc_create (sc_rpc_id s) (''ADM_'' @ function) (w_address w)
      in (s\<lparr>sc_rpc_id := c\<rparr>, rpc))"

definition hmset :: "'h world \<Rightarrow> string \<Rightarrow> (string \<times> string) list \<Rightarrow> 'h scord \<Rightarrow> ('h, unit) outcome" where
  "hmset w key kvs s =
     (if w_redis_ok w then (s\<lparr>redis_log := redis_log s @ [(key, map_of kvs)]\<rparr>, Inr ())
      else (s, Inl Library_error))"

lemma enter_simps [simp]:
  "fst (enter f w s) = s\<lparr>sc_rpc_id := sc_rpc_id s + 1\<rparr>"
  "rpc_id (snd (enter f w s)) = sc_rpc_id s"
  "rpc_name (snd (enter f w s)) = ''ADM_'' @ f"
  by (simp_all add: enter_def rpc_create_def new_id_def)

section \<open>Handlers of jobs\<close>

definition h_ping :: "'h world \<Rightarrow> 'h scord \<Rightarrow> ('h, generic_response) outcome" where
  "h_ping w s =
     (let (s, rpc) = enter ''ping'' w s
      in (s, Inr (mk_response (rpc_id rpc) ADM_SUCCESS)))"

text \<open>
  The answer is made from the job's metadata; the address and the identifier of its adhoc storage are
  read through the pointer, which is null when the job has none.
\<close>

definition query_info :: "'h scord \<Rightarrow> job_metadata \<Rightarrow> cpp_error + (error_code + job_info)" where
  "query_info s m =
     (if jm_resources m = None then Inr (Inl ADM_ENO_RESOURCES)
      else case jm_adhoc_metadata_ptr m of
             None \<Rightarrow> Inl Null_dereference
           | Some a \<Rightarrow>
               Inr (Inr \<lparr>adhoc_controller_address =
                           am_controller_address (adhoc_objs (m_adhoc_manager s) ! a),
                         info_uuid = am_uuid (adhoc_objs (m_adhoc_manager s) ! a),
                         procs_for_io = io_procs m\<rparr>))"

definition h_query ::
  "'h world \<Rightarrow> slurm_job_id \<Rightarrow> 'h scord \<Rightarrow> ('h, job_info response_with_value) outcome" where
  "h_query w slurm_id s =
     (let (s, rpc) = enter ''query'' w s;
          rv = (case job_find_by_slurm_id slurm_id (m_job_manager s) of
                  Inl ec \<Rightarrow> Inr (Inl ec)
                | Inr p \<Rightarrow> query_info s (job_objs (m_job_manager s) ! p))
      in case rv of
           Inl e \<Rightarrow> (s, Inl e)
         | Inr (Inr info) \<Rightarrow> (s, Inr (mk_response_with (rpc_id rpc) ADM_SUCCESS (Some info)))
         | Inr (Inl ec) \<Rightarrow> (s, Inr (mk_response_with (rpc_id rpc) ec None)))"

text \<open>
  The part of \<open>register_job\<close> that writes to Redis: \<open>job_requirements.adhoc_storage()->id()\<close> reads an
  optional without looking, and the find is read with \<open>-> \<close> without looking either.
\<close>

definition register_job_redis ::
  "'h world \<Rightarrow> job_id \<Rightarrow> slurm_job_id \<Rightarrow> job_requirements \<Rightarrow> 'h scord \<Rightarrow> ('h, unit) outcome" where
  "register_job_redis w jid slurm_id reqs s =
     (case req_adhoc_storage reqs of
        None \<Rightarrow> (s, Inl Empty_optional_dereference)
      | Some a \<Rightarrow>
          (case adhoc_find (adhoc_id a) (m_adhoc_manager s) of
             Inl _ \<Rightarrow> (s, Inl Undefined_behaviour)
           | Inr p \<Rightarrow>
               (let m = adhoc_objs (m_adhoc_manager s) ! p
                in hmset w (u64_to_string slurm_id)
                     [(''timestamp'', nat_to_string (w_now w)),
                      (''job_id'', u64_to_string jid),
                      (''AdhocID'', u64_to_string (adhoc_id a)),
                      (''AdhocUUID'', am_uuid m),
                      (''AdhocName'', adhoc_name (am_adhoc_storage m)),
                      (''Type'', adhoc_type_format (CHR ''f'') (adhoc_kind (am_adhoc_storage m))),
                      (''Deployed'', ''No''),
                      (''StartTime'', []),
                      (''EndTime'', []),
                      (''Policies'', [])] s)))"

text \<open>
  The adhoc storage the requirements name, when they name one; \<open>Inl\<close> is the \<open>goto respond\<close> with the error
  of the search.
\<close>

definition register_job_adhoc :: "job_requirements \<Rightarrow> 'h scord \<Rightarrow> error_code + aptr option" where
  "register_job_adhoc reqs s =
     (case req_adhoc_storage reqs of
        None \<Rightarrow> Inr None
      | Some a \<Rightarrow> (case adhoc_find (adhoc_id a) (m_adhoc_manager s) of
                    Inr p \<Rightarrow> Inr (Some p)
                  | Inl ec \<Rightarrow> Inl ec))"

text \<open>The new job becomes the client of the adhoc storage; the code returned is not looked at.\<close>

definition register_job_client :: "aptr option \<Rightarrow> jptr \<Rightarrow> 'h scord \<Rightarrow> 'h scord" where
  "register_job_client ap p s =
     (case ap of
        Some a \<Rightarrow>
          s\<lparr>m_adhoc_manager := fst (adhoc_ptr_add_client_info a p (m_adhoc_manager s))\<rparr>
      | None \<Rightarrow> s)"

definition h_register_job ::
  "'h world \<Rightarrow> job_resources \<Rightarrow> job_requirements \<Rightarrow> slurm_job_id \<Rightarrow> 'h scord \<Rightarrow>
   ('h, response_with_id) outcome" where
  "h_register_job w res reqs slurm_id s =
     (let (s, rpc) = enter ''register_job'' w s
      in case register_job_adhoc reqs s of
           Inl ec \<Rightarrow> (s, Inr (mk_response_with (rpc_id rpc) ec None))
         | Inr ap \<Rightarrow>
             (let (jm, jm_result) = job_create slurm_id res reqs ap (m_job_manager s);
                  s = s\<lparr>m_job_manager := jm\<rparr>
              in case jm_result of
                   Inl ec \<Rightarrow> (s, Inr (mk_response_with (rpc_id rpc) ec None))
                 | Inr p \<Rightarrow>
                     (let s = register_job_client ap p s;
                          jid = job_id (jm_job (job_objs (m_job_manager s) ! p))
                      in if m_redis s
                         then (case register_job_redis w jid slurm_id reqs s of
                                 (s, Inl e) \<Rightarrow> (s, Inl e)
                               | (s, Inr _) \<Rightarrow>
                                   (s, Inr (mk_response_with (rpc_id rpc) ADM_SUCCESS (Some jid))))
                         else (s, Inr (mk_response_with (rpc_id rpc) ADM_SUCCESS (Some jid))))))"

definition h_update_job ::
  "'h world \<Rightarrow> job_id \<Rightarrow> job_resources \<Rightarrow> 'h scord \<Rightarrow> ('h, generic_response) outcome" where
  "h_update_job w jid new_resources s =
     (let (s, rpc) = enter ''update_job'' w s;
          (jm, ec) = job_update jid new_resources (m_job_manager s)
      in (s\<lparr>m_job_manager := jm\<rparr>, Inr (mk_response (rpc_id rpc) ec)))"

text \<open>
  The requirements of the removed job are read through an optional the constructor of the metadata
  always fills.
\<close>

definition h_remove_job :: "'h world \<Rightarrow> job_id \<Rightarrow> 'h scord \<Rightarrow> ('h, generic_response) outcome" where
  "h_remove_job w jid s =
     (let (s, rpc) = enter ''remove_job'' w s;
          (jm, jm_result) = job_remove jid (m_job_manager s);
          s = s\<lparr>m_job_manager := jm\<rparr>
      in case jm_result of
           Inl ec \<Rightarrow> (s, Inr (mk_response (rpc_id rpc) ec))
         | Inr p \<Rightarrow>
             (case jm_requirements (job_objs (m_job_manager s) ! p) of
                None \<Rightarrow> (s, Inl Empty_optional_dereference)
              | Some reqs \<Rightarrow>
                  (case req_adhoc_storage reqs of
                     None \<Rightarrow> (s, Inr (mk_response (rpc_id rpc) ADM_SUCCESS))
                   | Some a \<Rightarrow>
                       (let (am, ec) = adhoc_remove_client_info (adhoc_id a) (m_adhoc_manager s)
                        in (s\<lparr>m_adhoc_manager := am\<rparr>, Inr (mk_response (rpc_id rpc) ec))))))"

section \<open>Handlers of adhoc storages\<close>

definition h_register_adhoc_storage ::
  "'h world \<Rightarrow> string \<Rightarrow> adhoc_type \<Rightarrow> adhoc_ctx \<Rightarrow> adhoc_resources \<Rightarrow> 'h scord \<Rightarrow>
   ('h, response_with_id) outcome" where
  "h_register_adhoc_storage w name type ctx resources s =
     (let (s, rpc) = enter ''register_adhoc_storage'' w s;
          (am, am_result) = adhoc_create (w_random w) type name ctx resources (m_adhoc_manager s);
          s = s\<lparr>m_adhoc_manager := am\<rparr>
      in case am_result of
           Inr p \<Rightarrow>
             (s, Inr (mk_response_with (rpc_id rpc) ADM_SUCCESS
                        (Some (adhoc_id (am_adhoc_storage (adhoc_objs (m_adhoc_manager s) ! p))))))
         | Inl ec \<Rightarrow> (s, Inr (mk_response_with (rpc_id rpc) ec None)))"

text \<open>
  \<open>update_helper\<close>: the storage is copied, its controller looked up and called with the name for growing or
  for shrinking. The handler of another call may run while this one waits.
\<close>

definition update_helper ::
  "'h world \<Rightarrow> bool \<Rightarrow> aptr \<Rightarrow> 'h scord \<Rightarrow> 'h scord \<times> (error_code + error_code)" where
  "update_helper w expand p s =
     (let m = adhoc_objs (m_adhoc_manager s) ! p;
          a = am_adhoc_storage m;
          address = controller_address (adhoc_context a);
          s = w_meanwhile w s
      in if \<not> w_lookup w address then (s, Inl ADM_ESNAFU)
         else
           (let name = (if expand then ''ADM_expand_adhoc_storage'' else ''ADM_shrink_adhoc_storage'');
                (c, child_rpc) = rpc_create (sc_rpc_id s) name address;
                s = s\<lparr>sc_rpc_id := c\<rparr>
            in case w_ctl_update w address (rpc_name child_rpc) (am_uuid m) (adhoc_kind a) (adhoc_res a) of
                 Some resp \<Rightarrow> (s, Inr (resp_error_code resp))
               | None \<Rightarrow> (s, Inl ADM_ESNAFU)))"

text \<open>
  The search that precedes the update only logs when it fails; \<open>pre_ec.value()\<close> then throws. The
  answer is made with \<open>rv.value()\<close>, which throws when the second search, the lookup or the call
  failed.
\<close>

definition h_update_adhoc_storage ::
  "'h world \<Rightarrow> u64 \<Rightarrow> adhoc_resources \<Rightarrow> 'h scord \<Rightarrow> ('h, generic_response) outcome" where
  "h_update_adhoc_storage w aid new_resources s =
     (let (s, rpc) = enter ''update_adhoc_storage'' w s
      in case adhoc_find aid (m_adhoc_manager s) of
           Inl _ \<Rightarrow> (s, Inl Bad_expected_access)
         | Inr p0 \<Rightarrow>
             (let old_resources_size =
                    length (adhoc_nodes (adhoc_res (am_adhoc_storage
                      (adhoc_objs (m_adhoc_manager s) ! p0))));
                  (am, ec) = adhoc_update aid new_resources (m_adhoc_manager s);
                  s = s\<lparr>m_adhoc_manager := am\<rparr>;
                  expand = (length (adhoc_nodes new_resources) > old_resources_size);
                  (s, rv) = (case adhoc_find aid (m_adhoc_manager s) of
                               Inl ec \<Rightarrow> (s, Inl ec)
                             | Inr p \<Rightarrow> update_helper w expand p s)
              in case rv of
                   Inl _ \<Rightarrow> (s, Inl Bad_expected_access)
                 | Inr ec \<Rightarrow> (s, Inr (mk_response (rpc_id rpc) ec))))"

definition h_remove_adhoc_storage ::
  "'h world \<Rightarrow> u64 \<Rightarrow> 'h scord \<Rightarrow> ('h, generic_response) outcome" where
  "h_remove_adhoc_storage w aid s =
     (let (s, rpc) = enter ''remove_adhoc_storage'' w s;
          (am, ec) = adhoc_remove aid (m_adhoc_manager s)
      in (s\<lparr>m_adhoc_manager := am\<rparr>, Inr (mk_response (rpc_id rpc) ec)))"

text \<open>
  \<open>deploy_helper\<close>: a response that says success is asked for its value, which ends the program when
  there is none.
\<close>

definition deploy_helper ::
  "'h world \<Rightarrow> rpc_info \<Rightarrow> aptr \<Rightarrow> 'h scord \<Rightarrow> ('h, error_code + string) outcome" where
  "deploy_helper w rpc p s =
     (let m = adhoc_objs (m_adhoc_manager s) ! p;
          a = am_adhoc_storage m;
          address = controller_address (adhoc_context a);
          s = w_meanwhile w s
      in if \<not> w_lookup w address then (s, Inr (Inl ADM_ESNAFU))
         else
           (case w_ctl_deploy w address (rpc_name rpc) (am_uuid m) (adhoc_kind a) (adhoc_res a) of
              None \<Rightarrow> (s, Inr (Inl ADM_ESNAFU))
            | Some resp \<Rightarrow>
                if \<not> ec_bool (resp_error_code resp) then (s, Inr (Inl (resp_error_code resp)))
                else (case response_value resp of
                        Inl e \<Rightarrow> (s, Inl e)
                      | Inr path \<Rightarrow> (s, Inr (Inr path)))))"

text \<open>
  \<open>m_adhoc_manager.find(adhoc_id).value().get()->client_info().get()->job().id()\<close>: the storage may be
  gone by now, and it may have no client.
\<close>

definition client_job_id :: "u64 \<Rightarrow> 'h scord \<Rightarrow> cpp_error + job_id" where
  "client_job_id aid s =
     (case adhoc_find aid (m_adhoc_manager s) of
        Inl _ \<Rightarrow> Inl Bad_expected_access
      | Inr p \<Rightarrow>
          (case am_client_info (adhoc_objs (m_adhoc_manager s) ! p) of
             None \<Rightarrow> Inl Null_dereference
           | Some j \<Rightarrow> Inr (job_id (jm_job (job_objs (m_job_manager s) ! j)))))"

definition h_deploy_adhoc_storage ::
  "'h world \<Rightarrow> u64 \<Rightarrow> 'h scord \<Rightarrow> ('h, string response_with_value) outcome" where
  "h_deploy_adhoc_storage w aid s =
     (let (s, rpc) = enter ''deploy_adhoc_storage'' w s;
          (s, rv) = (case adhoc_find aid (m_adhoc_manager s) of
                       Inl ec \<Rightarrow> (s, Inr (Inl ec))
                     | Inr p \<Rightarrow> deploy_helper w rpc p s)
      in case rv of
           Inl e \<Rightarrow> (s, Inl e)
         | Inr r \<Rightarrow>
             (let resp = (case r of
                            Inr path \<Rightarrow> mk_response_with (rpc_id rpc) ADM_SUCCESS (Some path)
                          | Inl ec \<Rightarrow> mk_response_with (rpc_id rpc) ec (Some []))
              in if m_redis s \<and> resp_error_code resp = ADM_SUCCESS
                 then (case client_job_id aid s of
                         Inl e \<Rightarrow> (s, Inl e)
                       | Inr jid \<Rightarrow>
                           (case hmset w (u64_to_string jid)
                                   [(''Deployed'', ''Yes''),
                                    (''StartTime'', nat_to_string (w_now w)),
                                    (''EndTime'', ''Running'')] s of
                              (s, Inl e) \<Rightarrow> (s, Inl e)
                            | (s, Inr _) \<Rightarrow> (s, Inr resp)))
                 else (s, Inr resp)))"

definition terminate_helper ::
  "'h world \<Rightarrow> rpc_info \<Rightarrow> aptr \<Rightarrow> 'h scord \<Rightarrow> 'h scord \<times> error_code" where
  "terminate_helper w rpc p s =
     (let m = adhoc_objs (m_adhoc_manager s) ! p;
          a = am_adhoc_storage m;
          address = controller_address (adhoc_context a);
          s = w_meanwhile w s
      in if \<not> w_lookup w address then (s, ADM_ESNAFU)
         else
           (case w_ctl_terminate w address (rpc_name rpc) (am_uuid m) (adhoc_kind a) of
              Some resp \<Rightarrow> (s, resp_error_code resp)
            | None \<Rightarrow> (s, ADM_ESNAFU)))"

text \<open>The result of the search is mapped and then asked for its value.\<close>

definition h_terminate_adhoc_storage ::
  "'h world \<Rightarrow> u64 \<Rightarrow> 'h scord \<Rightarrow> ('h, generic_response) outcome" where
  "h_terminate_adhoc_storage w aid s =
     (let (s, rpc) = enter ''terminate_adhoc_storage'' w s
      in case adhoc_find aid (m_adhoc_manager s) of
           Inl _ \<Rightarrow> (s, Inl Bad_expected_access)
         | Inr p \<Rightarrow>
             (let (s, ec) = terminate_helper w rpc p s;
                  resp = mk_response (rpc_id rpc) ec
              in if m_redis s \<and> resp_error_code resp = ADM_SUCCESS
                 then (case client_job_id aid s of
                         Inl e \<Rightarrow> (s, Inl e)
                       | Inr jid \<Rightarrow>
                           (case hmset w (u64_to_string jid)
                                   [(''Deployed'', ''Yes''),
                                    (''EndTime'', nat_to_string (w_now w))] s of
                              (s, Inl e) \<Rightarrow> (s, Inl e)
                            | (s, Inr _) \<Rightarrow> (s, Inr resp)))
                 else (s, Inr resp)))"

section \<open>Handlers of parallel file systems\<close>

definition h_register_pfs_storage ::
  "'h world \<Rightarrow> string \<Rightarrow> pfs_type \<Rightarrow> pfs_ctx \<Rightarrow> 'h scord \<Rightarrow> ('h, response_with_id) outcome" where
  "h_register_pfs_storage w name type ctx s =
     (let (s, rpc) = enter ''register_pfs_storage'' w s;
          (pm, pm_result) = pfs_create type name ctx (m_pfs_manager s);
          s = s\<lparr>m_pfs_manager := pm\<rparr>
      in case pm_result of
           Inr p \<Rightarrow>
             (s, Inr (mk_response_with (rpc_id rpc) ADM_SUCCESS
                        (Some (pfs_id (pm_pfs_storage (pfs_objs (m_pfs_manager s) ! p))))))
         | Inl ec \<Rightarrow> (s, Inr (mk_response_with (rpc_id rpc) ec (Some 0))))"

definition h_update_pfs_storage ::
  "'h world \<Rightarrow> u64 \<Rightarrow> pfs_ctx \<Rightarrow> 'h scord \<Rightarrow> ('h, generic_response) outcome" where
  "h_update_pfs_storage w pid new_ctx s =
     (let (s, rpc) = enter ''update_pfs_storage'' w s;
          (pm, ec) = pfs_update pid new_ctx (m_pfs_manager s)
      in (s\<lparr>m_pfs_manager := pm\<rparr>, Inr (mk_response (rpc_id rpc) ec)))"

definition h_remove_pfs_storage ::
  "'h world \<Rightarrow> u64 \<Rightarrow> 'h scord \<Rightarrow> ('h, generic_response) outcome" where
  "h_remove_pfs_storage w pid s =
     (let (s, rpc) = enter ''remove_pfs_storage'' w s;
          (pm, ec) = pfs_remove pid (m_pfs_manager s)
      in (s\<lparr>m_pfs_manager := pm\<rparr>, Inr (mk_response (rpc_id rpc) ec)))"

section \<open>Handlers of transfers\<close>

text \<open>
  Printing the limits and copying them into the transfer both read through the pointer of each limit.
\<close>

definition h_transfer_datasets ::
  "'h world \<Rightarrow> job_id \<Rightarrow> dataset list \<Rightarrow> dataset list \<Rightarrow> qos_limit list \<Rightarrow> transfer_mapping \<Rightarrow>
   'h scord \<Rightarrow> ('h, response_with_id) outcome" where
  "h_transfer_datasets w jid sources targets limits mapping s =
     (let (s, rpc) = enter ''transfer_datasets'' w s
      in if w_logging w \<and> None \<in> set limits then (s, Inl Null_dereference)
         else case job_find jid (m_job_manager s) of
           Inl ec \<Rightarrow> (s, Inr (mk_response_with (rpc_id rpc) ec None))
         | Inr p \<Rightarrow>
             (case jm_adhoc_metadata_ptr (job_objs (m_job_manager s) ! p) of
                None \<Rightarrow> (s, Inr (mk_response_with (rpc_id rpc) ADM_ENO_RESOURCES None))
              | Some a \<Rightarrow>
                  (let address = am_data_stager_address (adhoc_objs (m_adhoc_manager s) ! a);
                       inputs = map (\<lambda>src. dataset_process (dataset_id src)) sources;
                       outputs = map (\<lambda>tgt. dataset_process (dataset_id tgt)) targets;
                       s = w_meanwhile w s
                   in case w_cargo_transfer w address inputs outputs of
                        None \<Rightarrow> (s, Inl Library_error)
                      | Some cargo_tx \<Rightarrow>
                          (case try_map limit_copy limits of
                             Inl e \<Rightarrow> (s, Inl e)
                           | Inr limits \<Rightarrow>
                               (let (tm, rv) = transfer_create cargo_tx limits (m_transfer_manager s);
                                    s = s\<lparr>m_transfer_manager := tm\<rparr>
                                in case rv of
                                     Inr q \<Rightarrow>
                                       (s, Inr (mk_response_with (rpc_id rpc) ADM_SUCCESS
                                          (Some (tm_id (tx_objs (m_transfer_manager s) ! q)))))
                                   | Inl ec \<Rightarrow> (s, Inr (mk_response_with (rpc_id rpc) ec None)))))))"

definition h_query_transfer ::
  "'h world \<Rightarrow> job_id \<Rightarrow> transfer_id \<Rightarrow> 'h scord \<Rightarrow> ('h, transfer_state response_with_value) outcome" where
  "h_query_transfer w jid tid s =
     (let (s, rpc) = enter ''query_transfer'' w s
      in case job_find jid (m_job_manager s) of
           Inl ec \<Rightarrow> (s, Inr (mk_response_with (rpc_id rpc) ec None))
         | Inr p \<Rightarrow>
             (case jm_adhoc_metadata_ptr (job_objs (m_job_manager s) ! p) of
                None \<Rightarrow> (s, Inr (mk_response_with (rpc_id rpc) ADM_ENO_RESOURCES None))
              | Some _ \<Rightarrow>
                  (case transfer_find tid (m_transfer_manager s) of
                     Inl ec \<Rightarrow> (s, Inr (mk_response_with (rpc_id rpc) ec None))
                   | Inr q \<Rightarrow>
                       (let handle = tm_handle (tx_objs (m_transfer_manager s) ! q);
                            s = w_meanwhile w s
                        in case w_cargo_status w handle of
                             None \<Rightarrow> (s, Inl Library_error)
                           | Some (state, _) \<Rightarrow>
                               (s, Inr (mk_response_with (rpc_id rpc) ADM_SUCCESS
                                  (Some \<lparr>tx_status =
                                     transfer_state_type_of (w_cargo_state_code w state)\<rparr>)))))))"

section \<open>The scheduler\<close>

text \<open>The constant \<open>0.1f\<close>.\<close>

definition threshold :: real where
  "threshold = 13421773 / 134217728"

text \<open>
  The signal sent for a measured bandwidth and a limit: slow down, speed up, or none. Each \<open>float\<close>
  operation rounds its exact result.
\<close>

definition bw_decision :: "(real \<Rightarrow> real) \<Rightarrow> real \<Rightarrow> u64 \<Rightarrow> int option" where
  "bw_decision rnd bw qos =
     (if rnd (bw + rnd (bw * threshold)) > rnd (real (unat qos)) then Some 1
      else if rnd (bw - rnd (bw * threshold)) < rnd (real (unat qos)) then Some (-1)
      else None)"

definition bw_control :: "'h world \<Rightarrow> 'h \<Rightarrow> int option \<Rightarrow> 'h scord \<Rightarrow> ('h, unit) outcome" where
  "bw_control w handle signal s =
     (case signal of
        None \<Rightarrow> (s, Inr ())
      | Some n \<Rightarrow>
          if w_cargo_bw_control w handle n
          then (s\<lparr>bw_signals := bw_signals s @ [(handle, n)]\<rparr>, Inr ())
          else (s, Inl Library_error))"

text \<open>The body of the loop for one transfer; the result tells whether it goes into \<open>v_ids\<close>.\<close>

definition schedule_one :: "'h world \<Rightarrow> nat \<Rightarrow> 'h scord \<Rightarrow> ('h, bool) outcome" where
  "schedule_one w p s =
     (let handle = tm_handle (tx_objs (m_transfer_manager s) ! p)
      in case w_cargo_status w handle of
           None \<Rightarrow> (s, Inl Library_error)
         | Some (state, bw) \<Rightarrow>
             (if state = cargo_completed \<or> state = cargo_failed then (s, Inr True)
              else if state = cargo_pending then (s, Inr False)
              else
                (let s = s\<lparr>m_transfer_manager := transfer_ptr_update p bw (m_transfer_manager s)\<rparr>;
                     m = tx_objs (m_transfer_manager s) ! p
                 in case tm_qos m of
                      [] \<Rightarrow> (s, Inr False)
                    | l # _ \<Rightarrow>
                        (case limit_value l of
                           Inl e \<Rightarrow> (s, Inl e)
                         | Inr qos \<Rightarrow>
                             (if tm_measured_bandwidth m = -1 then (s, Inr False)
                              else
                                (case bw_control w handle
                                        (bw_decision (w_round w) (tm_measured_bandwidth m) qos) s of
                                   (s, Inl e) \<Rightarrow> (s, Inl e)
                                 | (s, Inr _) \<Rightarrow> (s, Inr False)))))))"

fun schedule_all ::
  "'h world \<Rightarrow> (u64 \<times> nat) list \<Rightarrow> u64 list \<Rightarrow> 'h scord \<Rightarrow> ('h, u64 list) outcome" where
  "schedule_all w [] v_ids s = (s, Inr v_ids)"
| "schedule_all w ((tid, p) # rest) v_ids s =
     (case schedule_one w p s of
        (s, Inl e) \<Rightarrow> (s, Inl e)
      | (s, Inr done_now) \<Rightarrow> schedule_all w rest (if done_now then v_ids @ [tid] else v_ids) s)"

text \<open>
  The copy of the table, as the list of its entries in the order \<open>w_order\<close> in which the unordered map
  is traversed.
\<close>

definition table_entries :: "u64 list \<Rightarrow> (u64 \<Rightarrow> nat option) \<Rightarrow> (u64 \<times> nat) list" where
  "table_entries order table =
     concat (map (\<lambda>k. case table k of Some p \<Rightarrow> [(k, p)] | None \<Rightarrow> []) order)"

definition remove_transfers :: "u64 list \<Rightarrow> 'h transfer_manager \<Rightarrow> 'h transfer_manager" where
  "remove_transfers v_ids tm = foldl (\<lambda>tm k. fst (transfer_remove k tm)) tm v_ids"

definition scheduler_iteration :: "'h world \<Rightarrow> 'h scord \<Rightarrow> ('h, unit) outcome" where
  "scheduler_iteration w s =
     (case schedule_all w (table_entries (w_order w) (m_transfer (m_transfer_manager s))) [] s of
        (s, Inl e) \<Rightarrow> (s, Inl e)
      | (s, Inr v_ids) \<Rightarrow>
          (s\<lparr>m_transfer_manager := remove_transfers v_ids (m_transfer_manager s)\<rparr>, Inr ()))"

text \<open>
  The loop runs until the flag is set, which another thread does: it runs one iteration for each of
  the worlds it meets before that.
\<close>

fun scheduler_update :: "'h world list \<Rightarrow> 'h scord \<Rightarrow> ('h, unit) outcome" where
  "scheduler_update [] s = (s, Inr ())"
| "scheduler_update (w # ws) s =
     (case scheduler_iteration w s of
        (s, Inl e) \<Rightarrow> (s, Inl e)
      | (s, Inr _) \<Rightarrow> scheduler_update ws s)"

section \<open>The table of procedures\<close>

datatype request =
    Req_ping
  | Req_query slurm_job_id
  | Req_register_job job_resources job_requirements slurm_job_id
  | Req_update_job job_id job_resources
  | Req_remove_job job_id
  | Req_register_adhoc_storage string adhoc_type adhoc_ctx adhoc_resources
  | Req_update_adhoc_storage u64 adhoc_resources
  | Req_remove_adhoc_storage u64
  | Req_deploy_adhoc_storage u64
  | Req_terminate_adhoc_storage u64
  | Req_register_pfs_storage string pfs_type pfs_ctx
  | Req_update_pfs_storage u64 pfs_ctx
  | Req_remove_pfs_storage u64
  | Req_transfer_datasets job_id "dataset list" "dataset list" "qos_limit list" transfer_mapping
  | Req_query_transfer job_id transfer_id

datatype reply =
    Rep_generic generic_response
  | Rep_id response_with_id
  | Rep_info "job_info response_with_value"
  | Rep_path "string response_with_value"
  | Rep_state "transfer_state response_with_value"

fun rpc_of :: "request \<Rightarrow> string" where
  "rpc_of Req_ping = ''ADM_ping''"
| "rpc_of (Req_query _) = ''ADM_query''"
| "rpc_of (Req_register_job _ _ _) = ''ADM_register_job''"
| "rpc_of (Req_update_job _ _) = ''ADM_update_job''"
| "rpc_of (Req_remove_job _) = ''ADM_remove_job''"
| "rpc_of (Req_register_adhoc_storage _ _ _ _) = ''ADM_register_adhoc_storage''"
| "rpc_of (Req_update_adhoc_storage _ _) = ''ADM_update_adhoc_storage''"
| "rpc_of (Req_remove_adhoc_storage _) = ''ADM_remove_adhoc_storage''"
| "rpc_of (Req_deploy_adhoc_storage _) = ''ADM_deploy_adhoc_storage''"
| "rpc_of (Req_terminate_adhoc_storage _) = ''ADM_terminate_adhoc_storage''"
| "rpc_of (Req_register_pfs_storage _ _ _) = ''ADM_register_pfs_storage''"
| "rpc_of (Req_update_pfs_storage _ _) = ''ADM_update_pfs_storage''"
| "rpc_of (Req_remove_pfs_storage _) = ''ADM_remove_pfs_storage''"
| "rpc_of (Req_transfer_datasets _ _ _ _ _) = ''ADM_transfer_datasets''"
| "rpc_of (Req_query_transfer _ _) = ''ADM_query_transfer''"

definition reply_with :: "('r \<Rightarrow> reply) \<Rightarrow> ('h, 'r) outcome \<Rightarrow> ('h, reply) outcome" where
  "reply_with f x = (fst x, map_sum id f (snd x))"

fun handle :: "'h world \<Rightarrow> request \<Rightarrow> 'h scord \<Rightarrow> ('h, reply) outcome" where
  "handle w Req_ping s = reply_with Rep_generic (h_ping w s)"
| "handle w (Req_query i) s = reply_with Rep_info (h_query w i s)"
| "handle w (Req_register_job r q i) s = reply_with Rep_id (h_register_job w r q i s)"
| "handle w (Req_update_job i r) s = reply_with Rep_generic (h_update_job w i r s)"
| "handle w (Req_remove_job i) s = reply_with Rep_generic (h_remove_job w i s)"
| "handle w (Req_register_adhoc_storage n t c r) s =
     reply_with Rep_id (h_register_adhoc_storage w n t c r s)"
| "handle w (Req_update_adhoc_storage i r) s = reply_with Rep_generic (h_update_adhoc_storage w i r s)"
| "handle w (Req_remove_adhoc_storage i) s = reply_with Rep_generic (h_remove_adhoc_storage w i s)"
| "handle w (Req_deploy_adhoc_storage i) s = reply_with Rep_path (h_deploy_adhoc_storage w i s)"
| "handle w (Req_terminate_adhoc_storage i) s =
     reply_with Rep_generic (h_terminate_adhoc_storage w i s)"
| "handle w (Req_register_pfs_storage n t c) s = reply_with Rep_id (h_register_pfs_storage w n t c s)"
| "handle w (Req_update_pfs_storage i c) s = reply_with Rep_generic (h_update_pfs_storage w i c s)"
| "handle w (Req_remove_pfs_storage i) s = reply_with Rep_generic (h_remove_pfs_storage w i s)"
| "handle w (Req_transfer_datasets j a b l m) s = reply_with Rep_id (h_transfer_datasets w j a b l m s)"
| "handle w (Req_query_transfer j t) s = reply_with Rep_state (h_query_transfer w j t s)"

end
