(* ===== verification/ScordInv.thy ===== *)
theory ScordInv
  imports Scord
begin

text \<open>
  The invariant of the daemon's state and the states it reaches. The identifiers are 64-bit counters
  that would wrap around after \<open>2 ^ 64\<close> registrations; the invariant is claimed as long as fewer
  objects than that were ever made, which no run that fits in memory exceeds.
\<close>

section \<open>The invariant\<close>

text \<open>
  Job and adhoc storage metadata point at each other consistently: a job has its resources and its
  requirements, it holds a pointer exactly when its requirements name an adhoc storage, and then to
  the object with that identifier; the client of an adhoc storage is a job that holds a pointer to it,
  and is still registered if the storage is.
\<close>

definition job_link_ok :: "adhoc_storage_manager \<Rightarrow> job_metadata \<Rightarrow> bool" where
  "job_link_ok am m \<longleftrightarrow>
     jm_resources m \<noteq> None \<and>
     (case jm_requirements m of
        None \<Rightarrow> False
      | Some reqs \<Rightarrow>
          (case jm_adhoc_metadata_ptr m of
             None \<Rightarrow> req_adhoc_storage reqs = None
           | Some a \<Rightarrow> a < length (adhoc_objs am) \<and>
               (case req_adhoc_storage reqs of
                  None \<Rightarrow> False
                | Some st \<Rightarrow> adhoc_id st = adhoc_id (am_adhoc_storage (adhoc_objs am ! a)))))"

definition client_link_ok :: "job_manager \<Rightarrow> adhoc_storage_manager \<Rightarrow> aptr \<Rightarrow> jptr \<Rightarrow> bool" where
  "client_link_ok jm am a j \<longleftrightarrow>
     j < length (job_objs jm) \<and> jm_adhoc_metadata_ptr (job_objs jm ! j) = Some a \<and>
     (m_adhoc_storages am (adhoc_id (am_adhoc_storage (adhoc_objs am ! a))) = Some a \<longrightarrow>
        m_jobs jm (job_id (jm_job (job_objs jm ! j))) = Some j)"

definition links_ok :: "job_manager \<Rightarrow> adhoc_storage_manager \<Rightarrow> bool" where
  "links_ok jm am \<longleftrightarrow>
     (\<forall>m \<in> set (job_objs jm). job_link_ok am m) \<and>
     (\<forall>a < length (adhoc_objs am). \<forall>j.
        am_client_info (adhoc_objs am ! a) = Some j \<longrightarrow> client_link_ok jm am a j)"

definition limits_ok :: "'h transfer_manager \<Rightarrow> bool" where
  "limits_ok tm \<longleftrightarrow> (\<forall>m \<in> set (tx_objs tm). None \<notin> set (tm_qos m))"

definition scord_inv :: "'h scord \<Rightarrow> bool" where
  "scord_inv s \<longleftrightarrow>
     jobs_ok (m_job_manager s) \<and> adhoc_reg.wf (m_adhoc_manager s) \<and> pfs_reg.wf (m_pfs_manager s) \<and>
     transfer_reg.wf (m_transfer_manager s) \<and> links_ok (m_job_manager s) (m_adhoc_manager s) \<and>
     limits_ok (m_transfer_manager s)"

lemma scord_invD:
  assumes "scord_inv s"
  shows "jobs_ok (m_job_manager s)" "job_reg.wf (m_job_manager s)" "adhoc_reg.wf (m_adhoc_manager s)"
    "pfs_reg.wf (m_pfs_manager s)" "transfer_reg.wf (m_transfer_manager s)"
    "links_ok (m_job_manager s) (m_adhoc_manager s)" "limits_ok (m_transfer_manager s)"
  using assms by (auto simp: scord_inv_def jobs_ok_def)

lemma initial_inv [simp]: "scord_inv (initial_scord r)"
  by (simp add: scord_inv_def initial_scord_def links_ok_def limits_ok_def)
    (simp add: empty_job_manager_def empty_adhoc_manager_def empty_transfer_manager_def)

section \<open>How the operations keep the links\<close>

lemma links_okD:
  assumes "links_ok jm am"
  shows "p < length (job_objs jm) \<Longrightarrow> job_link_ok am (job_objs jm ! p)"
    and "a < length (adhoc_objs am) \<Longrightarrow> am_client_info (adhoc_objs am ! a) = Some j \<Longrightarrow>
         client_link_ok jm am a j"
  using assms by (auto simp: links_ok_def)

text \<open>Whether a job's link is right depends on the identifiers of the storages only.\<close>

lemma job_link_ok_cong:
  assumes "length (adhoc_objs am) \<le> length (adhoc_objs am')"
    and "\<And>a. a < length (adhoc_objs am) \<Longrightarrow>
           adhoc_id (am_adhoc_storage (adhoc_objs am' ! a)) = adhoc_id (am_adhoc_storage (adhoc_objs am ! a))"
    and "job_link_ok am m"
  shows "job_link_ok am' m"
  using assms by (fastforce simp: job_link_ok_def split: option.splits)

lemma links_job_update: "links_ok jm am \<Longrightarrow> links_ok (fst (job_update k r jm)) am"
proof -
  assume l: "links_ok jm am"
  let ?f = "job_metadata_update r"
  have upd: "job_link_ok am m \<Longrightarrow> job_link_ok am (?f m)" for m
    by (auto simp: job_link_ok_def split: option.splits)
  have jobs: "\<forall>m \<in> set (through p ?f (job_objs jm)). job_link_ok am m" for p
  proof
    fix m assume "m \<in> set (through p ?f (job_objs jm))"
    then obtain i where "i < length (job_objs jm)" "m = through p ?f (job_objs jm) ! i"
      by (metis in_set_conv_nth length_through)
    then show "job_link_ok am m"
      using links_okD(1) [OF l] upd by (cases "i = p") (simp_all add: nth_through)
  qed
  have ptr: "jm_adhoc_metadata_ptr (through p ?f xs ! j) = jm_adhoc_metadata_ptr (xs ! j)"
    if "j < length xs" for p j and xs
    using that by (simp add: nth_through)
  have "client_link_ok (jm\<lparr>job_objs := through p ?f (job_objs jm)\<rparr>) am a j"
    if "client_link_ok jm am a j" for p a j
    using that by (simp add: client_link_ok_def ptr)
  with l jobs show ?thesis
    by (simp add: job_update_def links_ok_def split: option.split)
qed

lemma links_job_create:
  assumes l: "links_ok jm am" and jm: "job_reg.wf jm"
    and ap: "job_link_ok am (mk_job_metadata j res reqs ap)"
  shows "links_ok (fst (job_create sl res reqs ap jm)) am"
proof -
  let ?jm = "fst (job_create sl res reqs ap jm)"
  have other: "m_jobs jm i = Some p \<Longrightarrow> m_jobs ?jm i = Some p" for i p
    using job_reg.wf_cur_free [OF jm] by (auto simp: job_create_fresh [OF jm])
  have new: "job_link_ok am
      (mk_job_metadata \<lparr>job_id = job_current_id jm, job_slurm_id = sl\<rparr> res reqs ap)"
    using ap by (simp add: job_link_ok_def)
  have objs: "job_objs ?jm = job_objs jm @
      [mk_job_metadata \<lparr>job_id = job_current_id jm, job_slurm_id = sl\<rparr> res reqs ap]"
    by (simp add: job_create_fresh [OF jm])
  have "client_link_ok ?jm am a i" if "client_link_ok jm am a i" for a i
    using that other by (simp add: client_link_ok_def objs nth_append)
  with l new show ?thesis by (simp add: links_ok_def objs)
qed

text \<open>
  A change of the storages that keeps the identifiers, registers no old object again and adds no client
  but a right one.
\<close>

lemma links_adhoc_change:
  assumes l: "links_ok jm am"
    and len: "length (adhoc_objs am) \<le> length (adhoc_objs am')"
    and ids: "\<And>b. b < length (adhoc_objs am) \<Longrightarrow>
      adhoc_id (am_adhoc_storage (adhoc_objs am' ! b)) = adhoc_id (am_adhoc_storage (adhoc_objs am ! b))"
    and tab: "\<And>k b. b < length (adhoc_objs am) \<Longrightarrow> m_adhoc_storages am' k = Some b \<Longrightarrow>
      m_adhoc_storages am k = Some b"
    and client: "\<And>b j. b < length (adhoc_objs am') \<Longrightarrow> am_client_info (adhoc_objs am' ! b) = Some j \<Longrightarrow>
      b < length (adhoc_objs am) \<and>
      (am_client_info (adhoc_objs am ! b) = Some j \<or> client_link_ok jm am b j)"
  shows "links_ok jm am'"
  unfolding links_ok_def
proof (intro conjI ballI allI impI)
  show "job_link_ok am' m" if "m \<in> set (job_objs jm)" for m
    using job_link_ok_cong [OF len ids] l that by (simp add: links_ok_def)
next
  fix b j assume b: "b < length (adhoc_objs am')" and c: "am_client_info (adhoc_objs am' ! b) = Some j"
  then have old: "b < length (adhoc_objs am)" using client by blast
  then have "client_link_ok jm am b j"
    using client [OF b c] links_okD(2) [OF l] by blast
  then show "client_link_ok jm am' b j"
    using tab [OF old] by (simp add: client_link_ok_def ids [OF old])
qed

lemma links_add_client:
  assumes l: "links_ok jm am" and j: "client_link_ok jm am a j"
  shows "links_ok jm (fst (adhoc_ptr_add_client_info a j am))"
  by (rule links_adhoc_change [OF l])
    (use j in \<open>auto simp: adhoc_ptr_add_client_info_def nth_through split: if_splits option.splits\<close>)

lemma links_adhoc_update: "links_ok jm am \<Longrightarrow> links_ok jm (fst (adhoc_update k r am))"
  by (erule links_adhoc_change)
    (auto simp: adhoc_update_def nth_through split: if_splits option.splits)

lemma links_adhoc_remove: "links_ok jm am \<Longrightarrow> links_ok jm (fst (adhoc_remove k am))"
  by (erule links_adhoc_change) (auto simp: adhoc_remove_def split: if_splits)

lemma links_adhoc_create:
  "links_ok jm am \<Longrightarrow> adhoc_reg.wf am \<Longrightarrow> links_ok jm (fst (adhoc_create u t n c r am))"
  by (erule links_adhoc_change)
    (auto simp: adhoc_create_fresh nth_append less_Suc_eq split: if_splits)

text \<open>
  Removing a job: the two steps of the handler together. Were the job the client of a registered
  storage, the second step clears it, because the storage its requirements name is the one it
  points at.
\<close>

lemma links_job_remove:
  assumes l: "links_ok jm am" and am: "adhoc_reg.wf am" and jm: "job_reg.wf jm"
    and p: "m_jobs jm k = Some p"
    and reqs: "jm_requirements (job_objs jm ! p) = Some reqs"
  defines "am' \<equiv> (case req_adhoc_storage reqs of
                     None \<Rightarrow> am | Some st \<Rightarrow> fst (adhoc_remove_client_info (adhoc_id st) am))"
  shows "links_ok (fst (job_remove k jm)) am'"
proof -
  let ?jm = "fst (job_remove k jm)"
  have jobs: "job_objs ?jm = job_objs jm" "m_jobs ?jm = erase k (m_jobs jm)"
    using p by (simp_all add: job_remove_def)
  have plen: "p < length (job_objs jm)" and pid: "job_id (jm_job (job_objs jm ! p)) = k"
    using job_reg.wf_pointer [OF jm p] by auto
  have am': "am' = am \<or> (\<exists>q. am' = adhoc_ptr_remove_client_info q am)"
    by (auto simp: am'_def adhoc_remove_client_info_def split: option.split sum.split)
  then have same: "length (adhoc_objs am') = length (adhoc_objs am)"
      "m_adhoc_storages am' = m_adhoc_storages am"
    by (auto simp: adhoc_ptr_remove_client_info_def)
  have obj: "adhoc_id (am_adhoc_storage (adhoc_objs am' ! b)) = adhoc_id (am_adhoc_storage (adhoc_objs am ! b))"
    "am_client_info (adhoc_objs am' ! b) = Some j \<Longrightarrow> am_client_info (adhoc_objs am ! b) = Some j"
    if "b < length (adhoc_objs am)" for b j
    using am' that by (auto simp: adhoc_ptr_remove_client_info_def nth_through split: if_splits)
  have jobl: "job_link_ok am' m" if "m \<in> set (job_objs jm)" for m
    using job_link_ok_cong [of am am' m] l that obj(1) by (simp add: links_ok_def same)
  have "client_link_ok ?jm am' b j"
    if b: "b < length (adhoc_objs am)" and c: "am_client_info (adhoc_objs am' ! b) = Some j" for b j
  proof -
    have cl: "client_link_ok jm am b j" using l b obj(2) [OF b c] by (auto simp: links_ok_def)
    have "m_jobs ?jm (job_id (jm_job (job_objs jm ! j))) = Some j"
      if tab: "m_adhoc_storages am (adhoc_id (am_adhoc_storage (adhoc_objs am ! b))) = Some b"
    proof (cases "j = p")
      case True
      have "job_link_ok am (job_objs jm ! p)" using l plen by (rule links_okD)
      with cl True reqs obtain st where
        st: "req_adhoc_storage reqs = Some st" "adhoc_id st = adhoc_id (am_adhoc_storage (adhoc_objs am ! b))"
        by (auto simp: job_link_ok_def client_link_ok_def split: option.splits)
      then have "am_client_info (adhoc_objs am' ! b) = None"
        using tab b adhoc_remove_client_result(2) [of am "adhoc_id st" b] by (simp add: am'_def)
      with c show ?thesis by simp
    next
      case False
      with cl tab have "m_jobs jm (job_id (jm_job (job_objs jm ! j))) = Some j"
        by (simp add: client_link_ok_def)
      moreover from this have "job_id (jm_job (job_objs jm ! j)) \<noteq> k" using p False by auto
      ultimately show ?thesis by (simp add: jobs)
    qed
    with cl b show ?thesis by (simp add: client_link_ok_def jobs same obj)
  qed
  with jobl show ?thesis by (simp add: links_ok_def jobs same)
qed

section \<open>Steps\<close>

text \<open>
  A step never loses an object it made; while there are fewer than \<open>2 ^ 64\<close> objects of each kind it
  keeps the invariant, the identity of every object, and never registers an old identifier again.
\<close>

definition bounded :: "'h scord \<Rightarrow> bool" where
  "bounded s \<longleftrightarrow>
     length (job_objs (m_job_manager s)) < 2 ^ 64 \<and> length (adhoc_objs (m_adhoc_manager s)) < 2 ^ 64 \<and>
     length (pfs_objs (m_pfs_manager s)) < 2 ^ 64 \<and> length (tx_objs (m_transfer_manager s)) < 2 ^ 64"

definition grows :: "'h scord \<Rightarrow> 'h scord \<Rightarrow> bool" where
  "grows s t \<longleftrightarrow>
     length (job_objs (m_job_manager s)) \<le> length (job_objs (m_job_manager t)) \<and>
     length (adhoc_objs (m_adhoc_manager s)) \<le> length (adhoc_objs (m_adhoc_manager t)) \<and>
     length (pfs_objs (m_pfs_manager s)) \<le> length (pfs_objs (m_pfs_manager t)) \<and>
     length (tx_objs (m_transfer_manager s)) \<le> length (tx_objs (m_transfer_manager t))"

definition scord_keeps :: "'h scord \<Rightarrow> 'h scord \<Rightarrow> bool" where
  "scord_keeps s t \<longleftrightarrow>
     job_reg.keeps (m_job_manager s) (m_job_manager t) \<and>
     adhoc_reg.keeps (m_adhoc_manager s) (m_adhoc_manager t) \<and>
     pfs_reg.keeps (m_pfs_manager s) (m_pfs_manager t) \<and>
     transfer_reg.keeps (m_transfer_manager s) (m_transfer_manager t)"

definition ok_step :: "'h scord \<Rightarrow> 'h scord \<Rightarrow> bool" where
  "ok_step s t \<longleftrightarrow>
     grows s t \<and> (scord_inv s \<longrightarrow> bounded t \<longrightarrow> scord_inv t \<and> scord_keeps s t)"

lemma scord_keeps_refl [simp]: "scord_keeps s s"
  by (simp add: scord_keeps_def job_reg.keeps_refl adhoc_reg.keeps_refl pfs_reg.keeps_refl
      transfer_reg.keeps_refl)

lemma scord_keeps_trans: "scord_keeps s t \<Longrightarrow> scord_keeps t u \<Longrightarrow> scord_keeps s u"
  unfolding scord_keeps_def
  using job_reg.keeps_trans adhoc_reg.keeps_trans pfs_reg.keeps_trans transfer_reg.keeps_trans by blast

lemma grows_trans: "grows s t \<Longrightarrow> grows t u \<Longrightarrow> grows s u"
  by (auto simp: grows_def)

lemma grows_bounded: "grows s t \<Longrightarrow> bounded t \<Longrightarrow> bounded s"
  by (auto simp: grows_def bounded_def)

lemma ok_step_trans: "ok_step s t \<Longrightarrow> ok_step t u \<Longrightarrow> ok_step s u"
  unfolding ok_step_def using grows_trans grows_bounded scord_keeps_trans by blast

lemma ok_step_refl [simp]: "ok_step s s"
  by (simp add: ok_step_def grows_def)

text \<open>The fields outside the managers do not matter.\<close>

lemma ok_step_frame [simp]:
  "ok_step s (t\<lparr>sc_rpc_id := c\<rparr>) = ok_step s t"
  "ok_step s (t\<lparr>redis_log := rl\<rparr>) = ok_step s t"
  "ok_step s (t\<lparr>bw_signals := bs\<rparr>) = ok_step s t"
  "ok_step (s\<lparr>sc_rpc_id := c\<rparr>) t = ok_step s t"
  by (simp_all add: ok_step_def grows_def scord_inv_def bounded_def scord_keeps_def)

lemma ok_step_jobs:
  assumes "length (job_objs (m_job_manager s)) \<le> length (job_objs jm)"
    and "\<lbrakk>scord_inv s; length (job_objs jm) < 2 ^ 64\<rbrakk> \<Longrightarrow>
           jobs_ok jm \<and> links_ok jm (m_adhoc_manager s) \<and> job_reg.keeps (m_job_manager s) jm"
  shows "ok_step s (s\<lparr>m_job_manager := jm\<rparr>)"
  using assms
  by (auto simp: ok_step_def grows_def bounded_def scord_inv_def scord_keeps_def job_reg.keeps_refl
      adhoc_reg.keeps_refl pfs_reg.keeps_refl transfer_reg.keeps_refl)

lemma ok_step_adhocs:
  assumes "length (adhoc_objs (m_adhoc_manager s)) \<le> length (adhoc_objs am)"
    and "\<lbrakk>scord_inv s; length (adhoc_objs am) < 2 ^ 64\<rbrakk> \<Longrightarrow>
           adhoc_reg.wf am \<and> links_ok (m_job_manager s) am \<and>
           adhoc_reg.keeps (m_adhoc_manager s) am"
  shows "ok_step s (s\<lparr>m_adhoc_manager := am\<rparr>)"
  using assms
  by (auto simp: ok_step_def grows_def bounded_def scord_inv_def scord_keeps_def job_reg.keeps_refl
      adhoc_reg.keeps_refl pfs_reg.keeps_refl transfer_reg.keeps_refl)

lemma ok_step_pfs:
  assumes "length (pfs_objs (m_pfs_manager s)) \<le> length (pfs_objs pm)"
    and "\<lbrakk>scord_inv s; length (pfs_objs pm) < 2 ^ 64\<rbrakk> \<Longrightarrow>
           pfs_reg.wf pm \<and> pfs_reg.keeps (m_pfs_manager s) pm"
  shows "ok_step s (s\<lparr>m_pfs_manager := pm\<rparr>)"
  using assms
  by (auto simp: ok_step_def grows_def bounded_def scord_inv_def scord_keeps_def job_reg.keeps_refl
      adhoc_reg.keeps_refl pfs_reg.keeps_refl transfer_reg.keeps_refl)

lemma ok_step_transfers:
  assumes "length (tx_objs (m_transfer_manager s)) \<le> length (tx_objs tm)"
    and "\<lbrakk>scord_inv s; length (tx_objs tm) < 2 ^ 64\<rbrakk> \<Longrightarrow>
           transfer_reg.wf tm \<and> limits_ok tm \<and> transfer_reg.keeps (m_transfer_manager s) tm"
  shows "ok_step s (s\<lparr>m_transfer_manager := tm\<rparr>)"
  using assms
  by (auto simp: ok_step_def grows_def bounded_def scord_inv_def scord_keeps_def job_reg.keeps_refl
      adhoc_reg.keeps_refl pfs_reg.keeps_refl transfer_reg.keeps_refl)

subsection \<open>Each operation of a manager\<close>

lemmas keeps_ops =
  job_reg.keeps_remove job_reg.keeps_modify [of _ "(k, r)" for k r, simplified]
  adhoc_reg.keeps_remove
  adhoc_reg.keeps_modify [of _ "Change_resources k r" for k r, simplified]
  adhoc_reg.keeps_modify [of _ "Change_add_client p j" for p j, simplified]
  adhoc_reg.keeps_modify [of _ "Change_remove_client k" for k, simplified]
  pfs_reg.keeps_remove pfs_reg.keeps_modify [of _ "(k, c)" for k c, simplified]
  transfer_reg.keeps_remove transfer_reg.keeps_modify [of _ "(p, b)" for p b, simplified]

lemmas keeps_creates =
  job_reg.keeps_create [of _ "(s, r, q, a)" for s r q a, simplified]
  adhoc_reg.keeps_create [of _ "(u, t, n, c, r)" for u t n c r, simplified]
  pfs_reg.keeps_create [of _ "(t, n, c)" for t n c, simplified]
  transfer_reg.keeps_create [of _ "(h, l)" for h l, simplified]

lemma job_create_length:
  "length (job_objs jm) \<le> length (job_objs (fst (job_create sl r q a jm)))"
  by (auto simp: job_op_defs split: option.splits prod.splits)

lemma job_create_length_wf:
  "job_reg.wf jm \<Longrightarrow> length (job_objs (fst (job_create sl r q a jm))) < 2 ^ 64 \<Longrightarrow>
   unat (job_current_id jm) < 2 ^ 64 - 1"
  using job_reg.wf_length [of jm] by (simp add: job_create_fresh)

lemma update_lengths [simp]:
  "length (job_objs (fst (job_update k r jm))) = length (job_objs jm)"
  "length (job_objs (fst (job_remove k jm))) = length (job_objs jm)"
  "length (adhoc_objs (fst (adhoc_update k ar am))) = length (adhoc_objs am)"
  "length (adhoc_objs (fst (adhoc_remove k am))) = length (adhoc_objs am)"
  "length (adhoc_objs (fst (adhoc_ptr_add_client_info p j am))) = length (adhoc_objs am)"
  "length (adhoc_objs (fst (adhoc_remove_client_info k am))) = length (adhoc_objs am)"
  "length (pfs_objs (fst (pfs_update k c pm))) = length (pfs_objs pm)"
  "length (pfs_objs (fst (pfs_remove k pm))) = length (pfs_objs pm)"
  "length (tx_objs (fst (transfer_remove k tm))) = length (tx_objs tm)"
  "length (tx_objs (transfer_ptr_update p b tm)) = length (tx_objs tm)"
  by (auto simp: job_update_def job_remove_def adhoc_op_defs pfs_op_defs transfer_op_defs
      split: option.splits sum.splits)

lemma create_lengths:
  "length (adhoc_objs am) \<le> length (adhoc_objs (fst (adhoc_create u t n c r am)))"
  "length (pfs_objs pm) \<le> length (pfs_objs (fst (pfs_create pt n pc pm)))"
  "length (tx_objs tm) \<le> length (tx_objs (fst (transfer_create h l tm)))"
  by (auto simp: adhoc_op_defs pfs_op_defs transfer_op_defs split: option.splits prod.splits)

lemma ok_job_update: "ok_step s (s\<lparr>m_job_manager := fst (job_update k r (m_job_manager s))\<rparr>)"
  by (rule ok_step_jobs) (simp_all add: scord_invD jobs_ok_update links_job_update keeps_ops)

lemma ok_adhoc_update: "ok_step s (s\<lparr>m_adhoc_manager := fst (adhoc_update k r (m_adhoc_manager s))\<rparr>)"
  by (rule ok_step_adhocs) (simp_all add: scord_invD adhoc_changes links_adhoc_update keeps_ops)

lemma ok_adhoc_remove: "ok_step s (s\<lparr>m_adhoc_manager := fst (adhoc_remove k (m_adhoc_manager s))\<rparr>)"
  by (rule ok_step_adhocs) (simp_all add: scord_invD adhoc_remove_wf links_adhoc_remove keeps_ops)

lemma ok_adhoc_create:
  "ok_step s (s\<lparr>m_adhoc_manager := fst (adhoc_create u t n c r (m_adhoc_manager s))\<rparr>)"
proof (rule ok_step_adhocs)
  assume s: "scord_inv s"
    and len: "length (adhoc_objs (fst (adhoc_create u t n c r (m_adhoc_manager s)))) < 2 ^ 64"
  have wf: "adhoc_reg.wf (m_adhoc_manager s)" using s by (rule scord_invD)
  have "unat (adhoc_current_id (m_adhoc_manager s)) < 2 ^ 64 - 1"
    using len adhoc_reg.wf_length [OF wf] by (simp add: adhoc_create_fresh [OF wf])
  then show "adhoc_reg.wf (fst (adhoc_create u t n c r (m_adhoc_manager s))) \<and>
      links_ok (m_job_manager s) (fst (adhoc_create u t n c r (m_adhoc_manager s))) \<and>
      adhoc_reg.keeps (m_adhoc_manager s) (fst (adhoc_create u t n c r (m_adhoc_manager s)))"
    using s wf by (simp add: scord_invD adhoc_create_wf links_adhoc_create keeps_creates)
qed (rule create_lengths)

lemma ok_pfs_update: "ok_step s (s\<lparr>m_pfs_manager := fst (pfs_update k c (m_pfs_manager s))\<rparr>)"
  by (rule ok_step_pfs) (simp_all add: scord_invD pfs_update_wf keeps_ops)

lemma ok_pfs_remove: "ok_step s (s\<lparr>m_pfs_manager := fst (pfs_remove k (m_pfs_manager s))\<rparr>)"
  by (rule ok_step_pfs) (simp_all add: scord_invD pfs_remove_wf keeps_ops)

lemma ok_pfs_create: "ok_step s (s\<lparr>m_pfs_manager := fst (pfs_create t n c (m_pfs_manager s))\<rparr>)"
proof (rule ok_step_pfs)
  assume s: "scord_inv s" and len: "length (pfs_objs (fst (pfs_create t n c (m_pfs_manager s)))) < 2 ^ 64"
  have wf: "pfs_reg.wf (m_pfs_manager s)" using s by (rule scord_invD)
  have "unat (pfs_current_id (m_pfs_manager s)) < 2 ^ 64 - 1"
    using len pfs_reg.wf_length [OF wf] by (simp add: pfs_create_fresh [OF wf])
  then show "pfs_reg.wf (fst (pfs_create t n c (m_pfs_manager s))) \<and>
      pfs_reg.keeps (m_pfs_manager s) (fst (pfs_create t n c (m_pfs_manager s)))"
    using wf by (simp add: pfs_create_wf keeps_creates)
qed (rule create_lengths)

lemma ok_transfer_create:
  assumes "None \<notin> set l"
  shows "ok_step s (s\<lparr>m_transfer_manager := fst (transfer_create h l (m_transfer_manager s))\<rparr>)"
proof (rule ok_step_transfers)
  assume s: "scord_inv s"
    and len: "length (tx_objs (fst (transfer_create h l (m_transfer_manager s)))) < 2 ^ 64"
  have wf: "transfer_reg.wf (m_transfer_manager s)" using s by (rule scord_invD)
  have "unat (tx_current_id (m_transfer_manager s)) < 2 ^ 64 - 1"
    using len transfer_reg.wf_length [OF wf] by (simp add: transfer_create_fresh [OF wf])
  then show "transfer_reg.wf (fst (transfer_create h l (m_transfer_manager s))) \<and>
      limits_ok (fst (transfer_create h l (m_transfer_manager s))) \<and>
      transfer_reg.keeps (m_transfer_manager s) (fst (transfer_create h l (m_transfer_manager s)))"
    using wf assms scord_invD(7) [OF s]
    by (simp add: transfer_create_wf keeps_creates) (simp add: transfer_create_fresh limits_ok_def)
qed (rule create_lengths)

lemma limits_ok_update: "limits_ok tm \<Longrightarrow> limits_ok (transfer_ptr_update p b tm)"
proof -
  assume l: "limits_ok tm"
  have "tm_qos m \<in> tm_qos ` set (tx_objs tm)"
    if "m \<in> set (through p (transfer_metadata_update b) (tx_objs tm))" for m
  proof -
    have "map tm_qos (through p (transfer_metadata_update b) (tx_objs tm)) = map tm_qos (tx_objs tm)"
      by (rule map_through) simp
    then show ?thesis using that by (metis image_eqI image_set)
  qed
  with l show ?thesis by (fastforce simp: limits_ok_def transfer_ptr_update_def)
qed

lemma ok_transfer_update:
  "ok_step s (s\<lparr>m_transfer_manager := transfer_ptr_update p b (m_transfer_manager s)\<rparr>)"
  by (rule ok_step_transfers) (simp_all add: scord_invD transfer_ptr_update_wf limits_ok_update keeps_ops)

lemma remove_transfers_facts:
  "length (tx_objs (remove_transfers ks tm)) = length (tx_objs tm)"
  "transfer_reg.wf tm \<Longrightarrow> transfer_reg.wf (remove_transfers ks tm)"
  "tx_objs (remove_transfers ks tm) = tx_objs tm"
  "transfer_reg.keeps tm (remove_transfers ks tm)"
proof -
  show "length (tx_objs (remove_transfers ks tm)) = length (tx_objs tm)"
    "transfer_reg.wf tm \<Longrightarrow> transfer_reg.wf (remove_transfers ks tm)"
    "tx_objs (remove_transfers ks tm) = tx_objs tm"
    unfolding remove_transfers_def
    by (induction ks arbitrary: tm)
      (auto simp: transfer_remove_wf, auto simp: transfer_remove_def split: option.splits)
  show "transfer_reg.keeps tm (remove_transfers ks tm)"
    unfolding remove_transfers_def
  proof (induction ks arbitrary: tm)
    case (Cons k ks)
    show ?case
      using transfer_reg.keeps_trans [OF keeps_ops(9) Cons.IH] by simp
  qed (simp add: transfer_reg.keeps_refl)
qed

lemma ok_transfers_remove:
  "ok_step s (s\<lparr>m_transfer_manager := remove_transfers ks (m_transfer_manager s)\<rparr>)"
  by (rule ok_step_transfers)
    (auto simp: remove_transfers_facts limits_ok_def dest: scord_invD(5) scord_invD(7))

end
