(* ===== verification/ScordReach.thy ===== *)
theory ScordReach
  imports ScordInv
begin

text \<open>
  Every handler and every iteration of the scheduler keeps the invariant, whatever the other
  processes answer and whatever the other handlers do while one waits; so every state the daemon
  reaches has it.
\<close>

section \<open>The handlers keep the invariant\<close>

definition meanwhile_ok :: "'h world \<Rightarrow> bool" where
  "meanwhile_ok w \<longleftrightarrow> (\<forall>u. ok_step u (w_meanwhile w u))"

lemma meanwhileD: "meanwhile_ok w \<Longrightarrow> ok_step s u \<Longrightarrow> ok_step s (w_meanwhile w u)"
  unfolding meanwhile_ok_def using ok_step_trans by blast

lemma enter_step: "ok_step (s\<lparr>sc_rpc_id := c\<rparr>) t \<Longrightarrow> ok_step s t"
  by simp

lemma enter_split: "(case enter f w s of (s', r) \<Rightarrow> P s' r) =
    P (s\<lparr>sc_rpc_id := sc_rpc_id s + 1\<rparr>) (snd (enter f w s))"
  by (simp add: case_prod_beta)

lemma hmset_step: "ok_step s (fst (hmset w k kvs s))"
  by (simp add: hmset_def)

lemmas handler_simps = enter_split Let_def case_prod_beta enter_simps

lemma ping_step: "ok_step s (fst (h_ping w s))"
  by (simp add: h_ping_def handler_simps)

lemma query_step: "ok_step s (fst (h_query w k s))"
  by (auto simp: h_query_def handler_simps split: sum.splits)

lemma update_job_step: "ok_step s (fst (h_update_job w k r s))"
  unfolding h_update_job_def handler_simps fst_conv
  by (rule enter_step) (rule ok_job_update)

lemma remove_job_step: "ok_step s (fst (h_remove_job w k s))"
proof -
  define s1 where "s1 = s\<lparr>sc_rpc_id := sc_rpc_id s + 1\<rparr>"
  let ?jm = "fst (job_remove k (m_job_manager s1))"
  have grow: "grows s1 (s1\<lparr>m_job_manager := ?jm\<rparr>)" "grows s1 (s1\<lparr>m_job_manager := ?jm,
      m_adhoc_manager := fst (adhoc_remove_client_info i (m_adhoc_manager s1))\<rparr>)" for i
    by (simp_all add: grows_def)
  have "ok_step s1 (fst (h_remove_job w k s))"
  proof (cases "m_jobs (m_job_manager s1) k")
    case None
    then have "fst (h_remove_job w k s) = s1"
      by (simp add: h_remove_job_def handler_simps job_remove_def s1_def)
    then show ?thesis by simp
  next
    case (Some p)
    have objs: "job_objs ?jm = job_objs (m_job_manager s1)" by (simp add: job_remove_def Some)
    show ?thesis
    proof (cases "jm_requirements (job_objs (m_job_manager s1) ! p)")
      case None
      have "\<not> scord_inv s1"
      proof
        assume s: "scord_inv s1"
        then have "p < length (job_objs (m_job_manager s1))"
          using Some job_reg.wf_pointer scord_invD(2) by blast
        with s None show False
          using links_okD(1) [OF scord_invD(6) [OF s]] by (fastforce simp: job_link_ok_def)
      qed
      moreover have "fst (h_remove_job w k s) = s1\<lparr>m_job_manager := ?jm\<rparr>"
        using Some None objs by (simp add: h_remove_job_def handler_simps s1_def job_remove_def)
      ultimately show ?thesis using grow(1) by (simp add: ok_step_def)
    next
      case (Some reqs)
      let ?am = "case req_adhoc_storage reqs of None \<Rightarrow> m_adhoc_manager s1
        | Some st \<Rightarrow> fst (adhoc_remove_client_info (adhoc_id st) (m_adhoc_manager s1))"
      have t: "fst (h_remove_job w k s) = s1\<lparr>m_job_manager := ?jm, m_adhoc_manager := ?am\<rparr>"
        using \<open>m_jobs (m_job_manager s1) k = Some p\<close> Some objs
        by (auto simp: h_remove_job_def handler_simps s1_def job_remove_def split: option.split)
      have "links_ok ?jm ?am \<and> jobs_ok ?jm \<and> adhoc_reg.wf ?am" if s: "scord_inv s1"
        using links_job_remove [OF scord_invD(6,3,2) [OF s] \<open>m_jobs (m_job_manager s1) k = Some p\<close> Some]
          jobs_ok_remove [OF scord_invD(1) [OF s]] scord_invD(3) [OF s]
        by (auto simp: adhoc_changes split: option.split)
      then have "scord_inv (s1\<lparr>m_job_manager := ?jm, m_adhoc_manager := ?am\<rparr>)" if "scord_inv s1"
        using that by (simp add: scord_inv_def)
      moreover have "scord_keeps s1 (s1\<lparr>m_job_manager := ?jm, m_adhoc_manager := ?am\<rparr>)"
        by (simp add: scord_keeps_def keeps_ops adhoc_reg.keeps_refl pfs_reg.keeps_refl
            transfer_reg.keeps_refl split: option.split)
      moreover have "grows s1 (s1\<lparr>m_job_manager := ?jm, m_adhoc_manager := ?am\<rparr>)"
        using grow by (simp add: grows_def split: option.split)
      ultimately show ?thesis unfolding t ok_step_def by blast
    qed
  qed
  then show ?thesis unfolding s1_def by simp
qed

lemma register_job_adhoc_link:
  assumes "adhoc_reg.wf (m_adhoc_manager s)" "register_job_adhoc reqs s = Inr ap"
  shows "job_link_ok (m_adhoc_manager s) (mk_job_metadata j res reqs ap)"
proof (cases "req_adhoc_storage reqs")
  case None
  with assms(2) show ?thesis by (simp add: register_job_adhoc_def job_link_ok_def)
next
  case (Some st)
  with assms(2) obtain a where "ap = Some a" "m_adhoc_storages (m_adhoc_manager s) (adhoc_id st) = Some a"
    by (cases "m_adhoc_storages (m_adhoc_manager s) (adhoc_id st)")
      (auto simp: register_job_adhoc_def adhoc_find_def)
  with adhoc_reg.wf_pointer [OF assms(1)] Some show ?thesis by (simp add: job_link_ok_def)
qed

lemma register_job_core:
  assumes ap: "register_job_adhoc reqs s = Inr ap"
    and jm: "job_create sl res reqs ap (m_job_manager s) = (jm, Inr p)"
  shows "ok_step s (register_job_client ap p (s\<lparr>m_job_manager := jm\<rparr>))" (is "ok_step s ?t")
proof -
  have jm_def: "jm = fst (job_create sl res reqs ap (m_job_manager s))" by (simp add: jm)
  have "grows s ?t"
    using job_create_length [of "m_job_manager s" sl res reqs ap]
    by (simp add: grows_def register_job_client_def jm split: option.split)
  moreover have "scord_inv ?t \<and> scord_keeps s ?t" if s: "scord_inv s" and b: "bounded ?t"
  proof -
    have wf: "job_reg.wf (m_job_manager s)" using s by (rule scord_invD)
    have link: "job_link_ok (m_adhoc_manager s) (mk_job_metadata j res reqs ap)" for j
      using register_job_adhoc_link [OF scord_invD(3) [OF s] ap] .
    have l: "links_ok jm (m_adhoc_manager s)"
      unfolding jm_def using scord_invD(6) [OF s] wf link by (rule links_job_create)
    have len: "length (job_objs jm) < 2 ^ 64"
      using b by (simp add: bounded_def register_job_client_def split: option.splits)
    then have ok: "jobs_ok jm"
      using job_create_length_wf [OF wf] jobs_ok_create [OF scord_invD(1) [OF s]] by (simp add: jm_def)
    have client: "client_link_ok jm (m_adhoc_manager s) a p" if "ap = Some a" for a
      using jm that by (auto simp: job_create_fresh [OF wf] client_link_ok_def nth_append)
    have "links_ok jm (m_adhoc_manager ?t)"
      using l client by (auto simp: register_job_client_def intro: links_add_client split: option.split)
    then have "scord_inv ?t"
      using s ok scord_invD(3) [OF s]
      by (auto simp: scord_inv_def register_job_client_def adhoc_changes split: option.splits)
    moreover have "scord_keeps s ?t"
      using keeps_creates(1) [OF wf] job_create_length_wf [OF wf len [unfolded jm_def]]
      by (simp add: scord_keeps_def register_job_client_def keeps_ops adhoc_reg.keeps_refl
          pfs_reg.keeps_refl transfer_reg.keeps_refl jm_def split: option.split)
    ultimately show ?thesis ..
  qed
  ultimately show ?thesis by (simp add: ok_step_def)
qed

lemma register_job_fail:
  assumes "job_create sl res reqs ap (m_job_manager s) = (jm, Inl ec)"
  shows "ok_step s (s\<lparr>m_job_manager := jm\<rparr>)"
proof (rule ok_step_jobs)
  show "length (job_objs (m_job_manager s)) \<le> length (job_objs jm)"
    using job_create_length [of "m_job_manager s" sl res reqs ap] assms by simp
  show "scord_inv s \<Longrightarrow>
      jobs_ok jm \<and> links_ok jm (m_adhoc_manager s) \<and> job_reg.keeps (m_job_manager s) jm"
    using assms job_create_fresh [OF scord_invD(2), of s sl res reqs ap] by simp
qed

lemma register_job_redis_step: "ok_step s (fst (register_job_redis w j sl reqs s))"
  by (auto simp: register_job_redis_def Let_def hmset_step split: option.split sum.split)

lemma register_job_step: "ok_step s (fst (h_register_job w res reqs sl s))"
proof -
  define s1 where "s1 = s\<lparr>sc_rpc_id := sc_rpc_id s + 1\<rparr>"
  have "ok_step s1 (fst (h_register_job w res reqs sl s))"
  proof (cases "register_job_adhoc reqs s1")
    case (Inl ec)
    then show ?thesis by (simp add: h_register_job_def handler_simps s1_def)
  next
    case ap: (Inr ap)
    obtain jm r where jm: "job_create sl res reqs ap (m_job_manager s1) = (jm, r)" by force
    show ?thesis
    proof (cases r)
      case (Inl ec)
      then show ?thesis
        using register_job_fail [of sl res reqs ap s1 jm ec] jm ap
        by (simp add: h_register_job_def handler_simps s1_def)
    next
      case (Inr p)
      define s2 where "s2 = register_job_client ap p (s1\<lparr>m_job_manager := jm\<rparr>)"
      define j where "j = job_id (jm_job (job_objs (m_job_manager s2) ! p))"
      have "ok_step s1 s2" unfolding s2_def using ap jm Inr by (intro register_job_core) auto
      moreover have "fst (h_register_job w res reqs sl s) =
          (if m_redis s2 then fst (register_job_redis w j sl reqs s2) else s2)"
        using ap jm Inr
        by (auto simp: h_register_job_def handler_simps s1_def s2_def j_def split: sum.splits)
      ultimately show ?thesis
        using ok_step_trans [OF \<open>ok_step s1 s2\<close> register_job_redis_step [of s2 w j sl reqs]] by simp
    qed
  qed
  then show ?thesis unfolding s1_def by simp
qed

lemma register_adhoc_step: "ok_step s (fst (h_register_adhoc_storage w n t c r s))"
proof -
  have "fst (h_register_adhoc_storage w n t c r s) =
    (s\<lparr>sc_rpc_id := sc_rpc_id s + 1\<rparr>)\<lparr>m_adhoc_manager :=
       fst (adhoc_create (w_random w) t n c r (m_adhoc_manager (s\<lparr>sc_rpc_id := sc_rpc_id s + 1\<rparr>)))\<rparr>"
    by (simp add: h_register_adhoc_storage_def handler_simps split: sum.split)
  then show ?thesis by (metis ok_adhoc_create enter_step)
qed

lemma update_helper_step: "meanwhile_ok w \<Longrightarrow> ok_step s (fst (update_helper w e p s))"
  by (auto simp: update_helper_def handler_simps meanwhileD split: option.split)

lemma update_adhoc_step:
  assumes "meanwhile_ok w"
  shows "ok_step s (fst (h_update_adhoc_storage w k r s))"
proof -
  define s1 where "s1 = s\<lparr>sc_rpc_id := sc_rpc_id s + 1\<rparr>"
  define s2 where "s2 = s1\<lparr>m_adhoc_manager := fst (adhoc_update k r (m_adhoc_manager s1))\<rparr>"
  have s2: "ok_step s1 s2" unfolding s2_def by (rule ok_adhoc_update)
  have helper: "ok_step s1 (fst (update_helper w e p s2))" for e p
    using s2 update_helper_step [OF assms] by (rule ok_step_trans)
  have "ok_step s1 (fst (h_update_adhoc_storage w k r s))"
    unfolding h_update_adhoc_storage_def handler_simps s1_def [symmetric] s2_def [symmetric] fst_conv
    using s2 helper by (simp split: sum.split)
  then show ?thesis unfolding s1_def by simp
qed

lemma remove_adhoc_step: "ok_step s (fst (h_remove_adhoc_storage w k s))"
  unfolding h_remove_adhoc_storage_def handler_simps fst_conv
  by (rule enter_step) (rule ok_adhoc_remove)

lemma deploy_helper_step: "meanwhile_ok w \<Longrightarrow> ok_step s (fst (deploy_helper w rpc p s))"
  by (auto simp: deploy_helper_def handler_simps meanwhileD split: option.split sum.split)

lemma terminate_helper_step: "meanwhile_ok w \<Longrightarrow> ok_step s (fst (terminate_helper w rpc p s))"
  by (auto simp: terminate_helper_def handler_simps meanwhileD split: option.split)

lemma deploy_step:
  assumes "meanwhile_ok w"
  shows "ok_step s (fst (h_deploy_adhoc_storage w k s))"
proof -
  define s1 where "s1 = s\<lparr>sc_rpc_id := sc_rpc_id s + 1\<rparr>"
  define rpc where "rpc = snd (enter ''deploy_adhoc_storage'' w s)"
  obtain s2 rv where sr: "(case adhoc_find k (m_adhoc_manager s1) of
      Inl ec \<Rightarrow> (s1, Inr (Inl ec)) | Inr p \<Rightarrow> deploy_helper w rpc p s1) = (s2, rv)" by force
  then have "ok_step s1 s2"
    using deploy_helper_step [OF assms, of s1 rpc] by (auto split: sum.splits) (metis fst_conv)
  then have "ok_step s1 (fst (h_deploy_adhoc_storage w k s))"
    unfolding h_deploy_adhoc_storage_def enter_split s1_def [symmetric] rpc_def [symmetric] sr
      Let_def prod.case
    by (auto simp: hmset_def split: sum.split)
  then show ?thesis unfolding s1_def by simp
qed

lemma terminate_step:
  assumes "meanwhile_ok w"
  shows "ok_step s (fst (h_terminate_adhoc_storage w k s))"
proof -
  define s1 where "s1 = s\<lparr>sc_rpc_id := sc_rpc_id s + 1\<rparr>"
  define rpc where "rpc = snd (enter ''terminate_adhoc_storage'' w s)"
  have helper: "ok_step s1 s2" if "terminate_helper w rpc p s1 = (s2, ec)" for p s2 ec
    using terminate_helper_step [OF assms, of s1 rpc p] that by simp
  have "ok_step s1 (fst (h_terminate_adhoc_storage w k s))"
    unfolding h_terminate_adhoc_storage_def enter_split s1_def [symmetric] rpc_def [symmetric] Let_def
    by (auto simp: hmset_def dest: helper split: sum.split prod.split)
  then show ?thesis unfolding s1_def by simp
qed

lemma register_pfs_step: "ok_step s (fst (h_register_pfs_storage w n t c s))"
proof -
  have "fst (h_register_pfs_storage w n t c s) =
    (s\<lparr>sc_rpc_id := sc_rpc_id s + 1\<rparr>)\<lparr>m_pfs_manager :=
       fst (pfs_create t n c (m_pfs_manager (s\<lparr>sc_rpc_id := sc_rpc_id s + 1\<rparr>)))\<rparr>"
    by (simp add: h_register_pfs_storage_def handler_simps split: sum.split)
  then show ?thesis by (metis ok_pfs_create enter_step)
qed

lemma update_pfs_step: "ok_step s (fst (h_update_pfs_storage w k c s))"
  unfolding h_update_pfs_storage_def handler_simps fst_conv
  by (rule enter_step) (rule ok_pfs_update)

lemma remove_pfs_step: "ok_step s (fst (h_remove_pfs_storage w k s))"
  unfolding h_remove_pfs_storage_def handler_simps fst_conv
  by (rule enter_step) (rule ok_pfs_remove)

lemma limits_copied: "try_map limit_copy l = Inr l' \<Longrightarrow> l' = l \<and> None \<notin> set l"
  by (induction l arbitrary: l') (auto simp: bind_sum_eq_Inr limit_copy_Inr)

lemma transfer_datasets_step:
  assumes "meanwhile_ok w"
  shows "ok_step s (fst (h_transfer_datasets w j a b l m s))"
proof -
  define s1 where "s1 = s\<lparr>sc_rpc_id := sc_rpc_id s + 1\<rparr>"
  define s2 where "s2 = w_meanwhile w s1"
  have s2: "ok_step s1 s2" unfolding s2_def by (rule meanwhileD [OF assms]) simp
  have "fst (h_transfer_datasets w j a b l m s) = s1 \<or> fst (h_transfer_datasets w j a b l m s) = s2 \<or>
      (\<exists>h l'. try_map limit_copy l = Inr l' \<and> fst (h_transfer_datasets w j a b l m s) =
         s2\<lparr>m_transfer_manager := fst (transfer_create h l' (m_transfer_manager s2))\<rparr>)"
    unfolding h_transfer_datasets_def handler_simps s1_def s2_def
    by (auto split: sum.splits option.splits)
  then show ?thesis
    using s2 ok_step_trans [OF s2 ok_transfer_create] limits_copied [of l] unfolding s1_def by fastforce
qed

lemma query_transfer_step:
  assumes "meanwhile_ok w"
  shows "ok_step s (fst (h_query_transfer w j t s))"
  using meanwhileD [OF assms]
  by (auto simp: h_query_transfer_def handler_simps split: sum.split option.split)

lemma schedule_one_step: "ok_step s (fst (schedule_one w p s))"
proof -
  define s1 where "s1 bw = s\<lparr>m_transfer_manager := transfer_ptr_update p bw (m_transfer_manager s)\<rparr>" for bw
  have s1: "ok_step s (s1 bw)" for bw unfolding s1_def by (rule ok_transfer_update)
  have ctl: "ok_step s (fst (bw_control w h d (s1 bw)))" for h d bw
    using s1 by (auto simp: bw_control_def split: option.split)
  have "fst (schedule_one w p s) = s \<or> (\<exists>bw. fst (schedule_one w p s) = s1 bw) \<or>
      (\<exists>h d bw. fst (schedule_one w p s) = fst (bw_control w h d (s1 bw)))"
    unfolding schedule_one_def handler_simps s1_def
    by (auto split: sum.splits option.splits list.splits)
  then show ?thesis using s1 ctl by auto
qed

lemma schedule_all_step: "ok_step s (fst (schedule_all w es vs s))"
proof (induction w es vs s rule: schedule_all.induct)
  case (2 w tid p rest vs s)
  show ?case
  proof (cases "schedule_one w p s")
    case (Pair s' r)
    then have "ok_step s s'" using schedule_one_step [of s w p] by simp
    with Pair 2 show ?thesis by (cases r) (auto intro: ok_step_trans)
  qed
qed simp

lemma scheduler_step: "ok_step s (fst (scheduler_iteration w s))"
proof -
  obtain s' r where sr: "schedule_all w (table_entries (w_order w) (m_transfer (m_transfer_manager s))) [] s
      = (s', r)" by force
  then have "ok_step s s'" using schedule_all_step by (metis fst_conv)
  with sr show ?thesis
    by (auto simp: scheduler_iteration_def intro: ok_step_trans ok_transfers_remove split: sum.split)
qed

lemma reply_with_fst [simp]: "fst (reply_with f x) = fst x"
  by (simp add: reply_with_def)

lemma handle_step: "meanwhile_ok w \<Longrightarrow> ok_step s (fst (handle w r s))"
  by (cases r)
    (simp_all add: ping_step query_step register_job_step update_job_step remove_job_step
      register_adhoc_step update_adhoc_step remove_adhoc_step deploy_step terminate_step
      register_pfs_step update_pfs_step remove_pfs_step transfer_datasets_step query_transfer_step)

section \<open>Reachable states\<close>

text \<open>
  From a state, the daemon handles a request or runs the scheduler. What happens while a handler
  waits is itself a run, from whatever state the handler left.
\<close>

inductive runs :: "'h scord \<Rightarrow> 'h scord \<Rightarrow> bool" where
  runs_refl: "runs s s"
| runs_handle: "runs s t \<Longrightarrow> (\<And>u. runs u (w_meanwhile w u)) \<Longrightarrow> runs s (fst (handle w r t))"
| runs_scheduler: "runs s t \<Longrightarrow> runs s (fst (scheduler_iteration w t))"

lemma runs_trans: "runs t u \<Longrightarrow> runs s t \<Longrightarrow> runs s u"
  by (induction rule: runs.induct) (auto intro: runs.intros)

definition reachable :: "bool \<Rightarrow> 'h scord \<Rightarrow> bool" where
  "reachable redis s \<longleftrightarrow> runs (initial_scord redis) s"

lemma reachable_initial [simp]: "reachable r (initial_scord r)"
  by (simp add: reachable_def runs_refl)

lemma runs_ok_step: "runs s t \<Longrightarrow> ok_step s t"
proof (induction rule: runs.induct)
  case (runs_handle s t w r)
  then have "meanwhile_ok w" by (simp add: meanwhile_ok_def)
  with runs_handle.IH(1) show ?case by (auto intro: ok_step_trans handle_step)
qed (auto intro: ok_step_trans scheduler_step)

lemma reachable_inv: "reachable r s \<Longrightarrow> bounded s \<Longrightarrow> scord_inv s"
  using runs_ok_step [of "initial_scord r" s] by (auto simp: reachable_def ok_step_def)

lemma runs_keeps:
  "reachable r s \<Longrightarrow> runs s t \<Longrightarrow> bounded t \<Longrightarrow> scord_inv s \<and> scord_inv t \<and> scord_keeps s t"
  using runs_ok_step [of s t] reachable_inv [of r s] grows_bounded [of s t] by (auto simp: ok_step_def)

text \<open>A world in which nobody else does anything.\<close>

lemma reachable_handle:
  "reachable r s \<Longrightarrow> (\<And>u. w_meanwhile w u = u) \<Longrightarrow> reachable r (fst (handle w q s))"
  unfolding reachable_def using runs_handle [of "initial_scord r" s w q] runs_refl by metis

end
