(* ===== verification/ScordProps.thy ===== *)
theory ScordProps
  imports ScordReach
begin

text \<open>
  What the daemon promises its clients, handler by handler, in every reachable state, and where it
  does not keep it. The witnesses run the handlers in \<open>quiet_world\<close>, where every other process answers
  and no other handler runs.
\<close>

definition quiet_world :: "nat world" where
  "quiet_world =
     \<lparr>w_address = ''client'', w_logging = True, w_now = 7, w_random = ''r'', w_lookup = (\<lambda>_. True),
      w_ctl_update = (\<lambda>_ _ _ _ _. Some (mk_response 0 ADM_SUCCESS)),
      w_ctl_deploy = (\<lambda>_ _ _ _ _. Some (mk_response_with 0 ADM_SUCCESS (Some ''/mnt''))),
      w_ctl_terminate = (\<lambda>_ _ _ _. Some (mk_response 0 ADM_SUCCESS)),
      w_redis_ok = True, w_cargo_transfer = (\<lambda>_ _ _. Some 0),
      w_cargo_status = (\<lambda>_. Some (cargo_completed, 50)), w_cargo_state_code = (\<lambda>_. 2),
      w_cargo_bw_control = (\<lambda>_ _. True), w_round = (\<lambda>x. x), w_order = [0], w_meanwhile = (\<lambda>s. s)\<rparr>"

definition demo_ctx :: adhoc_ctx where
  "demo_ctx =
     \<lparr>controller_address = ''ctl'', data_stager_address = ''stager'', exec_mode = mode_in_job_shared,
      ctx_access_type = access_read_write, walltime = 10, should_flush = False\<rparr>"

definition demo_adhoc :: adhoc_storage where
  "demo_adhoc =
     \<lparr>adhoc_kind = adhoc_gekkofs, adhoc_name = ''a'', adhoc_id = 0, adhoc_context = demo_ctx,
      adhoc_res = \<lparr>adhoc_nodes = []\<rparr>\<rparr>"

definition demo_reqs :: "adhoc_storage option \<Rightarrow> job_requirements" where
  "demo_reqs a = \<lparr>req_inputs = [], req_outputs = [], req_expected_outputs = [], req_adhoc_storage = a\<rparr>"

definition demo_res :: job_resources where
  "demo_res = \<lparr>job_nodes = [mk_node ''n0'', mk_node ''n1'']\<rparr>"

text \<open>One adhoc storage registered; then one job that uses it.\<close>

definition demo_state :: "bool \<Rightarrow> nat scord" where
  "demo_state r =
     fst (handle quiet_world
       (Req_register_adhoc_storage ''a'' adhoc_gekkofs demo_ctx \<lparr>adhoc_nodes = []\<rparr>) (initial_scord r))"

definition demo_job_state :: "bool \<Rightarrow> nat scord" where
  "demo_job_state r =
     fst (handle quiet_world (Req_register_job demo_res (demo_reqs (Some demo_adhoc)) 42) (demo_state r))"

lemma quiet_world_simps [simp]:
  "w_meanwhile quiet_world u = u" "w_redis_ok quiet_world" "w_lookup quiet_world x"
  "w_logging quiet_world" "w_random quiet_world = ''r''"
  "w_ctl_update quiet_world a b c d e = Some (mk_response 0 ADM_SUCCESS)"
  "w_ctl_deploy quiet_world a b c d e = Some (mk_response_with 0 ADM_SUCCESS (Some ''/mnt''))"
  "w_ctl_terminate quiet_world a b c d = Some (mk_response 0 ADM_SUCCESS)"
  "w_cargo_transfer quiet_world a i j = Some 0"
  "w_cargo_status quiet_world h = Some (cargo_completed, 50)"
  "w_cargo_bw_control quiet_world h n" "w_order quiet_world = [0]"
  by (simp_all add: quiet_world_def)

lemma reachable_demo [simp]: "reachable r (demo_state r)" "reachable r (demo_job_state r)"
proof -
  show 1: "reachable r (demo_state r)"
    unfolding demo_state_def by (rule reachable_handle) simp_all
  show "reachable r (demo_job_state r)"
    unfolding demo_job_state_def by (rule reachable_handle [OF 1]) simp
qed

lemmas initial_defs = initial_scord_def empty_job_manager_def empty_adhoc_manager_def
  empty_pfs_manager_def empty_transfer_manager_def

lemma demo_state_eq:
  "demo_state r = (initial_scord r)\<lparr>sc_rpc_id := 1,
     m_adhoc_manager := \<lparr>m_adhoc_storages = [0 \<mapsto> 0], adhoc_current_id = 1,
       adhoc_objs = [mk_adhoc_storage_metadata ''gekkofs-r'' demo_adhoc]\<rparr>\<rparr>"
  by (simp add: demo_state_def h_register_adhoc_storage_def handler_simps adhoc_op_defs initial_defs
      emplace_absent generate_adhoc_uuid_def demo_adhoc_def)

lemma demo_state_simps [simp]:
  "m_adhoc_manager (demo_state r) = \<lparr>m_adhoc_storages = [0 \<mapsto> 0], adhoc_current_id = 1,
       adhoc_objs = [mk_adhoc_storage_metadata ''gekkofs-r'' demo_adhoc]\<rparr>"
  "m_job_manager (demo_state r) = empty_job_manager" "m_redis (demo_state r) = r"
  "m_pfs_manager (demo_state r) = empty_pfs_manager"
  "m_transfer_manager (demo_state r) = empty_transfer_manager"
  by (simp_all add: demo_state_eq initial_scord_def)

lemma demo_adhoc_simps [simp]: "adhoc_id demo_adhoc = 0" "req_adhoc_storage (demo_reqs a) = a"
  by (simp_all add: demo_adhoc_def demo_reqs_def)

lemma demo_bounded [simp]: "bounded (demo_state r)"
  by (simp add: bounded_def initial_defs)

text \<open>What registering a job does, when it gets as far as creating it.\<close>

definition redis_fine :: "'h world \<Rightarrow> job_requirements \<Rightarrow> 'h scord \<Rightarrow> bool" where
  "redis_fine w reqs s \<longleftrightarrow> (m_redis s \<longrightarrow> w_redis_ok w \<and> req_adhoc_storage reqs \<noteq> None)"

lemma register_client_frame [simp]:
  "m_job_manager (register_job_client ap p s) = m_job_manager s"
  "m_redis (register_job_client ap p s) = m_redis s"
  "m_pfs_manager (register_job_client ap p s) = m_pfs_manager s"
  "m_transfer_manager (register_job_client ap p s) = m_transfer_manager s"
  "m_adhoc_storages (m_adhoc_manager (register_job_client ap p s)) = m_adhoc_storages (m_adhoc_manager s)"
  by (simp_all add: register_job_client_def adhoc_ptr_add_client_info_def split: option.split)

lemma register_job_creates:
  assumes inv: "scord_inv s" and ap: "register_job_adhoc reqs s = Inr ap" and r: "redis_fine w reqs s"
  shows "\<exists>t. h_register_job w res reqs sl s =
      (t, Inr (mk_response_with (sc_rpc_id s) ADM_SUCCESS (Some (job_current_id (m_job_manager s))))) \<and>
    m_job_manager t = fst (job_create sl res reqs ap (m_job_manager s)) \<and>
    m_adhoc_manager t =
      m_adhoc_manager (register_job_client ap (length (job_objs (m_job_manager s))) s) \<and>
    m_pfs_manager t = m_pfs_manager s \<and> m_transfer_manager t = m_transfer_manager s \<and>
    m_redis t = m_redis s"
proof -
  have wf: "job_reg.wf (m_job_manager s)" using inv by (rule scord_invD)
  let ?s1 = "s\<lparr>sc_rpc_id := sc_rpc_id s + 1,
    m_job_manager := fst (job_create sl res reqs ap (m_job_manager s))\<rparr>"
  let ?p = "length (job_objs (m_job_manager s))"
  let ?j = "job_current_id (m_job_manager s)"
  define s2 where "s2 = register_job_client ap ?p ?s1"
  have ap': "register_job_adhoc reqs (s\<lparr>sc_rpc_id := c\<rparr>) = Inr ap" for c
    using ap by (cases "req_adhoc_storage reqs") (simp_all add: register_job_adhoc_def)
  have h: "h_register_job w res reqs sl s =
    (if m_redis s2
     then (case register_job_redis w ?j sl reqs s2 of
             (s, Inl e) \<Rightarrow> (s, Inl e)
           | (s, Inr _) \<Rightarrow> (s, Inr (mk_response_with (sc_rpc_id s2 - 1) ADM_SUCCESS (Some ?j))))
     else (s2, Inr (mk_response_with (sc_rpc_id s2 - 1) ADM_SUCCESS (Some ?j))))"
    by (simp add: h_register_job_def enter_split Let_def ap' job_create_fresh [OF wf] s2_def
        register_job_client_def split: option.split)
  have redis: "\<exists>l. register_job_redis w ?j sl reqs s2 = (s2\<lparr>redis_log := l\<rparr>, Inr ())" if "m_redis s2"
  proof -
    have "m_redis s" using that by (simp add: s2_def)
    with r obtain st where st: "req_adhoc_storage reqs = Some st" "w_redis_ok w"
      by (auto simp: redis_fine_def)
    with ap obtain a where "m_adhoc_storages (m_adhoc_manager s) (adhoc_id st) = Some a"
      by (cases "m_adhoc_storages (m_adhoc_manager s) (adhoc_id st)")
        (auto simp: register_job_adhoc_def adhoc_find_def)
    with st show ?thesis
      by (auto simp: register_job_redis_def adhoc_find_def Let_def hmset_def s2_def)
  qed
  have "sc_rpc_id s2 = sc_rpc_id s + 1"
    "m_adhoc_manager s2 = m_adhoc_manager (register_job_client ap ?p s)"
    by (simp_all add: s2_def register_job_client_def split: option.split)
  then show ?thesis
    using redis by (cases "m_redis s2") (auto simp: h, auto simp: s2_def)
qed

lemma register_job_adhoc_known:
  "register_job_adhoc reqs s = Inr ap \<longleftrightarrow>
     (case req_adhoc_storage reqs of
        None \<Rightarrow> ap = None
      | Some st \<Rightarrow> (\<exists>a. m_adhoc_storages (m_adhoc_manager s) (adhoc_id st) = Some a \<and> ap = Some a))"
  by (auto simp: register_job_adhoc_def adhoc_find_def split: option.split)

lemma demo_job_state_simps [simp]:
  "m_job_manager (demo_job_state r) = \<lparr>m_jobs = [0 \<mapsto> 0], m_slurm_to_scord = [42 \<mapsto> 0],
     job_current_id = 1,
     job_objs = [mk_job_metadata \<lparr>job_id = 0, job_slurm_id = 42\<rparr> demo_res
       (demo_reqs (Some demo_adhoc)) (Some 0)]\<rparr>"
  "m_adhoc_manager (demo_job_state r) = \<lparr>m_adhoc_storages = [0 \<mapsto> 0], adhoc_current_id = 1,
     adhoc_objs = [(mk_adhoc_storage_metadata ''gekkofs-r'' demo_adhoc)\<lparr>am_client_info := Some 0\<rparr>]\<rparr>"
  "m_pfs_manager (demo_job_state r) = empty_pfs_manager"
  "m_transfer_manager (demo_job_state r) = empty_transfer_manager"
  "m_redis (demo_job_state r) = r"
proof -
  have inv: "scord_inv (demo_state r)" by (rule reachable_inv [OF reachable_demo(1) demo_bounded])
  have ap: "register_job_adhoc (demo_reqs (Some demo_adhoc)) (demo_state r) = Inr (Some 0)"
    by (simp add: register_job_adhoc_known)
  have r: "redis_fine quiet_world (demo_reqs (Some demo_adhoc)) (demo_state r)"
    by (simp add: redis_fine_def)
  from register_job_creates [OF inv ap r, of demo_res 42] obtain t where
    t: "h_register_job quiet_world demo_res (demo_reqs (Some demo_adhoc)) 42 (demo_state r) =
      (t, Inr (mk_response_with (sc_rpc_id (demo_state r)) ADM_SUCCESS (Some 0)))"
    "m_job_manager t = fst (job_create 42 demo_res (demo_reqs (Some demo_adhoc)) (Some 0)
       (m_job_manager (demo_state r)))"
    "m_adhoc_manager t = m_adhoc_manager (register_job_client (Some 0) 0 (demo_state r))"
    "m_pfs_manager t = empty_pfs_manager" "m_transfer_manager t = empty_transfer_manager"
    "m_redis t = r"
    by (auto simp: initial_defs)
  have "demo_job_state r = t" by (simp add: demo_job_state_def t(1))
  with t show "m_job_manager (demo_job_state r) = \<lparr>m_jobs = [0 \<mapsto> 0], m_slurm_to_scord = [42 \<mapsto> 0],
     job_current_id = 1,
     job_objs = [mk_job_metadata \<lparr>job_id = 0, job_slurm_id = 42\<rparr> demo_res
       (demo_reqs (Some demo_adhoc)) (Some 0)]\<rparr>"
    "m_adhoc_manager (demo_job_state r) = \<lparr>m_adhoc_storages = [0 \<mapsto> 0], adhoc_current_id = 1,
     adhoc_objs = [(mk_adhoc_storage_metadata ''gekkofs-r'' demo_adhoc)\<lparr>am_client_info := Some 0\<rparr>]\<rparr>"
    "m_pfs_manager (demo_job_state r) = empty_pfs_manager"
    "m_transfer_manager (demo_job_state r) = empty_transfer_manager"
    "m_redis (demo_job_state r) = r"
    by (simp_all add: initial_defs job_op_defs emplace_absent register_job_client_def
        adhoc_ptr_add_client_info_def am_add_client_info_def through_def deref_def assign_def
        mk_adhoc_storage_metadata_def)
qed

lemma demo_job_bounded [simp]: "bounded (demo_job_state r)"
  by (simp add: bounded_def initial_defs)

end
