(* ===== verification/JobClaims.thy ===== *)
theory JobClaims
  imports ScordProps
begin

text \<open>The promises about jobs: registering, finding, updating, removing and querying them.\<close>

lemma redis_fine_demo [simp]: "redis_fine quiet_world (demo_reqs (Some demo_adhoc)) s"
  by (simp add: redis_fine_def)

lemma initial_facts: "bounded (initial_scord r)" "m_redis (initial_scord r) = r"
  by (simp_all add: bounded_def initial_defs)

lemma reachable_bounded_inv: "reachable r s \<Longrightarrow> bounded s \<Longrightarrow> scord_inv s"
  by (rule reachable_inv)

section \<open>The state\<close>

text \<open>C1: in every state the daemon reaches (whatever requests arrive, whatever the
  other processes answer, whatever runs while a handler waits), the tables and the objects are
  consistent: every table entry points at the object with that identifier, the Slurm index leads to
  registered jobs with that Slurm identifier, a job holds a pointer exactly when its requirements name
  an adhoc storage and then to the right one, the client of a registered adhoc storage is a
  registered job using it, and no stored limit is null.\<close>

theorem daemon_state_consistent:
  assumes "reachable r s" "bounded s"
  shows "scord_inv s"
  using assms by (rule reachable_bounded_inv)

theorem daemon_state_consistent_witness: "scord_inv (demo_job_state True)"
  using daemon_state_consistent [OF reachable_demo(2) demo_job_bounded] .

section \<open>Registering\<close>

text \<open>With Redis, registering a job that names no adhoc storage reads an
  empty optional, after the job has been registered.\<close>

lemma register_job_redis_without_adhoc:
  assumes "reachable r s" "bounded s" "m_redis s" "req_adhoc_storage reqs = None"
  shows "\<exists>t. h_register_job w res reqs sl s = (t, Inl Empty_optional_dereference) \<and>
    is_ok (job_find (job_current_id (m_job_manager s)) (m_job_manager t))"
proof -
  have wf: "job_reg.wf (m_job_manager s)"
    using reachable_bounded_inv [OF assms(1,2)] by (rule scord_invD)
  show ?thesis
    using assms(3,4)
    by (simp add: h_register_job_def enter_split Let_def register_job_adhoc_def register_job_client_def
        job_create_fresh [OF wf] register_job_redis_def job_find_def)
qed

text \<open>C4: Registering a job whose adhoc storage (if it names one) is registered, at a daemon whose Redis server (if it
  has one) takes the command: without Redis, or with a storage, it succeeds
  with an identifier no job ever had; the job is then found under it, with the resources,
  requirements and Slurm identifier it was registered with, and every other job is found as before. With Redis a job
  that names no storage makes the handler read an empty optional, after the job has been registered.\<close>

theorem registered_job_found:
  assumes "reachable r s" "bounded s"
    and "\<forall>st. req_adhoc_storage reqs = Some st \<longrightarrow>
      is_ok (adhoc_find (adhoc_id st) (m_adhoc_manager s))"
    and "m_redis s \<longrightarrow> w_redis_ok w"
  shows "if m_redis s \<and> req_adhoc_storage reqs = None
    then \<exists>t. h_register_job w res reqs sl s = (t, Inl Empty_optional_dereference) \<and>
      is_ok (job_find (job_current_id (m_job_manager s)) (m_job_manager t))
    else \<exists>t jid p.
    h_register_job w res reqs sl s = (t, Inr (mk_response_with (sc_rpc_id s) ADM_SUCCESS (Some jid))) \<and>
    (\<forall>m \<in> set (job_objs (m_job_manager s)). job_id (jm_job m) \<noteq> jid) \<and>
    job_find jid (m_job_manager t) = Inr p \<and>
    jm_job (job_objs (m_job_manager t) ! p) = \<lparr>job_id = jid, job_slurm_id = sl\<rparr> \<and>
    jm_resources (job_objs (m_job_manager t) ! p) = Some res \<and>
    jm_requirements (job_objs (m_job_manager t) ! p) = Some reqs \<and>
    (\<forall>k. k \<noteq> jid \<longrightarrow> job_find k (m_job_manager t) = job_find k (m_job_manager s))"
proof (cases "m_redis s \<and> req_adhoc_storage reqs = None")
  case True
  then show ?thesis using register_job_redis_without_adhoc [OF assms(1,2)] by simp
next
  case False
  then have fine: "redis_fine w reqs s" using assms(4) by (auto simp: redis_fine_def)
  have inv: "scord_inv s" using assms(1,2) by (rule reachable_bounded_inv)
  have wf: "job_reg.wf (m_job_manager s)" using inv by (rule scord_invD)
  obtain ap where ap: "register_job_adhoc reqs s = Inr ap"
    using assms(3) by (cases "req_adhoc_storage reqs") (auto simp: register_job_adhoc_def is_ok_iff)
  let ?jid = "job_current_id (m_job_manager s)"
  have fresh: "\<forall>m \<in> set (job_objs (m_job_manager s)). job_id (jm_job m) \<noteq> ?jid"
    using job_reg.next_ident_fresh [OF wf] by blast
  from register_job_creates [OF inv ap fine, of res sl] fresh False show ?thesis
    by (auto simp: job_create_fresh [OF wf] job_find_def)
qed

theorem registered_job_found_witness:
  "\<exists>t jid p.
    h_register_job quiet_world demo_res (demo_reqs (Some demo_adhoc)) 42 (demo_state False) =
      (t, Inr (mk_response_with (sc_rpc_id (demo_state False)) ADM_SUCCESS (Some jid))) \<and>
    job_find jid (m_job_manager t) = Inr p"
  using registered_job_found [of False "demo_state False" "demo_reqs (Some demo_adhoc)" quiet_world
      demo_res 42]
  by (auto simp: adhoc_find_def)

text \<open>A job that names an adhoc storage that is not registered (never was, or
  no longer is) is refused with \<open>ADM_ENOENT\<close>, without an identifier, and nothing but the call
  counter changes.\<close>

lemma register_job_unknown_adhoc:
  assumes "req_adhoc_storage reqs = Some st" "m_adhoc_storages (m_adhoc_manager s) (adhoc_id st) = None"
  shows "h_register_job w res reqs sl s =
    (s\<lparr>sc_rpc_id := sc_rpc_id s + 1\<rparr>, Inr (mk_response_with (sc_rpc_id s) ADM_ENOENT None))"
  using assms by (simp add: h_register_job_def enter_split Let_def register_job_adhoc_def adhoc_find_def)

text \<open>Registering a job on an adhoc storage that already has a client succeeds all
  the same, and the client does not change: the code \<open>ADM_EADHOC_BUSY\<close> of \<open>add_client_info\<close> is dropped.\<close>

lemma register_job_busy_adhoc:
  assumes "reachable r s" "bounded s" "redis_fine w reqs s"
    and "req_adhoc_storage reqs = Some st" "adhoc_find (adhoc_id st) (m_adhoc_manager s) = Inr a"
    and "am_client_info (adhoc_objs (m_adhoc_manager s) ! a) = Some j"
  shows "\<exists>t jid p. h_register_job w res reqs sl s =
      (t, Inr (mk_response_with (sc_rpc_id s) ADM_SUCCESS (Some jid))) \<and>
    job_find jid (m_job_manager t) = Inr p \<and> p \<noteq> j \<and>
    jm_adhoc_metadata_ptr (job_objs (m_job_manager t) ! p) = Some a \<and>
    am_client_info (adhoc_objs (m_adhoc_manager t) ! a) = Some j \<and>
    snd (adhoc_ptr_add_client_info a p (m_adhoc_manager s)) = ADM_EADHOC_BUSY"
proof -
  have inv: "scord_inv s" using assms(1,2) by (rule reachable_bounded_inv)
  have wf: "job_reg.wf (m_job_manager s)" using inv by (rule scord_invD)
  have tab: "m_adhoc_storages (m_adhoc_manager s) (adhoc_id st) = Some a"
    using assms(5) by (simp add: adhoc_find_def split: option.splits)
  then have a: "a < length (adhoc_objs (m_adhoc_manager s))"
    using adhoc_reg.wf_pointer [OF scord_invD(3) [OF inv]] by blast
  have "client_link_ok (m_job_manager s) (m_adhoc_manager s) a j"
    using links_okD(2) [OF scord_invD(6) [OF inv] a assms(6)] .
  then have j: "j < length (job_objs (m_job_manager s))" by (simp add: client_link_ok_def)
  have ap: "register_job_adhoc reqs s = Inr (Some a)"
    using assms(4) tab by (simp add: register_job_adhoc_known)
  from register_job_creates [OF inv ap assms(3), of res sl] j a assms(6) show ?thesis
    by (auto simp: job_create_fresh [OF wf] job_find_def register_job_client_def
        adhoc_ptr_add_client_result adhoc_ptr_add_client_info_def am_add_client_info_def nth_through)
qed

section \<open>Removing\<close>

lemma remove_job_known:
  assumes "m_jobs (m_job_manager s) jid = Some p"
    and "jm_requirements (job_objs (m_job_manager s) ! p) = Some reqs"
  shows "h_remove_job w jid s =
    (s\<lparr>sc_rpc_id := sc_rpc_id s + 1, m_job_manager := fst (job_remove jid (m_job_manager s)),
       m_adhoc_manager := (case req_adhoc_storage reqs of None \<Rightarrow> m_adhoc_manager s
         | Some st \<Rightarrow> fst (adhoc_remove_client_info (adhoc_id st) (m_adhoc_manager s)))\<rparr>,
     Inr (mk_response (sc_rpc_id s) (case req_adhoc_storage reqs of None \<Rightarrow> ADM_SUCCESS
         | Some st \<Rightarrow> snd (adhoc_remove_client_info (adhoc_id st) (m_adhoc_manager s)))))"
  using assms unfolding h_remove_job_def enter_split Let_def case_prod_beta
  by (cases "req_adhoc_storage reqs") (simp_all add: job_remove_def)

lemma remove_job_jobs:
  "m_job_manager (fst (h_remove_job w k s)) = fst (job_remove k (m_job_manager s))"
proof (cases "m_jobs (m_job_manager s) k")
  case None
  then show ?thesis by (simp add: h_remove_job_def enter_split Let_def job_remove_def)
next
  case p: (Some p)
  show ?thesis
  proof (cases "jm_requirements (job_objs (m_job_manager s) ! p)")
    case None
    with p show ?thesis by (simp add: h_remove_job_def enter_split Let_def job_remove_def)
  next
    case (Some reqs)
    show ?thesis unfolding remove_job_known [OF p Some] by simp
  qed
qed

text \<open>C5: once a job is removed its identifier is unknown to every later operation,
  in every run that follows: it is never given to another job.\<close>

theorem removed_job_never_returns:
  assumes "reachable r s" "job_find jid (m_job_manager s) = Inr p"
    and "h_remove_job w jid s = (t, res)" "runs t u" "bounded u"
  shows "job_find jid (m_job_manager u) = Inl ADM_ENOENT"
proof -
  have "grows t u" using runs_ok_step [OF assms(4)] by (simp add: ok_step_def)
  then have bt: "bounded t" using assms(5) by (rule grows_bounded)
  have st: "ok_step s t" using remove_job_step [of s w jid] assms(3) by simp
  then have bs: "bounded s" using bt by (auto simp: ok_step_def intro: grows_bounded)
  have inv: "scord_inv s" using assms(1) bs by (rule reachable_bounded_inv)
  with st bt have invt: "scord_inv t" and keep: "scord_keeps s t" by (auto simp: ok_step_def)
  have reg: "m_jobs (m_job_manager s) jid = Some p"
    using assms(2) by (simp add: job_find_def split: option.splits)
  then have k: "jid < job_current_id (m_job_manager s)"
    using job_reg.wf_tab [OF scord_invD(2) [OF inv]] by blast
  have gone: "m_jobs (m_job_manager t) jid = None"
    using remove_job_jobs [of w jid s] assms(3) reg by (simp add: job_remove_def)
  have kept: "job_reg.keeps (m_job_manager t) (m_job_manager u)"
    using runs_ok_step [OF assms(4)] invt assms(5) by (simp add: ok_step_def scord_keeps_def)
  have "job_current_id (m_job_manager s) \<le> job_current_id (m_job_manager t)"
    using keep by (simp add: scord_keeps_def job_reg.keeps_def)
  with k have "jid < job_current_id (m_job_manager t)" by (rule order.strict_trans2)
  then have "m_jobs (m_job_manager u) jid = None"
    using gone by (rule job_reg.keeps_gone [OF kept])
  then show ?thesis by (simp add: job_find_def)
qed

lemma demo_job_find: "job_find 0 (m_job_manager (demo_job_state r)) = Inr 0"
  by (simp add: job_find_def)

lemma demo_remove:
  "h_remove_job quiet_world 0 (demo_job_state True) =
    (fst (h_remove_job quiet_world 0 (demo_job_state True)),
     snd (h_remove_job quiet_world 0 (demo_job_state True)))"
  by simp

lemma demo_removed_bounded: "bounded (fst (h_remove_job quiet_world 0 (demo_job_state True)))"
  by (subst remove_job_known [of _ _ 0 "demo_reqs (Some demo_adhoc)"])
    (simp_all add: bounded_def initial_defs job_remove_def)

theorem removed_job_never_returns_witness:
  "job_find 0 (m_job_manager (fst (h_remove_job quiet_world 0 (demo_job_state True)))) = Inl ADM_ENOENT"
  by (rule removed_job_never_returns [OF reachable_demo(2) demo_job_find demo_remove runs_refl
        demo_removed_bounded])

text \<open>C6: removing a registered job succeeds, and afterwards the adhoc storage its
  requirements named has no client (when it is still registered; when it is not, the answer is
  \<open>ADM_ENOENT\<close> although the job is removed).\<close>

theorem remove_job_frees_adhoc:
  assumes "reachable r s" "bounded s" "job_find jid (m_job_manager s) = Inr p"
    and "jm_requirements (job_objs (m_job_manager s) ! p) = Some reqs"
  shows "\<exists>t. h_remove_job w jid s = (t, Inr (mk_response (sc_rpc_id s)
      (case req_adhoc_storage reqs of
         None \<Rightarrow> ADM_SUCCESS
       | Some st \<Rightarrow> if is_ok (adhoc_find (adhoc_id st) (m_adhoc_manager s)) then ADM_SUCCESS
                    else ADM_ENOENT))) \<and>
    job_find jid (m_job_manager t) = Inl ADM_ENOENT \<and>
    (\<forall>k. k \<noteq> jid \<longrightarrow> job_find k (m_job_manager t) = job_find k (m_job_manager s)) \<and>
    (\<forall>st a. req_adhoc_storage reqs = Some st \<and> adhoc_find (adhoc_id st) (m_adhoc_manager t) = Inr a \<longrightarrow>
       am_client_info (adhoc_objs (m_adhoc_manager t) ! a) = None)"
proof -
  have inv: "scord_inv s" using assms(1,2) by (rule reachable_bounded_inv)
  have reg: "m_jobs (m_job_manager s) jid = Some p"
    using assms(3) by (simp add: job_find_def split: option.splits)
  have ptr: "m_adhoc_storages (m_adhoc_manager s) k = Some a \<Longrightarrow>
      a < length (adhoc_objs (m_adhoc_manager s))" for k a
    using adhoc_reg.wf_pointer [OF scord_invD(3) [OF inv]] by blast
  let ?am = "m_adhoc_manager s"
  have code: "snd (adhoc_remove_client_info k ?am) =
      (if is_ok (adhoc_find k ?am) then ADM_SUCCESS else ADM_ENOENT)" for k
    by (simp add: adhoc_remove_client_info_def split: sum.split)
  have client: "am_client_info (adhoc_objs (fst (adhoc_remove_client_info k ?am)) ! a) = None"
    if "adhoc_find k (fst (adhoc_remove_client_info k ?am)) = Inr a" for k a
  proof -
    have "m_adhoc_storages ?am k = Some a"
      using that by (auto simp: adhoc_op_defs split: option.splits sum.splits)
    then show ?thesis using adhoc_remove_client_result(2) ptr by blast
  qed
  from reg have jobs: "job_find k (fst (job_remove jid (m_job_manager s))) =
      (if k = jid then Inl ADM_ENOENT else job_find k (m_job_manager s))" for k
    by (simp add: job_remove_def job_find_def)
  show ?thesis
    unfolding remove_job_known [OF reg assms(4)]
    using client by (cases "req_adhoc_storage reqs") (simp_all add: jobs code)
qed

theorem remove_job_frees_adhoc_witness:
  "\<exists>t. h_remove_job quiet_world 0 (demo_job_state True) =
      (t, Inr (mk_response (sc_rpc_id (demo_job_state True)) ADM_SUCCESS)) \<and>
    (\<forall>a. adhoc_find 0 (m_adhoc_manager t) = Inr a \<longrightarrow>
       am_client_info (adhoc_objs (m_adhoc_manager t) ! a) = None)"
  using remove_job_frees_adhoc [OF reachable_demo(2) demo_job_bounded demo_job_find,
      where reqs = "demo_reqs (Some demo_adhoc)" and w = quiet_world and r = True]
  by (simp add: adhoc_find_def) blast

text \<open>Removing a job that is not registered answers \<open>ADM_ENOENT\<close> and changes nothing but
  the call counter; so does updating one.\<close>

lemma remove_job_unknown:
  assumes "job_find jid (m_job_manager s) = Inl ec"
  shows "h_remove_job w jid s =
      (s\<lparr>sc_rpc_id := sc_rpc_id s + 1\<rparr>, Inr (mk_response (sc_rpc_id s) ADM_ENOENT)) \<and>
    h_update_job w jid res s =
      (s\<lparr>sc_rpc_id := sc_rpc_id s + 1\<rparr>, Inr (mk_response (sc_rpc_id s) ADM_ENOENT))"
  using assms
  by (simp add: h_remove_job_def h_update_job_def enter_split Let_def job_remove_def job_update_def
      job_find_def split: option.splits)

text \<open>Removing a job takes the client away from the adhoc storage it names
  even when the client is another job that is still registered, which leaves that job on a storage
  without a client.\<close>

lemma remove_job_drops_other_client:
  assumes "reachable r s" "bounded s" "job_find jid (m_job_manager s) = Inr p"
    and "jm_requirements (job_objs (m_job_manager s) ! p) = Some reqs"
    and "req_adhoc_storage reqs = Some st" "adhoc_find (adhoc_id st) (m_adhoc_manager s) = Inr a"
    and "am_client_info (adhoc_objs (m_adhoc_manager s) ! a) = Some j" "j \<noteq> p"
  shows "\<exists>other. other \<noteq> jid \<and>
    job_find other (m_job_manager (fst (h_remove_job w jid s))) = Inr j \<and>
    jm_adhoc_metadata_ptr
      (job_objs (m_job_manager (fst (h_remove_job w jid s))) ! j) = Some a \<and>
    am_client_info (adhoc_objs (m_adhoc_manager (fst (h_remove_job w jid s))) ! a) = None"
proof -
  have inv: "scord_inv s" using assms(1,2) by (rule reachable_bounded_inv)
  have reg: "m_jobs (m_job_manager s) jid = Some p"
    using assms(3) by (simp add: job_find_def split: option.splits)
  have tab: "m_adhoc_storages (m_adhoc_manager s) (adhoc_id st) = Some a"
    using assms(6) by (simp add: adhoc_find_def split: option.splits)
  have ptr: "a < length (adhoc_objs (m_adhoc_manager s))"
    "adhoc_id (am_adhoc_storage (adhoc_objs (m_adhoc_manager s) ! a)) = adhoc_id st"
    using adhoc_reg.wf_pointer [OF scord_invD(3) [OF inv] tab] by auto
  have link: "client_link_ok (m_job_manager s) (m_adhoc_manager s) a j"
    using links_okD(2) [OF scord_invD(6) [OF inv] ptr(1) assms(7)] .
  define other where "other = job_id (jm_job (job_objs (m_job_manager s) ! j))"
  from link tab ptr have other: "m_jobs (m_job_manager s) other = Some j"
    "jm_adhoc_metadata_ptr (job_objs (m_job_manager s) ! j) = Some a"
    by (auto simp: client_link_ok_def other_def)
  then have "other \<noteq> jid" using reg assms(8) by auto
  moreover have "am_client_info (adhoc_objs (fst (adhoc_remove_client_info (adhoc_id st)
      (m_adhoc_manager s))) ! a) = None"
    using tab ptr(1) by (rule adhoc_remove_client_result(2))
  ultimately show ?thesis
    using reg assms(5) other unfolding remove_job_known [OF reg assms(4)]
    by (intro exI [of _ other]) (simp add: job_remove_def job_find_def)
qed

text \<open>A second job on the storage of the first.\<close>

definition demo_two_state :: "nat scord" where
  "demo_two_state =
     fst (handle quiet_world (Req_register_job demo_res (demo_reqs (Some demo_adhoc)) 43)
       (demo_job_state False))"

lemma demo_two_reachable [simp]: "reachable False demo_two_state"
  unfolding demo_two_state_def by (rule reachable_handle) simp_all

lemma demo_two_simps [simp]:
  "m_job_manager demo_two_state = \<lparr>m_jobs = [0 \<mapsto> 0, 1 \<mapsto> 1], m_slurm_to_scord = [42 \<mapsto> 0, 43 \<mapsto> 1],
     job_current_id = 2,
     job_objs = [mk_job_metadata \<lparr>job_id = 0, job_slurm_id = 42\<rparr> demo_res
       (demo_reqs (Some demo_adhoc)) (Some 0), mk_job_metadata \<lparr>job_id = 1, job_slurm_id = 43\<rparr> demo_res
       (demo_reqs (Some demo_adhoc)) (Some 0)]\<rparr>" (is ?jobs)
  "m_adhoc_manager demo_two_state = m_adhoc_manager (demo_job_state False)" (is ?adhocs)
  "m_pfs_manager demo_two_state = empty_pfs_manager" (is ?pfs)
  "m_transfer_manager demo_two_state = empty_transfer_manager" (is ?txs)
proof -
  have inv: "scord_inv (demo_job_state False)" by (rule reachable_inv [OF reachable_demo(2) demo_job_bounded])
  have ap: "register_job_adhoc (demo_reqs (Some demo_adhoc)) (demo_job_state False) = Inr (Some 0)"
    by (simp add: register_job_adhoc_known)
  from register_job_creates [OF inv ap redis_fine_demo, of demo_res 43] obtain t where
    t: "h_register_job quiet_world demo_res (demo_reqs (Some demo_adhoc)) 43 (demo_job_state False) =
      (t, Inr (mk_response_with (sc_rpc_id (demo_job_state False)) ADM_SUCCESS (Some 1)))"
    "m_job_manager t = fst (job_create 43 demo_res (demo_reqs (Some demo_adhoc)) (Some 0)
       (m_job_manager (demo_job_state False)))"
    "m_adhoc_manager t = m_adhoc_manager (register_job_client (Some 0) 1 (demo_job_state False))"
    "m_pfs_manager t = empty_pfs_manager" "m_transfer_manager t = empty_transfer_manager"
    by auto
  have "demo_two_state = t" by (simp add: demo_two_state_def t(1))
  with t show ?jobs ?adhocs ?pfs ?txs
    by (simp_all add: job_op_defs emplace_absent register_job_client_def
        adhoc_ptr_add_client_info_def am_add_client_info_def through_def deref_def assign_def)
qed

lemma demo_two_bounded [simp]: "bounded demo_two_state"
  by (simp add: bounded_def initial_defs)

section \<open>Slurm identifiers and queries\<close>

lemma query_info_frame: "query_info (s\<lparr>sc_rpc_id := c\<rparr>) m = query_info s m"
  by (cases "jm_adhoc_metadata_ptr m") (simp_all add: query_info_def)

lemma query_eval:
  "h_query w sl s =
     (s\<lparr>sc_rpc_id := sc_rpc_id s + 1\<rparr>,
      case job_find_by_slurm_id sl (m_job_manager s) of
        Inl ec \<Rightarrow> Inr (mk_response_with (sc_rpc_id s) ec None)
      | Inr p \<Rightarrow>
          (case query_info s (job_objs (m_job_manager s) ! p) of
             Inl e \<Rightarrow> Inl e
           | Inr (Inr info) \<Rightarrow> Inr (mk_response_with (sc_rpc_id s) ADM_SUCCESS (Some info))
           | Inr (Inl ec) \<Rightarrow> Inr (mk_response_with (sc_rpc_id s) ec None)))"
  by (cases "job_find_by_slurm_id sl (m_job_manager s)")
    (simp_all add: h_query_def enter_split Let_def query_info_frame split: sum.split)

text \<open>A query by Slurm identifier that follows the registration answers the controller
  address and the identifier of the job's adhoc storage and the number of its nodes, when no other
  job was indexed under that Slurm identifier.\<close>

lemma query_registered_job:
  assumes "reachable r s" "bounded s" "redis_fine w reqs s"
    and "req_adhoc_storage reqs = Some st" "adhoc_find (adhoc_id st) (m_adhoc_manager s) = Inr a"
    and "m_slurm_to_scord (m_job_manager s) sl = None"
    and "h_register_job w res reqs sl s = (t, out)"
  shows "snd (h_query w' sl t) =
    Inr (mk_response_with (sc_rpc_id t) ADM_SUCCESS
      (Some \<lparr>adhoc_controller_address = am_controller_address (adhoc_objs (m_adhoc_manager s) ! a),
             info_uuid = am_uuid (adhoc_objs (m_adhoc_manager s) ! a),
             procs_for_io = of_nat (length (job_nodes res))\<rparr>))"
proof -
  have inv: "scord_inv s" using assms(1,2) by (rule reachable_bounded_inv)
  have wf: "job_reg.wf (m_job_manager s)" using inv by (rule scord_invD)
  have tab: "m_adhoc_storages (m_adhoc_manager s) (adhoc_id st) = Some a"
    using assms(5) by (simp add: adhoc_find_def split: option.splits)
  then have a: "a < length (adhoc_objs (m_adhoc_manager s))"
    using adhoc_reg.wf_pointer [OF scord_invD(3) [OF inv]] by blast
  have ap: "register_job_adhoc reqs s = Inr (Some a)"
    using assms(4) tab by (simp add: register_job_adhoc_known)
  let ?p = "length (job_objs (m_job_manager s))"
  from register_job_creates [OF inv ap assms(3), of res sl] assms(7)
  have t: "m_job_manager t = fst (job_create sl res reqs (Some a) (m_job_manager s))"
    "m_adhoc_manager t = fst (adhoc_ptr_add_client_info a ?p (m_adhoc_manager s))"
    by (auto simp: register_job_client_def)
  have find: "job_find_by_slurm_id sl (m_job_manager t) = Inr ?p"
    "job_objs (m_job_manager t) ! ?p =
      mk_job_metadata \<lparr>job_id = job_current_id (m_job_manager s), job_slurm_id = sl\<rparr> res reqs (Some a)"
    using assms(6) by (simp_all add: t job_create_fresh [OF wf] job_find_by_slurm_id_def job_find_def
        emplace_absent nth_append)
  have obj: "am_uuid (adhoc_objs (m_adhoc_manager t) ! a) = am_uuid (adhoc_objs (m_adhoc_manager s) ! a)"
    "am_controller_address (adhoc_objs (m_adhoc_manager t) ! a) =
     am_controller_address (adhoc_objs (m_adhoc_manager s) ! a)"
    using a by (simp_all add: t adhoc_ptr_add_client_info_def nth_through am_controller_address_def)
  show ?thesis
    unfolding query_eval find query_info_def using obj by (simp add: find query_info_def io_procs_def)
qed

text \<open>A query ends in the use of a null pointer exactly when the job it finds was registered
  without an adhoc storage; in every other case it answers. It never answers \<open>ADM_ENO_RESOURCES\<close>.\<close>

lemma query_crashes:
  assumes "reachable r s" "bounded s"
  shows "(snd (h_query w sl s) = Inl e \<longleftrightarrow>
      e = Null_dereference \<and>
      (\<exists>p reqs. job_find_by_slurm_id sl (m_job_manager s) = Inr p \<and>
         jm_requirements (job_objs (m_job_manager s) ! p) = Some reqs \<and> req_adhoc_storage reqs = None)) \<and>
    (\<forall>resp. snd (h_query w sl s) = Inr resp \<longrightarrow>
       resp_error_code resp \<in> {ADM_SUCCESS, ADM_ENOENT} \<and>
       (resp_value resp \<noteq> None \<longleftrightarrow> resp_error_code resp = ADM_SUCCESS))"
proof (cases "job_find_by_slurm_id sl (m_job_manager s)")
  case (Inl ec)
  then have "ec = ADM_ENOENT"
    by (auto simp: job_find_by_slurm_id_def job_find_def split: option.splits)
  with Inl show ?thesis by (simp add: query_eval)
next
  case (Inr p)
  have inv: "scord_inv s" using assms by (rule reachable_bounded_inv)
  have "p < length (job_objs (m_job_manager s))"
    using job_find_slurm_sound [OF scord_invD(1) [OF inv] Inr] by blast
  then have "job_link_ok (m_adhoc_manager s) (job_objs (m_job_manager s) ! p)"
    using links_okD(1) [OF scord_invD(6) [OF inv]] by blast
  with Inr show ?thesis
    by (auto simp: query_eval query_info_def job_link_ok_def split: option.splits)
qed

text \<open>Removing a job makes its Slurm identifier unknown, also when the index led
  to another job with the same Slurm identifier, which stays registered.\<close>

lemma remove_job_hides_slurm_id:
  assumes "job_find jid (m_job_manager s) = Inr p"
    and "job_slurm_id (jm_job (job_objs (m_job_manager s) ! p)) = sl"
  shows "snd (h_query w' sl (fst (h_remove_job w jid s))) =
      Inr (mk_response_with (sc_rpc_id (fst (h_remove_job w jid s))) ADM_ENOENT None) \<and>
    (\<forall>k q. k \<noteq> jid \<and> job_find k (m_job_manager s) = Inr q \<longrightarrow>
       job_find k (m_job_manager (fst (h_remove_job w jid s))) = Inr q)"
proof -
  have reg: "m_jobs (m_job_manager s) jid = Some p"
    using assms(1) by (simp add: job_find_def split: option.splits)
  then have jobs: "m_job_manager (fst (h_remove_job w jid s)) = (m_job_manager s)
      \<lparr>m_jobs := erase jid (m_jobs (m_job_manager s)),
       m_slurm_to_scord := erase sl (m_slurm_to_scord (m_job_manager s))\<rparr>"
    using assms(2) by (simp add: remove_job_jobs job_remove_def)
  show ?thesis
    by (simp add: query_eval jobs job_find_by_slurm_id_def) (simp add: job_find_def)
qed

end
