(* ===== verification/AdhocClaims.thy ===== *)
theory AdhocClaims
  imports ScordProps
begin

text \<open>The promises about adhoc storages: registering, growing, deploying, terminating, removing.\<close>

lemma reach_inv: "reachable r s \<Longrightarrow> bounded s \<Longrightarrow> scord_inv s"
  by (rule reachable_inv)

lemma adhoc_find_Inr: "adhoc_find k am = Inr p \<longleftrightarrow> m_adhoc_storages am k = Some p"
  by (simp add: adhoc_find_def split: option.split)

lemma demo_adhoc_find [simp]: "adhoc_find 0 (m_adhoc_manager (demo_state r)) = Inr 0"
  by (simp add: adhoc_find_def)

lemma demo_adhoc_fields [simp]:
  "adhoc_kind demo_adhoc = adhoc_gekkofs" "adhoc_name demo_adhoc = ''a''"
  "adhoc_context demo_adhoc = demo_ctx" "adhoc_res demo_adhoc = \<lparr>adhoc_nodes = []\<rparr>"
  "controller_address demo_ctx = ''ctl''"
  by (simp_all add: demo_adhoc_def demo_ctx_def)

section \<open>Registering and removing\<close>

text \<open>C12: registering an adhoc storage always succeeds, with an identifier no storage
  ever had; the storage is then found under it as it was registered, without a client, under a
  universal identifier made of the name of its type and the random string; the others are found as
  before.\<close>

theorem registered_adhoc_found:
  assumes "reachable r s" "bounded s"
  shows "\<exists>t aid p.
    h_register_adhoc_storage w n ty c res s =
      (t, Inr (mk_response_with (sc_rpc_id s) ADM_SUCCESS (Some aid))) \<and>
    (\<forall>m \<in> set (adhoc_objs (m_adhoc_manager s)). adhoc_id (am_adhoc_storage m) \<noteq> aid) \<and>
    adhoc_find aid (m_adhoc_manager t) = Inr p \<and>
    adhoc_objs (m_adhoc_manager t) ! p =
      \<lparr>am_uuid = adhoc_type_format (CHR ''e'') ty @ ''-'' @ w_random w,
       am_adhoc_storage = \<lparr>adhoc_kind = ty, adhoc_name = n, adhoc_id = aid, adhoc_context = c,
                           adhoc_res = res\<rparr>,
       am_client_info = None\<rparr> \<and>
    (\<forall>k. k \<noteq> aid \<longrightarrow> adhoc_find k (m_adhoc_manager t) = adhoc_find k (m_adhoc_manager s))"
proof -
  have wf: "adhoc_reg.wf (m_adhoc_manager s)" using reach_inv [OF assms] by (rule scord_invD)
  have fresh: "\<forall>m \<in> set (adhoc_objs (m_adhoc_manager s)).
      adhoc_id (am_adhoc_storage m) \<noteq> adhoc_current_id (m_adhoc_manager s)"
    using adhoc_reg.next_ident_fresh [OF wf] by blast
  then show ?thesis
    by (simp add: h_register_adhoc_storage_def enter_split Let_def adhoc_create_fresh [OF wf]
        adhoc_find_def generate_adhoc_uuid_def mk_adhoc_storage_metadata_def)
      (rule exI [of _ "adhoc_current_id (m_adhoc_manager s)"], simp)
qed

theorem registered_adhoc_found_witness:
  "\<exists>t aid p. h_register_adhoc_storage quiet_world ''x'' adhoc_expand demo_ctx \<lparr>adhoc_nodes = []\<rparr>
      (demo_state True) = (t, Inr (mk_response_with (sc_rpc_id (demo_state True)) ADM_SUCCESS (Some aid))) \<and>
    adhoc_find aid (m_adhoc_manager t) = Inr p"
  using registered_adhoc_found [OF reachable_demo(1) demo_bounded, where r = True and w = quiet_world and
      n = "''x''" and ty = adhoc_expand and c = demo_ctx and res = "\<lparr>adhoc_nodes = []\<rparr>"]
  by blast

text \<open>C10: once an adhoc storage is removed its identifier is unknown in every later
  state of every run; a deployment asked for it answers \<open>ADM_ENOENT\<close>, and an update or a termination
  throws instead of answering.\<close>

theorem removed_adhoc_never_returns:
  assumes "reachable r s" "adhoc_find aid (m_adhoc_manager s) = Inr p"
    and "h_remove_adhoc_storage w aid s = (t, res)" "runs t u" "bounded u"
  shows "adhoc_find aid (m_adhoc_manager u) = Inl ADM_ENOENT \<and>
    snd (h_deploy_adhoc_storage w' aid u) = Inr (mk_response_with (sc_rpc_id u) ADM_ENOENT (Some [])) \<and>
    snd (h_update_adhoc_storage w' aid nr u) = Inl Bad_expected_access \<and>
    snd (h_terminate_adhoc_storage w' aid u) = Inl Bad_expected_access"
proof -
  have "grows t u" using runs_ok_step [OF assms(4)] by (simp add: ok_step_def)
  then have bt: "bounded t" using assms(5) by (rule grows_bounded)
  have st: "ok_step s t" using remove_adhoc_step [of s w aid] assms(3) by simp
  then have bs: "bounded s" using bt by (auto simp: ok_step_def intro: grows_bounded)
  have inv: "scord_inv s" using assms(1) bs by (rule reach_inv)
  with st bt have invt: "scord_inv t" and keep: "scord_keeps s t" by (auto simp: ok_step_def)
  have reg: "m_adhoc_storages (m_adhoc_manager s) aid = Some p"
    using assms(2) by (simp add: adhoc_find_Inr)
  then have k: "aid < adhoc_current_id (m_adhoc_manager s)"
    using adhoc_reg.wf_tab [OF scord_invD(3) [OF inv]] by blast
  have gone: "m_adhoc_storages (m_adhoc_manager t) aid = None"
    using assms(3) by (auto simp: h_remove_adhoc_storage_def enter_split Let_def adhoc_remove_def
        split: if_splits)
  have kept: "adhoc_reg.keeps (m_adhoc_manager t) (m_adhoc_manager u)"
    using runs_ok_step [OF assms(4)] invt assms(5) by (simp add: ok_step_def scord_keeps_def)
  have "adhoc_current_id (m_adhoc_manager s) \<le> adhoc_current_id (m_adhoc_manager t)"
    using keep by (simp add: scord_keeps_def adhoc_reg.keeps_def)
  with k have "aid < adhoc_current_id (m_adhoc_manager t)" by (rule order.strict_trans2)
  then have "m_adhoc_storages (m_adhoc_manager u) aid = None"
    using gone by (rule adhoc_reg.keeps_gone [OF kept])
  then show ?thesis
    by (simp add: adhoc_find_def h_deploy_adhoc_storage_def h_update_adhoc_storage_def
        h_terminate_adhoc_storage_def enter_split Let_def)
qed

lemma demo_removed_adhoc:
  "bounded (fst (h_remove_adhoc_storage quiet_world 0 (demo_state True)))"
  by (simp add: h_remove_adhoc_storage_def enter_split Let_def adhoc_remove_def bounded_def initial_defs)

theorem removed_adhoc_never_returns_witness:
  "adhoc_find 0 (m_adhoc_manager (fst (h_remove_adhoc_storage quiet_world 0 (demo_state True)))) =
     Inl ADM_ENOENT"
  using removed_adhoc_never_returns [OF reachable_demo(1) demo_adhoc_find prod.collapse [symmetric] runs_refl
      demo_removed_adhoc]
  by blast

text \<open>C11: along every run, no object changes its identity: an adhoc storage keeps its
  universal identifier, type, name, identifier and context, a job its identifiers, requirements and
  storage, a file system its type, name and identifier, a transfer its identifier, handle and
  limits.\<close>

theorem identities_stable:
  assumes "reachable r s" "runs s t" "bounded t"
  shows "(\<forall>a < length (adhoc_objs (m_adhoc_manager s)).
      adhoc_core (adhoc_objs (m_adhoc_manager t) ! a) = adhoc_core (adhoc_objs (m_adhoc_manager s) ! a)) \<and>
    (\<forall>j < length (job_objs (m_job_manager s)).
      (let m = job_objs (m_job_manager s) ! j; m' = job_objs (m_job_manager t) ! j
       in jm_job m' = jm_job m \<and> jm_requirements m' = jm_requirements m \<and>
          jm_adhoc_metadata_ptr m' = jm_adhoc_metadata_ptr m)) \<and>
    (\<forall>p < length (pfs_objs (m_pfs_manager s)).
      (let m = pm_pfs_storage (pfs_objs (m_pfs_manager s) ! p);
           m' = pm_pfs_storage (pfs_objs (m_pfs_manager t) ! p)
       in pfs_kind m' = pfs_kind m \<and> pfs_name m' = pfs_name m \<and> pfs_id m' = pfs_id m)) \<and>
    (\<forall>q < length (tx_objs (m_transfer_manager s)).
      (let m = tx_objs (m_transfer_manager s) ! q; m' = tx_objs (m_transfer_manager t) ! q
       in tm_id m' = tm_id m \<and> tm_handle m' = tm_handle m \<and> tm_qos m' = tm_qos m))"
proof -
  have "scord_keeps s t" using runs_keeps [OF assms] by blast
  then show ?thesis
    using job_reg.keeps_object [of "m_job_manager s" "m_job_manager t"]
      adhoc_reg.keeps_object [of "m_adhoc_manager s" "m_adhoc_manager t"]
      pfs_reg.keeps_object [of "m_pfs_manager s" "m_pfs_manager t"]
      transfer_reg.keeps_object [of "m_transfer_manager s" "m_transfer_manager t"]
    by (simp add: scord_keeps_def Let_def)
qed

lemma demo_runs: "runs (demo_state r) (demo_job_state r)"
  unfolding demo_job_state_def using runs_handle [OF runs_refl] runs_refl quiet_world_simps(1) by metis

theorem identities_stable_witness:
  "adhoc_core (adhoc_objs (m_adhoc_manager (demo_job_state True)) ! 0) =
   adhoc_core (adhoc_objs (m_adhoc_manager (demo_state True)) ! 0)"
  using identities_stable [OF reachable_demo(1) demo_runs demo_job_bounded, of True] by simp

section \<open>Growing and shrinking\<close>

text \<open>Updating an adhoc storage replaces its nodes and asks its controller once, to
  expand when there are more nodes than before and to shrink otherwise, with the new nodes; the
  answer is the controller's code. When the storage is not registered, the controller's address does
  not resolve or the call fails, the handler throws instead of answering.\<close>

lemma update_adhoc_outcome:
  assumes "reachable r s" "bounded s"
  shows "snd (h_update_adhoc_storage w aid res s) =
    (case adhoc_find aid (m_adhoc_manager s) of
       Inl _ \<Rightarrow> Inl Bad_expected_access
     | Inr p \<Rightarrow>
         (let m = adhoc_objs (m_adhoc_manager s) ! p;
              st = am_adhoc_storage m;
              address = controller_address (adhoc_context st);
              rpc = (if length (adhoc_nodes res) > length (adhoc_nodes (adhoc_res st))
                     then ''ADM_expand_adhoc_storage'' else ''ADM_shrink_adhoc_storage'')
          in if \<not> w_lookup w address then Inl Bad_expected_access
             else (case w_ctl_update w address rpc (am_uuid m) (adhoc_kind st) res of
                     None \<Rightarrow> Inl Bad_expected_access
                   | Some resp \<Rightarrow> Inr (mk_response (sc_rpc_id s) (resp_error_code resp)))))"
proof (cases "adhoc_find aid (m_adhoc_manager s)")
  case (Inl ec)
  then show ?thesis by (simp add: h_update_adhoc_storage_def enter_split Let_def)
next
  case (Inr p)
  then have tab: "m_adhoc_storages (m_adhoc_manager s) aid = Some p" by (simp add: adhoc_find_Inr)
  then have "p < length (adhoc_objs (m_adhoc_manager s))"
    using adhoc_reg.wf_pointer [OF scord_invD(3) [OF reach_inv [OF assms]]] by blast
  with tab show ?thesis
    by (auto simp: h_update_adhoc_storage_def enter_split Let_def adhoc_find_def adhoc_update_def
        update_helper_def nth_through case_prod_beta split: option.split)
qed

text \<open>When the controller cannot be reached, the new nodes have already
  replaced the old ones although the caller gets no answer.\<close>

lemma failed_update_keeps_resources:
  assumes "reachable r s" "bounded s" "adhoc_find aid (m_adhoc_manager s) = Inr p"
    and "\<And>x. \<not> w_lookup w x" "\<And>u. w_meanwhile w u = u"
  shows "\<exists>t. h_update_adhoc_storage w aid res s = (t, Inl Bad_expected_access) \<and>
    adhoc_find aid (m_adhoc_manager t) = Inr p \<and>
    adhoc_res (am_adhoc_storage (adhoc_objs (m_adhoc_manager t) ! p)) = res"
proof -
  have tab: "m_adhoc_storages (m_adhoc_manager s) aid = Some p"
    using assms(3) by (simp add: adhoc_find_Inr)
  then have "p < length (adhoc_objs (m_adhoc_manager s))"
    using adhoc_reg.wf_pointer [OF scord_invD(3) [OF reach_inv [OF assms(1,2)]]] by blast
  with tab assms(4,5) show ?thesis
    by (simp add: h_update_adhoc_storage_def enter_split Let_def adhoc_find_def adhoc_update_def
        update_helper_def nth_through)
qed

section \<open>Deploying and terminating\<close>

lemma hmset_redis: "hmset w k kvs u = (t, x) \<Longrightarrow> m_redis t = m_redis u"
  by (auto simp: hmset_def split: if_splits)

text \<open>With Redis, deploying a storage that no job uses yet succeeds at the
  controller and then dereferences the null client, so the caller gets no answer.\<close>

lemma deploy_redis_without_client:
  assumes "m_redis s" "adhoc_find aid (m_adhoc_manager s) = Inr p"
    and "am_client_info (adhoc_objs (m_adhoc_manager s) ! p) = None"
    and "\<And>u. w_meanwhile w u = u" "\<And>x. w_lookup w x"
    and "\<And>a b c d e. w_ctl_deploy w a b c d e = Some (mk_response_with i ADM_SUCCESS (Some path))"
  shows "h_deploy_adhoc_storage w aid s = (s\<lparr>sc_rpc_id := sc_rpc_id s + 1\<rparr>, Inl Null_dereference)"
  using assms
  by (simp add: h_deploy_adhoc_storage_def enter_split Let_def deploy_helper_def response_value_def
      client_job_id_def)

text \<open>With Redis, a deployment that succeeds for a storage with a client writes one entry;
  its key is the identifier scord gave the job, while registering the job wrote under the Slurm
  identifier, so the two entries are different keys unless the numbers happen to agree.\<close>

lemma deploy_redis_log:
  assumes "m_redis s" "adhoc_find aid (m_adhoc_manager s) = Inr p"
    and "am_client_info (adhoc_objs (m_adhoc_manager s) ! p) = Some j"
    and "\<And>u. w_meanwhile w u = u" "\<And>x. w_lookup w x" "w_redis_ok w"
    and "\<And>a b c d e. w_ctl_deploy w a b c d e = Some (mk_response_with i ADM_SUCCESS (Some path))"
  shows "let jb = jm_job (job_objs (m_job_manager s) ! j);
             (t, out) = h_deploy_adhoc_storage w aid s
         in out = Inr (mk_response_with (sc_rpc_id s) ADM_SUCCESS (Some path)) \<and>
            redis_log t = redis_log s @
              [(u64_to_string (job_id jb),
                [''Deployed'' \<mapsto> ''Yes'', ''StartTime'' \<mapsto> nat_to_string (w_now w),
                 ''EndTime'' \<mapsto> ''Running''])] \<and>
            (u64_to_string (job_id jb) = u64_to_string (job_slurm_id jb) \<longleftrightarrow>
             job_id jb = job_slurm_id jb)"
  using assms
  by (simp add: h_deploy_adhoc_storage_def enter_split Let_def deploy_helper_def response_value_def
      client_job_id_def hmset_def fun_upd_twist)

text \<open>What a termination answers when Redis is not used; for an unknown storage it throws.\<close>

lemma terminate_outcome:
  assumes "h_terminate_adhoc_storage w aid s = (t, out)" "\<not> m_redis t"
  shows "out =
    (case adhoc_find aid (m_adhoc_manager s) of
       Inl _ \<Rightarrow> Inl Bad_expected_access
     | Inr p \<Rightarrow>
         (let m = adhoc_objs (m_adhoc_manager s) ! p;
              st = am_adhoc_storage m;
              address = controller_address (adhoc_context st)
          in Inr (mk_response (sc_rpc_id s)
               (if \<not> w_lookup w address then ADM_ESNAFU
                else case w_ctl_terminate w address ''ADM_terminate_adhoc_storage'' (am_uuid m)
                            (adhoc_kind st) of
                       None \<Rightarrow> ADM_ESNAFU | Some resp \<Rightarrow> resp_error_code resp))))"
proof (cases "adhoc_find aid (m_adhoc_manager s)")
  case (Inl ec)
  with assms show ?thesis
    by (auto simp: h_terminate_adhoc_storage_def enter_split Let_def)
next
  case (Inr p)
  let ?m = "adhoc_objs (m_adhoc_manager s) ! p"
  let ?st = "am_adhoc_storage ?m"
  let ?s1 = "s\<lparr>sc_rpc_id := sc_rpc_id s + 1\<rparr>"
  obtain u ec where u: "terminate_helper w (snd (enter ''terminate_adhoc_storage'' w s)) p ?s1 = (u, ec)"
    by force
  have ec: "ec = (if \<not> w_lookup w (controller_address (adhoc_context ?st)) then ADM_ESNAFU
      else case w_ctl_terminate w (controller_address (adhoc_context ?st))
                  ''ADM_terminate_adhoc_storage'' (am_uuid ?m) (adhoc_kind ?st) of
             None \<Rightarrow> ADM_ESNAFU | Some resp \<Rightarrow> resp_error_code resp)"
    using u by (auto simp: terminate_helper_def Let_def split: if_splits option.splits)
  have "out = Inr (mk_response (sc_rpc_id s) ec)"
    using assms u Inr
    by (auto simp: h_terminate_adhoc_storage_def enter_split Let_def dest: hmset_redis
        split: sum.splits if_splits prod.splits)
  then show ?thesis
    using Inr by (simp add: ec Let_def)
qed

end
