(* ===== verification/TransferClaims.thy ===== *)
theory TransferClaims
  imports ScordProps
begin

text \<open>The promises about transfers and the scheduler that watches them.\<close>

section \<open>Names of datasets\<close>

definition schemes :: "(string \<times> cargo_dataset_type) list" where
  "schemes =
     [(''lustre:'', cargo_parallel), (''gekkofs:'', cargo_gekkofs), (''hercules:'', cargo_hercules),
      (''expand:'', cargo_expand), (''dataclay:'', cargo_dataclay), (''posix:'', cargo_posix)]"

definition mentions :: "string \<Rightarrow> string \<Rightarrow> bool" where
  "mentions s p \<longleftrightarrow> str_find p s \<noteq> None"

lemma dataset_process_alt:
  "dataset_process i =
     (case filter (\<lambda>(p, _). mentions i p) schemes of
        [] \<Rightarrow> \<lparr>cargo_path = i, cargo_type = cargo_none\<rparr>
      | (p, t) # _ \<Rightarrow> \<lparr>cargo_path = drop (length p) i, cargo_type = t\<rparr>)"
  unfolding dataset_process_def schemes_def mentions_def filter.simps prod.case
  by (simp del: list.size)

lemma mentions_iff: "mentions s p \<longleftrightarrow> (\<exists>u v. s = u @ p @ v)"
  using str_find_None [of p s] by (auto simp: mentions_def)

lemma schemes_distinct: "(p, t) \<in> set schemes \<Longrightarrow> (p, t') \<in> set schemes \<Longrightarrow> t = t'"
  by (auto simp: schemes_def)

text \<open>A dataset name that starts with a known scheme and mentions no other gives the
  rest of the name with the type of the scheme; a name that mentions no scheme is passed on as it
  is, with no type.\<close>

lemma dataset_scheme_stripped:
  assumes "(scheme, type) \<in> set schemes"
    and "\<forall>(other, _) \<in> set schemes. other \<noteq> scheme \<longrightarrow> \<not> mentions (scheme @ path) other"
  shows "dataset_process (scheme @ path) = \<lparr>cargo_path = path, cargo_type = type\<rparr> \<and>
    (\<not> mentions path scheme \<longrightarrow>
       dataset_process path = \<lparr>cargo_path = path, cargo_type = cargo_none\<rparr>)"
proof -
  have here: "mentions (scheme @ path) scheme"
    unfolding mentions_iff by (metis append_Nil)
  have only: "(p, t) = (scheme, type)" if "(p, t) \<in> set schemes" "mentions (scheme @ path) p" for p t
  proof -
    have p: "p = scheme" using bspec [OF assms(2) that(1)] that(2) by auto
    have "t = type" using that(1) assms(1) unfolding p by (rule schemes_distinct)
    with p show ?thesis by simp
  qed
  let ?f = "filter (\<lambda>(p, _). mentions (scheme @ path) p) schemes"
  have mem: "x \<in> set ?f \<longleftrightarrow> x = (scheme, type)" for x
  proof
    assume x: "x \<in> set ?f"
    obtain p t where "x = (p, t)" by (rule prod.exhaust)
    with x only [of p t] show "x = (scheme, type)" by simp
  next
    assume "x = (scheme, type)"
    then show "x \<in> set ?f" using here assms(1) by simp
  qed
  have "?f \<noteq> []" using mem [of "(scheme, type)"] by (metis list.set(1) empty_iff)
  then obtain x r where xr: "?f = x # r" by (meson neq_Nil_conv)
  then have "x = (scheme, type)" using mem [of x] by simp
  with xr have r: "?f = (scheme, type) # r" by simp
  have none: "\<not> mentions path other" if "(other, t) \<in> set schemes" "\<not> mentions path scheme" for other t
  proof (cases "other = scheme")
    case False
    then have no: "\<not> mentions (scheme @ path) other" using bspec [OF assms(2) that(1)] by simp
    then show ?thesis unfolding mentions_iff by (metis append.assoc)
  qed (use that in simp)
  have "filter (\<lambda>(p, _). mentions path p) schemes = []" if "\<not> mentions path scheme"
    unfolding filter_empty_conv using none [OF _ that] by auto
  then show ?thesis by (simp add: dataset_process_alt r)
qed

text \<open>A scheme is looked for anywhere in the name but the characters are dropped
  from its front: a name that mentions \<open>lustre:\<close> after seven or more characters loses its first seven and
  keeps the scheme.\<close>

lemma dataset_scheme_misplaced:
  assumes "7 \<le> length u"
  shows "dataset_process (u @ ''lustre:'' @ v) =
    \<lparr>cargo_path = drop 7 u @ ''lustre:'' @ v, cargo_type = cargo_parallel\<rparr>"
proof -
  have "mentions (u @ ''lustre:'' @ v) ''lustre:''" unfolding mentions_iff by blast
  then show ?thesis using assms by (simp add: dataset_process_def mentions_def eval_nat_numeral)
qed

section \<open>Starting a transfer\<close>

text \<open>C7: a transfer asked for by a registered job with an adhoc storage is handed to the
  data stager of that storage, with the processed names, and registered under an identifier no
  transfer ever had, with the handle the stager gave and the limits asked for; the caller gets that
  identifier. A job that is not registered answers \<open>ADM_ENOENT\<close>, one without an adhoc storage
  \<open>ADM_ENO_RESOURCES\<close>, and no transfer is made.\<close>

theorem transfer_registered:
  assumes "reachable r s" "bounded s" "None \<notin> set limits" "\<And>u. w_meanwhile w u = u"
    and "\<And>a i j. w_cargo_transfer w a i j = Some (h a i j)"
  shows "case job_find jid (m_job_manager s) of
      Inl _ \<Rightarrow> h_transfer_datasets w jid src tgt limits mapping s =
        (s\<lparr>sc_rpc_id := sc_rpc_id s + 1\<rparr>, Inr (mk_response_with (sc_rpc_id s) ADM_ENOENT None))
    | Inr p \<Rightarrow> (case jm_adhoc_metadata_ptr (job_objs (m_job_manager s) ! p) of
        None \<Rightarrow> h_transfer_datasets w jid src tgt limits mapping s =
          (s\<lparr>sc_rpc_id := sc_rpc_id s + 1\<rparr>,
           Inr (mk_response_with (sc_rpc_id s) ADM_ENO_RESOURCES None))
      | Some a \<Rightarrow> (\<exists>t tid q. h_transfer_datasets w jid src tgt limits mapping s =
            (t, Inr (mk_response_with (sc_rpc_id s) ADM_SUCCESS (Some tid))) \<and>
          (\<forall>m \<in> set (tx_objs (m_transfer_manager s)). tm_id m \<noteq> tid) \<and>
          transfer_find tid (m_transfer_manager t) = Inr q \<and>
          tx_objs (m_transfer_manager t) ! q =
            mk_transfer_metadata tid
              (h (am_data_stager_address (adhoc_objs (m_adhoc_manager s) ! a))
                 (map (\<lambda>d. dataset_process (dataset_id d)) src)
                 (map (\<lambda>d. dataset_process (dataset_id d)) tgt)) limits))"
proof -
  have wf: "transfer_reg.wf (m_transfer_manager s)"
    using reachable_inv [OF assms(1,2)] by (rule scord_invD)
  have lim: "try_map limit_copy limits = Inr limits"
  proof -
    have "limit_copy l = Inr ((\<lambda>x. x) l)" if "l \<in> set limits" for l
    proof -
      have "l \<noteq> None" using that assms(3) by metis
      then show ?thesis by auto
    qed
    then show ?thesis by (subst try_map_total) auto
  qed
  have fresh: "\<forall>m \<in> set (tx_objs (m_transfer_manager s)). tm_id m \<noteq> tx_current_id (m_transfer_manager s)"
    using transfer_reg.next_ident_fresh [OF wf] by blast
  show ?thesis
  proof (cases "job_find jid (m_job_manager s)")
    case (Inl ec)
    then have "ec = ADM_ENOENT" by (simp add: job_find_def split: option.splits)
    with Inl assms(3) show ?thesis by (simp add: h_transfer_datasets_def enter_split Let_def)
  next
    case (Inr p)
    with assms(3) fresh show ?thesis
      by (cases "jm_adhoc_metadata_ptr (job_objs (m_job_manager s) ! p)")
        (simp_all add: h_transfer_datasets_def enter_split Let_def assms(4,5) lim
          transfer_create_fresh [OF wf] transfer_find_def,
        rule exI [of _ "tx_current_id (m_transfer_manager s)"], simp)
  qed
qed

lemma demo_job0 [simp]: "job_find 0 (m_job_manager (demo_job_state r)) = Inr 0"
  by (simp add: job_find_def)

theorem transfer_registered_witness:
  "\<exists>t tid q. h_transfer_datasets quiet_world 0 [] [] [] mapping_one_to_one (demo_job_state True) =
      (t, Inr (mk_response_with (sc_rpc_id (demo_job_state True)) ADM_SUCCESS (Some tid))) \<and>
    transfer_find tid (m_transfer_manager t) = Inr q"
  using transfer_registered [OF reachable_demo(2) demo_job_bounded, where r = True and limits = "[]" and
      w = quiet_world and h = "\<lambda>_ _ _. 0" and jid = 0 and src = "[]" and tgt = "[]" and
      mapping = mapping_one_to_one]
  by (simp add: job_find_def) blast

lemma null_limit_no_answer:
  assumes "None \<in> set limits" "job_find jid (m_job_manager s) = Inr p"
    and "jm_adhoc_metadata_ptr (job_objs (m_job_manager s) ! p) = Some a"
    and "\<And>a i j. w_cargo_transfer w a i j \<noteq> None"
  shows "snd (h_transfer_datasets w jid src tgt limits mapping s) = Inl Null_dereference"
proof -
  have e: "try_map limit_copy limits = Inl Null_dereference"
    using assms(1)
  proof (induction limits)
    case (Cons l ls)
    then show ?case by (cases l) auto
  qed simp
  obtain hd where "w_cargo_transfer w (am_data_stager_address (adhoc_objs (m_adhoc_manager s) ! a))
      (map (\<lambda>d. dataset_process (dataset_id d)) src) (map (\<lambda>d. dataset_process (dataset_id d)) tgt) = Some hd"
    using assms(4) by blast
  with e assms(2,3) show ?thesis
    by (simp add: h_transfer_datasets_def enter_split Let_def)
qed

text \<open>A request whose limits contain a null one is never answered: printing it, or copying
  it into the transfer, uses the null pointer, in the second case after the data stager has started
  the transfer.\<close>

lemma null_limit_crashes:
  assumes "None \<in> set limits" "job_find jid (m_job_manager s) = Inr p"
    and "jm_adhoc_metadata_ptr (job_objs (m_job_manager s) ! p) = Some a"
    and "\<And>a i j. w_cargo_transfer w a i j \<noteq> None"
  shows "snd (h_transfer_datasets w jid src tgt limits mapping s) = Inl Null_dereference"
  using assms by (rule null_limit_no_answer)

section \<open>The scheduler\<close>

text \<open>Whether Cargo says a transfer is over.\<close>

definition is_over :: "'h world \<Rightarrow> 'h \<Rightarrow> bool" where
  "is_over w h = (case w_cargo_status w h of
     Some (state, _) \<Rightarrow> state = cargo_completed \<or> state = cargo_failed | None \<Rightarrow> False)"

definition cargo_answers :: "'h world \<Rightarrow> bool" where
  "cargo_answers w \<longleftrightarrow> (\<forall>h. w_cargo_status w h \<noteq> None) \<and> (\<forall>h n. w_cargo_bw_control w h n)"

definition same_transfers :: "'h scord \<Rightarrow> 'h scord \<Rightarrow> bool" where
  "same_transfers s t \<longleftrightarrow>
     m_transfer (m_transfer_manager t) = m_transfer (m_transfer_manager s) \<and>
     map tm_handle (tx_objs (m_transfer_manager t)) = map tm_handle (tx_objs (m_transfer_manager s)) \<and>
     map tm_qos (tx_objs (m_transfer_manager t)) = map tm_qos (tx_objs (m_transfer_manager s))"

lemma same_transfers_trans: "same_transfers s t \<Longrightarrow> same_transfers t u \<Longrightarrow> same_transfers s u"
  by (simp add: same_transfers_def)

lemma same_transfers_nth:
  assumes "same_transfers s t" "p < length (tx_objs (m_transfer_manager s))"
  shows "p < length (tx_objs (m_transfer_manager t))"
    "tm_handle (tx_objs (m_transfer_manager t) ! p) = tm_handle (tx_objs (m_transfer_manager s) ! p)"
    "tm_qos (tx_objs (m_transfer_manager t) ! p) = tm_qos (tx_objs (m_transfer_manager s) ! p)"
  using assms unfolding same_transfers_def
  by (metis length_map, metis length_map nth_map, metis length_map nth_map)

lemma same_transfers_limits:
  assumes "same_transfers s t" "limits_ok (m_transfer_manager s)"
  shows "limits_ok (m_transfer_manager t)"
proof -
  have "set (map tm_qos (tx_objs (m_transfer_manager t))) =
      set (map tm_qos (tx_objs (m_transfer_manager s)))"
    using assms(1) by (simp add: same_transfers_def)
  moreover have "limits_ok tm \<longleftrightarrow> (\<forall>q \<in> set (map tm_qos (tx_objs tm)). None \<notin> set q)"
    for tm :: "'a transfer_manager"
    by (simp add: limits_ok_def)
  ultimately show ?thesis using assms(2) by metis
qed

lemma same_transfers_update:
  "same_transfers s (s\<lparr>m_transfer_manager := transfer_ptr_update p b (m_transfer_manager s)\<rparr>)"
  by (simp add: same_transfers_def transfer_ptr_update_def map_through)

lemma schedule_one_ok:
  assumes "cargo_answers w" "limits_ok (m_transfer_manager s)" "p < length (tx_objs (m_transfer_manager s))"
  shows "\<exists>t. schedule_one w p s = (t, Inr (is_over w (tm_handle (tx_objs (m_transfer_manager s) ! p)))) \<and>
    same_transfers s t"
proof -
  let ?h = "tm_handle (tx_objs (m_transfer_manager s) ! p)"
  obtain state bw where st: "w_cargo_status w ?h = Some (state, bw)"
    using assms(1) by (metis cargo_answers_def not_Some_eq surj_pair)
  define s1 where "s1 = s\<lparr>m_transfer_manager := transfer_ptr_update p bw (m_transfer_manager s)\<rparr>"
  have s1: "same_transfers s s1" unfolding s1_def by (rule same_transfers_update)
  then have q: "tm_qos (tx_objs (m_transfer_manager s1) ! p) = tm_qos (tx_objs (m_transfer_manager s) ! p)"
    using assms(3) by (rule same_transfers_nth)
  have lim: "\<exists>v. limit_value l = Inr v" if "tm_qos (tx_objs (m_transfer_manager s) ! p) = l # ls" for l ls
  proof -
    have "None \<notin> set (tm_qos (tx_objs (m_transfer_manager s) ! p))"
      using assms(2,3) by (simp add: limits_ok_def)
    with that show ?thesis by (cases l) auto
  qed
  have ctl: "\<exists>t. bw_control w ?h d s1 = (t, Inr ()) \<and> same_transfers s t" for d
    using assms(1) s1 by (cases d) (auto simp: bw_control_def cargo_answers_def same_transfers_def)
  have id: "same_transfers s s" by (simp add: same_transfers_def)
  show ?thesis
  proof (cases "state \<in> {cargo_completed, cargo_failed, cargo_pending}")
    case True
    with st id show ?thesis by (auto simp: schedule_one_def is_over_def)
  next
    case False
    then have over: "\<not> is_over w ?h" by (auto simp: is_over_def st)
    show ?thesis
    proof (cases "tm_qos (tx_objs (m_transfer_manager s) ! p)")
      case Nil
      have "schedule_one w p s = (s1, Inr False)"
        unfolding schedule_one_def Let_def st option.case prod.case s1_def [symmetric] q Nil list.case
        using False by simp
      with over s1 show ?thesis by simp
    next
      case (Cons l ls)
      obtain v where v: "limit_value l = Inr v" using lim [OF Cons] by blast
      let ?d = "bw_decision (w_round w) (tm_measured_bandwidth (tx_objs (m_transfer_manager s1) ! p)) v"
      obtain t where t: "bw_control w ?h ?d s1 = (t, Inr ())" "same_transfers s t"
        using ctl by blast
      have "schedule_one w p s = (if tm_measured_bandwidth (tx_objs (m_transfer_manager s1) ! p) = -1
          then (s1, Inr False) else (t, Inr False))"
        unfolding schedule_one_def Let_def st option.case prod.case s1_def [symmetric] q Cons list.case
          v sum.case t(1)
        using False by simp
      with over s1 t show ?thesis by auto
    qed
  qed
qed

lemma schedule_all_ok:
  assumes "cargo_answers w"
  shows "limits_ok (m_transfer_manager s) \<Longrightarrow>
    (\<And>k p. (k, p) \<in> set es \<Longrightarrow> p < length (tx_objs (m_transfer_manager s))) \<Longrightarrow>
    \<exists>t. schedule_all w es vs s =
        (t, Inr (vs @ map fst (filter (\<lambda>(k, p). is_over w (tm_handle (tx_objs (m_transfer_manager s) ! p))) es)))
      \<and> same_transfers s t"
proof (induction es arbitrary: s vs)
  case Nil
  then show ?case by (simp add: same_transfers_def)
next
  case (Cons e es)
  obtain k p where e: "e = (k, p)" by force
  let ?over = "is_over w (tm_handle (tx_objs (m_transfer_manager s) ! p))"
  have p: "p < length (tx_objs (m_transfer_manager s))" using Cons.prems(2) e by auto
  obtain s' where s': "schedule_one w p s = (s', Inr ?over)" "same_transfers s s'"
    using schedule_one_ok [OF assms Cons.prems(1) p] by blast
  have handles: "tm_handle (tx_objs (m_transfer_manager s') ! q) = tm_handle (tx_objs (m_transfer_manager s) ! q)"
    if "(j, q) \<in> set es" for j q
    using that Cons.prems(2) by (intro same_transfers_nth(2) [OF s'(2)]) auto
  have "\<exists>t. schedule_all w es (if ?over then vs @ [k] else vs) s' =
      (t, Inr ((if ?over then vs @ [k] else vs) @
         map fst (filter (\<lambda>(k, p). is_over w (tm_handle (tx_objs (m_transfer_manager s') ! p))) es)))
      \<and> same_transfers s' t"
    using same_transfers_limits [OF s'(2) Cons.prems(1)] Cons.prems(2) same_transfers_nth(1) [OF s'(2)]
    by (intro Cons.IH) auto
  moreover have "filter (\<lambda>(k, p). is_over w (tm_handle (tx_objs (m_transfer_manager s') ! p))) es =
      filter (\<lambda>(k, p). is_over w (tm_handle (tx_objs (m_transfer_manager s) ! p))) es"
    by (rule filter_cong) (auto simp: handles)
  ultimately show ?case
    using s' e same_transfers_trans [OF s'(2)] by auto
qed

lemma m_transfer_remove_transfers:
  "m_transfer (remove_transfers ks tm) k = (if k \<in> set ks then None else m_transfer tm k)"
  unfolding remove_transfers_def
  by (induction ks arbitrary: tm) (auto simp: transfer_remove_def split: option.split)

lemma table_entries_set:
  "(k, p) \<in> set (table_entries order t) \<longleftrightarrow> k \<in> set order \<and> t k = Some p"
  by (auto simp: table_entries_def split: option.splits)

definition watched :: "'h scord \<Rightarrow> bool" where
  "watched s \<longleftrightarrow> limits_ok (m_transfer_manager s) \<and>
     (\<forall>k p. m_transfer (m_transfer_manager s) k = Some p \<longrightarrow> p < length (tx_objs (m_transfer_manager s)))"

lemma inv_watched: "scord_inv s \<Longrightarrow> watched s"
  using transfer_reg.wf_pointer [OF scord_invD(5)] by (auto simp: watched_def scord_invD)

lemma scheduler_iteration_ok:
  assumes "cargo_answers w" "watched s"
  shows "\<exists>t. scheduler_iteration w s = (t, Inr ()) \<and> watched t \<and>
    (\<forall>k. m_transfer (m_transfer_manager t) k =
       (case m_transfer (m_transfer_manager s) k of
          None \<Rightarrow> None
        | Some p \<Rightarrow> if k \<in> set (w_order w) \<and> is_over w (tm_handle (tx_objs (m_transfer_manager s) ! p))
                    then None else Some p))"
proof -
  let ?es = "table_entries (w_order w) (m_transfer (m_transfer_manager s))"
  let ?over = "\<lambda>(k, p). is_over w (tm_handle (tx_objs (m_transfer_manager s) ! p))"
  have ptr: "(k, p) \<in> set ?es \<Longrightarrow> p < length (tx_objs (m_transfer_manager s))" for k p
    using assms(2) by (auto simp: table_entries_set watched_def)
  obtain t where t: "schedule_all w ?es [] s = (t, Inr (map fst (filter ?over ?es)))" "same_transfers s t"
    using schedule_all_ok [OF assms(1), of s ?es "[]"] ptr assms(2) by (auto simp: watched_def)
  let ?t = "t\<lparr>m_transfer_manager := remove_transfers (map fst (filter ?over ?es)) (m_transfer_manager t)\<rparr>"
  have tab: "m_transfer (m_transfer_manager ?t) k =
      (case m_transfer (m_transfer_manager s) k of
          None \<Rightarrow> None
        | Some p \<Rightarrow> if k \<in> set (w_order w) \<and> is_over w (tm_handle (tx_objs (m_transfer_manager s) ! p))
                    then None else Some p)" for k
  proof -
    have "k \<in> set (map fst (filter ?over ?es)) \<longleftrightarrow>
        (\<exists>p. k \<in> set (w_order w) \<and> m_transfer (m_transfer_manager s) k = Some p \<and> ?over (k, p))"
      by (force simp: table_entries_set)
    then show ?thesis
      using t(2) by (simp add: m_transfer_remove_transfers same_transfers_def split: option.split)
  qed
  have len: "length (tx_objs (m_transfer_manager t)) = length (tx_objs (m_transfer_manager s))"
    using t(2) unfolding same_transfers_def by (metis length_map)
  have "watched ?t"
    using assms(2) same_transfers_limits [OF t(2)] unfolding watched_def tab
    by (auto simp: remove_transfers_facts limits_ok_def len split: option.splits if_splits)
  with t(1) tab show ?thesis
    by (intro exI [of _ ?t]) (simp add: scheduler_iteration_def)
qed

text \<open>A state with one transfer, which \<open>quiet_world\<close> says is completed.\<close>

definition demo_tx_state :: "nat scord" where
  "demo_tx_state =
     fst (handle quiet_world (Req_transfer_datasets 0 [] [] [] mapping_one_to_one) (demo_job_state True))"

lemma demo_tx_reachable: "reachable True demo_tx_state"
  unfolding demo_tx_state_def by (rule reachable_handle) simp_all

lemma demo_tx_eq:
  "demo_tx_state = (demo_job_state True)\<lparr>sc_rpc_id := sc_rpc_id (demo_job_state True) + 1,
     m_transfer_manager := \<lparr>m_transfer = [0 \<mapsto> 0], tx_current_id = 1,
       tx_objs = [mk_transfer_metadata 0 0 []]\<rparr>\<rparr>"
  by (simp add: demo_tx_state_def h_transfer_datasets_def enter_split Let_def job_find_def
      transfer_op_defs emplace_absent empty_transfer_manager_def)

lemma demo_tx_bounded: "bounded demo_tx_state"
  by (simp add: demo_tx_eq bounded_def initial_defs)

lemma quiet_answers: "cargo_answers quiet_world"
  by (simp add: cargo_answers_def)

text \<open>C8: one round of the scheduler, when Cargo answers, ends normally and takes
  exactly the transfers that Cargo reports as completed or failed out of the table, leaving every
  other one registered.\<close>

theorem scheduler_removes_finished:
  assumes "reachable r s" "bounded s" "cargo_answers w"
    and "set (w_order w) = dom (m_transfer (m_transfer_manager s))"
  shows "\<exists>t. scheduler_iteration w s = (t, Inr ()) \<and>
    (\<forall>k. transfer_find k (m_transfer_manager t) =
       (case transfer_find k (m_transfer_manager s) of
          Inl ec \<Rightarrow> Inl ec
        | Inr p \<Rightarrow> if is_over w (tm_handle (tx_objs (m_transfer_manager s) ! p))
                   then Inl ADM_ENOENT else Inr p))"
proof -
  obtain t where t: "scheduler_iteration w s = (t, Inr ())"
    "\<forall>k. m_transfer (m_transfer_manager t) k =
       (case m_transfer (m_transfer_manager s) k of
          None \<Rightarrow> None
        | Some p \<Rightarrow> if k \<in> set (w_order w) \<and> is_over w (tm_handle (tx_objs (m_transfer_manager s) ! p))
                    then None else Some p)"
    using scheduler_iteration_ok [OF assms(3) inv_watched [OF reachable_inv [OF assms(1,2)]]] by blast
  have "transfer_find k (m_transfer_manager t) =
       (case transfer_find k (m_transfer_manager s) of
          Inl ec \<Rightarrow> Inl ec
        | Inr p \<Rightarrow> if is_over w (tm_handle (tx_objs (m_transfer_manager s) ! p))
                   then Inl ADM_ENOENT else Inr p)" for k
    using t(2) assms(4) by (auto simp: transfer_find_def split: option.split)
  with t(1) show ?thesis by blast
qed

theorem scheduler_removes_finished_witness:
  "\<exists>t. scheduler_iteration quiet_world demo_tx_state = (t, Inr ()) \<and>
    transfer_find 0 (m_transfer_manager t) = Inl ADM_ENOENT"
  using scheduler_removes_finished [OF demo_tx_reachable demo_tx_bounded quiet_answers]
  by (auto simp: demo_tx_eq transfer_find_def is_over_def)

text \<open>C9: the scheduler loop, for any number of rounds before the shutdown, never fails and
  never uses a null limit as long as Cargo answers, from every reachable state.\<close>

theorem scheduler_loop_safe:
  assumes "reachable r s" "bounded s" "\<forall>w \<in> set ws. cargo_answers w"
  shows "\<exists>t. scheduler_update ws s = (t, Inr ())"
proof -
  have "watched s" by (rule inv_watched [OF reachable_inv [OF assms(1,2)]])
  then show ?thesis
    using assms(3)
  proof (induction ws arbitrary: s)
    case (Cons w ws)
    then have "cargo_answers w" by simp
    then obtain t where "scheduler_iteration w s = (t, Inr ())" "watched t"
      using scheduler_iteration_ok Cons.prems(1) by blast
    with Cons show ?case by simp
  qed simp
qed

theorem scheduler_loop_safe_witness:
  "\<exists>t. scheduler_update [quiet_world, quiet_world] demo_tx_state = (t, Inr ())"
  using scheduler_loop_safe [OF demo_tx_reachable demo_tx_bounded, of "[quiet_world, quiet_world]"]
  by (simp add: quiet_answers)

lemma schedule_one_jobs: "m_job_manager (fst (schedule_one w p s)) = m_job_manager s"
  by (simp add: schedule_one_def Let_def bw_control_def split: option.split list.split sum.split)

lemma schedule_all_jobs: "m_job_manager (fst (schedule_all w es vs s)) = m_job_manager s"
proof (induction w es vs s rule: schedule_all.induct)
  case (2 w tid p rest vs s)
  obtain s' r where sr: "schedule_one w p s = (s', r)" by force
  then have "m_job_manager s' = m_job_manager s" using schedule_one_jobs [of w p s] by simp
  with 2 sr show ?case by (cases r) auto
qed simp

lemma scheduler_iteration_jobs: "scheduler_iteration w s = (t, r) \<Longrightarrow> m_job_manager t = m_job_manager s"
  using schedule_all_jobs [of w "table_entries (w_order w) (m_transfer (m_transfer_manager s))" "[]" s]
  by (auto simp: scheduler_iteration_def split: prod.splits sum.splits)

text \<open>A client that asks for a transfer after the scheduler has seen it end gets
  \<open>ADM_ENOENT\<close>, never the state finished or failed.\<close>

lemma finished_transfer_forgotten:
  assumes "reachable r s" "bounded s" "cargo_answers w"
    and "set (w_order w) = dom (m_transfer (m_transfer_manager s))"
    and "transfer_find tid (m_transfer_manager s) = Inr q"
    and "is_over w (tm_handle (tx_objs (m_transfer_manager s) ! q))"
    and "scheduler_iteration w s = (t, out)"
    and "job_find jid (m_job_manager s) = Inr p"
    and "jm_adhoc_metadata_ptr (job_objs (m_job_manager s) ! p) = Some a"
  shows "snd (h_query_transfer w' jid tid t) = Inr (mk_response_with (sc_rpc_id t) ADM_ENOENT None)"
proof -
  have "m_transfer (m_transfer_manager s) tid = Some q"
    using assms(5) by (simp add: transfer_find_def split: option.splits)
  then have "m_transfer (m_transfer_manager t) tid = None"
    using scheduler_iteration_ok [OF assms(3) inv_watched [OF reachable_inv [OF assms(1,2)]]]
      assms(4,6,7) by auto
  moreover have "m_job_manager t = m_job_manager s" using assms(7) by (rule scheduler_iteration_jobs)
  ultimately show ?thesis
    using assms(8,9) by (simp add: h_query_transfer_def enter_split Let_def transfer_find_def)
qed

section \<open>Bandwidth\<close>

text \<open>For a positive measured bandwidth and any limit the scheduler always sends a signal, also
  when the bandwidth is within ten percent of the limit, or equal to it; in that case it slows the
  transfer down. Rounding to the nearest float is off by a relative error of at most \<open>2 ^ -24\<close>.\<close>

lemma no_dead_band:
  assumes "0 < bw" "\<And>x. \<bar>rnd x - x\<bar> \<le> \<bar>x\<bar> / 2 ^ 24"
  shows "bw_decision rnd bw qos \<in> {Some 1, Some (-1)} \<and>
    (rnd (real (unat qos)) = bw \<longrightarrow> bw_decision rnd bw qos = Some 1)"
proof -
  define q where "q = rnd (real (unat qos))"
  define d where "d = rnd (bw * threshold)"
  have t: "9 / 100 * bw \<le> bw * threshold" "bw * threshold \<le> 11 / 100 * bw"
    using assms(1) by (simp_all add: threshold_def)
  have p: "(2::real) ^ 24 = 16777216" by simp
  have dt: "\<bar>d - bw * threshold\<bar> \<le> (bw * threshold) / 2 ^ 24"
    using assms(2) [of "bw * threshold"] assms(1) t by (simp add: d_def)
  have d1: "8 / 100 * bw \<le> d" using dt t assms(1) unfolding p abs_le_iff by linarith
  have d2: "d \<le> 12 / 100 * bw" using dt t assms(1) unfolding p abs_le_iff by linarith
  have near: "\<bar>rnd (bw + d) - (bw + d)\<bar> \<le> (bw + d) / 2 ^ 24" "\<bar>rnd (bw - d) - (bw - d)\<bar> \<le> (bw - d) / 2 ^ 24"
    using assms(2) [of "bw + d"] assms(2) [of "bw - d"] d1 d2 assms(1) by simp_all
  have above: "r > bw" if "\<bar>r - (bw + d)\<bar> \<le> (bw + d) / 2 ^ 24" for r
    using that d1 assms(1) unfolding p by argo
  have below: "r < bw" if "\<bar>r - (bw - d)\<bar> \<le> (bw - d) / 2 ^ 24" for r
    using that d1 assms(1) unfolding p by argo
  have hi: "rnd (bw + d) > bw" using near(1) by (rule above)
  have lo: "rnd (bw - d) < bw" using near(2) by (rule below)
  have "rnd (bw + d) > q \<or> rnd (bw - d) < q" using hi lo by linarith
  then show ?thesis
    using hi unfolding bw_decision_def q_def [symmetric] d_def [symmetric] by auto
qed

end
