(* ===== verification/CTypes.thy ===== *)
theory CTypes
  imports Types
begin

text \<open>
  The C side of the interface (\<open>src/lib/types_private.h\<close>, \<open>types.c\<close>) and the conversions between it and
  the C++ classes (\<open>src/lib/types.cpp\<close>). A C structure is a record; a pointer the code dereferences
  without looking is the structure it points to; a pointer the code compares with \<open>NULL\<close> is an option;
  an array with its length is a list. Enumerations are the integers they are in C. How these
  structures are allocated and released is the subject of \<open>CHeap\<close> and the theories on it.
\<close>

section \<open>C structures\<close>

record adm_server =
  s_protocol :: string
  s_address :: string

record adm_node =
  n_hostname :: string
  n_type :: nat

record adm_dataset =
  d_id :: string

record adm_dataset_route =
  d_src :: adm_dataset
  d_dst :: adm_dataset

record adm_job =
  j_id :: u64
  j_slurm_id :: u64

record adm_transfer =
  t_id :: u64

record adm_transfer_status =
  s_state :: nat

record adm_adhoc_context =
  c_ctl_address :: string
  c_stager_address :: string
  c_mode :: nat
  c_access :: nat
  c_walltime :: u32
  c_should_bg_flush :: bool

record adm_pfs_context =
  c_mount :: string

record adm_adhoc_resources =
  ar_nodes :: "adm_node list"

record adm_adhoc_storage =
  as_name :: string
  as_type :: nat
  as_id :: u64
  as_adhoc_ctx :: adm_adhoc_context
  as_resources :: adm_adhoc_resources

record adm_pfs_storage =
  ps_name :: string
  ps_type :: nat
  ps_id :: u64
  ps_pfs_ctx :: adm_pfs_context

record adm_job_resources =
  jr_nodes :: "adm_node list"

record adm_job_requirements =
  r_inputs :: "adm_dataset_route list"
  r_outputs :: "adm_dataset_route list"
  r_expected_outputs :: "adm_dataset_route list"
  r_adhoc_storage :: "adm_adhoc_storage option"

text \<open>
  The union of \<open>struct adm_qos_entity\<close> remembers which of its members was written; reading another one
  reinterprets a pointer, which is undefined.
\<close>

datatype adm_qos_union =
    E_node adm_node
  | E_job adm_job
  | E_dataset adm_dataset
  | E_transfer adm_transfer

record adm_qos_entity =
  e_scope :: nat
  e_union :: adm_qos_union

record adm_qos_limit =
  l_entity :: "adm_qos_entity option"
  l_class :: nat
  l_value :: u64

section \<open>From C++ to C\<close>

text \<open>\<open>std::string::c_str()\<close> as a C string: it ends at the first NUL.\<close>

definition c_str :: "string \<Rightarrow> string" where
  "c_str s = takeWhile (\<lambda>c. c \<noteq> CHR 0x00) s"

lemma c_str_id: "CHR 0x00 \<notin> set s \<Longrightarrow> c_str s = s"
  by (auto simp: c_str_def intro: takeWhile_eq_all_conv [THEN iffD2])

lemma c_str_no_nul: "CHR 0x00 \<notin> set (c_str s)"
  by (auto simp: c_str_def dest: set_takeWhileD)

definition mk_adm_node :: "string \<Rightarrow> nat \<Rightarrow> adm_node" where
  "mk_adm_node host t = \<lparr>n_hostname = host, n_type = t\<rparr>"

definition mk_adm_job :: "u64 \<Rightarrow> u64 \<Rightarrow> adm_job" where
  "mk_adm_job i s = \<lparr>j_id = i, j_slurm_id = s\<rparr>"

definition mk_adm_transfer :: "u64 \<Rightarrow> adm_transfer" where
  "mk_adm_transfer i = \<lparr>t_id = i\<rparr>"

definition mk_adm_transfer_status :: "nat \<Rightarrow> adm_transfer_status" where
  "mk_adm_transfer_status t = \<lparr>s_state = t\<rparr>"

definition adm_of_job :: "job \<Rightarrow> adm_job" where
  "adm_of_job j = mk_adm_job (job_id j) (job_slurm_id j)"

definition adm_of_transfer :: "transfer \<Rightarrow> adm_transfer" where
  "adm_of_transfer t = mk_adm_transfer (tx_id t)"

definition adm_of_transfer_state :: "transfer_state \<Rightarrow> adm_transfer_status" where
  "adm_of_transfer_state t = mk_adm_transfer_status (transfer_state_type_code (tx_status t))"

definition adm_of_adhoc_resources :: "adhoc_resources \<Rightarrow> adm_adhoc_resources" where
  "adm_of_adhoc_resources r =
     \<lparr>ar_nodes =
        map (\<lambda>n. mk_adm_node (c_str (hostname n)) (node_type_code (get_type n))) (adhoc_nodes r)\<rparr>"

definition adm_of_adhoc_ctx :: "adhoc_ctx \<Rightarrow> adm_adhoc_context" where
  "adm_of_adhoc_ctx c =
     \<lparr>c_ctl_address = c_str (controller_address c),
      c_stager_address = c_str (data_stager_address c),
      c_mode = execution_mode_code (exec_mode c),
      c_access = access_type_code (ctx_access_type c),
      c_walltime = walltime c,
      c_should_bg_flush = should_flush c\<rparr>"

definition adm_of_adhoc_storage :: "adhoc_storage \<Rightarrow> adm_adhoc_storage" where
  "adm_of_adhoc_storage a =
     \<lparr>as_name = c_str (adhoc_name a),
      as_type = adhoc_type_code (adhoc_kind a),
      as_id = adhoc_id a,
      as_adhoc_ctx = adm_of_adhoc_ctx (adhoc_context a),
      as_resources = adm_of_adhoc_resources (adhoc_res a)\<rparr>"

definition adm_of_pfs_ctx :: "pfs_ctx \<Rightarrow> adm_pfs_context" where
  "adm_of_pfs_ctx c = \<lparr>c_mount = c_str (mount_point c)\<rparr>"

definition adm_of_pfs_storage :: "pfs_storage \<Rightarrow> adm_pfs_storage" where
  "adm_of_pfs_storage p =
     \<lparr>ps_name = c_str (pfs_name p),
      ps_type = pfs_type_code (pfs_kind p),
      ps_id = pfs_id p,
      ps_pfs_ctx = adm_of_pfs_ctx (pfs_context p)\<rparr>"

section \<open>From C to C++\<close>

definition server_of_adm :: "adm_server \<Rightarrow> server" where
  "server_of_adm s = \<lparr>server_protocol = s_protocol s, server_address = s_address s\<rparr>"

definition node_of_adm :: "adm_node \<Rightarrow> node" where
  "node_of_adm n = \<lparr>hostname = n_hostname n, get_type = node_type_of (n_type n)\<rparr>"

definition dataset_of_adm :: "adm_dataset \<Rightarrow> dataset" where
  "dataset_of_adm d = \<lparr>dataset_id = d_id d\<rparr>"

definition route_of_adm :: "adm_dataset_route \<Rightarrow> dataset_route" where
  "route_of_adm r =
     \<lparr>route_source = dataset_of_adm (d_src r), route_destination = dataset_of_adm (d_dst r)\<rparr>"

definition job_of_adm :: "adm_job \<Rightarrow> job" where
  "job_of_adm j = \<lparr>job_id = j_id j, job_slurm_id = j_slurm_id j\<rparr>"

definition transfer_of_adm :: "adm_transfer \<Rightarrow> transfer" where
  "transfer_of_adm t = \<lparr>tx_id = t_id t\<rparr>"

definition transfer_state_of_adm :: "adm_transfer_status \<Rightarrow> transfer_state" where
  "transfer_state_of_adm t = \<lparr>tx_status = transfer_state_type_of (s_state t)\<rparr>"

text \<open>
  \<open>job::resources\<close> keeps the type of every node; \<open>adhoc_storage::resources\<close> passes only the host name
  to the node's constructor, whose default type is \<open>regular\<close>.
\<close>

definition job_resources_of_adm :: "adm_job_resources \<Rightarrow> job_resources" where
  "job_resources_of_adm r =
     \<lparr>job_nodes =
        map (\<lambda>n. \<lparr>hostname = n_hostname n, get_type = node_type_of (n_type n)\<rparr>) (jr_nodes r)\<rparr>"

definition adhoc_resources_of_adm :: "adm_adhoc_resources \<Rightarrow> adhoc_resources" where
  "adhoc_resources_of_adm r = \<lparr>adhoc_nodes = map (\<lambda>n. mk_node (n_hostname n)) (ar_nodes r)\<rparr>"

definition adhoc_ctx_of_adm :: "adm_adhoc_context \<Rightarrow> adhoc_ctx" where
  "adhoc_ctx_of_adm c =
     \<lparr>controller_address = c_ctl_address c,
      data_stager_address = c_stager_address c,
      exec_mode = execution_mode_of (c_mode c),
      ctx_access_type = access_type_of (c_access c),
      walltime = c_walltime c,
      should_flush = c_should_bg_flush c\<rparr>"

definition adhoc_storage_of_adm :: "adm_adhoc_storage \<Rightarrow> adhoc_storage" where
  "adhoc_storage_of_adm a =
     \<lparr>adhoc_kind = adhoc_type_of (as_type a),
      adhoc_name = as_name a,
      adhoc_id = as_id a,
      adhoc_context = adhoc_ctx_of_adm (as_adhoc_ctx a),
      adhoc_res = adhoc_resources_of_adm (as_resources a)\<rparr>"

definition pfs_ctx_of_adm :: "adm_pfs_context \<Rightarrow> pfs_ctx" where
  "pfs_ctx_of_adm c = \<lparr>mount_point = c_mount c\<rparr>"

definition pfs_storage_of_adm :: "adm_pfs_storage \<Rightarrow> pfs_storage" where
  "pfs_storage_of_adm p =
     \<lparr>pfs_kind = pfs_type_of (ps_type p),
      pfs_name = ps_name p,
      pfs_id = ps_id p,
      pfs_context = pfs_ctx_of_adm (ps_pfs_ctx p)\<rparr>"

text \<open>Reading \<open>a[i]\<close> of a C array of known length.\<close>

definition c_index :: "'a list \<Rightarrow> nat \<Rightarrow> cpp_error + 'a" where
  "c_index xs i = (if i < length xs then Inr (xs ! i) else Inl Out_of_bounds)"

text \<open>
  \<open>job::requirements(ADM_job_requirements_t)\<close>: three loops, each over the length of its own list. The
  second loop fills the outputs with what it reads from \<open>r_inputs->l_routes\<close>.
\<close>

definition requirements_of_adm :: "adm_job_requirements \<Rightarrow> cpp_error + job_requirements" where
  "requirements_of_adm reqs =
     bind_sum (try_map (\<lambda>i. bind_sum (c_index (r_inputs reqs) i) (\<lambda>r. Inr (route_of_adm r)))
                 [0..<length (r_inputs reqs)])
       (\<lambda>ins.
     bind_sum (try_map (\<lambda>i. bind_sum (c_index (r_inputs reqs) i) (\<lambda>r. Inr (route_of_adm r)))
                 [0..<length (r_outputs reqs)])
       (\<lambda>outs.
     bind_sum (try_map (\<lambda>i. bind_sum (c_index (r_expected_outputs reqs) i) (\<lambda>r. Inr (route_of_adm r)))
                 [0..<length (r_expected_outputs reqs)])
       (\<lambda>exps.
     Inr \<lparr>req_inputs = ins, req_outputs = outs, req_expected_outputs = exps,
          req_adhoc_storage = map_option adhoc_storage_of_adm (r_adhoc_storage reqs)\<rparr>)))"

text \<open>\<open>entity::impl::init_helper\<close> and the constructors of entities and limits.\<close>

fun entity_init_helper :: "adm_qos_entity \<Rightarrow> cpp_error + qos_data" where
  "entity_init_helper e =
     (if e_scope e = 0 then
        (case e_union e of E_dataset d \<Rightarrow> Inr (Q_dataset (dataset_of_adm d)) | _ \<Rightarrow> Inl Undefined_behaviour)
      else if e_scope e = 1 then
        (case e_union e of E_node n \<Rightarrow> Inr (Q_node (node_of_adm n)) | _ \<Rightarrow> Inl Undefined_behaviour)
      else if e_scope e = 2 then
        (case e_union e of E_job j \<Rightarrow> Inr (Q_job (job_of_adm j)) | _ \<Rightarrow> Inl Undefined_behaviour)
      else if e_scope e = 3 then
        (case e_union e of E_transfer t \<Rightarrow> Inr (Q_transfer (transfer_of_adm t)) | _ \<Rightarrow> Inl Undefined_behaviour)
      else Inl (Runtime_error (''Unexpected scope value: '' @ nat_to_string (e_scope e))))"

definition entity_of_adm :: "adm_qos_entity \<Rightarrow> cpp_error + qos_entity" where
  "entity_of_adm e =
     bind_sum (entity_init_helper e)
       (\<lambda>d. Inr \<lparr>ent_scope = qos_scope_of (e_scope e), ent_data = d\<rparr>)"

definition limit_of_adm :: "adm_qos_limit \<Rightarrow> cpp_error + qos_limit" where
  "limit_of_adm l =
     bind_sum (case l_entity l of
                 None \<Rightarrow> Inr None
               | Some e \<Rightarrow> bind_sum (entity_of_adm e) (\<lambda>e'. Inr (Some e')))
       (\<lambda>e. Inr (Some \<lparr>lim_subclass = qos_subclass_of (l_class l), lim_value = l_value l,
                       lim_entity = e\<rparr>))"

section \<open>Round trips\<close>

lemma job_of_adm_of_job [simp]: "job_of_adm (adm_of_job j) = j"
  by (simp add: job_of_adm_def adm_of_job_def mk_adm_job_def)

lemma transfer_of_adm_of_transfer [simp]: "transfer_of_adm (adm_of_transfer t) = t"
  by (simp add: transfer_of_adm_def adm_of_transfer_def mk_adm_transfer_def)

lemma transfer_state_of_adm_of_state [simp]: "transfer_state_of_adm (adm_of_transfer_state t) = t"
  by (simp add: transfer_state_of_adm_def adm_of_transfer_state_def mk_adm_transfer_status_def)

definition no_nul :: "string \<Rightarrow> bool" where
  "no_nul s \<longleftrightarrow> CHR 0x00 \<notin> set s"

lemma no_nul_c_str [simp]: "no_nul s \<Longrightarrow> c_str s = s"
  by (simp add: no_nul_def c_str_id)

lemma adhoc_ctx_of_adm_of_ctx:
  "no_nul (controller_address c) \<Longrightarrow> no_nul (data_stager_address c) \<Longrightarrow>
   adhoc_ctx_of_adm (adm_of_adhoc_ctx c) = c"
  by (simp add: adhoc_ctx_of_adm_def adm_of_adhoc_ctx_def)

lemma pfs_storage_of_adm_of_storage:
  "no_nul (pfs_name p) \<Longrightarrow> no_nul (mount_point (pfs_context p)) \<Longrightarrow>
   pfs_storage_of_adm (adm_of_pfs_storage p) = p"
  by (simp add: pfs_storage_of_adm_def adm_of_pfs_storage_def pfs_ctx_of_adm_def adm_of_pfs_ctx_def)

lemma adhoc_resources_roundtrip:
  "adhoc_resources_of_adm (adm_of_adhoc_resources r) =
     \<lparr>adhoc_nodes = map (\<lambda>n. mk_node (c_str (hostname n))) (adhoc_nodes r)\<rparr>"
  by (simp add: adhoc_resources_of_adm_def adm_of_adhoc_resources_def mk_adm_node_def)

lemma try_map_index_prefix:
  "k \<le> length xs \<Longrightarrow>
   try_map (\<lambda>i. bind_sum (c_index xs i) (\<lambda>r. Inr (f r))) [0..<k] = Inr (map f (take k xs))"
proof -
  assume k: "k \<le> length xs"
  have "try_map (\<lambda>i. bind_sum (c_index xs i) (\<lambda>r. Inr (f r))) [0..<k] =
        Inr (map (\<lambda>i. f (xs ! i)) [0..<k])"
    using k by (intro try_map_total) (auto simp: c_index_def)
  also have "map (\<lambda>i. f (xs ! i)) [0..<k] = map f (take k xs)"
    using k by (intro nth_equalityI) auto
  finally show ?thesis .
qed

lemma try_map_index_beyond:
  assumes "length xs < k"
  shows "\<exists>e. try_map (\<lambda>i. bind_sum (c_index xs i) (\<lambda>r. Inr (f r))) [0..<k] = Inl e"
  by (rule try_map_fails [of "length xs" _ _ Out_of_bounds]) (use assms in \<open>auto simp: c_index_def\<close>)

end
