(* ===== verification/DataClaims.thy ===== *)
theory DataClaims
  imports CTypes Network
begin

text \<open>The promises about data: what survives the conversions to and from C and the serialization.\<close>

section \<open>Serialization\<close>

text \<open>C30: the requirements of a job, with all their routes and their adhoc storage, come out
  of a serialization and deserialization as they went in, whatever follows them in the archive; so
  two requirements with the same serialization are equal.\<close>

theorem requirements_survive:
  "job_requirements_load (job_requirements_save r @ rest) = Some (r, rest) \<and>
   (job_requirements_save r = job_requirements_save r' \<longleftrightarrow> r = r')"
  using job_requirements_codec.load_save job_requirements_codec.save_inject by blast

text \<open>Every response of the daemon arrives as it was sent: the operation, the code and
  the value, present or not, for each of the four types of value.\<close>

lemma responses_survive:
  "response_load (response_save g @ rest) = Some (g, rest) \<and>
   response_with_load load_u64 (response_with_save save_u64 i @ rest) = Some (i, rest) \<and>
   response_with_load load_str (response_with_save save_str d @ rest) = Some (d, rest) \<and>
   response_with_load job_info_load (response_with_save job_info_save q @ rest) = Some (q, rest) \<and>
   response_with_load transfer_state_load (response_with_save transfer_state_save t @ rest) =
     Some (t, rest)"
  by (simp add: response_codec.load_save response_with_id_codec.load_save
      response_with_path_codec.load_save response_with_info_codec.load_save
      response_with_state_codec.load_save)

text \<open>A job that is serialized keeps its identifier and loses its Slurm identifier: the
  receiver has the one its object happened to have; two jobs that differ only there have the same
  serialization. A QoS limit about a job loses it the same way.\<close>

lemma job_loses_slurm_id:
  "job_load old (job_save j @ rest) = Some (\<lparr>job_id = job_id j, job_slurm_id = old\<rparr>, rest) \<and>
   job_save (j\<lparr>job_slurm_id := s\<rparr>) = job_save j \<and>
   limit_load old (limit_save (Some \<lparr>lim_subclass = c, lim_value = v,
       lim_entity = Some \<lparr>ent_scope = sc, ent_data = Q_job j\<rparr>\<rparr>) @ rest) =
     Some (Some \<lparr>lim_subclass = c, lim_value = v,
       lim_entity = Some \<lparr>ent_scope = sc, ent_data = Q_job \<lparr>job_id = job_id j, job_slurm_id = old\<rparr>\<rparr>\<rparr>,
       rest)"
proof -
  have j: "j\<lparr>job_slurm_id := old\<rparr> = \<lparr>job_id = job_id j, job_slurm_id = old\<rparr>" by (cases j) simp
  have "job_save (j\<lparr>job_slurm_id := s\<rparr>) = job_save j"
    by (simp add: job_save_def save_ptr_def job_impl_save_def)
  with j show ?thesis
    by (simp add: job_codec.load_save_norm limit_codec.load_save_norm limit_norm_def limit_impl_norm_def
        entity_norm_def)
qed

section \<open>Conversions from and to C\<close>

text \<open>The conversion of a C requirements structure takes the inputs and the expected
  outputs as they are, but fills the outputs with the first inputs, as many as there are outputs; when
  there are more outputs than inputs it reads past the end of the input array.\<close>

lemma requirements_from_c:
  "requirements_of_adm reqs =
     (if length (r_outputs reqs) \<le> length (r_inputs reqs)
      then Inr \<lparr>req_inputs = map route_of_adm (r_inputs reqs),
                req_outputs = map route_of_adm (take (length (r_outputs reqs)) (r_inputs reqs)),
                req_expected_outputs = map route_of_adm (r_expected_outputs reqs),
                req_adhoc_storage = map_option adhoc_storage_of_adm (r_adhoc_storage reqs)\<rparr>
      else Inl Out_of_bounds)"
proof -
  have all: "try_map (\<lambda>i. bind_sum (c_index xs i) (\<lambda>r. Inr (route_of_adm r))) [0..<length xs] =
      Inr (map route_of_adm xs)" for xs
    using try_map_index_prefix [of "length xs" xs route_of_adm] by simp
  have oob: "try_map (\<lambda>i. bind_sum (c_index xs i) (\<lambda>r. Inr (route_of_adm r))) js = Inl e \<Longrightarrow>
      e = Out_of_bounds" for xs js e
    by (induction js) (auto simp: bind_sum_eq_Inl c_index_def split: if_splits)
  show ?thesis
  proof (cases "length (r_outputs reqs) \<le> length (r_inputs reqs)")
    case True
    then show ?thesis
      unfolding requirements_of_adm_def all using try_map_index_prefix [OF True, of route_of_adm] by simp
  next
    case False
    then obtain e where e: "try_map (\<lambda>i. bind_sum (c_index (r_inputs reqs) i) (\<lambda>r. Inr (route_of_adm r)))
        [0..<length (r_outputs reqs)] = Inl e"
      using try_map_index_beyond [of "r_inputs reqs" "length (r_outputs reqs)" route_of_adm] by auto
    with oob False show ?thesis unfolding requirements_of_adm_def all by simp
  qed
qed

text \<open>An adhoc storage that goes to C and back keeps its nodes' names and makes every
  node a regular one; the resources of a job keep the type of each node.\<close>

lemma adhoc_nodes_lose_type:
  assumes "\<forall>n \<in> set (adhoc_nodes r). no_nul (hostname n)"
  shows "adhoc_resources_of_adm (adm_of_adhoc_resources r) =
      \<lparr>adhoc_nodes = map (\<lambda>n. n\<lparr>get_type := node_regular\<rparr>) (adhoc_nodes r)\<rparr> \<and>
    job_resources_of_adm \<lparr>jr_nodes = ar_nodes (adm_of_adhoc_resources r)\<rparr> =
      \<lparr>job_nodes = adhoc_nodes r\<rparr>"
proof -
  have "mk_node (c_str (hostname n)) = n\<lparr>get_type := node_regular\<rparr>" if "n \<in> set (adhoc_nodes r)" for n
    using assms that by (cases n) (auto simp: mk_node_def)
  then have a: "adhoc_resources_of_adm (adm_of_adhoc_resources r) =
      \<lparr>adhoc_nodes = map (\<lambda>n. n\<lparr>get_type := node_regular\<rparr>) (adhoc_nodes r)\<rparr>"
    by (simp add: adhoc_resources_roundtrip)
  have "\<lparr>hostname = c_str (hostname n), get_type = get_type n\<rparr> = n"
    if "n \<in> set (adhoc_nodes r)" for n
    using assms that by (cases n) auto
  then have "job_resources_of_adm \<lparr>jr_nodes = ar_nodes (adm_of_adhoc_resources r)\<rparr> =
      \<lparr>job_nodes = adhoc_nodes r\<rparr>"
    by (simp add: job_resources_of_adm_def adm_of_adhoc_resources_def mk_adm_node_def map_idI)
  with a show ?thesis ..
qed

text \<open>Apart from the types of its nodes, an adhoc storage goes to C and back unchanged,
  enumeration values past the named ones included, and so does a parallel file system, when no string in
  it contains a NUL.\<close>

lemma storage_c_roundtrip:
  assumes "no_nul (adhoc_name a)" "no_nul (controller_address (adhoc_context a))"
    and "no_nul (data_stager_address (adhoc_context a))"
    and "\<forall>n \<in> set (adhoc_nodes (adhoc_res a)). no_nul (hostname n) \<and> get_type n = node_regular"
    and "no_nul (pfs_name p)" "no_nul (mount_point (pfs_context p))"
  shows "adhoc_storage_of_adm (adm_of_adhoc_storage a) = a \<and>
    pfs_storage_of_adm (adm_of_pfs_storage p) = p"
proof -
  have "mk_node (c_str (hostname n)) = n" if "n \<in> set (adhoc_nodes (adhoc_res a))" for n
    using assms(4) that by (cases n) (auto simp: mk_node_def)
  then have "adhoc_resources_of_adm (adm_of_adhoc_resources (adhoc_res a)) = adhoc_res a"
    by (simp add: adhoc_resources_roundtrip map_idI)
  with assms show ?thesis
    by (simp add: adhoc_storage_of_adm_def adm_of_adhoc_storage_def adhoc_ctx_of_adm_of_ctx
        pfs_storage_of_adm_of_storage)
qed

section \<open>Return codes\<close>

text \<open>Every code the interface names has a message of its own, and every other code the
  message of an undetermined error, except \<open>ADM_ERR_MAX\<close> and what is beyond it; the printed name of a
  code is its own for every named code but \<open>ADM_ENO_RESOURCES\<close>, which prints as an invalid value.\<close>

lemma error_texts:
  "(\<forall>d \<in> set named_returns. \<forall>e \<in> set named_returns.
      error_code_message d = error_code_message e \<longleftrightarrow> d = e) \<and>
   (14 \<le> n \<and> n < ADM_ERR_MAX \<longrightarrow> error_code_message (error_code_of n) = ''Undetermined error'') \<and>
   (ADM_ERR_MAX \<le> n \<longrightarrow> error_code_message (error_code_of n) = ''Unknown error'') \<and>
   (error_code_name e = ''INVALID_ERROR_VALUE'' \<longleftrightarrow> e = ADM_ENO_RESOURCES \<or> e \<notin> set named_returns)"
proof (intro conjI)
  show "\<forall>d \<in> set named_returns. \<forall>e \<in> set named_returns.
      error_code_message d = error_code_message e \<longleftrightarrow> d = e"
    by (simp add: named_returns_def error_code_message_def ADM_strerror_def adm_errlist_def adm_errmsgs_def
        ADM_ERR_MAX_def)
  show "14 \<le> n \<and> n < ADM_ERR_MAX \<longrightarrow> error_code_message (error_code_of n) = ''Undetermined error''"
    by (simp add: error_code_message_def ADM_strerror_def adm_errlist_def adm_errmsgs_def ADM_ERR_MAX_def)
  show "ADM_ERR_MAX \<le> n \<longrightarrow> error_code_message (error_code_of n) = ''Unknown error''"
    by (simp add: error_code_message_def ADM_strerror_def adm_errlist_def adm_errmsgs_def ADM_ERR_MAX_def)
  show "error_code_name e = ''INVALID_ERROR_VALUE'' \<longleftrightarrow> e = ADM_ENO_RESOURCES \<or> e \<notin> set named_returns"
    by (cases e) (simp_all add: named_returns_def)
qed

end
