(* ===== verification/Client.thy ===== *)
theory Client
  imports Scord CTypes
begin

text \<open>
  The client library: the remote calls (\<open>src/src/lib/detail/impl.cpp\<close>), the functions of the C++ interface
  that turn errors into exceptions (\<open>src/src/lib/libscord.cpp\<close>) and those of the C interface
  (\<open>src/src/lib/c_wrapper.cpp\<close>). What the library meets is a connection: whether the address resolves,
  whether the library's logger is on, and the response to each request, by the type of response the
  call expects; \<open>None\<close> is a call that fails.
\<close>

record connection =
  cn_lookup :: bool
  cn_logging :: bool
  cn_generic :: "request \<Rightarrow> generic_response option"
  cn_id :: "request \<Rightarrow> response_with_id option"
  cn_info :: "request \<Rightarrow> job_info response_with_value option"
  cn_path :: "request \<Rightarrow> string response_with_value option"
  cn_state :: "request \<Rightarrow> transfer_state response_with_value option"

section \<open>Remote calls\<close>

text \<open>
  The shape of every call without a value: the lookup, the call, the code of the response; a failure of the
  first two is \<open>ADM_EOTHER\<close>.
\<close>

definition call_generic :: "connection \<Rightarrow> request \<Rightarrow> error_code" where
  "call_generic cn req =
     (if cn_lookup cn then
        (case cn_generic cn req of Some resp \<Rightarrow> resp_error_code resp | None \<Rightarrow> ADM_EOTHER)
      else ADM_EOTHER)"

text \<open>
  The shape of every call with a value. The log line evaluates \<open>resp.value()\<close> whatever the code is, but
  only when there is a logger.
\<close>

definition call_value ::
  "connection \<Rightarrow> 'v response_with_value option \<Rightarrow> ('v \<Rightarrow> 'a) \<Rightarrow> cpp_error + (error_code + 'a)" where
  "call_value cn answer f =
     (if cn_lookup cn then
        (case answer of
           None \<Rightarrow> Inr (Inl ADM_EOTHER)
         | Some resp \<Rightarrow>
             bind_sum (if cn_logging cn
                       then bind_sum (response_value resp) (\<lambda>_. Inr ()) else Inr ())
               (\<lambda>_. if \<not> ec_bool (resp_error_code resp) then Inr (Inl (resp_error_code resp))
                    else bind_sum (response_value resp) (\<lambda>v. Inr (Inr (f v)))))
      else Inr (Inl ADM_EOTHER))"

definition c_ping :: "connection \<Rightarrow> error_code" where
  "c_ping cn = call_generic cn Req_ping"

definition c_query :: "connection \<Rightarrow> slurm_job_id \<Rightarrow> cpp_error + (error_code + job_info)" where
  "c_query cn i = call_value cn (cn_info cn (Req_query i)) (\<lambda>v. v)"

definition c_register_job ::
  "connection \<Rightarrow> job_resources \<Rightarrow> job_requirements \<Rightarrow> slurm_job_id \<Rightarrow>
   cpp_error + (error_code + job)" where
  "c_register_job cn res reqs slurm_id =
     call_value cn (cn_id cn (Req_register_job res reqs slurm_id))
       (\<lambda>v. \<lparr>job_id = v, job_slurm_id = slurm_id\<rparr>)"

definition c_update_job :: "connection \<Rightarrow> job \<Rightarrow> job_resources \<Rightarrow> error_code" where
  "c_update_job cn j res = call_generic cn (Req_update_job (job_id j) res)"

definition c_remove_job :: "connection \<Rightarrow> job \<Rightarrow> error_code" where
  "c_remove_job cn j = call_generic cn (Req_remove_job (job_id j))"

definition c_register_adhoc_storage ::
  "connection \<Rightarrow> string \<Rightarrow> adhoc_type \<Rightarrow> adhoc_ctx \<Rightarrow> adhoc_resources \<Rightarrow>
   cpp_error + (error_code + adhoc_storage)" where
  "c_register_adhoc_storage cn name type ctx res =
     call_value cn (cn_id cn (Req_register_adhoc_storage name type ctx res))
       (\<lambda>v. \<lparr>adhoc_kind = type, adhoc_name = name, adhoc_id = v, adhoc_context = ctx, adhoc_res = res\<rparr>)"

definition c_update_adhoc_storage :: "connection \<Rightarrow> adhoc_storage \<Rightarrow> adhoc_resources \<Rightarrow> error_code" where
  "c_update_adhoc_storage cn a res = call_generic cn (Req_update_adhoc_storage (adhoc_id a) res)"

definition c_remove_adhoc_storage :: "connection \<Rightarrow> adhoc_storage \<Rightarrow> error_code" where
  "c_remove_adhoc_storage cn a = call_generic cn (Req_remove_adhoc_storage (adhoc_id a))"

definition c_register_pfs_storage ::
  "connection \<Rightarrow> string \<Rightarrow> pfs_type \<Rightarrow> pfs_ctx \<Rightarrow> cpp_error + (error_code + pfs_storage)" where
  "c_register_pfs_storage cn name type ctx =
     call_value cn (cn_id cn (Req_register_pfs_storage name type ctx))
       (\<lambda>v. \<lparr>pfs_kind = type, pfs_name = name, pfs_id = v, pfs_context = ctx\<rparr>)"

definition c_update_pfs_storage :: "connection \<Rightarrow> pfs_storage \<Rightarrow> pfs_ctx \<Rightarrow> error_code" where
  "c_update_pfs_storage cn p ctx = call_generic cn (Req_update_pfs_storage (pfs_id p) ctx)"

definition c_remove_pfs_storage :: "connection \<Rightarrow> pfs_storage \<Rightarrow> error_code" where
  "c_remove_pfs_storage cn p = call_generic cn (Req_remove_pfs_storage (pfs_id p))"

definition c_deploy_adhoc_storage :: "connection \<Rightarrow> adhoc_storage \<Rightarrow> cpp_error + (error_code + string)" where
  "c_deploy_adhoc_storage cn a =
     call_value cn (cn_path cn (Req_deploy_adhoc_storage (adhoc_id a))) (\<lambda>v. v)"

definition c_terminate_adhoc_storage :: "connection \<Rightarrow> adhoc_storage \<Rightarrow> error_code" where
  "c_terminate_adhoc_storage cn a = call_generic cn (Req_terminate_adhoc_storage (adhoc_id a))"

text \<open>The line logged before the call prints the limits, through their pointers.\<close>

definition c_transfer_datasets ::
  "connection \<Rightarrow> job \<Rightarrow> dataset list \<Rightarrow> dataset list \<Rightarrow> qos_limit list \<Rightarrow> transfer_mapping \<Rightarrow>
   cpp_error + (error_code + transfer)" where
  "c_transfer_datasets cn j sources targets limits mapping =
     (if cn_lookup cn \<and> cn_logging cn \<and> None \<in> set limits then Inl Null_dereference
      else call_value cn (cn_id cn (Req_transfer_datasets (job_id j) sources targets limits mapping))
             (\<lambda>v. \<lparr>tx_id = v\<rparr>))"

definition c_query_transfer :: "connection \<Rightarrow> job \<Rightarrow> transfer \<Rightarrow> cpp_error + (error_code + transfer_state)" where
  "c_query_transfer cn j t =
     call_value cn (cn_state cn (Req_query_transfer (job_id j) (tx_id t))) (\<lambda>v. v)"

section \<open>The C++ interface\<close>

text \<open>An error code becomes a \<open>std::runtime_error\<close> with the name of the function and the message of the code.\<close>

definition throw_unless :: "string \<Rightarrow> error_code \<Rightarrow> cpp_error + unit" where
  "throw_unless name ec =
     (if \<not> ec_bool ec then Inl (Runtime_error (name @ ''() error: '' @ error_code_message ec)) else Inr ())"

definition value_or_throw :: "string \<Rightarrow> cpp_error + (error_code + 'a) \<Rightarrow> cpp_error + 'a" where
  "value_or_throw name r =
     bind_sum r (\<lambda>rv. case rv of
        Inl ec \<Rightarrow> Inl (Runtime_error (name @ ''() error: '' @ error_code_message ec))
      | Inr v \<Rightarrow> Inr v)"

definition lib_ping :: "connection \<Rightarrow> cpp_error + unit" where
  "lib_ping cn = throw_unless ''ADM_ping'' (c_ping cn)"

definition lib_query :: "connection \<Rightarrow> slurm_job_id \<Rightarrow> cpp_error + job_info" where
  "lib_query cn i = value_or_throw ''ADM_query'' (c_query cn i)"

definition lib_register_job ::
  "connection \<Rightarrow> job_resources \<Rightarrow> job_requirements \<Rightarrow> slurm_job_id \<Rightarrow> cpp_error + job" where
  "lib_register_job cn res reqs i = value_or_throw ''ADM_register_job'' (c_register_job cn res reqs i)"

definition lib_update_job :: "connection \<Rightarrow> job \<Rightarrow> job_resources \<Rightarrow> cpp_error + unit" where
  "lib_update_job cn j res = throw_unless ''ADM_update_job'' (c_update_job cn j res)"

definition lib_remove_job :: "connection \<Rightarrow> job \<Rightarrow> cpp_error + unit" where
  "lib_remove_job cn j = throw_unless ''ADM_remove_job'' (c_remove_job cn j)"

definition lib_register_adhoc_storage ::
  "connection \<Rightarrow> string \<Rightarrow> adhoc_type \<Rightarrow> adhoc_ctx \<Rightarrow> adhoc_resources \<Rightarrow> cpp_error + adhoc_storage" where
  "lib_register_adhoc_storage cn n t c r =
     value_or_throw ''ADM_register_adhoc_storage'' (c_register_adhoc_storage cn n t c r)"

definition lib_update_adhoc_storage ::
  "connection \<Rightarrow> adhoc_storage \<Rightarrow> adhoc_resources \<Rightarrow> cpp_error + unit" where
  "lib_update_adhoc_storage cn a r =
     throw_unless ''ADM_update_adhoc_storage'' (c_update_adhoc_storage cn a r)"

definition lib_remove_adhoc_storage :: "connection \<Rightarrow> adhoc_storage \<Rightarrow> cpp_error + unit" where
  "lib_remove_adhoc_storage cn a = throw_unless ''ADM_remove_adhoc_storage'' (c_remove_adhoc_storage cn a)"

definition lib_deploy_adhoc_storage :: "connection \<Rightarrow> adhoc_storage \<Rightarrow> cpp_error + string" where
  "lib_deploy_adhoc_storage cn a =
     value_or_throw ''ADM_deploy_adhoc_storage'' (c_deploy_adhoc_storage cn a)"

text \<open>The message of a failed termination names the deployment.\<close>

definition lib_terminate_adhoc_storage :: "connection \<Rightarrow> adhoc_storage \<Rightarrow> cpp_error + unit" where
  "lib_terminate_adhoc_storage cn a =
     throw_unless ''ADM_deploy_adhoc_storage'' (c_terminate_adhoc_storage cn a)"

definition lib_register_pfs_storage ::
  "connection \<Rightarrow> string \<Rightarrow> pfs_type \<Rightarrow> pfs_ctx \<Rightarrow> cpp_error + pfs_storage" where
  "lib_register_pfs_storage cn n t c =
     value_or_throw ''ADM_register_pfs_storage'' (c_register_pfs_storage cn n t c)"

definition lib_update_pfs_storage :: "connection \<Rightarrow> pfs_storage \<Rightarrow> pfs_ctx \<Rightarrow> cpp_error + unit" where
  "lib_update_pfs_storage cn p c = throw_unless ''ADM_update_pfs_storage'' (c_update_pfs_storage cn p c)"

definition lib_remove_pfs_storage :: "connection \<Rightarrow> pfs_storage \<Rightarrow> cpp_error + unit" where
  "lib_remove_pfs_storage cn p = throw_unless ''ADM_remove_pfs_storage'' (c_remove_pfs_storage cn p)"

definition lib_transfer_datasets ::
  "connection \<Rightarrow> job \<Rightarrow> dataset list \<Rightarrow> dataset list \<Rightarrow> qos_limit list \<Rightarrow> transfer_mapping \<Rightarrow>
   cpp_error + transfer" where
  "lib_transfer_datasets cn j a b l m =
     value_or_throw ''ADM_transfer_datasets'' (c_transfer_datasets cn j a b l m)"

definition lib_query_transfer :: "connection \<Rightarrow> job \<Rightarrow> transfer \<Rightarrow> cpp_error + transfer_state" where
  "lib_query_transfer cn j t = value_or_throw ''ADM_query_transfer'' (c_query_transfer cn j t)"

section \<open>The C interface\<close>

text \<open>
  A function with an output parameter returns the code and what it stored there, if it did. Errors of the
  remote call are returned; an exception is passed on.
\<close>

definition out_param :: "('a \<Rightarrow> 'b) \<Rightarrow> cpp_error + (error_code + 'a) \<Rightarrow> cpp_error + (error_code \<times> 'b option)" where
  "out_param f r =
     bind_sum r (\<lambda>rv. case rv of Inl ec \<Rightarrow> Inr (ec, None) | Inr v \<Rightarrow> Inr (ADM_SUCCESS, Some (f v)))"

definition convert_datasets :: "adm_dataset list \<Rightarrow> dataset list" where
  "convert_datasets ds = map dataset_of_adm ds"

definition convert_limits :: "adm_qos_limit list \<Rightarrow> cpp_error + qos_limit list" where
  "convert_limits ls = try_map limit_of_adm ls"

text \<open>A vector of \<open>limits_len\<close> default limits, whose first element, if there is one, is a bandwidth limit.\<close>

definition convert_limit :: "u64 \<Rightarrow> nat \<Rightarrow> qos_limit list" where
  "convert_limit limit limits_len =
     (let rv = replicate limits_len None
      in if limits_len > 0
         then rv[0 := Some \<lparr>lim_subclass = qos_class_bandwidth, lim_value = limit, lim_entity = None\<rparr>]
         else rv)"

definition ADM_ping :: "connection \<Rightarrow> error_code" where
  "ADM_ping cn = c_ping cn"

definition ADM_register_job ::
  "connection \<Rightarrow> adm_job_resources \<Rightarrow> adm_job_requirements \<Rightarrow> u64 \<Rightarrow>
   cpp_error + (error_code \<times> adm_job option)" where
  "ADM_register_job cn res reqs slurm_id =
     bind_sum (requirements_of_adm reqs)
       (\<lambda>reqs. out_param adm_of_job (c_register_job cn (job_resources_of_adm res) reqs slurm_id))"

definition ADM_update_job :: "connection \<Rightarrow> adm_job \<Rightarrow> adm_job_resources \<Rightarrow> error_code" where
  "ADM_update_job cn j res = c_update_job cn (job_of_adm j) (job_resources_of_adm res)"

definition ADM_remove_job :: "connection \<Rightarrow> adm_job \<Rightarrow> error_code" where
  "ADM_remove_job cn j = c_remove_job cn (job_of_adm j)"

definition ADM_register_adhoc_storage ::
  "connection \<Rightarrow> string \<Rightarrow> nat \<Rightarrow> adm_adhoc_context \<Rightarrow> adm_adhoc_resources \<Rightarrow>
   cpp_error + (error_code \<times> adm_adhoc_storage option)" where
  "ADM_register_adhoc_storage cn name type ctx res =
     out_param adm_of_adhoc_storage
       (c_register_adhoc_storage cn name (adhoc_type_of type) (adhoc_ctx_of_adm ctx)
          (adhoc_resources_of_adm res))"

definition ADM_update_adhoc_storage :: "connection \<Rightarrow> adm_adhoc_storage \<Rightarrow> adm_adhoc_resources \<Rightarrow> error_code" where
  "ADM_update_adhoc_storage cn a res =
     c_update_adhoc_storage cn (adhoc_storage_of_adm a) (adhoc_resources_of_adm res)"

definition ADM_remove_adhoc_storage :: "connection \<Rightarrow> adm_adhoc_storage \<Rightarrow> error_code" where
  "ADM_remove_adhoc_storage cn a = c_remove_adhoc_storage cn (adhoc_storage_of_adm a)"

text \<open>The path is copied into a new buffer and ended by a NUL.\<close>

definition ADM_deploy_adhoc_storage ::
  "connection \<Rightarrow> adm_adhoc_storage \<Rightarrow> cpp_error + (error_code \<times> string option)" where
  "ADM_deploy_adhoc_storage cn a =
     out_param c_str (c_deploy_adhoc_storage cn (adhoc_storage_of_adm a))"

definition ADM_terminate_adhoc_storage :: "connection \<Rightarrow> adm_adhoc_storage \<Rightarrow> error_code" where
  "ADM_terminate_adhoc_storage cn a = c_terminate_adhoc_storage cn (adhoc_storage_of_adm a)"

definition ADM_register_pfs_storage ::
  "connection \<Rightarrow> string \<Rightarrow> nat \<Rightarrow> adm_pfs_context \<Rightarrow> cpp_error + (error_code \<times> adm_pfs_storage option)" where
  "ADM_register_pfs_storage cn name type ctx =
     out_param adm_of_pfs_storage
       (c_register_pfs_storage cn name (pfs_type_of type) (pfs_ctx_of_adm ctx))"

definition ADM_update_pfs_storage :: "connection \<Rightarrow> adm_pfs_storage \<Rightarrow> adm_pfs_context \<Rightarrow> error_code" where
  "ADM_update_pfs_storage cn p ctx = c_update_pfs_storage cn (pfs_storage_of_adm p) (pfs_ctx_of_adm ctx)"

definition ADM_remove_pfs_storage :: "connection \<Rightarrow> adm_pfs_storage \<Rightarrow> error_code" where
  "ADM_remove_pfs_storage cn p = c_remove_pfs_storage cn (pfs_storage_of_adm p)"

text \<open>
  Waiting for a transfer. The answers of the successive queries are a sequence: \<open>answers i\<close> is that of the
  \<open>i\<close>-th. The loop may run forever, when every answer says running or queued; \<open>None\<close> is that case.
\<close>

definition still_active :: "transfer_state \<Rightarrow> bool" where
  "still_active st \<longleftrightarrow> tx_status st = tx_running \<or> tx_status st = tx_queued"

partial_function (option) wait_loop ::
  "(nat \<Rightarrow> cpp_error + (error_code + transfer_state)) \<Rightarrow> nat \<Rightarrow> (cpp_error + error_code) option" where
  "wait_loop answers i =
     (case answers i of
        Inl e \<Rightarrow> Some (Inl e)
      | Inr (Inl ec) \<Rightarrow> Some (Inr (if ec = ADM_ENOENT then ADM_SUCCESS else ec))
      | Inr (Inr st) \<Rightarrow> (if still_active st then wait_loop answers (Suc i) else Some (Inr ADM_SUCCESS)))"

text \<open>
  What a C transfer function returns, with what it stores; \<open>cn i\<close> is the connection as the \<open>i\<close>-th query
  finds it.
\<close>

definition finish_transfer ::
  "(nat \<Rightarrow> connection) \<Rightarrow> adm_job \<Rightarrow> bool \<Rightarrow> cpp_error + (error_code + transfer) \<Rightarrow>
   (cpp_error + (error_code \<times> adm_transfer option)) option" where
  "finish_transfer cn j wait r =
     (case r of
        Inl e \<Rightarrow> Some (Inl e)
      | Inr (Inl ec) \<Rightarrow> Some (Inr (ec, None))
      | Inr (Inr t) \<Rightarrow>
          if \<not> wait then Some (Inr (ADM_SUCCESS, Some (adm_of_transfer t)))
          else (case wait_loop (\<lambda>i. c_query_transfer (cn i) (job_of_adm j) t) 0 of
                  None \<Rightarrow> None
                | Some (Inl e) \<Rightarrow> Some (Inl e)
                | Some (Inr ec) \<Rightarrow> Some (Inr (ec, Some (adm_of_transfer t)))))"

definition ADM_transfer_datasets ::
  "connection \<Rightarrow> (nat \<Rightarrow> connection) \<Rightarrow> adm_job \<Rightarrow> adm_dataset list \<Rightarrow> adm_dataset list \<Rightarrow>
   adm_qos_limit list \<Rightarrow> nat \<Rightarrow> bool \<Rightarrow> (cpp_error + (error_code \<times> adm_transfer option)) option" where
  "ADM_transfer_datasets cn cns j sources targets limits mapping wait =
     (case convert_limits limits of
        Inl e \<Rightarrow> Some (Inl e)
      | Inr ls \<Rightarrow>
          finish_transfer cns j wait
            (c_transfer_datasets cn (job_of_adm j) (convert_datasets sources) (convert_datasets targets)
               ls (transfer_mapping_of mapping)))"

definition ADM_transfer_datasets_1 ::
  "connection \<Rightarrow> (nat \<Rightarrow> connection) \<Rightarrow> adm_job \<Rightarrow> adm_dataset list \<Rightarrow> adm_dataset list \<Rightarrow>
   u64 \<Rightarrow> nat \<Rightarrow> nat \<Rightarrow> bool \<Rightarrow> (cpp_error + (error_code \<times> adm_transfer option)) option" where
  "ADM_transfer_datasets_1 cn cns j sources targets limit limits_len mapping wait =
     finish_transfer cns j wait
       (c_transfer_datasets cn (job_of_adm j) (convert_datasets sources) (convert_datasets targets)
          (convert_limit limit limits_len) (transfer_mapping_of mapping))"

section \<open>A client and a daemon\<close>

text \<open>
  The connection to a daemon in state \<open>s\<close>: a request is handled there, and a handler that ends in an
  exception leaves the call without a response.
\<close>

definition answer_generic :: "cpp_error + reply \<Rightarrow> generic_response option" where
  "answer_generic r = (case r of Inr (Rep_generic x) \<Rightarrow> Some x | _ \<Rightarrow> None)"

definition answer_id :: "cpp_error + reply \<Rightarrow> response_with_id option" where
  "answer_id r = (case r of Inr (Rep_id x) \<Rightarrow> Some x | _ \<Rightarrow> None)"

definition answer_info :: "cpp_error + reply \<Rightarrow> job_info response_with_value option" where
  "answer_info r = (case r of Inr (Rep_info x) \<Rightarrow> Some x | _ \<Rightarrow> None)"

definition answer_path :: "cpp_error + reply \<Rightarrow> string response_with_value option" where
  "answer_path r = (case r of Inr (Rep_path x) \<Rightarrow> Some x | _ \<Rightarrow> None)"

definition answer_state :: "cpp_error + reply \<Rightarrow> transfer_state response_with_value option" where
  "answer_state r = (case r of Inr (Rep_state x) \<Rightarrow> Some x | _ \<Rightarrow> None)"

definition connect :: "bool \<Rightarrow> 'h world \<Rightarrow> 'h scord \<Rightarrow> connection" where
  "connect logging w s =
     \<lparr>cn_lookup = True, cn_logging = logging,
      cn_generic = (\<lambda>q. answer_generic (snd (handle w q s))),
      cn_id = (\<lambda>q. answer_id (snd (handle w q s))),
      cn_info = (\<lambda>q. answer_info (snd (handle w q s))),
      cn_path = (\<lambda>q. answer_path (snd (handle w q s))),
      cn_state = (\<lambda>q. answer_state (snd (handle w q s)))\<rparr>"

lemma connect_simps [simp]:
  "cn_lookup (connect l w s)" "cn_logging (connect l w s) = l"
  "cn_generic (connect l w s) q = answer_generic (snd (handle w q s))"
  "cn_id (connect l w s) q = answer_id (snd (handle w q s))"
  "cn_info (connect l w s) q = answer_info (snd (handle w q s))"
  "cn_path (connect l w s) q = answer_path (snd (handle w q s))"
  "cn_state (connect l w s) q = answer_state (snd (handle w q s))"
  by (simp_all add: connect_def)

end
