(* ===== verification/ClientClaims.thy ===== *)
theory ClientClaims
  imports Client TransferClaims
begin

text \<open>The promises of the client library, alone and connected to a daemon.\<close>

section \<open>A client and a daemon\<close>



text \<open>A call that the daemon answers with an error and no value ends the client
  program when the client's log is on, because the log line asks the response for its value; with the
  log off it returns the daemon's code. So do queries for unknown Slurm identifiers, registrations
  on unknown storages, and transfers of unknown jobs.\<close>

lemma logging_crashes_client:
  assumes "m_slurm_to_scord (m_job_manager s) sl = None"
    and "req_adhoc_storage reqs = Some st" "m_adhoc_storages (m_adhoc_manager s) (adhoc_id st) = None"
    and "m_jobs (m_job_manager s) (job_id j) = None" "None \<notin> set limits"
  shows "c_query (connect l w s) sl = (if l then Inl Terminate else Inr (Inl ADM_ENOENT)) \<and>
    c_register_job (connect l w s) res reqs sl = (if l then Inl Terminate else Inr (Inl ADM_ENOENT)) \<and>
    c_transfer_datasets (connect l w s) j a b limits m =
      (if l then Inl Terminate else Inr (Inl ADM_ENOENT)) \<and>
    c_query_transfer (connect l w s) j t = (if l then Inl Terminate else Inr (Inl ADM_ENOENT))"
proof -
  have v: "call_value (connect l w s) (Some (mk_response_with i ADM_ENOENT None)) f =
      (if l then Inl Terminate else Inr (Inl ADM_ENOENT))" for i and f :: "'v \<Rightarrow> 'u"
    by (simp add: call_value_def response_value_def)
  have q: "snd (handle w (Req_query sl) s) =
      Inr (Rep_info (mk_response_with (sc_rpc_id s) ADM_ENOENT None))"
    using assms(1) by (simp add: h_query_def enter_split Let_def reply_with_def job_find_by_slurm_id_def)
  have rj: "snd (handle w (Req_register_job res reqs sl) s) =
      Inr (Rep_id (mk_response_with (sc_rpc_id s) ADM_ENOENT None))"
    using assms(2,3)
    by (simp add: h_register_job_def enter_split Let_def reply_with_def register_job_adhoc_def
        adhoc_find_def)
  have td: "snd (handle w (Req_transfer_datasets (job_id j) a b limits m) s) =
      Inr (Rep_id (mk_response_with (sc_rpc_id s) ADM_ENOENT None))"
    using assms(4,5)
    by (simp add: h_transfer_datasets_def enter_split Let_def reply_with_def job_find_def)
  have qt: "snd (handle w (Req_query_transfer (job_id j) (tx_id t)) s) =
      Inr (Rep_state (mk_response_with (sc_rpc_id s) ADM_ENOENT None))"
    using assms(4) by (simp add: h_query_transfer_def enter_split Let_def reply_with_def job_find_def)
  show ?thesis
    using assms(5)
    unfolding c_query_def c_register_job_def c_transfer_datasets_def c_query_transfer_def connect_simps
      q rj td qt answer_info_def answer_id_def answer_state_def sum.case reply.case v
    by simp
qed

section \<open>Limits of the C interface\<close>

text \<open>The C function that takes one bandwidth value makes a vector in which only the first
  limit exists; asked for two or more limits it never starts the transfer at the daemon: the client
  crashes when its log is on, and otherwise the daemon's handler does and the client gets
  \<open>ADM_EOTHER\<close>.\<close>

lemma second_limit_is_null:
  assumes "2 \<le> limits_len" "job_find (j_id j) (m_job_manager s) = Inr p"
    and "jm_adhoc_metadata_ptr (job_objs (m_job_manager s) ! p) = Some a"
    and "\<And>a i j. w_cargo_transfer w a i j \<noteq> None"
  shows "ADM_transfer_datasets_1 (connect l w s) cns j src tgt limit limits_len mapping wait =
    Some (if l then Inl Null_dereference else Inr (ADM_EOTHER, None))"
proof -
  have null: "None \<in> set (convert_limit limit limits_len)"
  proof -
    have "convert_limit limit limits_len ! 1 = None" "1 < length (convert_limit limit limits_len)"
      using assms(1) by (simp_all add: convert_limit_def Let_def)
    then show ?thesis by (metis nth_mem)
  qed
  have "snd (h_transfer_datasets w (job_id (job_of_adm j)) x y (convert_limit limit limits_len) m s) =
      Inl Null_dereference" for x y m
    using null_limit_no_answer [OF null _ assms(3,4), of "job_id (job_of_adm j)"] assms(2)
    by (simp add: job_of_adm_def)
  then show ?thesis
    using null
    by (simp add: ADM_transfer_datasets_1_def finish_transfer_def c_transfer_datasets_def call_value_def
        answer_id_def reply_with_def)
qed

section \<open>Waiting for a transfer\<close>

definition active_answer :: "cpp_error + (error_code + transfer_state) \<Rightarrow> bool" where
  "active_answer r = (case r of Inr (Inr st) \<Rightarrow> still_active st | _ \<Rightarrow> False)"

definition final_code :: "cpp_error + (error_code + transfer_state) \<Rightarrow> cpp_error + error_code" where
  "final_code r =
     (case r of
        Inl e \<Rightarrow> Inl e
      | Inr (Inl ec) \<Rightarrow> Inr (if ec = ADM_ENOENT then ADM_SUCCESS else ec)
      | Inr (Inr st) \<Rightarrow> Inr ADM_SUCCESS)"

lemma wait_loop_step:
  "wait_loop answers i =
     (if active_answer (answers i) then wait_loop answers (Suc i) else Some (final_code (answers i)))"
  by (subst wait_loop.simps) (simp add: active_answer_def final_code_def split: sum.split)

lemma wait_loop_from:
  "(\<And>i. k \<le> i \<Longrightarrow> i < n \<Longrightarrow> active_answer (answers i)) \<Longrightarrow> \<not> active_answer (answers n) \<Longrightarrow> k \<le> n \<Longrightarrow>
   wait_loop answers k = Some (final_code (answers n))"
proof (induction "n - k" arbitrary: k)
  case 0
  then show ?case by (subst wait_loop_step) simp
next
  case (Suc m)
  then have "active_answer (answers k)" "m = n - Suc k" "Suc k \<le> n" by auto
  with Suc show ?case by (subst wait_loop_step) simp
qed

lemma wait_loop_result_some:
  assumes "wait_loop answers k = Some r"
  shows "\<exists>n \<ge> k. \<not> active_answer (answers n)"
  using assms
proof (induction rule: wait_loop.raw_induct [rotated, consumes 1, case_names step])
  case (step wl answers i r)
  show ?case
  proof (cases "active_answer (answers i)")
    case True
    with step(2) have "wl answers (Suc i) = Some r"
      by (auto simp: active_answer_def split: sum.splits if_splits)
    from step(1) [OF this] obtain n where "Suc i \<le> n" "\<not> active_answer (answers n)" by (elim exE conjE)
    then show ?thesis by (intro exI [of _ n]) simp
  next
    case False
    then show ?thesis by (intro exI [of _ i]) simp
  qed
qed

text \<open>The answers that keep a client waiting, as the states are named in \<open>types.hpp\<close>.\<close>

definition in_progress :: "cpp_error + (error_code + transfer_state) \<Rightarrow> bool" where
  "in_progress r \<longleftrightarrow>
     r = Inr (Inr \<lparr>tx_status = tx_queued\<rparr>) \<or> r = Inr (Inr \<lparr>tx_status = tx_running\<rparr>)"

lemma active_answer_iff: "active_answer r \<longleftrightarrow> in_progress r"
proof -
  have "still_active st \<longleftrightarrow> st = \<lparr>tx_status = tx_queued\<rparr> \<or> st = \<lparr>tx_status = tx_running\<rparr>" for st :: transfer_state
    by (cases st) (auto simp: still_active_def)
  then show ?thesis by (auto simp: active_answer_def in_progress_def split: sum.splits)
qed

text \<open>C29: Waiting for a transfer returns exactly when some answer to its queries is neither the state
  queued nor the state running. It then returns on the first such answer: with the exception, if the query threw
  one; with success, if the answer is any other state or says that the transfer is unknown; and with the error code of
  the answer otherwise.\<close>

theorem wait_returns_when_inactive:
  "(wait_loop answers 0 \<noteq> None \<longleftrightarrow> (\<exists>n. \<not> in_progress (answers n))) \<and>
   (\<forall>n. \<not> in_progress (answers n) \<and> (\<forall>i < n. in_progress (answers i)) \<longrightarrow>
      (\<forall>e. answers n = Inl e \<longrightarrow> wait_loop answers 0 = Some (Inl e)) \<and>
      (\<forall>st. answers n = Inr (Inr st) \<longrightarrow> wait_loop answers 0 = Some (Inr ADM_SUCCESS)) \<and>
      (answers n = Inr (Inl ADM_ENOENT) \<longrightarrow> wait_loop answers 0 = Some (Inr ADM_SUCCESS)) \<and>
      (\<forall>ec. answers n = Inr (Inl ec) \<and> ec \<noteq> ADM_ENOENT \<longrightarrow> wait_loop answers 0 = Some (Inr ec)))"
proof -
  have first: "wait_loop answers 0 = Some (final_code (answers n))"
    if "\<not> in_progress (answers n)" "\<forall>i < n. in_progress (answers i)" for n
    using that by (intro wait_loop_from) (auto simp: active_answer_iff)
  have returns: "wait_loop answers 0 \<noteq> None \<longleftrightarrow> (\<exists>n. \<not> in_progress (answers n))"
  proof
    assume "\<exists>n. \<not> in_progress (answers n)"
    then obtain n where "\<not> in_progress (answers n)" "\<forall>i < n. \<not> \<not> in_progress (answers i)"
      using exists_least_iff [of "\<lambda>n. \<not> in_progress (answers n)"] by (elim iffD1 [THEN exE] conjE)
    with first [of n] show "wait_loop answers 0 \<noteq> None" by simp
  next
    assume "wait_loop answers 0 \<noteq> None"
    then obtain r where "wait_loop answers 0 = Some r" by (elim not_None_eq [THEN iffD1, THEN exE])
    from wait_loop_result_some [OF this] show "\<exists>n. \<not> in_progress (answers n)"
      unfolding active_answer_iff by (elim exE conjE) (rule exI)
  qed
  have verdict: "(\<forall>e. answers n = Inl e \<longrightarrow> wait_loop answers 0 = Some (Inl e)) \<and>
      (\<forall>st. answers n = Inr (Inr st) \<longrightarrow> wait_loop answers 0 = Some (Inr ADM_SUCCESS)) \<and>
      (answers n = Inr (Inl ADM_ENOENT) \<longrightarrow> wait_loop answers 0 = Some (Inr ADM_SUCCESS)) \<and>
      (\<forall>ec. answers n = Inr (Inl ec) \<and> ec \<noteq> ADM_ENOENT \<longrightarrow> wait_loop answers 0 = Some (Inr ec))"
    if "\<not> in_progress (answers n) \<and> (\<forall>i < n. in_progress (answers i))" for n
    using first [of n] that by (auto simp: final_code_def)
  show ?thesis by (rule conjI [OF returns], intro allI impI, rule verdict)
qed

theorem wait_returns_when_inactive_witness:
  "wait_loop (\<lambda>i. if i = 0 then Inr (Inr \<lparr>tx_status = tx_queued\<rparr>)
                  else if i < 3 then Inr (Inr \<lparr>tx_status = tx_running\<rparr>) else Inr (Inl ADM_ENOENT)) 0 =
    Some (Inr ADM_SUCCESS)"
proof -
  define a :: "nat \<Rightarrow> cpp_error + (error_code + transfer_state)" where
    "a = (\<lambda>i. if i = 0 then Inr (Inr \<lparr>tx_status = tx_queued\<rparr>)
              else if i < 3 then Inr (Inr \<lparr>tx_status = tx_running\<rparr>) else Inr (Inl ADM_ENOENT))"
  have wait: "\<not> in_progress (a 3) \<and> (\<forall>i < 3. in_progress (a i))" and last: "a 3 = Inr (Inl ADM_ENOENT)"
    by (simp_all add: a_def in_progress_def)
  from mp [OF spec [OF conjunct2 [OF wait_returns_when_inactive]] wait] last
  show ?thesis by (simp add: a_def)
qed

text \<open>A C client that waits for a transfer gets \<open>ADM_SUCCESS\<close> when the
  transfer fails or is cancelled, whether the query still sees that state or the daemon has already
  forgotten the transfer.\<close>

lemma failed_transfer_reported_as_success:
  assumes "c_transfer_datasets cn (job_of_adm j) (convert_datasets src) (convert_datasets tgt) ls
      (transfer_mapping_of m) = Inr (Inr t)"
    and "convert_limits limits = Inr ls"
    and "\<forall>i < n. active_answer (c_query_transfer (cns i) (job_of_adm j) t)"
    and "c_query_transfer (cns n) (job_of_adm j) t \<in>
      {Inr (Inr \<lparr>tx_status = tx_failed\<rparr>), Inr (Inr \<lparr>tx_status = tx_cancelled\<rparr>), Inr (Inl ADM_ENOENT)}"
  shows "ADM_transfer_datasets cn cns j src tgt limits m True = Some (Inr (ADM_SUCCESS, Some (adm_of_transfer t)))"
proof -
  let ?a = "\<lambda>i. c_query_transfer (cns i) (job_of_adm j) t"
  have n: "\<not> active_answer (?a n)" "final_code (?a n) = Inr ADM_SUCCESS"
    using assms(4) by (auto simp: active_answer_def still_active_def final_code_def)
  have "wait_loop ?a 0 = Some (final_code (?a n))"
    using assms(3) n by (intro wait_loop_from) auto
  then show ?thesis
    using assms(1,2) n by (simp add: ADM_transfer_datasets_def finish_transfer_def)
qed

text \<open>A daemon that starts transfer 7 and then reports it as failed.\<close>

definition failing_connection :: connection where
  "failing_connection =
     \<lparr>cn_lookup = True, cn_logging = True, cn_generic = (\<lambda>_. None),
      cn_id = (\<lambda>_. Some (mk_response_with 0 ADM_SUCCESS (Some 7))), cn_info = (\<lambda>_. None),
      cn_path = (\<lambda>_. None),
      cn_state = (\<lambda>_. Some (mk_response_with 1 ADM_SUCCESS (Some \<lparr>tx_status = tx_failed\<rparr>)))\<rparr>"

end
