(* ===== verification/Database.thy ===== *)
theory Database
  imports ScordReach
begin

text \<open>
  What the daemon promises, without the way it keeps it: a database of jobs, storages, file systems and
  transfers, each a table from identifiers to values. There are no objects, no pointers between
  them and no managers; a job carries what it needs of its storage. \<open>db_of\<close> reads a state of the
  daemon as such a database.
\<close>

section \<open>The database\<close>

text \<open>What a job knows of its storage: the addresses of the controller and of the data stager, and
  the universal identifier.\<close>

record storage_ref =
  ref_controller :: string
  ref_stager :: string
  ref_uuid :: string

record db_job =
  dj_job :: job
  dj_resources :: job_resources
  dj_requirements :: job_requirements
  dj_storage :: "storage_ref option"

record db_storage =
  ds_uuid :: string
  ds_storage :: adhoc_storage
  ds_client :: "job_id option"

record 'h database =
  db_calls :: u64
  db_jobs :: "job_id \<Rightarrow> db_job option"
  db_slurm :: "slurm_job_id \<Rightarrow> job_id option"
  db_next_job :: u64
  db_storages :: "u64 \<Rightarrow> db_storage option"
  db_next_storage :: u64
  db_pfs :: "u64 \<Rightarrow> pfs_storage option"
  db_next_pfs :: u64
  db_transfers :: "u64 \<Rightarrow> 'h transfer_metadata option"
  db_next_transfer :: u64
  db_redis :: bool
  db_log :: "(string \<times> (string \<Rightarrow> string option)) list"

definition empty_db :: "bool \<Rightarrow> 'h database" where
  "empty_db redis =
     \<lparr>db_calls = 0, db_jobs = (\<lambda>_. None), db_slurm = (\<lambda>_. None), db_next_job = 0,
      db_storages = (\<lambda>_. None), db_next_storage = 0, db_pfs = (\<lambda>_. None), db_next_pfs = 0,
      db_transfers = (\<lambda>_. None), db_next_transfer = 0, db_redis = redis, db_log = []\<rparr>"

type_synonym ('h, 'r) db_outcome = "'h database \<times> (cpp_error + 'r)"

definition ref_of :: "db_storage \<Rightarrow> storage_ref" where
  "ref_of st =
     \<lparr>ref_controller = controller_address (adhoc_context (ds_storage st)),
      ref_stager = data_stager_address (adhoc_context (ds_storage st)), ref_uuid = ds_uuid st\<rparr>"

text \<open>Every operation takes a number for its answer.\<close>

definition take_call :: "'h database \<Rightarrow> 'h database" where
  "take_call d = d\<lparr>db_calls := db_calls d + 1\<rparr>"

definition log_entry :: "'h world \<Rightarrow> string \<Rightarrow> (string \<times> string) list \<Rightarrow> 'r \<Rightarrow> 'h database \<Rightarrow> ('h, 'r) db_outcome" where
  "log_entry w key kvs r d =
     (if w_redis_ok w then (d\<lparr>db_log := db_log d @ [(key, map_of kvs)]\<rparr>, Inr r) else (d, Inl Library_error))"

section \<open>What each request does to the database\<close>

definition add_job ::
  "slurm_job_id \<Rightarrow> job_resources \<Rightarrow> job_requirements \<Rightarrow> storage_ref option \<Rightarrow> 'h database \<Rightarrow> 'h database" where
  "add_job sl res reqs ref d =
     d\<lparr>db_jobs := (db_jobs d)(db_next_job d \<mapsto>
          \<lparr>dj_job = \<lparr>job_id = db_next_job d, job_slurm_id = sl\<rparr>, dj_resources = res,
           dj_requirements = reqs, dj_storage = ref\<rparr>),
       db_slurm := (if db_slurm d sl = None then (db_slurm d)(sl \<mapsto> db_next_job d) else db_slurm d),
       db_next_job := db_next_job d + 1\<rparr>"

definition db_register_job ::
  "'h world \<Rightarrow> job_resources \<Rightarrow> job_requirements \<Rightarrow> slurm_job_id \<Rightarrow> 'h database \<Rightarrow>
   ('h, response_with_id) db_outcome" where
  "db_register_job w res reqs sl d =
     (let jid = db_next_job d;
          ok = mk_response_with (db_calls d) ADM_SUCCESS (Some jid)
      in case req_adhoc_storage reqs of
           None \<Rightarrow>
             (add_job sl res reqs None (take_call d),
              if db_redis d then Inl Empty_optional_dereference else Inr ok)
         | Some a \<Rightarrow>
             (case db_storages d (adhoc_id a) of
                None \<Rightarrow> (take_call d, Inr (mk_response_with (db_calls d) ADM_ENOENT None))
              | Some st \<Rightarrow>
                  (let client = (if ds_client st = None then Some jid else ds_client st);
                       d' = (add_job sl res reqs (Some (ref_of st)) (take_call d))
                         \<lparr>db_storages := (db_storages d)(adhoc_id a \<mapsto> st\<lparr>ds_client := client\<rparr>)\<rparr>
                   in if db_redis d
                      then log_entry w (u64_to_string sl)
                        [(''timestamp'', nat_to_string (w_now w)), (''job_id'', u64_to_string jid),
                         (''AdhocID'', u64_to_string (adhoc_id a)), (''AdhocUUID'', ds_uuid st),
                         (''AdhocName'', adhoc_name (ds_storage st)),
                         (''Type'', adhoc_type_format (CHR ''f'') (adhoc_kind (ds_storage st))),
                         (''Deployed'', ''No''), (''StartTime'', []), (''EndTime'', []),
                         (''Policies'', [])] ok d'
                      else (d', Inr ok))))"

definition db_query :: "slurm_job_id \<Rightarrow> 'h database \<Rightarrow> ('h, job_info response_with_value) db_outcome" where
  "db_query sl d =
     (take_call d,
      case db_slurm d sl of
        None \<Rightarrow> Inr (mk_response_with (db_calls d) ADM_ENOENT None)
      | Some jid \<Rightarrow>
          (case db_jobs d jid of
             None \<Rightarrow> Inr (mk_response_with (db_calls d) ADM_ENOENT None)
           | Some j \<Rightarrow>
               (case dj_storage j of
                  None \<Rightarrow> Inl Null_dereference
                | Some ref \<Rightarrow>
                    Inr (mk_response_with (db_calls d) ADM_SUCCESS
                      (Some \<lparr>adhoc_controller_address = ref_controller ref, info_uuid = ref_uuid ref,
                             procs_for_io = of_nat (length (job_nodes (dj_resources j)))\<rparr>)))))"

definition db_update_job :: "job_id \<Rightarrow> job_resources \<Rightarrow> 'h database \<Rightarrow> ('h, generic_response) db_outcome" where
  "db_update_job jid res d =
     (case db_jobs d jid of
        None \<Rightarrow> (take_call d, Inr (mk_response (db_calls d) ADM_ENOENT))
      | Some j \<Rightarrow>
          ((take_call d)\<lparr>db_jobs := (db_jobs d)(jid \<mapsto> j\<lparr>dj_resources := res\<rparr>)\<rparr>,
           Inr (mk_response (db_calls d) ADM_SUCCESS)))"

definition db_remove_job :: "job_id \<Rightarrow> 'h database \<Rightarrow> ('h, generic_response) db_outcome" where
  "db_remove_job jid d =
     (case db_jobs d jid of
        None \<Rightarrow> (take_call d, Inr (mk_response (db_calls d) ADM_ENOENT))
      | Some j \<Rightarrow>
          (let d' = (take_call d)\<lparr>db_jobs := (db_jobs d)(jid := None),
                 db_slurm := (db_slurm d)(job_slurm_id (dj_job j) := None)\<rparr>
           in case req_adhoc_storage (dj_requirements j) of
                None \<Rightarrow> (d', Inr (mk_response (db_calls d) ADM_SUCCESS))
              | Some a \<Rightarrow>
                  (case db_storages d (adhoc_id a) of
                     None \<Rightarrow> (d', Inr (mk_response (db_calls d) ADM_ENOENT))
                   | Some st \<Rightarrow>
                       (d'\<lparr>db_storages := (db_storages d)(adhoc_id a \<mapsto> st\<lparr>ds_client := None\<rparr>)\<rparr>,
                        Inr (mk_response (db_calls d) ADM_SUCCESS)))))"

definition db_register_adhoc_storage ::
  "'h world \<Rightarrow> string \<Rightarrow> adhoc_type \<Rightarrow> adhoc_ctx \<Rightarrow> adhoc_resources \<Rightarrow> 'h database \<Rightarrow>
   ('h, response_with_id) db_outcome" where
  "db_register_adhoc_storage w n ty c res d =
     (let aid = db_next_storage d
      in ((take_call d)\<lparr>db_storages := (db_storages d)(aid \<mapsto>
              \<lparr>ds_uuid = adhoc_type_format (CHR ''e'') ty @ ''-'' @ w_random w,
               ds_storage = \<lparr>adhoc_kind = ty, adhoc_name = n, adhoc_id = aid, adhoc_context = c,
                 adhoc_res = res\<rparr>,
               ds_client = None\<rparr>),
            db_next_storage := aid + 1\<rparr>,
          Inr (mk_response_with (db_calls d) ADM_SUCCESS (Some aid))))"

definition db_update_adhoc_storage ::
  "'h world \<Rightarrow> u64 \<Rightarrow> adhoc_resources \<Rightarrow> 'h database \<Rightarrow> ('h, generic_response) db_outcome" where
  "db_update_adhoc_storage w aid res d =
     (case db_storages d aid of
        None \<Rightarrow> (take_call d, Inl Bad_expected_access)
      | Some st \<Rightarrow>
          (let grow = length (adhoc_nodes res) > length (adhoc_nodes (adhoc_res (ds_storage st)));
               address = ref_controller (ref_of st);
               name = (if grow then ''ADM_expand_adhoc_storage'' else ''ADM_shrink_adhoc_storage'');
               d' = (take_call d)\<lparr>db_storages := (db_storages d)(aid \<mapsto>
                      st\<lparr>ds_storage := (ds_storage st)\<lparr>adhoc_res := res\<rparr>\<rparr>)\<rparr>
           in if w_lookup w address
              then (take_call d',
                    case w_ctl_update w address name (ds_uuid st) (adhoc_kind (ds_storage st)) res of
                      None \<Rightarrow> Inl Bad_expected_access
                    | Some resp \<Rightarrow> Inr (mk_response (db_calls d) (resp_error_code resp)))
              else (d', Inl Bad_expected_access)))"

definition db_remove_adhoc_storage :: "u64 \<Rightarrow> 'h database \<Rightarrow> ('h, generic_response) db_outcome" where
  "db_remove_adhoc_storage aid d =
     ((take_call d)\<lparr>db_storages := (db_storages d)(aid := None)\<rparr>,
      Inr (mk_response (db_calls d) (if db_storages d aid = None then ADM_ENOENT else ADM_SUCCESS)))"

text \<open>An entry about the client of a storage.\<close>

definition log_client :: "'h world \<Rightarrow> db_storage \<Rightarrow> (string \<times> string) list \<Rightarrow> 'r \<Rightarrow> 'h database \<Rightarrow> ('h, 'r) db_outcome" where
  "log_client w st kvs r d =
     (case ds_client st of
        None \<Rightarrow> (d, Inl Null_dereference)
      | Some jid \<Rightarrow> log_entry w (u64_to_string jid) kvs r d)"

definition db_deploy_adhoc_storage ::
  "'h world \<Rightarrow> u64 \<Rightarrow> 'h database \<Rightarrow> ('h, string response_with_value) db_outcome" where
  "db_deploy_adhoc_storage w aid d =
     (let fail = (\<lambda>ec. (take_call d, Inr (mk_response_with (db_calls d) ec (Some []))))
      in case db_storages d aid of
           None \<Rightarrow> fail ADM_ENOENT
         | Some st \<Rightarrow>
             (let address = ref_controller (ref_of st)
              in if \<not> w_lookup w address then fail ADM_ESNAFU
                 else case w_ctl_deploy w address ''ADM_deploy_adhoc_storage'' (ds_uuid st)
                             (adhoc_kind (ds_storage st)) (adhoc_res (ds_storage st)) of
                        None \<Rightarrow> fail ADM_ESNAFU
                      | Some resp \<Rightarrow>
                          (if resp_error_code resp \<noteq> ADM_SUCCESS then fail (resp_error_code resp)
                           else case resp_value resp of
                                  None \<Rightarrow> (take_call d, Inl Terminate)
                                | Some path \<Rightarrow>
                                    (let ok = mk_response_with (db_calls d) ADM_SUCCESS (Some path)
                                     in if db_redis d
                                        then log_client w st
                                          [(''Deployed'', ''Yes''),
                                           (''StartTime'', nat_to_string (w_now w)),
                                           (''EndTime'', ''Running'')] ok (take_call d)
                                        else (take_call d, Inr ok)))))"

definition db_terminate_adhoc_storage ::
  "'h world \<Rightarrow> u64 \<Rightarrow> 'h database \<Rightarrow> ('h, generic_response) db_outcome" where
  "db_terminate_adhoc_storage w aid d =
     (case db_storages d aid of
        None \<Rightarrow> (take_call d, Inl Bad_expected_access)
      | Some st \<Rightarrow>
          (let address = ref_controller (ref_of st);
               ec = (if w_lookup w address
                     then case w_ctl_terminate w address ''ADM_terminate_adhoc_storage'' (ds_uuid st)
                                 (adhoc_kind (ds_storage st)) of
                            None \<Rightarrow> ADM_ESNAFU | Some resp \<Rightarrow> resp_error_code resp
                     else ADM_ESNAFU);
               resp = mk_response (db_calls d) ec
           in if db_redis d \<and> ec = ADM_SUCCESS
              then log_client w st
                [(''Deployed'', ''Yes''), (''EndTime'', nat_to_string (w_now w))] resp (take_call d)
              else (take_call d, Inr resp)))"

definition db_register_pfs_storage ::
  "string \<Rightarrow> pfs_type \<Rightarrow> pfs_ctx \<Rightarrow> 'h database \<Rightarrow> ('h, response_with_id) db_outcome" where
  "db_register_pfs_storage n ty c d =
     ((take_call d)\<lparr>db_pfs := (db_pfs d)(db_next_pfs d \<mapsto>
         \<lparr>pfs_kind = ty, pfs_name = n, pfs_id = db_next_pfs d, pfs_context = c\<rparr>),
       db_next_pfs := db_next_pfs d + 1\<rparr>,
      Inr (mk_response_with (db_calls d) ADM_SUCCESS (Some (db_next_pfs d))))"

definition db_update_pfs_storage :: "u64 \<Rightarrow> pfs_ctx \<Rightarrow> 'h database \<Rightarrow> ('h, generic_response) db_outcome" where
  "db_update_pfs_storage pid c d =
     (case db_pfs d pid of
        None \<Rightarrow> (take_call d, Inr (mk_response (db_calls d) ADM_ENOENT))
      | Some p \<Rightarrow>
          ((take_call d)\<lparr>db_pfs := (db_pfs d)(pid \<mapsto> p\<lparr>pfs_context := c\<rparr>)\<rparr>,
           Inr (mk_response (db_calls d) ADM_SUCCESS)))"

definition db_remove_pfs_storage :: "u64 \<Rightarrow> 'h database \<Rightarrow> ('h, generic_response) db_outcome" where
  "db_remove_pfs_storage pid d =
     ((take_call d)\<lparr>db_pfs := (db_pfs d)(pid := None)\<rparr>,
      Inr (mk_response (db_calls d) (if db_pfs d pid = None then ADM_ENOENT else ADM_SUCCESS)))"

text \<open>The storage a job's transfers go through, or the code the request is refused with.\<close>

definition stager_of :: "job_id \<Rightarrow> 'h database \<Rightarrow> error_code + string" where
  "stager_of jid d =
     (case db_jobs d jid of
        None \<Rightarrow> Inl ADM_ENOENT
      | Some j \<Rightarrow> (case dj_storage j of None \<Rightarrow> Inl ADM_ENO_RESOURCES | Some ref \<Rightarrow> Inr (ref_stager ref)))"

definition db_transfer_datasets ::
  "'h world \<Rightarrow> job_id \<Rightarrow> dataset list \<Rightarrow> dataset list \<Rightarrow> qos_limit list \<Rightarrow> 'h database \<Rightarrow>
   ('h, response_with_id) db_outcome" where
  "db_transfer_datasets w jid sources targets limits d =
     (if w_logging w \<and> None \<in> set limits then (take_call d, Inl Null_dereference)
      else case stager_of jid d of
        Inl ec \<Rightarrow> (take_call d, Inr (mk_response_with (db_calls d) ec None))
      | Inr address \<Rightarrow>
          (case w_cargo_transfer w address (map (dataset_process \<circ> dataset_id) sources)
                  (map (dataset_process \<circ> dataset_id) targets) of
             None \<Rightarrow> (take_call d, Inl Library_error)
           | Some h \<Rightarrow>
               if None \<in> set limits then (take_call d, Inl Null_dereference)
               else
                 (let tid = db_next_transfer d
                  in ((take_call d)\<lparr>db_transfers := (db_transfers d)(tid \<mapsto>
                         mk_transfer_metadata tid h limits), db_next_transfer := tid + 1\<rparr>,
                      Inr (mk_response_with (db_calls d) ADM_SUCCESS (Some tid))))))"

definition db_query_transfer ::
  "'h world \<Rightarrow> job_id \<Rightarrow> transfer_id \<Rightarrow> 'h database \<Rightarrow> ('h, transfer_state response_with_value) db_outcome" where
  "db_query_transfer w jid tid d =
     (take_call d,
      case stager_of jid d of
        Inl ec \<Rightarrow> Inr (mk_response_with (db_calls d) ec None)
      | Inr _ \<Rightarrow>
          (case db_transfers d tid of
             None \<Rightarrow> Inr (mk_response_with (db_calls d) ADM_ENOENT None)
           | Some m \<Rightarrow>
               (case w_cargo_status w (tm_handle m) of
                  None \<Rightarrow> Inl Library_error
                | Some (state, _) \<Rightarrow>
                    Inr (mk_response_with (db_calls d) ADM_SUCCESS
                      (Some \<lparr>tx_status = transfer_state_type_of (w_cargo_state_code w state)\<rparr>)))))"

definition db_reply :: "('r \<Rightarrow> reply) \<Rightarrow> ('h, 'r) db_outcome \<Rightarrow> ('h, reply) db_outcome" where
  "db_reply f x = (fst x, map_sum id f (snd x))"

fun serve :: "'h world \<Rightarrow> request \<Rightarrow> 'h database \<Rightarrow> ('h, reply) db_outcome" where
  "serve w Req_ping d = db_reply Rep_generic (take_call d, Inr (mk_response (db_calls d) ADM_SUCCESS))"
| "serve w (Req_query i) d = db_reply Rep_info (db_query i d)"
| "serve w (Req_register_job r q i) d = db_reply Rep_id (db_register_job w r q i d)"
| "serve w (Req_update_job i r) d = db_reply Rep_generic (db_update_job i r d)"
| "serve w (Req_remove_job i) d = db_reply Rep_generic (db_remove_job i d)"
| "serve w (Req_register_adhoc_storage n t c r) d =
     db_reply Rep_id (db_register_adhoc_storage w n t c r d)"
| "serve w (Req_update_adhoc_storage i r) d = db_reply Rep_generic (db_update_adhoc_storage w i r d)"
| "serve w (Req_remove_adhoc_storage i) d = db_reply Rep_generic (db_remove_adhoc_storage i d)"
| "serve w (Req_deploy_adhoc_storage i) d = db_reply Rep_path (db_deploy_adhoc_storage w i d)"
| "serve w (Req_terminate_adhoc_storage i) d = db_reply Rep_generic (db_terminate_adhoc_storage w i d)"
| "serve w (Req_register_pfs_storage n t c) d = db_reply Rep_id (db_register_pfs_storage n t c d)"
| "serve w (Req_update_pfs_storage i c) d = db_reply Rep_generic (db_update_pfs_storage i c d)"
| "serve w (Req_remove_pfs_storage i) d = db_reply Rep_generic (db_remove_pfs_storage i d)"
| "serve w (Req_transfer_datasets j a b l m) d = db_reply Rep_id (db_transfer_datasets w j a b l d)"
| "serve w (Req_query_transfer j t) d = db_reply Rep_state (db_query_transfer w j t d)"

section \<open>The daemon's state as a database\<close>

definition stored :: "('k \<Rightarrow> nat option) \<Rightarrow> 'm list \<Rightarrow> ('m \<Rightarrow> 'v) \<Rightarrow> 'k \<Rightarrow> 'v option" where
  "stored tab objs f k = map_option (\<lambda>p. f (objs ! p)) (tab k)"

definition storage_view :: "job_manager \<Rightarrow> adhoc_storage_metadata \<Rightarrow> db_storage" where
  "storage_view jm m =
     \<lparr>ds_uuid = am_uuid m, ds_storage = am_adhoc_storage m,
      ds_client = map_option (\<lambda>j. job_id (jm_job (job_objs jm ! j))) (am_client_info m)\<rparr>"

definition storage_ref_view :: "adhoc_storage_metadata \<Rightarrow> storage_ref" where
  "storage_ref_view m =
     \<lparr>ref_controller = am_controller_address m, ref_stager = am_data_stager_address m,
      ref_uuid = am_uuid m\<rparr>"

definition job_view :: "adhoc_storage_manager \<Rightarrow> job_metadata \<Rightarrow> db_job" where
  "job_view am m =
     \<lparr>dj_job = jm_job m, dj_resources = the (jm_resources m), dj_requirements = the (jm_requirements m),
      dj_storage = map_option (\<lambda>a. storage_ref_view (adhoc_objs am ! a)) (jm_adhoc_metadata_ptr m)\<rparr>"

definition db_of :: "'h scord \<Rightarrow> 'h database" where
  "db_of s =
     (let jm = m_job_manager s; am = m_adhoc_manager s; pm = m_pfs_manager s; tm = m_transfer_manager s
      in \<lparr>db_calls = sc_rpc_id s,
          db_jobs = stored (m_jobs jm) (job_objs jm) (job_view am),
          db_slurm = m_slurm_to_scord jm, db_next_job = job_current_id jm,
          db_storages = stored (m_adhoc_storages am) (adhoc_objs am) (storage_view jm),
          db_next_storage = adhoc_current_id am,
          db_pfs = stored (m_pfs_storages pm) (pfs_objs pm) pm_pfs_storage,
          db_next_pfs = pfs_current_id pm,
          db_transfers = stored (m_transfer tm) (tx_objs tm) (\<lambda>m. m),
          db_next_transfer = tx_current_id tm, db_redis = m_redis s, db_log = redis_log s\<rparr>)"

end
