(* ===== verification/Refinement.thy ===== *)
theory Refinement
  imports Database ScordProps
begin

text \<open>
  The daemon implements the database: handling a request in a state, and reading the result as a
  database, is the same as serving the request from the state read as a database, with the same
  answer or the same failure.
\<close>

section \<open>Tables read through an arena\<close>

lemma stored_simps [simp]:
  "tab k = Some p \<Longrightarrow> stored tab objs f k = Some (f (objs ! p))"
  "tab k = None \<Longrightarrow> stored tab objs f k = None"
  "stored (erase k tab) objs f = (stored tab objs f)(k := None)"
  "stored (\<lambda>_. None) objs f = (\<lambda>_. None)"
  by (auto simp: stored_def fun_eq_iff)

lemma stored_cong:
  "(\<And>k p. tab k = Some p \<Longrightarrow> f (objs ! p) = g (objs' ! p)) \<Longrightarrow> stored tab objs f = stored tab objs' g"
  by (auto simp: stored_def fun_eq_iff option.map_comp intro!: map_option_cong)

lemma stored_snoc:
  "(\<And>l p. tab l = Some p \<Longrightarrow> p < length objs) \<Longrightarrow>
   stored (tab(k \<mapsto> length objs)) (objs @ [m]) f = (stored tab objs f)(k \<mapsto> f m)"
  by (auto simp: stored_def fun_eq_iff nth_append intro!: map_option_cong)

lemma stored_through:
  assumes "tab k = Some p" "\<And>l q. tab l = Some q \<Longrightarrow> q < length objs"
    and "\<And>l. tab l = Some p \<Longrightarrow> l = k"
  shows "stored tab (through p h objs) f = (stored tab objs f)(k \<mapsto> f (h (objs ! p)))"
proof
  fix l
  show "stored tab (through p h objs) f l = ((stored tab objs f)(k \<mapsto> f (h (objs ! p)))) l"
  proof (cases "tab l")
    case None
    with assms(1) show ?thesis by (auto simp: stored_def)
  next
    case (Some q)
    have q: "q < length objs" using Some by (rule assms(2))
    show ?thesis
    proof (cases "q = p")
      case True
      with Some assms(3) have "l = k" by simp
      with Some True q show ?thesis by (simp add: nth_through)
    next
      case False
      with Some assms(1) have "l \<noteq> k" by auto
      with Some False q show ?thesis by (simp add: nth_through)
    qed
  qed
qed

section \<open>What a change of a manager does to the database\<close>

definition views_ok :: "job_manager \<Rightarrow> adhoc_storage_manager \<Rightarrow> bool" where
  "views_ok jm am \<longleftrightarrow>
     (\<forall>k p. m_jobs jm k = Some p \<longrightarrow> p < length (job_objs jm)) \<and>
     (\<forall>k p. m_adhoc_storages am k = Some p \<longrightarrow> p < length (adhoc_objs am)) \<and>
     (\<forall>m \<in> set (job_objs jm). \<forall>a. jm_adhoc_metadata_ptr m = Some a \<longrightarrow> a < length (adhoc_objs am)) \<and>
     (\<forall>m \<in> set (adhoc_objs am). \<forall>j. am_client_info m = Some j \<longrightarrow> j < length (job_objs jm))"

lemma views_okD:
  assumes "views_ok jm am"
  shows "m_jobs jm k = Some p \<Longrightarrow> p < length (job_objs jm)"
    and "m_adhoc_storages am l = Some a \<Longrightarrow> a < length (adhoc_objs am)"
    and "p < length (job_objs jm) \<Longrightarrow> jm_adhoc_metadata_ptr (job_objs jm ! p) = Some a \<Longrightarrow>
      a < length (adhoc_objs am)"
    and "a < length (adhoc_objs am) \<Longrightarrow> am_client_info (adhoc_objs am ! a) = Some p \<Longrightarrow>
      p < length (job_objs jm)"
  using assms nth_mem unfolding views_ok_def by blast+

lemma inv_views: "scord_inv s \<Longrightarrow> views_ok (m_job_manager s) (m_adhoc_manager s)"
proof -
  assume s: "scord_inv s"
  have "a < length (adhoc_objs (m_adhoc_manager s))"
    if "m \<in> set (job_objs (m_job_manager s))" "jm_adhoc_metadata_ptr m = Some a" for m a
    using scord_invD(6) [OF s] that by (auto simp: links_ok_def job_link_ok_def split: option.splits)
  moreover have "j < length (job_objs (m_job_manager s))"
    if "m \<in> set (adhoc_objs (m_adhoc_manager s))" "am_client_info m = Some j" for m j
    using scord_invD(6) [OF s] that by (auto simp: links_ok_def client_link_ok_def in_set_conv_nth)
  ultimately show ?thesis
    using job_reg.wf_pointer [OF scord_invD(2) [OF s]] adhoc_reg.wf_pointer [OF scord_invD(3) [OF s]]
    by (auto simp: views_ok_def)
qed

lemma db_of_frame [simp]:
  "db_of (s\<lparr>sc_rpc_id := c\<rparr>) = (db_of s)\<lparr>db_calls := c\<rparr>"
  "db_of (s\<lparr>redis_log := l\<rparr>) = (db_of s)\<lparr>db_log := l\<rparr>"
  "db_of (s\<lparr>m_pfs_manager := pm\<rparr>) =
     (db_of s)\<lparr>db_pfs := stored (m_pfs_storages pm) (pfs_objs pm) pm_pfs_storage,
               db_next_pfs := pfs_current_id pm\<rparr>"
  "db_of (s\<lparr>m_transfer_manager := tm\<rparr>) =
     (db_of s)\<lparr>db_transfers := stored (m_transfer tm) (tx_objs tm) (\<lambda>m. m),
               db_next_transfer := tx_current_id tm\<rparr>"
  by (simp_all add: db_of_def Let_def)

lemma db_of_calls [simp]:
  "db_of (s\<lparr>sc_rpc_id := c, m_job_manager := jm\<rparr>) = (db_of (s\<lparr>m_job_manager := jm\<rparr>))\<lparr>db_calls := c\<rparr>"
  "db_of (s\<lparr>sc_rpc_id := c, m_adhoc_manager := am\<rparr>) = (db_of (s\<lparr>m_adhoc_manager := am\<rparr>))\<lparr>db_calls := c\<rparr>"
  "db_of (s\<lparr>sc_rpc_id := c, m_job_manager := jm, m_adhoc_manager := am\<rparr>) =
     (db_of (s\<lparr>m_job_manager := jm, m_adhoc_manager := am\<rparr>))\<lparr>db_calls := c\<rparr>"
  by (simp_all add: db_of_def Let_def)

lemma db_of_fields [simp]:
  "db_calls (db_of s) = sc_rpc_id s" "db_redis (db_of s) = m_redis s" "db_log (db_of s) = redis_log s"
  "db_next_job (db_of s) = job_current_id (m_job_manager s)"
  "db_next_storage (db_of s) = adhoc_current_id (m_adhoc_manager s)"
  "db_next_pfs (db_of s) = pfs_current_id (m_pfs_manager s)"
  "db_next_transfer (db_of s) = tx_current_id (m_transfer_manager s)"
  "db_slurm (db_of s) = m_slurm_to_scord (m_job_manager s)"
  "db_jobs (db_of s) = stored (m_jobs (m_job_manager s)) (job_objs (m_job_manager s))
     (job_view (m_adhoc_manager s))"
  "db_storages (db_of s) = stored (m_adhoc_storages (m_adhoc_manager s)) (adhoc_objs (m_adhoc_manager s))
     (storage_view (m_job_manager s))"
  "db_pfs (db_of s) = stored (m_pfs_storages (m_pfs_manager s)) (pfs_objs (m_pfs_manager s)) pm_pfs_storage"
  "db_transfers (db_of s) = stored (m_transfer (m_transfer_manager s)) (tx_objs (m_transfer_manager s))
     (\<lambda>m. m)"
  by (simp_all add: db_of_def Let_def)

lemma db_of_jobs:
  assumes "views_ok (m_job_manager s) (m_adhoc_manager s)"
    and "\<And>j. j < length (job_objs (m_job_manager s)) \<Longrightarrow>
      jm_job (job_objs jm ! j) = jm_job (job_objs (m_job_manager s) ! j)"
  shows "db_of (s\<lparr>m_job_manager := jm\<rparr>) =
    (db_of s)\<lparr>db_jobs := stored (m_jobs jm) (job_objs jm) (job_view (m_adhoc_manager s)),
              db_slurm := m_slurm_to_scord jm, db_next_job := job_current_id jm\<rparr>"
proof -
  have "stored (m_adhoc_storages (m_adhoc_manager s)) (adhoc_objs (m_adhoc_manager s)) (storage_view jm) =
      stored (m_adhoc_storages (m_adhoc_manager s)) (adhoc_objs (m_adhoc_manager s))
        (storage_view (m_job_manager s))"
    by (rule stored_cong)
      (auto simp: storage_view_def intro!: map_option_cong arg_cong [of _ _ job_id] assms(2)
        dest: views_okD [OF assms(1)])
  then show ?thesis by (simp add: db_of_def Let_def)
qed

lemma db_of_adhocs:
  assumes "views_ok (m_job_manager s) (m_adhoc_manager s)"
    and "\<And>a. a < length (adhoc_objs (m_adhoc_manager s)) \<Longrightarrow>
      storage_ref_view (adhoc_objs am ! a) = storage_ref_view (adhoc_objs (m_adhoc_manager s) ! a)"
  shows "db_of (s\<lparr>m_adhoc_manager := am\<rparr>) =
    (db_of s)\<lparr>db_storages := stored (m_adhoc_storages am) (adhoc_objs am) (storage_view (m_job_manager s)),
              db_next_storage := adhoc_current_id am\<rparr>"
proof -
  have "stored (m_jobs (m_job_manager s)) (job_objs (m_job_manager s)) (job_view am) =
      stored (m_jobs (m_job_manager s)) (job_objs (m_job_manager s)) (job_view (m_adhoc_manager s))"
    by (rule stored_cong)
      (auto simp: job_view_def intro!: map_option_cong assms(2) dest: views_okD [OF assms(1)])
  then show ?thesis by (simp add: db_of_def Let_def)
qed

text \<open>Creating and changing an object, read through the table.\<close>

lemma jobs_snoc:
  "job_reg.wf jm \<Longrightarrow> stored ((m_jobs jm)(k \<mapsto> length (job_objs jm))) (job_objs jm @ [m]) f =
    (stored (m_jobs jm) (job_objs jm) f)(k \<mapsto> f m)"
  using job_reg.wf_pointer by (intro stored_snoc) blast

lemma adhocs_snoc:
  "adhoc_reg.wf am \<Longrightarrow> stored ((m_adhoc_storages am)(k \<mapsto> length (adhoc_objs am))) (adhoc_objs am @ [m]) f =
    (stored (m_adhoc_storages am) (adhoc_objs am) f)(k \<mapsto> f m)"
  using adhoc_reg.wf_pointer by (intro stored_snoc) blast

lemma pfs_snoc:
  "pfs_reg.wf pm \<Longrightarrow> stored ((m_pfs_storages pm)(k \<mapsto> length (pfs_objs pm))) (pfs_objs pm @ [m]) f =
    (stored (m_pfs_storages pm) (pfs_objs pm) f)(k \<mapsto> f m)"
  using pfs_reg.wf_pointer by (intro stored_snoc) blast

lemma transfers_snoc:
  "transfer_reg.wf tm \<Longrightarrow> stored ((m_transfer tm)(k \<mapsto> length (tx_objs tm))) (tx_objs tm @ [m]) f =
    (stored (m_transfer tm) (tx_objs tm) f)(k \<mapsto> f m)"
  using transfer_reg.wf_pointer by (intro stored_snoc) blast

lemma jobs_through:
  assumes "job_reg.wf jm" "m_jobs jm k = Some p"
  shows "stored (m_jobs jm) (through p h (job_objs jm)) f =
    (stored (m_jobs jm) (job_objs jm) f)(k \<mapsto> f (h (job_objs jm ! p)))"
  using job_reg.wf_pointer [OF assms(1)] job_reg.wf_tab_inj [OF assms(1) _ assms(2)]
  by (intro stored_through assms(2)) blast+

lemma adhocs_through:
  assumes "adhoc_reg.wf am" "m_adhoc_storages am k = Some p"
  shows "stored (m_adhoc_storages am) (through p h (adhoc_objs am)) f =
    (stored (m_adhoc_storages am) (adhoc_objs am) f)(k \<mapsto> f (h (adhoc_objs am ! p)))"
  using adhoc_reg.wf_pointer [OF assms(1)] adhoc_reg.wf_tab_inj [OF assms(1) _ assms(2)]
  by (intro stored_through assms(2)) blast+

lemma pfs_through:
  assumes "pfs_reg.wf pm" "m_pfs_storages pm k = Some p"
  shows "stored (m_pfs_storages pm) (through p h (pfs_objs pm)) f =
    (stored (m_pfs_storages pm) (pfs_objs pm) f)(k \<mapsto> f (h (pfs_objs pm ! p)))"
  using pfs_reg.wf_pointer [OF assms(1)] pfs_reg.wf_tab_inj [OF assms(1) _ assms(2)]
  by (intro stored_through assms(2)) blast+

lemma storage_ref_view_simps [simp]:
  "storage_ref_view (adhoc_storage_metadata_update r m) = storage_ref_view m"
  "storage_ref_view (am_remove_client_info m) = storage_ref_view m"
  "storage_ref_view (fst (am_add_client_info j m)) = storage_ref_view m"
  "ref_of (storage_view jm m) = storage_ref_view m"
  by (simp_all add: storage_ref_view_def am_controller_address_def am_data_stager_address_def
      ref_of_def storage_view_def)

text \<open>A state after a handler, with what the handler answered, as the database has it.\<close>

definition seen :: "('h, 'r) outcome \<Rightarrow> ('h, 'r) db_outcome" where
  "seen x = (db_of (fst x), snd x)"

lemma seen_reply: "seen (reply_with f x) = db_reply f (seen x)"
  by (simp add: seen_def reply_with_def db_reply_def)

lemma seen_pair [simp]: "seen (s, r) = (db_of s, r)"
  by (simp add: seen_def)

lemma take_call_simps [simp]:
  "db_calls (take_call d) = db_calls d + 1" "db_jobs (take_call d) = db_jobs d"
  "db_storages (take_call d) = db_storages d" "db_slurm (take_call d) = db_slurm d"
  "db_next_job (take_call d) = db_next_job d" "db_redis (take_call d) = db_redis d"
  by (simp_all add: take_call_def)

lemma seen_hmset:
  "seen (case hmset w key kvs s of (s, Inl e) \<Rightarrow> (s, Inl e) | (s, Inr _) \<Rightarrow> (s, Inr r)) =
   log_entry w key kvs r (db_of s)"
  by (simp add: hmset_def log_entry_def)

section \<open>Each request\<close>

lemmas seen_simps = enter_split Let_def take_call_def seen_def

lemma seen_ping: "seen (h_ping w s) = (take_call (db_of s), Inr (mk_response (sc_rpc_id s) ADM_SUCCESS))"
  by (simp add: h_ping_def seen_simps)

lemma seen_query:
  assumes "scord_inv s"
  shows "seen (h_query w sl s) = db_query sl (db_of s)"
proof (cases "m_slurm_to_scord (m_job_manager s) sl")
  case None
  then show ?thesis
    by (simp add: h_query_def seen_simps job_find_by_slurm_id_def db_query_def)
next
  case (Some jid)
  show ?thesis
  proof (cases "m_jobs (m_job_manager s) jid")
    case None
    with Some show ?thesis
      by (simp add: h_query_def seen_simps job_find_by_slurm_id_def job_find_def db_query_def)
  next
    case (Some p)
    define m where "m = job_objs (m_job_manager s) ! p"
    have "p < length (job_objs (m_job_manager s))"
      using views_okD(1) [OF inv_views [OF assms] Some] .
    then obtain r where r: "jm_resources m = Some r"
      using links_okD(1) [OF scord_invD(6) [OF assms]] by (auto simp: job_link_ok_def m_def)
    have q: "h_query w sl s = (s\<lparr>sc_rpc_id := sc_rpc_id s + 1\<rparr>,
        case jm_adhoc_metadata_ptr m of
          None \<Rightarrow> Inl Null_dereference
        | Some a \<Rightarrow> Inr (mk_response_with (sc_rpc_id s) ADM_SUCCESS
            (Some \<lparr>adhoc_controller_address =
                     am_controller_address (adhoc_objs (m_adhoc_manager s) ! a),
                   info_uuid = am_uuid (adhoc_objs (m_adhoc_manager s) ! a),
                   procs_for_io = io_procs m\<rparr>)))"
      using Some \<open>m_slurm_to_scord (m_job_manager s) sl = Some jid\<close> r
      by (simp add: h_query_def enter_split Let_def job_find_by_slurm_id_def job_find_def
          query_info_def m_def split: option.split)
    show ?thesis
      using Some \<open>m_slurm_to_scord (m_job_manager s) sl = Some jid\<close> r
      unfolding q
      by (simp add: seen_simps db_query_def job_view_def storage_ref_view_def io_procs_def m_def
          split: option.split)
  qed
qed

lemma seen_update_job:
  assumes "scord_inv s"
  shows "seen (h_update_job w jid res s) = db_update_job jid res (db_of s)"
proof (cases "m_jobs (m_job_manager s) jid")
  case None
  then show ?thesis
    by (simp add: h_update_job_def seen_simps job_update_def db_update_job_def)
next
  case (Some p)
  let ?jm = "(m_job_manager s)\<lparr>job_objs := through p (job_metadata_update res) (job_objs (m_job_manager s))\<rparr>"
  have "job_view am (job_metadata_update res m) = (job_view am m)\<lparr>dj_resources := res\<rparr>" for am m
    by (simp add: job_view_def)
  then have "db_of (s\<lparr>m_job_manager := ?jm\<rparr>) =
      (db_of s)\<lparr>db_jobs := (db_jobs (db_of s))(jid \<mapsto>
        (job_view (m_adhoc_manager s) (job_objs (m_job_manager s) ! p))\<lparr>dj_resources := res\<rparr>)\<rparr>"
    using db_of_jobs [OF inv_views [OF assms], of ?jm]
    by (simp add: nth_through jobs_through [OF scord_invD(2) [OF assms] Some])
  with Some show ?thesis
    by (simp add: h_update_job_def seen_simps job_update_def db_update_job_def)
qed

lemma seen_register_adhoc_storage:
  assumes "scord_inv s"
  shows "seen (h_register_adhoc_storage w n ty c res s) = db_register_adhoc_storage w n ty c res (db_of s)"
  unfolding h_register_adhoc_storage_def db_register_adhoc_storage_def
  by (simp add: seen_simps adhoc_create_fresh [OF scord_invD(3) [OF assms]]
      db_of_adhocs inv_views [OF assms] nth_append adhocs_snoc [OF scord_invD(3) [OF assms]]
      storage_view_def generate_adhoc_uuid_def)

lemma seen_remove_adhoc_storage:
  assumes "scord_inv s"
  shows "seen (h_remove_adhoc_storage w aid s) = db_remove_adhoc_storage aid (db_of s)"
proof (cases "m_adhoc_storages (m_adhoc_manager s) aid")
  case None
  then have "(db_storages (db_of s))(aid := None) = db_storages (db_of s)" by auto
  with None show ?thesis
    by (simp add: h_remove_adhoc_storage_def seen_simps db_remove_adhoc_storage_def adhoc_remove_def)
next
  case (Some p)
  then show ?thesis
    by (simp add: h_remove_adhoc_storage_def seen_simps db_remove_adhoc_storage_def adhoc_remove_def
        db_of_adhocs inv_views [OF assms])
qed

lemma seen_register_pfs_storage:
  assumes "scord_inv s"
  shows "seen (h_register_pfs_storage w n ty c s) = db_register_pfs_storage n ty c (db_of s)"
  unfolding h_register_pfs_storage_def db_register_pfs_storage_def
  by (simp add: seen_simps pfs_create_fresh [OF scord_invD(4) [OF assms]]
      pfs_snoc [OF scord_invD(4) [OF assms]])

lemma seen_update_pfs_storage:
  assumes "scord_inv s"
  shows "seen (h_update_pfs_storage w pid c s) = db_update_pfs_storage pid c (db_of s)"
proof (cases "m_pfs_storages (m_pfs_manager s) pid")
  case (Some p)
  then show ?thesis
    by (simp add: h_update_pfs_storage_def seen_simps pfs_update_def db_update_pfs_storage_def
        pfs_through [OF scord_invD(4) [OF assms] Some] pfs_storage_metadata_update_def pfs_update_ctx_def)
qed (simp add: h_update_pfs_storage_def seen_simps pfs_update_def db_update_pfs_storage_def)

lemma seen_remove_pfs_storage:
  "seen (h_remove_pfs_storage w pid s) = db_remove_pfs_storage pid (db_of s)"
proof (cases "m_pfs_storages (m_pfs_manager s) pid")
  case None
  then have "(db_pfs (db_of s))(pid := None) = db_pfs (db_of s)" by auto
  with None show ?thesis
    by (simp add: h_remove_pfs_storage_def seen_simps pfs_remove_def db_remove_pfs_storage_def)
qed (simp add: h_remove_pfs_storage_def seen_simps pfs_remove_def db_remove_pfs_storage_def)

end
