(* ===== verification/Served.thy ===== *)
theory Served
  imports Refinement
begin

text \<open>
  The remaining requests of the refinement: registering and removing jobs, which change two managers, and
  the requests that wait for another process. Then the refinement itself, for one request and for a
  whole sequence of them.
\<close>


lemma storage_view_simps [simp]:
  "ds_uuid (storage_view jm m) = am_uuid m" "ds_storage (storage_view jm m) = am_adhoc_storage m"
  "ds_client (storage_view jm m) = None \<longleftrightarrow> am_client_info m = None"
  by (simp_all add: storage_view_def)

text \<open>Registering: the new job is the new client when the storage has none.\<close>

lemma db_of_new_job:
  assumes s: "scord_inv s" and ap: "\<And>a. ap = Some a \<Longrightarrow> a < length (adhoc_objs (m_adhoc_manager s))"
  shows "db_of (s\<lparr>m_job_manager := fst (job_create sl res reqs ap (m_job_manager s))\<rparr>) =
    add_job sl res reqs (map_option (\<lambda>a. storage_ref_view (adhoc_objs (m_adhoc_manager s) ! a)) ap) (db_of s)"
proof -
  have slurm: "fst (emplace sl k m) = (if m sl = None then m(sl \<mapsto> k) else m)" for k and m :: "u64 \<Rightarrow> u64 option"
    by (auto simp: emplace_def split: option.split)
  show ?thesis
    by (simp add: job_create_fresh [OF scord_invD(2) [OF s]] db_of_jobs inv_views [OF s] nth_append
        jobs_snoc [OF scord_invD(2) [OF s]] add_job_def job_view_def slurm)
qed

lemma db_of_new_client:
  fixes s :: "'h scord" and sl :: slurm_job_id and res :: job_resources and reqs :: job_requirements
  assumes s: "scord_inv s" and a: "m_adhoc_storages (m_adhoc_manager s) k = Some a"
  defines "jm \<equiv> fst (job_create sl res reqs (Some a) (m_job_manager s))"
    and "st \<equiv> storage_view (m_job_manager s) (adhoc_objs (m_adhoc_manager s) ! a)"
  shows "db_of (s\<lparr>m_job_manager := jm,
      m_adhoc_manager := fst (adhoc_ptr_add_client_info a (length (job_objs (m_job_manager s)))
        (m_adhoc_manager s))\<rparr>) =
    (add_job sl res reqs (Some (ref_of st)) (db_of s))
      \<lparr>db_storages := (db_storages (db_of s))(k \<mapsto>
         st\<lparr>ds_client := if ds_client st = None then Some (db_next_job (db_of s)) else ds_client st\<rparr>)\<rparr>"
    (is "db_of ?t = _")
proof -
  let ?s1 = "s\<lparr>m_job_manager := jm\<rparr>"
  let ?p = "length (job_objs (m_job_manager s))"
  let ?am = "fst (adhoc_ptr_add_client_info a ?p (m_adhoc_manager s))"
  have wf: "adhoc_reg.wf (m_adhoc_manager s)" using s by (rule scord_invD)
  have len: "a < length (adhoc_objs (m_adhoc_manager s))" using adhoc_reg.wf_pointer [OF wf a] by simp
  have objs: "adhoc_objs ?am = through a (\<lambda>m. fst (am_add_client_info ?p m)) (adhoc_objs (m_adhoc_manager s))"
    using len by (auto simp: adhoc_ptr_add_client_info_def through_def assign_def split: option.split)
  have tabs: "m_adhoc_storages ?am = m_adhoc_storages (m_adhoc_manager s)"
      "adhoc_current_id ?am = adhoc_current_id (m_adhoc_manager s)"
    by (simp_all add: adhoc_ptr_add_client_info_def split: option.split)
  have jobs: "m_jobs jm = (m_jobs (m_job_manager s))(job_current_id (m_job_manager s) \<mapsto> ?p)"
      "\<exists>m. job_objs jm = job_objs (m_job_manager s) @ [m] \<and> job_id (jm_job m) = job_current_id (m_job_manager s) \<and>
        jm_adhoc_metadata_ptr m = Some a"
    by (simp_all add: jm_def job_create_fresh [OF scord_invD(2) [OF s]])
  then obtain m where m: "job_objs jm = job_objs (m_job_manager s) @ [m]"
    "job_id (jm_job m) = job_current_id (m_job_manager s)" "jm_adhoc_metadata_ptr m = Some a" by blast
  have v: "views_ok (m_job_manager s) (m_adhoc_manager s)" by (rule inv_views [OF s])
  have v1: "views_ok jm (m_adhoc_manager s)"
    using v len jobs(1) m(1,3) by (auto simp: views_ok_def less_SucI)
  have "db_of (?s1\<lparr>m_adhoc_manager := ?am\<rparr>) = (db_of ?s1)
    \<lparr>db_storages := stored (m_adhoc_storages ?am) (adhoc_objs ?am) (storage_view jm),
     db_next_storage := adhoc_current_id ?am\<rparr>"
    using db_of_adhocs [of ?s1 ?am] v1 len by (simp add: objs nth_through)
  moreover have "storage_view jm (adhoc_objs (m_adhoc_manager s) ! b) =
      storage_view (m_job_manager s) (adhoc_objs (m_adhoc_manager s) ! b)"
    if "b < length (adhoc_objs (m_adhoc_manager s))" for b
    using views_okD(4) [OF v that] by (auto simp: storage_view_def m(1) nth_append intro!: map_option_cong)
  moreover have "storage_view jm (fst (am_add_client_info ?p (adhoc_objs (m_adhoc_manager s) ! a))) =
      st\<lparr>ds_client := if ds_client st = None then Some (db_next_job (db_of s)) else ds_client st\<rparr>"
    using views_okD(4) [OF v len]
    by (auto simp: storage_view_def st_def m(1,2) nth_append split: option.split)
  moreover have "stored (m_adhoc_storages (m_adhoc_manager s)) (adhoc_objs (m_adhoc_manager s)) (storage_view jm) =
      stored (m_adhoc_storages (m_adhoc_manager s)) (adhoc_objs (m_adhoc_manager s)) (storage_view (m_job_manager s))"
    by (rule stored_cong) (rule calculation(2) [OF views_okD(2) [OF v]])
  ultimately show ?thesis
    using db_of_new_job [OF s, of "Some a" sl res reqs] len
    by (simp add: objs tabs adhocs_through [OF wf a] jm_def st_def)
      (simp add: add_job_def)
qed


lemma seen_register_job:
  assumes s: "scord_inv s"
  shows "seen (h_register_job w res reqs sl s) = db_register_job w res reqs sl (db_of s)"
proof -
  let ?p = "length (job_objs (m_job_manager s))"
  let ?j = "job_current_id (m_job_manager s)"
  note fresh = job_create_fresh [OF scord_invD(2) [OF s]]
  define jm where "jm ap = fst (job_create sl res reqs ap (m_job_manager s))" for ap
  have new: "job_create sl res reqs ap (m_job_manager s) = (jm ap, Inr ?p)"
    "job_id (jm_job (job_objs (jm ap) ! ?p)) = ?j" for ap
    by (simp_all add: fresh jm_def)
  have db_new_job: "db_of (s\<lparr>m_job_manager := jm None\<rparr>) = add_job sl res reqs None (db_of s)"
    unfolding jm_def using db_of_new_job [OF s, of None] by simp
  show ?thesis
  proof (cases "req_adhoc_storage reqs")
    case None
    have "h_register_job w res reqs sl s =
      (s\<lparr>sc_rpc_id := sc_rpc_id s + 1, m_job_manager := jm None\<rparr>,
       if m_redis s then Inl Empty_optional_dereference
       else Inr (mk_response_with (sc_rpc_id s) ADM_SUCCESS (Some ?j)))"
      using None
      by (simp add: h_register_job_def enter_split Let_def register_job_adhoc_def new
          register_job_client_def register_job_redis_def)
    with None show ?thesis
      by (simp add: seen_def db_register_job_def db_new_job take_call_def)
        (simp add: add_job_def)
  next
    case (Some st)
    show ?thesis
    proof (cases "m_adhoc_storages (m_adhoc_manager s) (adhoc_id st)")
      case None
      with Some show ?thesis
        by (simp add: h_register_job_def seen_simps register_job_adhoc_def adhoc_find_def db_register_job_def)
    next
      case (Some a)
      define t where "t = s\<lparr>sc_rpc_id := sc_rpc_id s + 1,
        m_job_manager := jm (Some a),
        m_adhoc_manager := fst (adhoc_ptr_add_client_info a ?p (m_adhoc_manager s))\<rparr>"
      let ?ok = "mk_response_with (sc_rpc_id s) ADM_SUCCESS (Some ?j)"
      have t: "h_register_job w res reqs sl s =
        (if m_redis s then (case register_job_redis w ?j sl reqs t of
            (s, Inl e) \<Rightarrow> (s, Inl e) | (s, Inr _) \<Rightarrow> (s, Inr ?ok))
         else (t, Inr ?ok))"
        using Some \<open>req_adhoc_storage reqs = Some st\<close>
        by (simp add: h_register_job_def enter_split Let_def register_job_adhoc_def adhoc_find_def new
            register_job_client_def t_def)
      have len: "a < length (adhoc_objs (m_adhoc_manager s))"
        using adhoc_reg.wf_pointer [OF scord_invD(3) [OF s] Some] by simp
      have obj: "m_adhoc_storages (m_adhoc_manager t) (adhoc_id st) = Some a"
        "am_uuid (adhoc_objs (m_adhoc_manager t) ! a) = am_uuid (adhoc_objs (m_adhoc_manager s) ! a)"
        "am_adhoc_storage (adhoc_objs (m_adhoc_manager t) ! a) =
           am_adhoc_storage (adhoc_objs (m_adhoc_manager s) ! a)"
        using len Some
        by (simp_all add: t_def adhoc_ptr_add_client_info_def nth_through)
      have db: "db_of t = (take_call (add_job sl res reqs
          (Some (storage_ref_view (adhoc_objs (m_adhoc_manager s) ! a))) (db_of s)))
        \<lparr>db_storages := (db_storages (db_of s))(adhoc_id st \<mapsto>
          (storage_view (m_job_manager s) (adhoc_objs (m_adhoc_manager s) ! a))
            \<lparr>ds_client := if am_client_info (adhoc_objs (m_adhoc_manager s) ! a) = None then Some ?j
              else ds_client (storage_view (m_job_manager s) (adhoc_objs (m_adhoc_manager s) ! a))\<rparr>)\<rparr>"
        unfolding t_def jm_def using db_of_new_client [OF s Some, of sl res reqs]
        by (intro database.equality) (simp_all add: take_call_def add_job_def)
      have "take_call (add_job sl res reqs r (db_of s)) = add_job sl res reqs r (take_call (db_of s))" for r
        by (simp add: take_call_def add_job_def)
      then show ?thesis
        using Some \<open>req_adhoc_storage reqs = Some st\<close> obj
        unfolding t
        by (simp add: register_job_redis_def adhoc_find_def Let_def seen_hmset db db_register_job_def)
    qed
  qed
qed

lemma seen_remove_job:
  assumes s: "scord_inv s"
  shows "seen (h_remove_job w jid s) = db_remove_job jid (db_of s)"
proof (cases "m_jobs (m_job_manager s) jid")
  case None
  then show ?thesis by (simp add: h_remove_job_def seen_simps job_remove_def db_remove_job_def)
next
  case (Some p)
  let ?m = "job_objs (m_job_manager s) ! p"
  define jm where "jm = fst (job_remove jid (m_job_manager s))"
  have v: "views_ok (m_job_manager s) (m_adhoc_manager s)" by (rule inv_views [OF s])
  have jm: "job_remove jid (m_job_manager s) = (jm, Inr p)" "job_objs jm = job_objs (m_job_manager s)"
    "m_jobs jm = erase jid (m_jobs (m_job_manager s))"
    "m_slurm_to_scord jm = (m_slurm_to_scord (m_job_manager s))(job_slurm_id (jm_job ?m) := None)"
    "job_current_id jm = job_current_id (m_job_manager s)"
    using Some by (auto simp: job_remove_def jm_def)
  obtain reqs where reqs: "jm_requirements ?m = Some reqs"
    using links_okD(1) [OF scord_invD(6) [OF s]] views_okD(1) [OF v Some]
    by (fastforce simp: job_link_ok_def split: option.splits)
  have db: "db_of (s\<lparr>m_job_manager := jm\<rparr>) = (db_of s)
    \<lparr>db_jobs := (db_jobs (db_of s))(jid := None),
     db_slurm := (db_slurm (db_of s))(job_slurm_id (jm_job ?m) := None)\<rparr>"
    by (simp add: db_of_jobs v jm)
  show ?thesis
  proof (cases "req_adhoc_storage reqs")
    case None
    have "h_remove_job w jid s = (s\<lparr>sc_rpc_id := sc_rpc_id s + 1, m_job_manager := jm\<rparr>,
        Inr (mk_response (sc_rpc_id s) ADM_SUCCESS))"
      using None reqs by (simp add: h_remove_job_def enter_split Let_def case_prod_beta jm)
    with Some None reqs db show ?thesis
      by (simp add: seen_def db_remove_job_def job_view_def take_call_def)
  next
    case (Some st)
    let ?am = "fst (adhoc_remove_client_info (adhoc_id st) (m_adhoc_manager s))"
    let ?ec = "snd (adhoc_remove_client_info (adhoc_id st) (m_adhoc_manager s))"
    have h: "h_remove_job w jid s = (s\<lparr>sc_rpc_id := sc_rpc_id s + 1, m_job_manager := jm,
        m_adhoc_manager := ?am\<rparr>, Inr (mk_response (sc_rpc_id s) ?ec))"
      using Some reqs by (simp add: h_remove_job_def enter_split Let_def case_prod_beta jm)
    show ?thesis
    proof (cases "m_adhoc_storages (m_adhoc_manager s) (adhoc_id st)")
      case None
      then have am: "?am = m_adhoc_manager s" "?ec = ADM_ENOENT"
        by (simp_all add: adhoc_remove_client_info_def adhoc_find_def)
      have "s\<lparr>m_job_manager := jm, m_adhoc_manager := m_adhoc_manager s\<rparr> = s\<lparr>m_job_manager := jm\<rparr>" by simp
      with Some None reqs db \<open>m_jobs (m_job_manager s) jid = Some p\<close> show ?thesis
        by (simp add: h am seen_def db_remove_job_def job_view_def take_call_def)
    next
      case (Some a)
      have len: "a < length (adhoc_objs (m_adhoc_manager s))" by (rule views_okD(2) [OF v Some])
      from Some have am: "?ec = ADM_SUCCESS"
        "adhoc_objs ?am = through a am_remove_client_info (adhoc_objs (m_adhoc_manager s))"
        "m_adhoc_storages ?am = m_adhoc_storages (m_adhoc_manager s)"
        "adhoc_current_id ?am = adhoc_current_id (m_adhoc_manager s)"
        by (simp_all add: adhoc_remove_client_info_def adhoc_find_def adhoc_ptr_remove_client_info_def)
      have v1: "views_ok jm (m_adhoc_manager s)" using v by (auto simp: views_ok_def jm split: if_splits)
      have sv: "storage_view jm = storage_view (m_job_manager s)" by (simp add: fun_eq_iff storage_view_def jm)
      have rem: "storage_view (m_job_manager s) (am_remove_client_info m) =
          (storage_view (m_job_manager s) m)\<lparr>ds_client := None\<rparr>" for m
        by (simp add: storage_view_def)
      have "db_of (s\<lparr>m_job_manager := jm, m_adhoc_manager := ?am\<rparr>) =
          (db_of (s\<lparr>m_job_manager := jm\<rparr>))\<lparr>db_storages := (db_storages (db_of s))(adhoc_id st \<mapsto>
            (storage_view (m_job_manager s) (adhoc_objs (m_adhoc_manager s) ! a))\<lparr>ds_client := None\<rparr>)\<rparr>"
        using db_of_adhocs [of "s\<lparr>m_job_manager := jm\<rparr>" ?am] v1
        by (intro database.equality)
          (simp_all add: am nth_through adhocs_through [OF scord_invD(3) [OF s] Some] sv rem db)
      with Some \<open>req_adhoc_storage reqs = Some st\<close> reqs db \<open>m_jobs (m_job_manager s) jid = Some p\<close>
      show ?thesis
        by (simp add: h am seen_def db_remove_job_def job_view_def take_call_def)
    qed
  qed
qed


text \<open>The requests that wait for another process, when nothing else runs in the meantime.\<close>

lemma seen_update_adhoc_storage:
  assumes s: "scord_inv s" and q: "\<And>u. w_meanwhile w u = u"
  shows "seen (h_update_adhoc_storage w aid res s) = db_update_adhoc_storage w aid res (db_of s)"
proof (cases "m_adhoc_storages (m_adhoc_manager s) aid")
  case None
  then show ?thesis
    by (simp add: h_update_adhoc_storage_def seen_simps adhoc_find_def db_update_adhoc_storage_def)
next
  case (Some p)
  define m where "m = adhoc_objs (m_adhoc_manager s) ! p"
  define st where "st = (am_adhoc_storage m)\<lparr>adhoc_res := res\<rparr>"
  define am where "am = (m_adhoc_manager s)\<lparr>adhoc_objs :=
    through p (adhoc_storage_metadata_update res) (adhoc_objs (m_adhoc_manager s))\<rparr>"
  have len: "p < length (adhoc_objs (m_adhoc_manager s))" by (rule views_okD(2) [OF inv_views [OF s] Some])
  have obj: "adhoc_objs am ! p = m\<lparr>am_adhoc_storage := st\<rparr>"
    using len by (simp add: am_def m_def st_def nth_through adhoc_storage_metadata_update_def adhoc_update_resources_def)
  have sv: "storage_view (m_job_manager s) (adhoc_storage_metadata_update res m) =
      (storage_view (m_job_manager s) m)\<lparr>ds_storage := st\<rparr>"
    by (simp add: storage_view_def adhoc_storage_metadata_update_def adhoc_update_resources_def st_def)
  have db: "db_of (s\<lparr>m_adhoc_manager := am\<rparr>) = (db_of s)\<lparr>db_storages := (db_storages (db_of s))(aid \<mapsto>
      (storage_view (m_job_manager s) m)\<lparr>ds_storage := st\<rparr>)\<rparr>"
    using db_of_adhocs [OF inv_views [OF s], of am] len
    by (simp add: am_def nth_through adhocs_through [OF scord_invD(3) [OF s] Some] m_def [symmetric] sv)
  let ?name = "if length (adhoc_nodes (adhoc_res (am_adhoc_storage m))) < length (adhoc_nodes res)
    then ''ADM_expand_adhoc_storage'' else ''ADM_shrink_adhoc_storage''"
  let ?address = "controller_address (adhoc_context (am_adhoc_storage m))"
  have tab: "m_adhoc_storages am aid = Some p" by (simp add: am_def Some)
  have "h_update_adhoc_storage w aid res s =
    (if w_lookup w ?address
     then (s\<lparr>sc_rpc_id := sc_rpc_id s + 1 + 1, m_adhoc_manager := am\<rparr>,
           case w_ctl_update w ?address ?name (am_uuid m) (adhoc_kind st) res of
             None \<Rightarrow> Inl Bad_expected_access
           | Some resp \<Rightarrow> Inr (mk_response (sc_rpc_id s) (resp_error_code resp)))
     else (s\<lparr>sc_rpc_id := sc_rpc_id s + 1, m_adhoc_manager := am\<rparr>, Inl Bad_expected_access))"
    using Some tab
    by (simp add: h_update_adhoc_storage_def enter_split Let_def adhoc_find_def adhoc_update_def
        update_helper_def q obj rpc_create_def new_id_def am_def [symmetric] m_def [symmetric] st_def
        split: option.split)
  then show ?thesis
    using Some
    by (simp add: seen_def db_update_adhoc_storage_def db Let_def m_def [symmetric] ref_of_def
        am_controller_address_def st_def take_call_def cong: option.case_cong)
qed

lemma limits_copy:
  "try_map limit_copy l = (if None \<in> set l then Inl Null_dereference else Inr l)"
proof (induction l)
  case (Cons x xs)
  then show ?case by (cases x) auto
qed simp

lemma seen_transfer_datasets:
  assumes s: "scord_inv s" and q: "\<And>u. w_meanwhile w u = u"
  shows "seen (h_transfer_datasets w jid sources targets limits mapping s) =
    db_transfer_datasets w jid sources targets limits (db_of s)"
  by (cases "jm_adhoc_metadata_ptr (job_objs (m_job_manager s) ! the (m_jobs (m_job_manager s) jid))")
   (auto simp: h_transfer_datasets_def db_transfer_datasets_def seen_simps stager_of_def job_find_def q
     job_view_def storage_ref_view_def transfer_create_fresh [OF scord_invD(5) [OF s]] comp_def
     limits_copy transfers_snoc [OF scord_invD(5) [OF s]] split: option.split)

lemma seen_query_transfer:
  assumes s: "scord_inv s" and q: "\<And>u. w_meanwhile w u = u"
  shows "seen (h_query_transfer w jid tid s) = db_query_transfer w jid tid (db_of s)"
  by (cases "jm_adhoc_metadata_ptr (job_objs (m_job_manager s) ! the (m_jobs (m_job_manager s) jid))")
   (auto simp: h_query_transfer_def db_query_transfer_def seen_simps stager_of_def job_find_def q
     job_view_def transfer_find_def
     split: option.split)

text \<open>The entry about the client of a storage that is still there.\<close>

definition answer_logged :: "'h world \<Rightarrow> u64 \<Rightarrow> (string \<times> string) list \<Rightarrow> 'r \<Rightarrow> 'h scord \<Rightarrow> ('h, 'r) outcome" where
  "answer_logged w aid kvs r s =
     (case client_job_id aid s of
        Inl e \<Rightarrow> (s, Inl e)
      | Inr jid \<Rightarrow>
          (case hmset w (u64_to_string jid) kvs s of (s, Inl e) \<Rightarrow> (s, Inl e) | (s, Inr _) \<Rightarrow> (s, Inr r)))"

lemma seen_answer_logged:
  assumes "m_adhoc_storages (m_adhoc_manager s) aid = Some p"
  shows "seen (answer_logged w aid kvs r s) =
    log_client w (storage_view (m_job_manager s) (adhoc_objs (m_adhoc_manager s) ! p)) kvs r (db_of s)"
  using assms
  by (cases "am_client_info (adhoc_objs (m_adhoc_manager s) ! p)")
    (simp_all add: answer_logged_def client_job_id_def adhoc_find_def log_client_def storage_view_def seen_hmset)

lemma seen_terminate_adhoc_storage:
  assumes q: "\<And>u. w_meanwhile w u = u"
  shows "seen (h_terminate_adhoc_storage w aid s) = db_terminate_adhoc_storage w aid (db_of s)"
proof (cases "m_adhoc_storages (m_adhoc_manager s) aid")
  case None
  then show ?thesis
    by (simp add: h_terminate_adhoc_storage_def seen_simps adhoc_find_def db_terminate_adhoc_storage_def)
next
  case (Some p)
  define m where "m = adhoc_objs (m_adhoc_manager s) ! p"
  define t where "t = s\<lparr>sc_rpc_id := sc_rpc_id s + 1\<rparr>"
  define rpc where "rpc = snd (enter ''terminate_adhoc_storage'' w s)"
  define address where "address = am_controller_address m"
  define ec where "ec = (if w_lookup w address
    then case w_ctl_terminate w address ''ADM_terminate_adhoc_storage'' (am_uuid m) (adhoc_kind (am_adhoc_storage m)) of
           None \<Rightarrow> ADM_ESNAFU | Some resp \<Rightarrow> resp_error_code resp
    else ADM_ESNAFU)"
  have e: "enter ''terminate_adhoc_storage'' w s = (t, rpc)" "rpc_id rpc = sc_rpc_id s"
    "rpc_name rpc = ''ADM_terminate_adhoc_storage''"
    by (simp_all add: prod_eq_iff t_def rpc_def)
  have tp: "m_adhoc_storages (m_adhoc_manager t) aid = Some p" "db_of t = take_call (db_of s)"
    "adhoc_objs (m_adhoc_manager t) ! p = m" "m_job_manager t = m_job_manager s" "m_redis t = m_redis s"
    by (simp_all add: t_def Some take_call_def m_def)
  have th: "terminate_helper w rpc p t = (t, ec)"
    by (simp add: terminate_helper_def Let_def q ec_def address_def am_controller_address_def tp e
        split: option.split)
  have h: "h_terminate_adhoc_storage w aid s =
    (if m_redis s \<and> ec = ADM_SUCCESS
     then answer_logged w aid [(''Deployed'', ''Yes''), (''EndTime'', nat_to_string (w_now w))]
       (mk_response (sc_rpc_id s) ec) t
     else (t, Inr (mk_response (sc_rpc_id s) ec)))"
    by (simp add: h_terminate_adhoc_storage_def e(1) Let_def adhoc_find_def tp th answer_logged_def)
      (auto simp: e(2) split: sum.split prod.split)
  have db: "db_terminate_adhoc_storage w aid (db_of s) =
    (if m_redis s \<and> ec = ADM_SUCCESS
     then log_client w (storage_view (m_job_manager s) m)
       [(''Deployed'', ''Yes''), (''EndTime'', nat_to_string (w_now w))] (mk_response (sc_rpc_id s) ec)
       (take_call (db_of s))
     else (take_call (db_of s), Inr (mk_response (sc_rpc_id s) ec)))"
    using Some
    by (auto simp: db_terminate_adhoc_storage_def m_def [symmetric] Let_def ec_def address_def
        storage_ref_view_def)
  show ?thesis
    unfolding h db by (simp add: seen_answer_logged [OF tp(1)] tp)
qed

lemma seen_deploy_adhoc_storage:
  assumes q: "\<And>u. w_meanwhile w u = u"
  shows "seen (h_deploy_adhoc_storage w aid s) = db_deploy_adhoc_storage w aid (db_of s)"
proof (cases "m_adhoc_storages (m_adhoc_manager s) aid")
  case None
  then show ?thesis
    by (simp add: h_deploy_adhoc_storage_def seen_simps adhoc_find_def db_deploy_adhoc_storage_def)
next
  case (Some p)
  define m where "m = adhoc_objs (m_adhoc_manager s) ! p"
  define t where "t = s\<lparr>sc_rpc_id := sc_rpc_id s + 1\<rparr>"
  define rpc where "rpc = snd (enter ''deploy_adhoc_storage'' w s)"
  define address where "address = am_controller_address m"
  define call where "call = (if w_lookup w address
    then w_ctl_deploy w address ''ADM_deploy_adhoc_storage'' (am_uuid m) (adhoc_kind (am_adhoc_storage m))
      (adhoc_res (am_adhoc_storage m)) else None)"
  define rv where "rv = (case call of
      None \<Rightarrow> Inr (Inl ADM_ESNAFU)
    | Some resp \<Rightarrow>
        if resp_error_code resp \<noteq> ADM_SUCCESS then Inr (Inl (resp_error_code resp))
        else case resp_value resp of None \<Rightarrow> Inl Terminate | Some path \<Rightarrow> Inr (Inr path))"
  let ?kvs = "[(''Deployed'', ''Yes''), (''StartTime'', nat_to_string (w_now w)), (''EndTime'', ''Running'')]"
  let ?ok = "\<lambda>path. mk_response_with (sc_rpc_id s) ADM_SUCCESS (Some path)"
  have e: "enter ''deploy_adhoc_storage'' w s = (t, rpc)" "rpc_id rpc = sc_rpc_id s"
    "rpc_name rpc = ''ADM_deploy_adhoc_storage''"
    by (simp_all add: prod_eq_iff t_def rpc_def)
  have tp: "m_adhoc_storages (m_adhoc_manager t) aid = Some p" "db_of t = take_call (db_of s)"
    "adhoc_objs (m_adhoc_manager t) ! p = m" "m_job_manager t = m_job_manager s" "m_redis t = m_redis s"
    by (simp_all add: t_def Some take_call_def m_def)
  have dh: "deploy_helper w rpc p t = (t, rv)"
    by (simp add: deploy_helper_def Let_def q call_def rv_def address_def am_controller_address_def tp e
        response_value_def ec_bool_def split: option.split)
  have codes: "ec \<noteq> ADM_SUCCESS" if "rv = Inr (Inl ec)" for ec
    using that by (auto simp: rv_def split: option.splits if_splits)
  have h: "h_deploy_adhoc_storage w aid s = (case rv of
      Inl e \<Rightarrow> (t, Inl e)
    | Inr (Inl ec) \<Rightarrow> (t, Inr (mk_response_with (sc_rpc_id s) ec (Some [])))
    | Inr (Inr path) \<Rightarrow>
        if m_redis s then answer_logged w aid ?kvs (?ok path) t else (t, Inr (?ok path)))"
    using codes
    by (simp add: h_deploy_adhoc_storage_def e(1) Let_def adhoc_find_def tp dh)
      (auto simp: e(2) answer_logged_def split: sum.split prod.split)
  have db: "db_deploy_adhoc_storage w aid (db_of s) = (case rv of
      Inl e \<Rightarrow> (take_call (db_of s), Inl e)
    | Inr (Inl ec) \<Rightarrow> (take_call (db_of s), Inr (mk_response_with (sc_rpc_id s) ec (Some [])))
    | Inr (Inr path) \<Rightarrow>
        if m_redis s then log_client w (storage_view (m_job_manager s) m) ?kvs (?ok path) (take_call (db_of s))
        else (take_call (db_of s), Inr (?ok path)))"
    using Some
    by (simp add: db_deploy_adhoc_storage_def m_def [symmetric] Let_def rv_def call_def address_def
        storage_ref_view_def split: option.split)
  show ?thesis
    unfolding h db by (simp add: seen_answer_logged [OF tp(1)] tp split: sum.split)
qed


section \<open>The daemon implements the database\<close>

lemmas seen_requests =
  seen_ping seen_query seen_register_job seen_update_job seen_remove_job seen_register_adhoc_storage
  seen_update_adhoc_storage seen_remove_adhoc_storage seen_deploy_adhoc_storage
  seen_terminate_adhoc_storage seen_register_pfs_storage seen_update_pfs_storage
  seen_remove_pfs_storage seen_transfer_datasets seen_query_transfer

lemma seen_handle:
  assumes "scord_inv s" "\<And>u. w_meanwhile w u = u"
  shows "seen (handle w q s) = serve w q (db_of s)"
  using assms by (cases q) (simp_all add: seen_reply seen_requests)

lemma db_of_initial: "db_of (initial_scord r) = empty_db r"
  by (simp add: db_of_def initial_defs empty_db_def Let_def)

text \<open>Requests served one after the other, with their answers.\<close>

fun daemon_run :: "('h world \<times> request) list \<Rightarrow> 'h scord \<Rightarrow> 'h scord \<times> (cpp_error + reply) list" where
  "daemon_run [] s = (s, [])"
| "daemon_run ((w, q) # calls) s =
     (let (s, r) = handle w q s; (s, rs) = daemon_run calls s in (s, r # rs))"

fun db_run :: "('h world \<times> request) list \<Rightarrow> 'h database \<Rightarrow> 'h database \<times> (cpp_error + reply) list" where
  "db_run [] d = (d, [])"
| "db_run ((w, q) # calls) d =
     (let (d, r) = serve w q d; (d, rs) = db_run calls d in (d, r # rs))"

definition quiet :: "('h world \<times> request) list \<Rightarrow> bool" where
  "quiet calls \<longleftrightarrow> list_all (\<lambda>(w, q). w_meanwhile w = (\<lambda>u. u)) calls"

lemma daemon_run_step:
  assumes "quiet calls"
  shows "ok_step s (fst (daemon_run calls s))"
  using assms
proof (induction calls s rule: daemon_run.induct)
  case (2 w q calls s)
  then have "meanwhile_ok w" by (simp add: quiet_def meanwhile_ok_def)
  then have "ok_step s (fst (handle w q s))" by (rule handle_step)
  moreover have "ok_step (fst (handle w q s)) (fst (daemon_run calls (fst (handle w q s))))"
    using 2(1) [OF refl prod.collapse] 2(2) by (simp add: quiet_def)
  ultimately show ?case by (auto simp: split_beta intro: ok_step_trans)
qed simp

lemma run_seen:
  assumes "quiet calls" "scord_inv s" "bounded (fst (daemon_run calls s))"
  shows "db_run calls (db_of s) = map_prod db_of id (daemon_run calls s)"
  using assms
proof (induction calls s rule: daemon_run.induct)
  case (2 w q calls s)
  obtain t r where t: "handle w q s = (t, r)" by fastforce
  have q: "quiet calls" "\<And>u. w_meanwhile w u = u" using 2 by (auto simp: quiet_def)
  have d: "serve w q (db_of s) = (db_of t, r)" using seen_handle [OF 2(3) q(2), of q] t by simp
  have b: "bounded (fst (daemon_run calls t))" using 2(4) t by (simp add: split_beta)
  have "bounded t" using daemon_run_step [OF q(1)] b by (auto simp: ok_step_def intro: grows_bounded)
  moreover have "ok_step s t" using handle_step [of w s q] q(2) t by (simp add: meanwhile_ok_def)
  ultimately have "scord_inv t" using 2(3) by (simp add: ok_step_def)
  then show ?case using 2(1) [OF t [symmetric]] q(1) b by (simp add: t d split_beta map_prod_def)
qed simp

end
