(* ===== verification/RefinementClaims.thy ===== *)
theory RefinementClaims
  imports Served
begin

text \<open>
  The daemon against the database of theory \<open>Database\<close>: one request from any reachable state, and any
  sequence of requests from the start.
\<close>

text \<open>C3: Serving any request from any state the daemon reaches, while no other request
  runs in between, changes the tables of jobs, storages, file systems and transfers exactly as
  the same request changes the database, and gives the same answer or fails in the same way. The objects,
  pointers and managers of the implementation cannot be told from plain values: a job keeps
  the addresses of its storage after the storage is gone, and every change made through a
  pointer is seen through every table that leads to the object.\<close>

theorem request_served:
  assumes "reachable r s" "bounded s" "\<And>u. w_meanwhile w u = u"
  shows "serve w q (db_of s) = (db_of (fst (handle w q s)), snd (handle w q s))"
  using seen_handle [OF reachable_inv [OF assms(1,2)] assms(3), of q] by (simp add: seen_def)

theorem request_served_witness:
  "serve quiet_world (Req_remove_job 0) (db_of (demo_job_state True)) =
     (db_of (fst (handle quiet_world (Req_remove_job 0) (demo_job_state True))),
      snd (handle quiet_world (Req_remove_job 0) (demo_job_state True)))"
  by (rule request_served [OF reachable_demo(2) demo_job_bounded]) simp

text \<open>C2: From the start, any sequence of requests served one after the other is
  answered as the database answers it, request by request, and leaves the daemon in a state that
  reads as the database the requests make.\<close>

theorem daemon_implements_database:
  assumes "quiet calls" "bounded (fst (daemon_run calls (initial_scord r)))"
  shows "db_run calls (empty_db r) =
    (db_of (fst (daemon_run calls (initial_scord r))), snd (daemon_run calls (initial_scord r)))"
  using run_seen [OF assms(1) initial_inv assms(2)] by (simp add: db_of_initial map_prod_def split_beta)

definition demo_calls :: "(nat world \<times> request) list" where
  "demo_calls =
     [(quiet_world, Req_register_adhoc_storage ''a'' adhoc_gekkofs demo_ctx \<lparr>adhoc_nodes = []\<rparr>),
      (quiet_world, Req_register_job demo_res (demo_reqs (Some demo_adhoc)) 42)]"

lemma demo_run: "daemon_run demo_calls (initial_scord r) =
  (demo_job_state r, [snd (handle quiet_world (snd (demo_calls ! 0)) (initial_scord r)),
     snd (handle quiet_world (snd (demo_calls ! 1)) (demo_state r))])"
  by (simp add: demo_calls_def demo_state_def demo_job_state_def split_beta)

theorem daemon_implements_database_witness:
  "fst (db_run demo_calls (empty_db True)) = db_of (demo_job_state True)"
proof -
  have "quiet demo_calls" by (simp add: quiet_def demo_calls_def quiet_world_def)
  moreover have "bounded (fst (daemon_run demo_calls (initial_scord True)))" by (simp add: demo_run)
  ultimately show ?thesis
    using daemon_implements_database [of demo_calls True] by (simp add: demo_run)
qed

end
