(* ===== verification/Command.thy ===== *)
theory Command
  imports CTypes
begin

text \<open>
  The commands \<open>scord-ctl\<close> runs (\<open>src/src/scord-ctl/command.hpp\<close>, \<open>command.cpp\<close>): a command line with
  keywords, the variables to set, the replacement of the keywords, the split into arguments and the
  execution in a child process.
\<close>

section \<open>Environments\<close>

text \<open>
  The variables in the order in which the unordered map is traversed. \<open>set\<close> assigns through
  \<open>operator[]\<close>.
\<close>

type_synonym environment = "(string \<times> string) list"

definition env_set :: "string \<Rightarrow> string \<Rightarrow> environment \<Rightarrow> environment" where
  "env_set key val env =
     (if map_of env key = None then env @ [(key, val)]
      else map (\<lambda>(k, v). (k, if k = key then val else v)) env)"

definition env_get :: "string \<Rightarrow> environment \<Rightarrow> string" where
  "env_get key env = (case map_of env key of None \<Rightarrow> [] | Some v \<Rightarrow> v)"

definition env_as_vector :: "environment \<Rightarrow> string list" where
  "env_as_vector env = map (\<lambda>(k, v). k @ ''='' @ v) env"

definition env_size :: "environment \<Rightarrow> nat" where
  "env_size env = length env"

lemma map_of_update_all:
  "map_of (map (\<lambda>(k, v). (k, if k = key then val else v)) env) j =
     (if j = key then map_option (\<lambda>_. val) (map_of env j) else map_of env j)"
  by (induction env) auto

lemma map_of_env_set: "map_of (env_set key val env) = (map_of env)(key \<mapsto> val)"
proof
  fix j
  have "map_of (env @ [(key, val)]) j = (if map_of env key = None then (map_of env)(key \<mapsto> val) else map_of env) j"
    by (auto simp: map_add_def split: option.split)
  then show "map_of (env_set key val env) j = ((map_of env)(key \<mapsto> val)) j"
    by (auto simp: env_set_def map_of_update_all)
qed

lemma env_get_set: "env_get j (env_set key val env) = (if j = key then val else env_get j env)"
  by (simp add: env_get_def map_of_env_set)

lemma distinct_env_set: "distinct (map fst env) \<Longrightarrow> distinct (map fst (env_set key val env))"
  by (force simp: env_set_def map_of_eq_None_iff comp_def case_prod_beta)

section \<open>Commands\<close>

record command =
  cmdline :: string
  command_env :: "environment option"

definition command_keywords :: "string list" where
  "command_keywords = [''{ADHOC_ID}'', ''{ADHOC_DIRECTORY}'', ''{ADHOC_NODES}'']"

definition command_keywords_malleability :: "string list" where
  "command_keywords_malleability = [''{ADHOC_ID}'', ''{ADHOC_NODES}'']"

text \<open>The pattern: every key with its braces escaped, the keys separated by bars.\<close>

fun escape_braces :: "string \<Rightarrow> string" where
  "escape_braces [] = []"
| "escape_braces (c # cs) =
     (if c = CHR ''{'' \<or> c = CHR ''}'' then CHR 0x5C # c # escape_braces cs else c # escape_braces cs)"

definition regex_from_map :: "(string \<times> string) list \<Rightarrow> string" where
  "regex_from_map m = butlast (concat (map (\<lambda>(key, _). escape_braces key @ ''|'') m))"

text \<open>
  What such a pattern stands for to \<open>std::regex\<close>: a bar separates alternatives, a backslash makes the
  next character stand for itself, and the letters stand for themselves.
\<close>

fun regex_alternatives :: "string \<Rightarrow> string list" where
  "regex_alternatives [] = [[]]"
| "regex_alternatives (c # cs) =
     (if c = CHR ''|'' then [] # regex_alternatives cs
      else if c = CHR 0x5C
        then (case cs of
                [] \<Rightarrow> [[c]]
              | d # ds \<Rightarrow> (case regex_alternatives ds of [] \<Rightarrow> [[d]] | w # ws \<Rightarrow> (d # w) # ws))
      else (case regex_alternatives cs of [] \<Rightarrow> [[c]] | w # ws \<Rightarrow> (c # w) # ws))"

text \<open>
  \<open>std::sregex_iterator\<close>: from a position on, the first place where an alternative matches, the first
  such alternative, and so on from its end.
\<close>

definition first_match :: "string list \<Rightarrow> string \<Rightarrow> string option" where
  "first_match keys s = find (\<lambda>k. is_prefix k s) keys"

function regex_matches :: "string list \<Rightarrow> string \<Rightarrow> nat \<Rightarrow> (nat \<times> string) list" where
  "regex_matches keys s pos =
     (if length s \<le> pos then []
      else case first_match keys (drop pos s) of
             None \<Rightarrow> regex_matches keys s (Suc pos)
           | Some k \<Rightarrow> (pos, k) # regex_matches keys s (pos + max 1 (length k)))"
  by pat_completeness auto
termination by (relation "measure (\<lambda>(keys, s, pos). length s - pos)") auto

declare regex_matches.simps [simp del]

text \<open>
  The loop over the matches: what lies between the last match and this one, and the replacement;
  \<open>replacements.at\<close> throws for a string that is not a key. Positions are 64-bit in the program; they are
  at most the length of the line.
\<close>

fun eval_loop ::
  "(string \<times> string) list \<Rightarrow> string \<Rightarrow> (nat \<times> string) list \<Rightarrow> nat \<Rightarrow> string \<Rightarrow> cpp_error + string" where
  "eval_loop replacements line [] last_pos res = Inr (res @ drop last_pos line)"
| "eval_loop replacements line ((pos, k) # ms) last_pos res =
     (case map_of replacements k of
        None \<Rightarrow> Inl Out_of_bounds
      | Some v \<Rightarrow>
          eval_loop replacements line ms (pos + length k)
            (res @ take (pos - last_pos) (drop last_pos line) @ v))"

definition eval_line :: "(string \<times> string) list \<Rightarrow> string \<Rightarrow> cpp_error + string" where
  "eval_line replacements line =
     eval_loop replacements line
       (regex_matches (regex_alternatives (regex_from_map replacements)) line 0) 0 []"

fun comma_join :: "string list \<Rightarrow> string" where
  "comma_join [] = []"
| "comma_join [s] = s"
| "comma_join (s # ss) = s @ '','' @ comma_join ss"

definition quoted_nodes :: "string list \<Rightarrow> string" where
  "quoted_nodes nodes = CHR 0x22 # comma_join nodes @ [CHR 0x22]"

text \<open>The maps are ordered: the directory comes before the identifier.\<close>

definition command_eval :: "string \<Rightarrow> string \<Rightarrow> string list \<Rightarrow> command \<Rightarrow> cpp_error + command" where
  "command_eval uuid directory nodes cmd =
     bind_sum
       (eval_line
          [(command_keywords ! 1, directory), (command_keywords ! 0, uuid), (command_keywords ! 2, quoted_nodes nodes)]
          (cmdline cmd))
       (\<lambda>line. Inr \<lparr>cmdline = line, command_env = command_env cmd\<rparr>)"

definition command_eval_malleability :: "string \<Rightarrow> string list \<Rightarrow> command \<Rightarrow> cpp_error + command" where
  "command_eval_malleability uuid nodes cmd =
     bind_sum
       (eval_line
          [(command_keywords_malleability ! 0, uuid), (command_keywords_malleability ! 1, quoted_nodes nodes)]
          (cmdline cmd))
       (\<lambda>line. Inr \<lparr>cmdline = line, command_env = command_env cmd\<rparr>)"

text \<open>\<open>std::views::split\<close> on a space: an empty line has no part, other lines one more than their spaces.\<close>

fun split_parts :: "char \<Rightarrow> string \<Rightarrow> string list" where
  "split_parts c [] = [[]]"
| "split_parts c (x # xs) =
     (if x = c then [] # split_parts c xs
      else (case split_parts c xs of [] \<Rightarrow> [[x]] | w # ws \<Rightarrow> (x # w) # ws))"

definition command_as_vector :: "command \<Rightarrow> string list" where
  "command_as_vector cmd = (if cmdline cmd = [] then [] else split_parts (CHR '' '') (cmdline cmd))"

section \<open>Running a command\<close>

text \<open>A null-terminated array of C strings: \<open>None\<close> is the null pointer.\<close>

definition as_char_array :: "string list \<Rightarrow> string option list" where
  "as_char_array v = map (\<lambda>s. Some (c_str s)) v @ [None]"

fun count_vars :: "string option list \<Rightarrow> cpp_error + nat" where
  "count_vars [] = Inl Out_of_bounds"
| "count_vars (None # env) = Inr 0"
| "count_vars (Some _ # env) = bind_sum (count_vars env) (\<lambda>n. Inr (Suc n))"

definition joinEnvironments :: "string option list \<Rightarrow> string option list \<Rightarrow> cpp_error + string option list" where
  "joinEnvironments env1 env2 =
     bind_sum (count_vars env1) (\<lambda>count1.
     bind_sum (count_vars env2) (\<lambda>count2.
       Inr (map (\<lambda>i. env1 ! i) [0..<count1] @ map (\<lambda>i. env2 ! i) [0..<count2] @ [None])))"

text \<open>
  What the operating system does: whether \<open>fork\<close> makes a child, whether \<open>execvpe\<close> can run the
  program, the status with which the program ends (\<open>None\<close> when it never does), what each call of \<open>waitpid\<close> comes
  to, given that status, and the text of \<open>errno\<close>. A call of \<open>waitpid\<close> may not return, fail, or write a status.
\<close>

datatype waited = Wait_forever | Wait_failed | Wait_status u32

record process_world =
  p_fork :: bool
  p_execvpe :: "string option list \<Rightarrow> string option list \<Rightarrow> bool"
  p_program :: "string option list \<Rightarrow> string option list \<Rightarrow> u32 option"
  p_waitpid :: "nat \<Rightarrow> u32 option \<Rightarrow> waited"
  p_environ :: "string list"
  p_errno :: string

text \<open>
  What is documented of \<open>waitpid\<close> without options: it returns the status of a child that has ended, and does not
  return before that unless it fails, as when a signal interrupts it.
\<close>

definition waitpid_documented :: "process_world \<Rightarrow> bool" where
  "waitpid_documented w \<longleftrightarrow>
     (\<forall>n status. p_waitpid w n (Some status) \<in> {Wait_status status, Wait_failed}) \<and>
     (\<forall>n. p_waitpid w n None \<in> {Wait_forever, Wait_failed})"

text \<open>The macros of \<open>sys/wait.h\<close>, and the status of a child that ended with \<open>_exit(EXIT_FAILURE)\<close>.\<close>

definition wifexited :: "u32 \<Rightarrow> bool" where
  "wifexited status \<longleftrightarrow> and status 0x7f = 0"

definition wexitstatus :: "u32 \<Rightarrow> nat" where
  "wexitstatus status = unat (drop_bit 8 (and status 0xff00))"

definition exit_failure_status :: u32 where
  "exit_failure_status = 0x100"

text \<open>The child: its status once it has ended, if it does.\<close>

definition exec_child :: "process_world \<Rightarrow> string option list \<Rightarrow> string option list \<Rightarrow> cpp_error + u32 option" where
  "exec_child w argv envp =
     bind_sum (joinEnvironments (as_char_array (p_environ w)) envp) (\<lambda>combined.
       Inr (if p_execvpe w argv combined then p_program w argv combined else Some exit_failure_status))"

text \<open>The loop of the parent, whose \<open>n\<close>-th call of \<open>waitpid\<close> comes next. \<open>None\<close> is not returning.\<close>

partial_function (option) exec_wait ::
  "process_world \<Rightarrow> u32 option \<Rightarrow> nat \<Rightarrow> (cpp_error + unit) option" where
  "exec_wait w status n =
     (case p_waitpid w n status of
        Wait_forever \<Rightarrow> None
      | Wait_failed \<Rightarrow> Some (Inl (Runtime_error (''Failed to wait for subprocess: '' @ p_errno w)))
      | Wait_status wstatus \<Rightarrow>
          if \<not> wifexited wstatus then Some (Inl (Runtime_error ''Subprocess did not exit normally''))
          else if wexitstatus wstatus \<noteq> 0
            then Some (Inl (Runtime_error
                   (''Subprocess exited with status '' @ nat_to_string (wexitstatus wstatus))))
          else if \<not> wifexited wstatus then exec_wait w status (Suc n)
          else Some (Inr ()))"

definition command_exec :: "process_world \<Rightarrow> command \<Rightarrow> (cpp_error + unit) option" where
  "command_exec w cmd =
     (let envs = env_as_vector (case command_env cmd of None \<Rightarrow> [] | Some e \<Rightarrow> e);
          argv = as_char_array (command_as_vector cmd);
          envp = as_char_array envs
      in if \<not> p_fork w
         then Some (Inl (Runtime_error (''Failed to create subprocess: '' @ p_errno w)))
         else case exec_child w argv envp of
                Inl e \<Rightarrow> Some (Inl e)
              | Inr status \<Rightarrow> exec_wait w status 0)"


section \<open>What the replacement amounts to\<close>

text \<open>One reading of the line from left to right, in which replaced text is not looked at again.\<close>

function substitute :: "(string \<times> string) list \<Rightarrow> string \<Rightarrow> string" where
  "substitute m [] = []"
| "substitute m (c # cs) =
     (case first_match (map fst m) (c # cs) of
        None \<Rightarrow> c # substitute m cs
      | Some k \<Rightarrow> the (map_of m k) @ substitute m (drop (length k - 1) cs))"
  by pat_completeness auto
termination by (relation "measure (\<lambda>(m, s). length s)") auto

lemma first_matchD:
  "first_match keys s = Some k \<Longrightarrow> k \<in> set keys \<and> is_prefix k s"
  by (auto simp: first_match_def find_Some_iff)

lemma is_prefix_length: "is_prefix p s \<Longrightarrow> length p \<le> length s"
  by (auto simp: is_prefix_iff)

lemma eval_loop_substitute:
  assumes "[] \<notin> set (map fst m)" "last_pos \<le> pos" "pos \<le> length line"
  shows "eval_loop m line (regex_matches (map fst m) line pos) last_pos res =
    Inr (res @ take (pos - last_pos) (drop last_pos line) @ substitute m (drop pos line))"
  using assms
proof (induction "map fst m" line pos arbitrary: last_pos res rule: regex_matches.induct)
  case (1 line pos)
  show ?case
  proof (cases "pos = length line")
    case True
    then show ?thesis by (simp add: regex_matches.simps)
  next
    case False
    with "1.prems" have less: "\<not> length line \<le> pos" by simp
    then obtain c cs where d: "drop pos line = c # cs" by (cases "drop pos line") auto
    have c: "line ! pos = c" using d less by (metis hd_drop_conv_nth list.sel(1) not_le)
    have cs: "drop (Suc pos) line = cs" using d by (metis drop_Suc drop_tl list.sel(3))
    show ?thesis
    proof (cases "first_match (map fst m) (drop pos line)")
      case None
      have "take (Suc pos - last_pos) (drop last_pos line) = take (pos - last_pos) (drop last_pos line) @ [c]"
        using "1.prems"(2) less c by (simp add: Suc_diff_le take_Suc_conv_app_nth)
      with None show ?thesis
        using "1.hyps"(1) [OF less None "1.prems"(1), of last_pos res] "1.prems" less d
        by (subst regex_matches.simps) (simp add: cs)
    next
      case (Some k)
      from first_matchD [OF Some] have k: "k \<in> set (map fst m)" "is_prefix k (drop pos line)" by auto
      then have "k \<noteq> []" using "1.prems"(1) by metis
      then have pos: "max 1 (length k) = length k" "length k = Suc (length k - 1)" by (cases k; simp)+
      have len: "pos + length k \<le> length line" using is_prefix_length [OF k(2)] less by simp
      obtain v where v: "map_of m k = Some v" using k(1) by (metis map_of_eq_None_iff not_None_eq set_map)
      have "drop (pos + length k) line = drop (length k - 1) cs"
        using pos(2) cs by (metis add_Suc_right add.commute drop_drop)
      then show ?thesis
        using "1.hyps"(2) [OF less Some "1.prems"(1), of "pos + length k"] Some v pos(1) less len d
        by (subst regex_matches.simps) simp
    qed
  qed
qed


lemma regex_alternatives_of_keys:
  "regex_alternatives (regex_from_map
     [(command_keywords ! 1, d), (command_keywords ! 0, i), (command_keywords ! 2, n)]) =
     [command_keywords ! 1, command_keywords ! 0, command_keywords ! 2]"
  "regex_alternatives (regex_from_map
     [(command_keywords_malleability ! 0, i), (command_keywords_malleability ! 1, n)]) =
     command_keywords_malleability"
  by (simp_all add: regex_from_map_def command_keywords_def command_keywords_malleability_def)

text \<open>The tables of replacements of the two \<open>eval\<close>.\<close>

definition eval_table :: "string \<Rightarrow> string \<Rightarrow> string list \<Rightarrow> (string \<times> string) list" where
  "eval_table uuid directory nodes =
     [(''{ADHOC_DIRECTORY}'', directory), (''{ADHOC_ID}'', uuid), (''{ADHOC_NODES}'', quoted_nodes nodes)]"

definition eval_table_malleability :: "string \<Rightarrow> string list \<Rightarrow> (string \<times> string) list" where
  "eval_table_malleability uuid nodes = [(''{ADHOC_ID}'', uuid), (''{ADHOC_NODES}'', quoted_nodes nodes)]"

lemma eval_line_tables:
  "eval_line (eval_table uuid d ns) line = Inr (substitute (eval_table uuid d ns) line)"
  "eval_line (eval_table_malleability uuid ns) line = Inr (substitute (eval_table_malleability uuid ns) line)"
  using eval_loop_substitute [of "eval_table uuid d ns" 0 0 line "[]"]
    eval_loop_substitute [of "eval_table_malleability uuid ns" 0 0 line "[]"]
    regex_alternatives_of_keys(1) [of d uuid "quoted_nodes ns"]
    regex_alternatives_of_keys(2) [of uuid "quoted_nodes ns"]
  by (simp_all add: eval_line_def eval_table_def eval_table_malleability_def command_keywords_def
      command_keywords_malleability_def)

lemma command_eval_eq:
  "command_eval uuid d ns cmd = Inr (cmd\<lparr>cmdline := substitute (eval_table uuid d ns) (cmdline cmd)\<rparr>)"
  using eval_line_tables(1) [of uuid d ns "cmdline cmd"]
  by (simp add: command_eval_def eval_table_def command_keywords_def)

lemma command_eval_malleability_eq:
  "command_eval_malleability uuid ns cmd =
     Inr (cmd\<lparr>cmdline := substitute (eval_table_malleability uuid ns) (cmdline cmd)\<rparr>)"
  using eval_line_tables(2) [of uuid ns "cmdline cmd"]
  by (simp add: command_eval_malleability_def eval_table_malleability_def command_keywords_malleability_def)

text \<open>Text before the first brace stays; keywords start with one.\<close>

lemma first_match_brace:
  "\<forall>k \<in> set keys. \<exists>r. k = CHR ''{'' # r \<Longrightarrow> c \<noteq> CHR ''{'' \<Longrightarrow> first_match keys (c # cs) = None"
  by (fastforce simp: first_match_def find_None_iff)

definition braced :: "(string \<times> string) list \<Rightarrow> bool" where
  "braced m \<longleftrightarrow> (\<forall>k \<in> set (map fst m). \<exists>r. k = CHR ''{'' # r)"

lemma braced_tables [simp]: "braced (eval_table uuid d ns)" "braced (eval_table_malleability uuid ns)"
  by (simp_all add: braced_def eval_table_def eval_table_malleability_def)

lemma substitute_plain:
  "braced m \<Longrightarrow> CHR ''{'' \<notin> set u \<Longrightarrow> substitute m (u @ v) = u @ substitute m v"
  by (induction u) (auto simp: braced_def first_match_brace)

lemma substitute_plain_line: "braced m \<Longrightarrow> CHR ''{'' \<notin> set u \<Longrightarrow> substitute m u = u"
  using substitute_plain [of m u "[]"] by simp

lemma substitute_keyword:
  assumes "first_match (map fst m) (k @ v) = Some k" "map_of m k = Some r" "k \<noteq> []"
  shows "substitute m (k @ v) = r @ substitute m v"
  using assms by (cases k) auto

section \<open>Splitting\<close>

lemma split_parts_nonempty [simp]: "split_parts c s \<noteq> []"
  by (cases s) (auto split: list.split)

lemma hd_split_parts: "hd (split_parts c s) = takeWhile (\<lambda>x. x \<noteq> c) s"
proof (induction s)
  case (Cons x xs)
  then show ?case by (cases "split_parts c xs") auto
qed simp

fun join_parts :: "char \<Rightarrow> string list \<Rightarrow> string" where
  "join_parts c [] = []"
| "join_parts c [w] = w"
| "join_parts c (w # ws) = w @ c # join_parts c ws"

lemma join_split_parts: "join_parts c (split_parts c s) = s"
proof (induction s)
  case (Cons x xs)
  then show ?case
    by (cases "tl (split_parts c xs)"; cases "split_parts c xs") auto
qed simp

lemma split_parts_no_sep: "w \<in> set (split_parts c s) \<Longrightarrow> c \<notin> set w"
  by (induction s arbitrary: w) (auto split: list.splits if_splits)

section \<open>The arrays of the child\<close>

lemma count_vars_array: "count_vars (as_char_array v) = Inr (length v)"
  by (induction v) (auto simp: as_char_array_def)

lemma joinEnvironments_eq:
  "joinEnvironments (as_char_array u) (as_char_array v) = Inr (as_char_array (u @ v))"
proof -
  have "map (\<lambda>i. as_char_array w ! i) [0..<length w] = map (\<lambda>s. Some (c_str s)) w" for w
    by (rule nth_equalityI) (auto simp: as_char_array_def nth_append)
  then show ?thesis by (simp add: joinEnvironments_def count_vars_array) (simp add: as_char_array_def)
qed

text \<open>\<open>getenv\<close> finds the first entry for a name.\<close>

fun getenv :: "string \<Rightarrow> string option list \<Rightarrow> string option" where
  "getenv key [] = None"
| "getenv key (None # env) = None"
| "getenv key (Some e # env) =
     (if is_prefix (key @ ''='') e then Some (drop (Suc (length key)) e) else getenv key env)"

lemma getenv_append:
  "None \<notin> set env \<Longrightarrow> getenv key (env @ rest) =
     (case getenv key env of Some v \<Rightarrow> Some v | None \<Rightarrow> getenv key rest)"
  by (induction key env rule: getenv.induct) auto

section \<open>Waiting for the child\<close>

lemma exec_wait_once:
  "exec_wait w status n = (case p_waitpid w n status of
     Wait_forever \<Rightarrow> None
   | Wait_failed \<Rightarrow> Some (Inl (Runtime_error (''Failed to wait for subprocess: '' @ p_errno w)))
   | Wait_status wstatus \<Rightarrow> Some (
       if \<not> wifexited wstatus then Inl (Runtime_error ''Subprocess did not exit normally'')
       else if wexitstatus wstatus \<noteq> 0
         then Inl (Runtime_error (''Subprocess exited with status '' @ nat_to_string (wexitstatus wstatus)))
       else Inr ()))"
  by (subst exec_wait.simps) (simp split: waited.split)

definition child_argv :: "command \<Rightarrow> string option list" where
  "child_argv cmd = as_char_array (command_as_vector cmd)"

definition child_env :: "process_world \<Rightarrow> command \<Rightarrow> string option list" where
  "child_env w cmd =
     as_char_array (p_environ w @ env_as_vector (case command_env cmd of None \<Rightarrow> [] | Some e \<Rightarrow> e))"

lemma exec_child_eq:
  "exec_child w (child_argv cmd) (as_char_array (env_as_vector (case command_env cmd of None \<Rightarrow> [] | Some e \<Rightarrow> e))) =
     Inr (if p_execvpe w (child_argv cmd) (child_env w cmd) then p_program w (child_argv cmd) (child_env w cmd)
          else Some exit_failure_status)"
  by (simp add: exec_child_def joinEnvironments_eq child_env_def)

lemma command_exec_eq:
  "command_exec w cmd =
     (if \<not> p_fork w then Some (Inl (Runtime_error (''Failed to create subprocess: '' @ p_errno w)))
      else exec_wait w (if p_execvpe w (child_argv cmd) (child_env w cmd)
        then p_program w (child_argv cmd) (child_env w cmd) else Some exit_failure_status) 0)"
  using exec_child_eq [of w cmd] by (simp add: command_exec_def child_argv_def [symmetric] Let_def)

lemma exit_failure [simp]: "wifexited exit_failure_status" "wexitstatus exit_failure_status = 1"
  by (simp_all add: wifexited_def wexitstatus_def exit_failure_status_def)

end
