(* ===== verification/Config.thy ===== *)
theory Config
  imports Command
begin

text \<open>
  The configuration of \<open>scord-ctl\<close> (\<open>src/src/scord-ctl/config_file.hpp\<close>, \<open>config_file.cpp\<close>). The YAML library
  turns the file into a tree; the tree is data here and the parser an argument.
\<close>

section \<open>The tree of the document\<close>

text \<open>
  A node has a key in a map, a value when it is not a container (\<open>None\<close> for a null one), and children.
  \<open>yaml_key_data\<close> is what the pointer to the key's text reads as a C string: the key and, since the
  library keeps no NUL after it, whatever follows it in the document.
\<close>

datatype yaml =
  Yaml (yaml_key: "string option") (yaml_key_data: string) (yaml_val: "string option")
    (yaml_children: "yaml list")

text \<open>\<open>::to_string\<close>: \<open>has_str\<close> is false for the empty string and for one that starts with a NUL.\<close>

definition csubstr_to_string :: "string option \<Rightarrow> string" where
  "csubstr_to_string v =
     (case v of None \<Rightarrow> [] | Some [] \<Rightarrow> [] | Some (c # cs) \<Rightarrow> if c = CHR 0x00 then [] else c # cs)"

text \<open>What loading meets outside: which files exist, and how a path is printed.\<close>

record config_world =
  cw_exists :: "string \<Rightarrow> bool"
  cw_path_text :: "string \<Rightarrow> string"

section \<open>The parts of the configuration\<close>

record adhoc_storage_config =
  working_directory :: string
  startup_command :: command
  shutdown_command :: command
  expand_command :: command
  shrink_command :: command

type_synonym adhoc_storage_config_map = "(adhoc_type \<times> adhoc_storage_config) list"

definition config_emplace ::
  "adhoc_type \<Rightarrow> adhoc_storage_config \<Rightarrow> adhoc_storage_config_map \<Rightarrow> adhoc_storage_config_map" where
  "config_emplace t c m = (if map_of m t = None then m @ [(t, c)] else m)"

section \<open>Reading the tree\<close>

text \<open>A path is absolute when it starts at the root. The program is the line up to the first space.\<close>

definition is_absolute :: "string \<Rightarrow> bool" where
  "is_absolute p \<longleftrightarrow> is_prefix ''/'' p"

definition validate_command :: "config_world \<Rightarrow> string \<Rightarrow> cpp_error + unit" where
  "validate_command w line =
     (let command_path = (case str_find '' '' line of None \<Rightarrow> line | Some n \<Rightarrow> take n line)
      in if \<not> is_absolute command_path
         then Inl (Runtime_error (''Command '' @ cw_path_text w command_path @ '' is not an absolute path''))
         else if \<not> cw_exists w command_path
         then Inl (Runtime_error (''Command '' @ cw_path_text w command_path @ '' does not exist''))
         else Inr ())"

definition to_adhoc_storage_type :: "yaml \<Rightarrow> cpp_error + adhoc_type" where
  "to_adhoc_storage_type node =
     (case map_of [(''dataclay'', adhoc_dataclay), (''expand'', adhoc_expand),
                   (''gekkofs'', adhoc_gekkofs), (''hercules'', adhoc_hercules)]
             (case yaml_key node of None \<Rightarrow> [] | Some k \<Rightarrow> k) of
        Some t \<Rightarrow> Inr t
      | None \<Rightarrow>
          Inl (Runtime_error (''Unsupported adhoc storage type '' @ CHR 0x27 # yaml_key_data node @
                 CHR 0x27 # '' in configuration file'')))"

fun parse_environment_node :: "yaml list \<Rightarrow> environment \<Rightarrow> environment" where
  "parse_environment_node [] env = env"
| "parse_environment_node (child # rest) env =
     (case yaml_key child of
        None \<Rightarrow> parse_environment_node rest env
      | Some key \<Rightarrow>
          parse_environment_node rest
            (env_set (csubstr_to_string (Some key)) (csubstr_to_string (yaml_val child)) env))"

text \<open>The loop of \<open>parse_command_node\<close>, with the line and the environment read so far.\<close>

fun parse_command_children ::
  "config_world \<Rightarrow> yaml list \<Rightarrow> string \<times> environment option \<Rightarrow>
   cpp_error + string \<times> environment option" where
  "parse_command_children w [] st = Inr st"
| "parse_command_children w (child # rest) (line, env) =
     (case yaml_key child of
        None \<Rightarrow> parse_command_children w rest (line, env)
      | Some key \<Rightarrow>
          if key = ''environment''
          then parse_command_children w rest (line, Some (parse_environment_node (yaml_children child) []))
          else if key = ''command''
          then (if yaml_val child = None then Inl (Runtime_error ''`command` key cannot be empty'')
                else bind_sum (validate_command w (csubstr_to_string (yaml_val child)))
                       (\<lambda>_. parse_command_children w rest (csubstr_to_string (yaml_val child), env)))
          else parse_command_children w rest (line, env))"

definition parse_command_node :: "config_world \<Rightarrow> yaml \<Rightarrow> cpp_error + command" where
  "parse_command_node w node =
     bind_sum (parse_command_children w (yaml_children node) ([], None)) (\<lambda>(line, env).
       if line = [] then Inl (Runtime_error ''missing required `command` key'')
       else Inr \<lparr>cmdline = line, command_env = env\<rparr>)"

text \<open>What the loop of \<open>parse_adhoc_config_node\<close> has read: the directory and the four commands.\<close>

record config_slots =
  sl_directory :: string
  sl_startup :: "command option"
  sl_shutdown :: "command option"
  sl_expand :: "command option"
  sl_shrink :: "command option"

fun parse_config_children ::
  "config_world \<Rightarrow> yaml list \<Rightarrow> config_slots \<Rightarrow> cpp_error + config_slots" where
  "parse_config_children w [] sl = Inr sl"
| "parse_config_children w (child # rest) sl =
     (case yaml_key child of
        None \<Rightarrow> parse_config_children w rest sl
      | Some key \<Rightarrow>
          if key = ''working_directory''
          then (if yaml_val child = None
                then Inl (Runtime_error ''`working_directory` key cannot be empty'')
                else parse_config_children w rest
                       (sl\<lparr>sl_directory := csubstr_to_string (yaml_val child)\<rparr>))
          else if key = ''startup''
          then bind_sum (parse_command_node w child)
                 (\<lambda>c. parse_config_children w rest (sl\<lparr>sl_startup := Some c\<rparr>))
          else if key = ''shutdown''
          then bind_sum (parse_command_node w child)
                 (\<lambda>c. parse_config_children w rest (sl\<lparr>sl_shutdown := Some c\<rparr>))
          else if key = ''expand''
          then bind_sum (parse_command_node w child)
                 (\<lambda>c. parse_config_children w rest (sl\<lparr>sl_expand := Some c\<rparr>))
          else if key = ''shrink''
          then bind_sum (parse_command_node w child)
                 (\<lambda>c. parse_config_children w rest (sl\<lparr>sl_shrink := Some c\<rparr>))
          else parse_config_children w rest sl)"

text \<open>The four commands are read through optionals that no one has checked.\<close>

fun read_optional :: "'a option \<Rightarrow> cpp_error + 'a" where
  "read_optional None = Inl Empty_optional_dereference"
| "read_optional (Some x) = Inr x"

definition parse_adhoc_config_node :: "config_world \<Rightarrow> yaml \<Rightarrow> cpp_error + adhoc_storage_config" where
  "parse_adhoc_config_node w node =
     bind_sum (parse_config_children w (yaml_children node)
         \<lparr>sl_directory = [], sl_startup = None, sl_shutdown = None, sl_expand = None, sl_shrink = None\<rparr>)
       (\<lambda>sl. if sl_directory sl = [] then Inl (Runtime_error ''missing required `working_directory` key'')
             else
               bind_sum (read_optional (sl_startup sl)) (\<lambda>startup.
               bind_sum (read_optional (sl_shutdown sl)) (\<lambda>shutdown.
               bind_sum (read_optional (sl_expand sl)) (\<lambda>expand.
               bind_sum (read_optional (sl_shrink sl)) (\<lambda>shrink.
                 Inr \<lparr>working_directory = sl_directory sl, startup_command = startup,
                      shutdown_command = shutdown, expand_command = expand, shrink_command = shrink\<rparr>)))))"

fun parse_adhoc_storage_children ::
  "config_world \<Rightarrow> yaml list \<Rightarrow> adhoc_storage_config_map \<Rightarrow> cpp_error + adhoc_storage_config_map" where
  "parse_adhoc_storage_children w [] m = Inr m"
| "parse_adhoc_storage_children w (child # rest) m =
     (case yaml_key child of
        None \<Rightarrow> parse_adhoc_storage_children w rest m
      | Some _ \<Rightarrow>
          bind_sum (to_adhoc_storage_type child) (\<lambda>t.
          bind_sum (parse_adhoc_config_node w child) (\<lambda>c.
            parse_adhoc_storage_children w rest (config_emplace t c m))))"

definition parse_adhoc_storage_node :: "config_world \<Rightarrow> yaml \<Rightarrow> cpp_error + adhoc_storage_config_map" where
  "parse_adhoc_storage_node w node = parse_adhoc_storage_children w (yaml_children node) []"

fun parse_config_node ::
  "config_world \<Rightarrow> yaml list \<Rightarrow> adhoc_storage_config_map \<Rightarrow> cpp_error + adhoc_storage_config_map" where
  "parse_config_node w [] m = Inr m"
| "parse_config_node w (child # rest) m =
     (case yaml_key child of
        None \<Rightarrow> parse_config_node w rest m
      | Some key \<Rightarrow>
          if key = ''adhoc_storage''
          then bind_sum (parse_adhoc_storage_node w child) (\<lambda>m. parse_config_node w rest m)
          else parse_config_node w rest m)"

section \<open>The file\<close>

text \<open>
  An exception of the inner functions is caught and thrown again with the name of the file; undefined
  behaviour is not an exception.
\<close>

definition rethrow :: "config_world \<Rightarrow> string \<Rightarrow> cpp_error \<Rightarrow> cpp_error" where
  "rethrow w path e =
     (case e of
        Runtime_error what \<Rightarrow>
          Runtime_error (''Failed parsing configuration in '' @ cw_path_text w path @ '':'' @
            CHR 0x0A # ''  '' @ what)
      | e \<Rightarrow> e)"

fun load_root ::
  "config_world \<Rightarrow> string \<Rightarrow> yaml list \<Rightarrow> adhoc_storage_config_map \<Rightarrow>
   cpp_error + adhoc_storage_config_map" where
  "load_root w path [] m = Inr m"
| "load_root w path (child # rest) m =
     (case yaml_key child of
        None \<Rightarrow> load_root w path rest m
      | Some key \<Rightarrow>
          if key = ''config''
          then (case parse_config_node w (yaml_children child) [] of
                  Inl e \<Rightarrow> Inl (rethrow w path e)
                | Inr m \<Rightarrow> load_root w path rest m)
          else load_root w path rest m)"

text \<open>
  The constructor: \<open>content\<close> is the text of the file when it could be opened, \<open>parse\<close> the library's parser
  (\<open>None\<close> when it gives up).
\<close>

definition load_config ::
  "config_world \<Rightarrow> (string \<Rightarrow> yaml option) \<Rightarrow> string \<Rightarrow> string option \<Rightarrow>
   cpp_error + adhoc_storage_config_map" where
  "load_config w parse path content =
     (case content of
        None \<Rightarrow> Inl (Runtime_error (''Failed to open configuration file: '' @ path))
      | Some text \<Rightarrow>
          (case parse text of
             None \<Rightarrow> Inl Library_error
           | Some tree \<Rightarrow> load_root w path (yaml_children tree) []))"


section \<open>What a loaded configuration looks like\<close>

definition program_of :: "string \<Rightarrow> string" where
  "program_of line = takeWhile (\<lambda>c. c \<noteq> CHR '' '') line"

definition command_ok :: "config_world \<Rightarrow> command \<Rightarrow> bool" where
  "command_ok w c \<longleftrightarrow> is_absolute (program_of (cmdline c)) \<and> cw_exists w (program_of (cmdline c))"

definition config_ok :: "config_world \<Rightarrow> adhoc_storage_config_map \<Rightarrow> bool" where
  "config_ok w m \<longleftrightarrow>
     distinct (map fst m) \<and>
     (\<forall>(t, c) \<in> set m.
        t \<in> {adhoc_dataclay, adhoc_expand, adhoc_gekkofs, adhoc_hercules} \<and> working_directory c \<noteq> [] \<and>
        command_ok w (startup_command c) \<and> command_ok w (shutdown_command c) \<and>
        command_ok w (expand_command c) \<and> command_ok w (shrink_command c))"

lemma str_find_char:
  "(case str_find [c] s of None \<Rightarrow> s | Some n \<Rightarrow> take n s) = takeWhile (\<lambda>x. x \<noteq> c) s"
proof (induction s)
  case (Cons x xs)
  then show ?case by (cases "str_find [c] xs") auto
qed simp

lemma validate_command_eq:
  "validate_command w line = Inr () \<longleftrightarrow> is_absolute (program_of line) \<and> cw_exists w (program_of line)"
  by (simp add: validate_command_def Let_def str_find_char program_of_def)

lemma parse_command_children_ok:
  assumes "parse_command_children w nodes (line, env) = Inr (line', env')"
    and "line = [] \<or> command_ok w \<lparr>cmdline = line, command_env = e\<rparr>"
  shows "line' = [] \<or> command_ok w \<lparr>cmdline = line', command_env = e\<rparr>"
  using assms
proof (induction w nodes "(line, env)" arbitrary: line env rule: parse_command_children.induct)
  case (2 w child rest line env)
  then show ?case
    by (auto simp: bind_sum_eq_Inr validate_command_eq command_ok_def
        split: option.splits if_splits)
qed simp

lemma parse_command_node_ok: "parse_command_node w node = Inr c \<Longrightarrow> command_ok w c"
  using parse_command_children_ok [of w "yaml_children node" "[]" None "cmdline c" "command_env c"]
  by (auto simp: parse_command_node_def bind_sum_eq_Inr command_ok_def split: if_splits)

definition slots_ok :: "config_world \<Rightarrow> config_slots \<Rightarrow> bool" where
  "slots_ok w sl \<longleftrightarrow>
     (\<forall>c \<in> set_option (sl_startup sl) \<union> set_option (sl_shutdown sl) \<union> set_option (sl_expand sl) \<union>
            set_option (sl_shrink sl). command_ok w c)"

lemma parse_config_children_ok:
  "parse_config_children w nodes sl = Inr sl' \<Longrightarrow> slots_ok w sl \<Longrightarrow> slots_ok w sl'"
proof (induction w nodes sl rule: parse_config_children.induct)
  case (2 w child rest sl)
  then show ?case
    by (auto simp: bind_sum_eq_Inr slots_ok_def dest!: parse_command_node_ok
        split: option.splits if_splits)
qed simp

lemma read_optional_Inr: "read_optional v = Inr x \<longleftrightarrow> v = Some x"
  by (cases v) auto

lemma parse_adhoc_config_node_ok:
  assumes "parse_adhoc_config_node w node = Inr c"
  shows "working_directory c \<noteq> [] \<and> command_ok w (startup_command c) \<and> command_ok w (shutdown_command c) \<and>
    command_ok w (expand_command c) \<and> command_ok w (shrink_command c)"
  using assms
  by (auto simp: parse_adhoc_config_node_def bind_sum_eq_Inr read_optional_Inr slots_ok_def
      dest!: parse_config_children_ok split: if_splits)

lemma to_adhoc_storage_type_ok:
  "to_adhoc_storage_type node = Inr t \<Longrightarrow> t \<in> {adhoc_dataclay, adhoc_expand, adhoc_gekkofs, adhoc_hercules}"
  by (auto simp: to_adhoc_storage_type_def split: option.splits if_splits)

lemma config_emplace_ok:
  assumes "config_ok w m" "to_adhoc_storage_type node = Inr t" "parse_adhoc_config_node w node = Inr c"
  shows "config_ok w (config_emplace t c m)"
  using assms(1) to_adhoc_storage_type_ok [OF assms(2)] parse_adhoc_config_node_ok [OF assms(3)]
  by (auto simp: config_ok_def config_emplace_def map_of_eq_None_iff)

lemma parse_adhoc_storage_children_ok:
  "parse_adhoc_storage_children w nodes m = Inr m' \<Longrightarrow> config_ok w m \<Longrightarrow> config_ok w m'"
proof (induction w nodes m rule: parse_adhoc_storage_children.induct)
  case (2 w child rest m)
  then show ?case by (auto simp: bind_sum_eq_Inr config_emplace_ok split: option.splits)
qed simp

lemma config_ok_empty [simp]: "config_ok w []"
  by (simp add: config_ok_def)

lemma parse_config_node_ok: "parse_config_node w nodes m = Inr m' \<Longrightarrow> config_ok w m \<Longrightarrow> config_ok w m'"
proof (induction w nodes m rule: parse_config_node.induct)
  case (2 w child rest m)
  then show ?case
    by (auto simp: bind_sum_eq_Inr parse_adhoc_storage_node_def dest: parse_adhoc_storage_children_ok
        split: option.splits if_splits)
qed simp

lemma load_root_ok: "load_root w path nodes m = Inr m' \<Longrightarrow> config_ok w m \<Longrightarrow> config_ok w m'"
proof (induction w path nodes m rule: load_root.induct)
  case (2 w path child rest m)
  then show ?case
    by (auto dest: parse_config_node_ok split: option.splits if_splits sum.splits)
qed simp

lemma load_config_ok: "load_config w parse path content = Inr m \<Longrightarrow> config_ok w m"
  by (auto simp: load_config_def dest: load_root_ok split: option.splits)

text \<open>Which of the slots are filled: those whose key occurs.\<close>

definition keys_of :: "yaml list \<Rightarrow> string set" where
  "keys_of nodes = {k. \<exists>n \<in> set nodes. yaml_key n = Some k}"

lemma keys_of_simps [simp]:
  "keys_of [] = {}"
  "keys_of (n # ns) = (case yaml_key n of None \<Rightarrow> {} | Some k \<Rightarrow> {k}) \<union> keys_of ns"
  by (auto simp: keys_of_def split: option.splits)

lemma parse_config_children_slots:
  assumes "parse_config_children w nodes sl = Inr sl'"
  shows "(sl_startup sl' = None \<longleftrightarrow> sl_startup sl = None \<and> ''startup'' \<notin> keys_of nodes) \<and>
    (sl_shutdown sl' = None \<longleftrightarrow> sl_shutdown sl = None \<and> ''shutdown'' \<notin> keys_of nodes) \<and>
    (sl_expand sl' = None \<longleftrightarrow> sl_expand sl = None \<and> ''expand'' \<notin> keys_of nodes) \<and>
    (sl_shrink sl' = None \<longleftrightarrow> sl_shrink sl = None \<and> ''shrink'' \<notin> keys_of nodes)"
  using assms
proof (induction w nodes sl rule: parse_config_children.induct)
  case (2 w child rest sl)
  show ?case
  proof (cases "yaml_key child")
    case None
    with 2 show ?thesis by simp
  next
    case (Some key)
    with 2 show ?thesis by (auto simp: bind_sum_eq_Inr split: if_splits)
  qed
qed simp

end
