(* ===== verification/Ctl.thy ===== *)
theory Ctl
  imports Config Network
begin

text \<open>
  The RPC server of \<open>scord-ctl\<close> (\<open>src/src/scord-ctl/rpc_server.hpp\<close>, \<open>rpc_server.cpp\<close>), the process that
  starts, grows, shrinks and stops one adhoc storage by running the commands of its configuration.
\<close>

section \<open>State and surroundings\<close>

text \<open>
  The counter of the calls, the configuration, the files that exist, and the programs that were run so
  far, each with its arguments and its environment.
\<close>

record ctl_state =
  ctl_rpc_id :: u64
  m_config :: "adhoc_storage_config_map option"
  ctl_files :: "string \<Rightarrow> bool"
  ctl_ran :: "(string option list \<times> string option list) list"

text \<open>
  The address of the caller, whether the status of a path can be had, whether a directory can be made, the operating system as far as child
  processes go, and what a program does to the files.
\<close>

record ctl_world =
  ctl_address :: string
  ctl_stat :: "string \<Rightarrow> bool"
  ctl_mkdir :: "string \<Rightarrow> bool"
  ctl_process :: process_world
  ctl_effect :: "string option list \<Rightarrow> (string \<Rightarrow> bool) \<Rightarrow> string \<Rightarrow> bool"

definition initial_ctl :: "(string \<Rightarrow> bool) \<Rightarrow> ctl_state" where
  "initial_ctl files = \<lparr>ctl_rpc_id = 0, m_config = None, ctl_files = files, ctl_ran = []\<rparr>"

definition set_config :: "adhoc_storage_config_map option \<Rightarrow> ctl_state \<Rightarrow> ctl_state" where
  "set_config config s = s\<lparr>m_config := config\<rparr>"

text \<open>A handler that never returns has no result, but a state: what it has done before it got stuck.\<close>

type_synonym 'r ctl_outcome = "ctl_state \<times> (cpp_error + 'r) option"

definition ctl_enter :: "string \<Rightarrow> ctl_world \<Rightarrow> ctl_state \<Rightarrow> ctl_state \<times> rpc_info" where
  "ctl_enter function w s =
     (let (c, rpc) = rpc_create (ctl_rpc_id s) (''ADM_'' @ function) (ctl_address w)
      in (s\<lparr>ctl_rpc_id := c\<rparr>, rpc))"

text \<open>
  \<open>operator/\<close> of \<open>std::filesystem::path\<close>: an absolute right operand replaces the left one; a separator is
  put between when the left one ends in a name.
\<close>

definition path_append :: "string \<Rightarrow> string \<Rightarrow> string" where
  "path_append p q =
     (if is_absolute q then q
      else if p = [] \<or> last p = CHR ''/'' then p @ q
      else p @ ''/'' @ q)"

text \<open>\<open>create_directories\<close> makes the directory and those above it, or tells that it could not.\<close>

definition create_directories :: "ctl_world \<Rightarrow> string \<Rightarrow> ctl_state \<Rightarrow> ctl_state \<times> bool" where
  "create_directories w dir s =
     (if ctl_mkdir w dir
      then (s\<lparr>ctl_files := (\<lambda>f. f = dir \<or> is_prefix (f @ ''/'') dir \<or> ctl_files s f)\<rparr>, True)
      else (s, False))"

text \<open>The configuration the handlers work with: there must be one, and it must not be empty.\<close>

definition configs_of :: "ctl_state \<Rightarrow> adhoc_storage_config_map option" where
  "configs_of s = (case m_config s of None \<Rightarrow> None | Some [] \<Rightarrow> None | Some (c # cs) \<Rightarrow> Some (c # cs))"

text \<open>Running a command leaves its trace when a program was started.\<close>

definition note_run :: "ctl_world \<Rightarrow> command \<Rightarrow> ctl_state \<Rightarrow> ctl_state" where
  "note_run w cmd s =
     (let argv = child_argv cmd; env = child_env (ctl_process w) cmd
      in if p_fork (ctl_process w) \<and> p_execvpe (ctl_process w) argv env
         then s\<lparr>ctl_ran := ctl_ran s @ [(argv, env)], ctl_files := ctl_effect w argv (ctl_files s)\<rparr>
         else s)"

definition ctl_exec :: "ctl_world \<Rightarrow> command \<Rightarrow> ctl_state \<Rightarrow> error_code ctl_outcome" where
  "ctl_exec w cmd s =
     (note_run w cmd s,
      case command_exec (ctl_process w) cmd of
        None \<Rightarrow> None
      | Some (Inr _) \<Rightarrow> Some (Inr ADM_SUCCESS)
      | Some (Inl e) \<Rightarrow> Some (if is_exception e then Inr ADM_ESUBPROCESS_ERROR else Inl e))"

definition hostnames_of :: "adhoc_resources \<Rightarrow> string list" where
  "hostnames_of r = map hostname (adhoc_nodes r)"

section \<open>Handlers\<close>

definition ctl_ping :: "ctl_world \<Rightarrow> ctl_state \<Rightarrow> generic_response ctl_outcome" where
  "ctl_ping w s =
     (let (s, rpc) = ctl_enter ''ping'' w s in (s, Some (Inr (mk_response (rpc_id rpc) ADM_SUCCESS))))"

text \<open>
  The answer of a deployment carries the directory as soon as it has been computed. \<open>exists\<close> throws when the status of
  the path cannot be had, outside of any handler.
\<close>

definition ctl_deploy_adhoc_storage ::
  "ctl_world \<Rightarrow> string \<Rightarrow> adhoc_type \<Rightarrow> adhoc_resources \<Rightarrow> ctl_state \<Rightarrow>
   string response_with_value ctl_outcome" where
  "ctl_deploy_adhoc_storage w uuid ty res s =
     (let (s, rpc) = ctl_enter ''deploy_adhoc_storage'' w s;
          respond = (\<lambda>s ec dir. (s, Some (Inr (mk_response_with (rpc_id rpc) ec dir))))
      in case configs_of s of
           None \<Rightarrow> respond s ADM_ESNAFU None
         | Some configs \<Rightarrow>
             (case map_of configs ty of
                None \<Rightarrow> respond s ADM_EADHOC_TYPE_UNSUPPORTED None
              | Some cfg \<Rightarrow>
                  (let dir = path_append (working_directory cfg) uuid
                   in if \<not> ctl_stat w dir then (s, Some (Inl Library_error))
                      else if ctl_files s dir then respond s ADM_EADHOC_DIR_EXISTS (Some dir)
                      else
                        (let (s, made) = create_directories w dir s
                         in if \<not> made then respond s ADM_EADHOC_DIR_CREATE_FAILED (Some dir)
                            else
                              (case command_eval uuid dir (hostnames_of res) (startup_command cfg) of
                                 Inl e \<Rightarrow> (s, Some (Inl e))
                               | Inr cmd \<Rightarrow>
                                   (case ctl_exec w cmd s of
                                      (s, None) \<Rightarrow> (s, None)
                                    | (s, Some (Inl e)) \<Rightarrow> (s, Some (Inl e))
                                    | (s, Some (Inr ec)) \<Rightarrow> respond s ec (Some dir)))))))"

text \<open>Growing and shrinking differ in the name of the call and in the command they run.\<close>

definition ctl_expand_adhoc_storage ::
  "ctl_world \<Rightarrow> string \<Rightarrow> adhoc_type \<Rightarrow> adhoc_resources \<Rightarrow> ctl_state \<Rightarrow> generic_response ctl_outcome" where
  "ctl_expand_adhoc_storage w uuid ty res s =
     (let (s, rpc) = ctl_enter ''expand_adhoc_storage'' w s;
          respond = (\<lambda>s ec. (s, Some (Inr (mk_response (rpc_id rpc) ec))))
      in case configs_of s of
           None \<Rightarrow> respond s ADM_ESNAFU
         | Some configs \<Rightarrow>
             (case map_of configs ty of
                None \<Rightarrow> respond s ADM_EADHOC_TYPE_UNSUPPORTED
              | Some cfg \<Rightarrow>
                  (case command_eval_malleability uuid (hostnames_of res) (expand_command cfg) of
                     Inl e \<Rightarrow> (s, Some (Inl e))
                   | Inr cmd \<Rightarrow>
                       (case ctl_exec w cmd s of
                          (s, None) \<Rightarrow> (s, None)
                        | (s, Some (Inl e)) \<Rightarrow> (s, Some (Inl e))
                        | (s, Some (Inr ec)) \<Rightarrow> respond s ec))))"

definition ctl_shrink_adhoc_storage ::
  "ctl_world \<Rightarrow> string \<Rightarrow> adhoc_type \<Rightarrow> adhoc_resources \<Rightarrow> ctl_state \<Rightarrow> generic_response ctl_outcome" where
  "ctl_shrink_adhoc_storage w uuid ty res s =
     (let (s, rpc) = ctl_enter ''shrink_adhoc_storage'' w s;
          respond = (\<lambda>s ec. (s, Some (Inr (mk_response (rpc_id rpc) ec))))
      in case configs_of s of
           None \<Rightarrow> respond s ADM_ESNAFU
         | Some configs \<Rightarrow>
             (case map_of configs ty of
                None \<Rightarrow> respond s ADM_EADHOC_TYPE_UNSUPPORTED
              | Some cfg \<Rightarrow>
                  (case command_eval_malleability uuid (hostnames_of res) (shrink_command cfg) of
                     Inl e \<Rightarrow> (s, Some (Inl e))
                   | Inr cmd \<Rightarrow>
                       (case ctl_exec w cmd s of
                          (s, None) \<Rightarrow> (s, None)
                        | (s, Some (Inl e)) \<Rightarrow> (s, Some (Inl e))
                        | (s, Some (Inr ec)) \<Rightarrow> respond s ec))))"

definition ctl_terminate_adhoc_storage ::
  "ctl_world \<Rightarrow> string \<Rightarrow> adhoc_type \<Rightarrow> ctl_state \<Rightarrow> generic_response ctl_outcome" where
  "ctl_terminate_adhoc_storage w uuid ty s =
     (let (s, rpc) = ctl_enter ''terminate_adhoc_storage'' w s;
          respond = (\<lambda>s ec. (s, Some (Inr (mk_response (rpc_id rpc) ec))))
      in case configs_of s of
           None \<Rightarrow> respond s ADM_ESNAFU
         | Some configs \<Rightarrow>
             (case map_of configs ty of
                None \<Rightarrow> respond s ADM_EADHOC_TYPE_UNSUPPORTED
              | Some cfg \<Rightarrow>
                  (case command_eval uuid (path_append (working_directory cfg) uuid) [] (shutdown_command cfg) of
                     Inl e \<Rightarrow> (s, Some (Inl e))
                   | Inr cmd \<Rightarrow>
                       (case ctl_exec w cmd s of
                          (s, None) \<Rightarrow> (s, None)
                        | (s, Some (Inl e)) \<Rightarrow> (s, Some (Inl e))
                        | (s, Some (Inr ec)) \<Rightarrow> respond s ec))))"


section \<open>The table of procedures\<close>

datatype ctl_request =
    Ctl_ping
  | Ctl_deploy string adhoc_type adhoc_resources
  | Ctl_expand string adhoc_type adhoc_resources
  | Ctl_shrink string adhoc_type adhoc_resources
  | Ctl_terminate string adhoc_type

datatype ctl_reply =
    Ctl_generic generic_response
  | Ctl_path "string response_with_value"

fun ctl_rpc_of :: "ctl_request \<Rightarrow> string" where
  "ctl_rpc_of Ctl_ping = ''ADM_ping''"
| "ctl_rpc_of (Ctl_deploy _ _ _) = ''ADM_deploy_adhoc_storage''"
| "ctl_rpc_of (Ctl_expand _ _ _) = ''ADM_expand_adhoc_storage''"
| "ctl_rpc_of (Ctl_shrink _ _ _) = ''ADM_shrink_adhoc_storage''"
| "ctl_rpc_of (Ctl_terminate _ _) = ''ADM_terminate_adhoc_storage''"

definition ctl_reply_with :: "('r \<Rightarrow> ctl_reply) \<Rightarrow> 'r ctl_outcome \<Rightarrow> ctl_reply ctl_outcome" where
  "ctl_reply_with f x = (fst x, map_option (map_sum id f) (snd x))"

fun ctl_handle :: "ctl_world \<Rightarrow> ctl_request \<Rightarrow> ctl_state \<Rightarrow> ctl_reply ctl_outcome" where
  "ctl_handle w Ctl_ping s = ctl_reply_with Ctl_generic (ctl_ping w s)"
| "ctl_handle w (Ctl_deploy u t r) s = ctl_reply_with Ctl_path (ctl_deploy_adhoc_storage w u t r s)"
| "ctl_handle w (Ctl_expand u t r) s = ctl_reply_with Ctl_generic (ctl_expand_adhoc_storage w u t r s)"
| "ctl_handle w (Ctl_shrink u t r) s = ctl_reply_with Ctl_generic (ctl_shrink_adhoc_storage w u t r s)"
| "ctl_handle w (Ctl_terminate u t) s = ctl_reply_with Ctl_generic (ctl_terminate_adhoc_storage w u t s)"

section \<open>What a handler amounts to\<close>

text \<open>
  The command ends: no child was made, or the waiting for it comes to an end. It succeeds: a child was made, it could
  be waited for, and it ended normally with 0.
\<close>

definition child_status :: "process_world \<Rightarrow> command \<Rightarrow> u32 option" where
  "child_status w cmd =
     (if p_execvpe w (child_argv cmd) (child_env w cmd) then p_program w (child_argv cmd) (child_env w cmd)
      else Some exit_failure_status)"

definition ends :: "process_world \<Rightarrow> command \<Rightarrow> bool" where
  "ends w cmd \<longleftrightarrow> \<not> p_fork w \<or> p_waitpid w 0 (child_status w cmd) \<noteq> Wait_forever"

definition succeeds :: "process_world \<Rightarrow> command \<Rightarrow> bool" where
  "succeeds w cmd \<longleftrightarrow>
     p_fork w \<and>
     (case p_waitpid w 0 (child_status w cmd) of
        Wait_status status \<Rightarrow> wifexited status \<and> wexitstatus status = 0
      | _ \<Rightarrow> False)"

lemma command_exec_waits:
  "command_exec w cmd =
     (if p_fork w then exec_wait w (child_status w cmd) 0
      else Some (Inl (Runtime_error (''Failed to create subprocess: '' @ p_errno w))))"
  by (simp add: command_exec_eq child_status_def)

lemma command_exec_cases:
  "if ends w cmd
   then \<exists>r. command_exec w cmd = Some r \<and> (r = Inr () \<longleftrightarrow> succeeds w cmd) \<and> (\<forall>e. r = Inl e \<longrightarrow> (\<exists>what. e = Runtime_error what))
   else command_exec w cmd = None"
  by (auto simp: command_exec_waits exec_wait_once succeeds_def ends_def split: waited.split)

text \<open>What a handler answers after a command.\<close>

definition answered :: "ctl_world \<Rightarrow> command \<Rightarrow> 'r \<Rightarrow> (cpp_error + 'r) option" where
  "answered w cmd r = (if ends (ctl_process w) cmd then Some (Inr r) else None)"

lemma ctl_exec_eq:
  "ctl_exec w cmd s =
     (note_run w cmd s, answered w cmd (if succeeds (ctl_process w) cmd then ADM_SUCCESS else ADM_ESUBPROCESS_ERROR))"
  using command_exec_cases [of "ctl_process w" cmd]
  by (auto simp: ctl_exec_def answered_def split: if_splits sum.split)

lemma ctl_enter_simps [simp]:
  "fst (ctl_enter f w s) = s\<lparr>ctl_rpc_id := ctl_rpc_id s + 1\<rparr>"
  "rpc_id (snd (ctl_enter f w s)) = ctl_rpc_id s"
  by (simp_all add: ctl_enter_def rpc_create_def new_id_def)

lemma ctl_enter_split: "(case ctl_enter f w s of (s', r) \<Rightarrow> P s' r) =
    P (s\<lparr>ctl_rpc_id := ctl_rpc_id s + 1\<rparr>) (snd (ctl_enter f w s))"
  by (simp add: case_prod_beta)

lemma configs_of_frame [simp]: "configs_of (s\<lparr>ctl_rpc_id := c\<rparr>) = configs_of s"
  by (simp add: configs_of_def)

definition config_for :: "adhoc_type \<Rightarrow> ctl_state \<Rightarrow> error_code + adhoc_storage_config" where
  "config_for ty s =
     (case configs_of s of
        None \<Rightarrow> Inl ADM_ESNAFU
      | Some m \<Rightarrow> (case map_of m ty of None \<Rightarrow> Inl ADM_EADHOC_TYPE_UNSUPPORTED | Some cfg \<Rightarrow> Inr cfg))"

definition exec_code :: "ctl_world \<Rightarrow> command \<Rightarrow> error_code" where
  "exec_code w cmd = (if succeeds (ctl_process w) cmd then ADM_SUCCESS else ADM_ESUBPROCESS_ERROR)"

definition started :: "string \<Rightarrow> string \<Rightarrow> string list \<Rightarrow> command \<Rightarrow> command" where
  "started uuid dir nodes cmd = cmd\<lparr>cmdline := substitute (eval_table uuid dir nodes) (cmdline cmd)\<rparr>"

definition resized :: "string \<Rightarrow> string list \<Rightarrow> command \<Rightarrow> command" where
  "resized uuid nodes cmd = cmd\<lparr>cmdline := substitute (eval_table_malleability uuid nodes) (cmdline cmd)\<rparr>"

definition called :: "ctl_state \<Rightarrow> ctl_state" where
  "called s = s\<lparr>ctl_rpc_id := ctl_rpc_id s + 1\<rparr>"

lemma ctl_deploy_eq:
  "ctl_deploy_adhoc_storage w uuid ty res s =
     (case config_for ty s of
        Inl ec \<Rightarrow> (called s, Some (Inr (mk_response_with (ctl_rpc_id s) ec None)))
      | Inr cfg \<Rightarrow>
          (let dir = path_append (working_directory cfg) uuid;
               cmd = started uuid dir (hostnames_of res) (startup_command cfg);
               (t, made) = create_directories w dir (called s);
               answer = (\<lambda>ec. mk_response_with (ctl_rpc_id s) ec (Some dir))
           in if \<not> ctl_stat w dir then (called s, Some (Inl Library_error))
              else if ctl_files s dir then (called s, Some (Inr (answer ADM_EADHOC_DIR_EXISTS)))
              else if \<not> made then (t, Some (Inr (answer ADM_EADHOC_DIR_CREATE_FAILED)))
              else (note_run w cmd t, answered w cmd (answer (exec_code w cmd)))))"
  by (auto simp: ctl_deploy_adhoc_storage_def config_for_def ctl_enter_split Let_def called_def answered_def
      command_eval_eq ctl_exec_eq exec_code_def started_def split: option.split prod.split)

lemma ctl_expand_eq:
  "ctl_expand_adhoc_storage w uuid ty res s =
     (case config_for ty s of
        Inl ec \<Rightarrow> (called s, Some (Inr (mk_response (ctl_rpc_id s) ec)))
      | Inr cfg \<Rightarrow>
          (let cmd = resized uuid (hostnames_of res) (expand_command cfg)
           in (note_run w cmd (called s), answered w cmd (mk_response (ctl_rpc_id s) (exec_code w cmd)))))"
  by (auto simp: ctl_expand_adhoc_storage_def config_for_def ctl_enter_split Let_def called_def answered_def
      command_eval_malleability_eq ctl_exec_eq exec_code_def resized_def split: option.split)

lemma ctl_shrink_eq:
  "ctl_shrink_adhoc_storage w uuid ty res s =
     (case config_for ty s of
        Inl ec \<Rightarrow> (called s, Some (Inr (mk_response (ctl_rpc_id s) ec)))
      | Inr cfg \<Rightarrow>
          (let cmd = resized uuid (hostnames_of res) (shrink_command cfg)
           in (note_run w cmd (called s), answered w cmd (mk_response (ctl_rpc_id s) (exec_code w cmd)))))"
  by (auto simp: ctl_shrink_adhoc_storage_def config_for_def ctl_enter_split Let_def called_def answered_def
      command_eval_malleability_eq ctl_exec_eq exec_code_def resized_def split: option.split)

lemma ctl_terminate_eq:
  "ctl_terminate_adhoc_storage w uuid ty s =
     (case config_for ty s of
        Inl ec \<Rightarrow> (called s, Some (Inr (mk_response (ctl_rpc_id s) ec)))
      | Inr cfg \<Rightarrow>
          (let cmd = started uuid (path_append (working_directory cfg) uuid) [] (shutdown_command cfg)
           in (note_run w cmd (called s), answered w cmd (mk_response (ctl_rpc_id s) (exec_code w cmd)))))"
  by (auto simp: ctl_terminate_adhoc_storage_def config_for_def ctl_enter_split Let_def called_def answered_def
      command_eval_eq ctl_exec_eq exec_code_def started_def split: option.split)

lemmas ctl_handler_eqs = ctl_deploy_eq ctl_expand_eq ctl_shrink_eq ctl_terminate_eq

end
