(* ===== verification/CtlClaims.thy ===== *)
theory CtlClaims
  imports Ctl
begin

text \<open>What the controller of an adhoc storage promises: its commands, its configuration, its handlers.\<close>

section \<open>Commands\<close>

text \<open>C19: Both \<open>eval\<close> functions, which build a regular expression from the keywords and
  copy the line piece by piece between its matches, do what one reading of the line from left to right
  does: each keyword is replaced by its value where it occurs, the rest stays, values are not searched
  again, and the environment of the command stays. They never fail.\<close>

theorem template_expanded:
  "command_eval uuid dir nodes cmd = Inr (cmd\<lparr>cmdline := substitute (eval_table uuid dir nodes) (cmdline cmd)\<rparr>) \<and>
   command_eval_malleability uuid nodes cmd =
     Inr (cmd\<lparr>cmdline := substitute (eval_table_malleability uuid nodes) (cmdline cmd)\<rparr>)"
  by (simp add: command_eval_eq command_eval_malleability_eq)

text \<open>C20: With a \<open>waitpid\<close> as it is documented, executing a command does not return exactly when its
  program was started, never ends, and the waiting is not interrupted. It reports success exactly when a child could
  be made and waited for, and ended normally with status 0, and throws a runtime error in every other case, also when
  the program could not be started. The program gets the words of the line as arguments and the
  variables of the controller followed by those of the command.\<close>

theorem exec_returns:
  assumes "waitpid_documented w"
    and "argv = as_char_array (command_as_vector cmd)"
    and "env = as_char_array (p_environ w @ env_as_vector (case command_env cmd of None \<Rightarrow> [] | Some e \<Rightarrow> e))"
    and "status = (if p_execvpe w argv env then p_program w argv env else Some 0x100)"
  shows "(command_exec w cmd = None \<longleftrightarrow> p_fork w \<and> status = None \<and> p_waitpid w 0 None \<noteq> Wait_failed) \<and>
    (command_exec w cmd = Some (Inr ()) \<longleftrightarrow>
       p_fork w \<and> (\<exists>st. status = Some st \<and> p_waitpid w 0 (Some st) \<noteq> Wait_failed \<and> wifexited st \<and> wexitstatus st = 0)) \<and>
    (\<forall>e. command_exec w cmd = Some (Inl e) \<longrightarrow> (\<exists>what. e = Runtime_error what))"
proof -
  have st: "child_status w cmd = status"
    by (simp add: child_status_def child_argv_def child_env_def assms(2-4) exit_failure_status_def)
  have law: "p_waitpid w 0 (Some x) \<in> {Wait_status x, Wait_failed}" "p_waitpid w 0 None \<in> {Wait_forever, Wait_failed}" for x
    using assms(1) by (simp_all add: waitpid_documented_def)
  show ?thesis
  proof (cases status)
    case None
    then show ?thesis
      using law(2) by (auto simp: command_exec_waits exec_wait_once st)
  next
    case (Some x)
    then show ?thesis
      using law(1) [of x] by (auto simp: command_exec_waits exec_wait_once st split: if_splits)
  qed
qed

text \<open>Concrete surroundings.\<close>

definition demo_process :: process_world where
  "demo_process =
     \<lparr>p_fork = True, p_execvpe = (\<lambda>argv env. True), p_program = (\<lambda>argv env. Some 0),
      p_waitpid = (\<lambda>n st. case st of None \<Rightarrow> Wait_forever | Some st \<Rightarrow> Wait_status st),
      p_environ = [''HOME=/root''], p_errno = ''error''\<rparr>"

definition demo_command :: command where
  "demo_command = \<lparr>cmdline = ''/bin/gkfs start {ADHOC_NODES} {ADHOC_DIRECTORY}'', command_env = Some [(''V'', ''1'')]\<rparr>"

definition demo_config :: adhoc_storage_config where
  "demo_config =
     \<lparr>working_directory = ''/tmp'', startup_command = demo_command, shutdown_command = demo_command,
      expand_command = demo_command, shrink_command = demo_command\<rparr>"

definition demo_ctl_world :: ctl_world where
  "demo_ctl_world =
     \<lparr>ctl_address = ''scord'', ctl_stat = (\<lambda>_. True), ctl_mkdir = (\<lambda>_. True), ctl_process = demo_process,
      ctl_effect = (\<lambda>argv files. files)\<rparr>"

definition demo_ctl :: ctl_state where
  "demo_ctl = set_config (Some [(adhoc_gekkofs, demo_config)]) (initial_ctl (\<lambda>_. False))"

lemma demo_process_documented: "waitpid_documented demo_process"
  by (simp add: waitpid_documented_def demo_process_def)

text \<open>The command ends with success; one whose program goes on forever does not return.\<close>

theorem exec_returns_witness:
  "command_exec demo_process demo_command = Some (Inr ()) \<and>
   command_exec (demo_process\<lparr>p_program := \<lambda>_ _. None\<rparr>) demo_command = None"
proof
  have simps: "p_fork demo_process" "p_execvpe demo_process a e" "p_program demo_process a e = Some 0"
    "p_waitpid demo_process n (Some st) = Wait_status st" "p_waitpid demo_process n None = Wait_forever" for a e n st
    by (simp_all add: demo_process_def)
  show "command_exec demo_process demo_command = Some (Inr ())"
    using exec_returns [OF demo_process_documented refl refl refl, of demo_command]
    by (simp add: simps wifexited_def wexitstatus_def)
  have "waitpid_documented (demo_process\<lparr>p_program := \<lambda>_ _. None\<rparr>)"
    using demo_process_documented by (simp add: waitpid_documented_def)
  from exec_returns [OF this refl refl refl, of demo_command]
  show "command_exec (demo_process\<lparr>p_program := \<lambda>_ _. None\<rparr>) demo_command = None"
    by (simp add: simps)
qed

section \<open>The configuration\<close>

text \<open>C21: A configuration that loads has at most one entry for each type, only for the
  four supported types, each with a working directory and four commands, whose programs have an
  absolute path that existed.\<close>

theorem config_well_formed:
  assumes "load_config w parse path content = Inr m"
  shows "distinct (map fst m) \<and>
    (\<forall>(t, c) \<in> set m. t \<in> {adhoc_dataclay, adhoc_expand, adhoc_gekkofs, adhoc_hercules} \<and>
       working_directory c \<noteq> [] \<and>
       (\<forall>cmd \<in> {startup_command c, shutdown_command c, expand_command c, shrink_command c}.
          is_absolute (program_of (cmdline cmd)) \<and> cw_exists w (program_of (cmdline cmd))))"
  using load_config_ok [OF assms] by (auto simp: config_ok_def command_ok_def)

definition scalar :: "string \<Rightarrow> string \<Rightarrow> yaml" where
  "scalar k v = Yaml (Some k) k (Some v) []"

definition branch :: "string \<Rightarrow> yaml list \<Rightarrow> yaml" where
  "branch k cs = Yaml (Some k) k (Some []) cs"

definition demo_commands :: "string list \<Rightarrow> yaml list" where
  "demo_commands ks =
     map (\<lambda>k. branch k [scalar ''command'' (cmdline demo_command), branch ''environment'' [scalar ''V'' ''1'']]) ks"

definition demo_tree :: yaml where
  "demo_tree =
     Yaml None [] None
       [branch ''config'' [branch ''adhoc_storage'' [branch ''gekkofs''
          (scalar ''working_directory'' ''/tmp'' #
           demo_commands [''startup'', ''shutdown'', ''expand'', ''shrink''])]]]"

definition demo_config_world :: config_world where
  "demo_config_world = \<lparr>cw_exists = (\<lambda>f. f = ''/bin/gkfs''), cw_path_text = (\<lambda>p. p)\<rparr>"

lemma demo_loaded:
  "load_config demo_config_world (\<lambda>_. Some demo_tree) ''f'' (Some []) = Inr [(adhoc_gekkofs, demo_config)]"
  by code_simp

theorem config_well_formed_witness:
  "cw_exists demo_config_world (program_of (cmdline (startup_command demo_config)))"
  using config_well_formed [OF demo_loaded] by simp

text \<open>Reading the configuration of a storage type whose keys are read without
  an exception, and that has a working directory, uses an empty optional exactly when one of the four
  commands is missing; otherwise it gives the configuration.\<close>

lemma config_missing_command:
  assumes "parse_config_children w (yaml_children node)
      \<lparr>sl_directory = [], sl_startup = None, sl_shutdown = None, sl_expand = None, sl_shrink = None\<rparr> = Inr sl"
    and "sl_directory sl \<noteq> []"
  shows "parse_adhoc_config_node w node =
    (if {''startup'', ''shutdown'', ''expand'', ''shrink''} \<subseteq> keys_of (yaml_children node)
     then Inr \<lparr>working_directory = sl_directory sl, startup_command = the (sl_startup sl),
                shutdown_command = the (sl_shutdown sl), expand_command = the (sl_expand sl),
                shrink_command = the (sl_shrink sl)\<rparr>
     else Inl Empty_optional_dereference)"
  using parse_config_children_slots [OF assms(1)] assms
  by (cases "sl_startup sl"; cases "sl_shutdown sl"; cases "sl_expand sl"; cases "sl_shrink sl")
    (simp_all add: parse_adhoc_config_node_def)

definition short_node :: yaml where
  "short_node = branch ''gekkofs''
     (scalar ''working_directory'' ''/tmp'' # demo_commands [''startup'', ''shutdown''])"

lemma short_node_read:
  "parse_config_children demo_config_world (yaml_children short_node)
      \<lparr>sl_directory = [], sl_startup = None, sl_shutdown = None, sl_expand = None, sl_shrink = None\<rparr> =
   Inr \<lparr>sl_directory = ''/tmp'', sl_startup = Some demo_command, sl_shutdown = Some demo_command,
        sl_expand = None, sl_shrink = None\<rparr>"
  by code_simp

section \<open>The handlers\<close>

text \<open>Any sequence of calls, in any surroundings, those included that throw or do not return.\<close>

inductive ctl_runs :: "ctl_state \<Rightarrow> ctl_state \<Rightarrow> bool" where
  ctl_runs_refl: "ctl_runs s s"
| ctl_runs_step: "ctl_runs s t \<Longrightarrow> ctl_runs s (fst (ctl_handle w q t))"

definition configured_lines :: "adhoc_storage_config_map \<Rightarrow> string set" where
  "configured_lines m =
     (\<Union>(t, c) \<in> set m. cmdline ` {startup_command c, shutdown_command c, expand_command c, shrink_command c})"

text \<open>The names of the programs are written out: no keyword and no NUL in them.\<close>

definition plain_programs :: "adhoc_storage_config_map \<Rightarrow> bool" where
  "plain_programs m \<longleftrightarrow>
     (\<forall>line \<in> configured_lines m. CHR ''{'' \<notin> set (program_of line) \<and> CHR 0x00 \<notin> set (program_of line))"

lemma program_of_substitute:
  assumes "braced tab" "CHR ''{'' \<notin> set (program_of line)"
  shows "program_of (substitute tab line) = program_of line"
proof -
  let ?rest = "dropWhile (\<lambda>c. c \<noteq> CHR '' '') line"
  have line: "line = program_of line @ ?rest" by (simp add: program_of_def)
  have "substitute tab line = program_of line @ substitute tab ?rest"
    using substitute_plain [OF assms, of ?rest] line by simp
  moreover have "program_of (substitute tab ?rest) = []"
  proof (cases ?rest)
    case (Cons c cs)
    then have "c = CHR '' ''" using hd_dropWhile [of "\<lambda>c. c \<noteq> CHR '' ''" line] by auto
    with Cons assms(1) show ?thesis by (simp add: braced_def first_match_brace program_of_def)
  next
    case Nil
    then show ?thesis by (simp only: substitute.simps program_of_def takeWhile.simps)
  qed
  moreover have "program_of (program_of line @ q) = program_of line @ program_of q" for q
    unfolding program_of_def by (intro takeWhile_append2) (auto dest: set_takeWhileD)
  ultimately show ?thesis by simp
qed

lemma argv_program:
  assumes "is_absolute (program_of (cmdline cmd))" "CHR 0x00 \<notin> set (program_of (cmdline cmd))"
  shows "child_argv cmd ! 0 = Some (program_of (cmdline cmd))"
proof -
  have "cmdline cmd \<noteq> []" using assms(1) by (auto simp: program_of_def is_absolute_def)
  then have "child_argv cmd ! 0 = Some (c_str (hd (split_parts (CHR '' '') (cmdline cmd))))"
    by (simp add: child_argv_def as_char_array_def command_as_vector_def nth_append hd_conv_nth)
  then show ?thesis using assms(2) by (simp add: hd_split_parts program_of_def c_str_id)
qed

definition ran_ok :: "config_world \<Rightarrow> adhoc_storage_config_map \<Rightarrow> ctl_state \<Rightarrow> bool" where
  "ran_ok cw m s \<longleftrightarrow> m_config s = Some m \<and>
     (\<forall>(argv, env) \<in> set (ctl_ran s). \<exists>line \<in> configured_lines m. argv ! 0 = Some (program_of line))"

lemma config_for_in: "config_for ty s = Inr cfg \<Longrightarrow> m_config s = Some m \<Longrightarrow> (ty, cfg) \<in> set m"
  by (auto simp: config_for_def configs_of_def dest: map_of_SomeD split: option.splits list.splits)

lemma note_run_ok:
  assumes "ran_ok cw m s" "config_ok cw m" "plain_programs m" "line \<in> configured_lines m"
    and "cmdline cmd = substitute tab line" "braced tab"
  shows "ran_ok cw m (note_run w cmd s)"
proof -
  have p: "CHR ''{'' \<notin> set (program_of line)" "CHR 0x00 \<notin> set (program_of line)"
    using assms(3,4) by (auto simp: plain_programs_def)
  have "is_absolute (program_of line)"
    using assms(2,4) by (fastforce simp: config_ok_def command_ok_def configured_lines_def)
  then have "child_argv cmd ! 0 = Some (program_of line)"
    using argv_program [of cmd] p program_of_substitute [OF assms(6) p(1)] assms(5) by simp
  with assms(1,4) show ?thesis by (auto simp: ran_ok_def note_run_def Let_def)
qed

lemma ran_ok_frame:
  "ran_ok cw m s \<Longrightarrow> ran_ok cw m (called s)"
  "ran_ok cw m s \<Longrightarrow> ran_ok cw m (fst (create_directories w dir s))"
  by (simp_all add: ran_ok_def called_def create_directories_def)

lemma ctl_handle_ran_ok:
  assumes "ran_ok cw m s" "config_ok cw m" "plain_programs m"
  shows "ran_ok cw m (fst (ctl_handle w q s))"
proof -
  note run = note_run_ok [OF _ assms(2,3)] and frame = ran_ok_frame(1) [OF assms(1)]
  have mc: "m_config s = Some m" using assms(1) by (simp add: ran_ok_def)
  have lines: "cmdline (startup_command cfg) \<in> configured_lines m" "cmdline (shutdown_command cfg) \<in> configured_lines m"
    "cmdline (expand_command cfg) \<in> configured_lines m" "cmdline (shrink_command cfg) \<in> configured_lines m"
    if "config_for ty s = Inr cfg" for ty cfg
    using config_for_in [OF that mc] by (force simp: configured_lines_def)+
  show ?thesis
  proof (cases q)
    case Ctl_ping
    then show ?thesis using frame
      by (auto simp: ctl_reply_with_def ctl_ping_def ctl_enter_split called_def [symmetric])
  next
    case (Ctl_deploy uuid ty res)
    then show ?thesis using frame ran_ok_frame(2) [OF frame] lines(1)
      by (auto simp: ctl_reply_with_def ctl_deploy_eq Let_def case_prod_beta started_def
          intro!: run split: sum.splits if_splits)
  next
    case (Ctl_expand uuid ty res)
    then show ?thesis using frame lines(3)
      by (auto simp: ctl_reply_with_def ctl_expand_eq Let_def resized_def intro!: run split: sum.splits)
  next
    case (Ctl_shrink uuid ty res)
    then show ?thesis using frame lines(4)
      by (auto simp: ctl_reply_with_def ctl_shrink_eq Let_def resized_def intro!: run split: sum.splits)
  next
    case (Ctl_terminate uuid ty)
    then show ?thesis using frame lines(2)
      by (auto simp: ctl_reply_with_def ctl_terminate_eq Let_def started_def intro!: run split: sum.splits)
  qed
qed

text \<open>C17: Whatever a controller with a loaded configuration is asked, it only ever
  starts programs that the configuration names: the first argument of every program it ran is the first
  word of a configured line, an absolute path that existed when the configuration was loaded. This
  needs that those words contain no keyword; identifiers and host names, which come with the
  requests, cannot change them.\<close>

theorem runs_configured_programs:
  assumes "load_config cw parse path content = Inr m" "plain_programs m"
    and "ctl_runs (set_config (Some m) (initial_ctl files)) s" "(argv, env) \<in> set (ctl_ran s)"
  shows "\<exists>line \<in> configured_lines m. argv ! 0 = Some (program_of line) \<and> is_absolute (program_of line) \<and>
    cw_exists cw (program_of line)"
proof -
  have ok: "config_ok cw m" using assms(1) by (rule load_config_ok)
  have "ran_ok cw m s"
    using assms(3)
  proof (induction "set_config (Some m) (initial_ctl files)" s rule: ctl_runs.induct)
    case ctl_runs_refl
    show ?case by (simp add: ran_ok_def set_config_def initial_ctl_def)
  next
    case (ctl_runs_step t w q)
    then show ?case using ctl_handle_ran_ok [OF _ ok assms(2)] by blast
  qed
  with assms(4) obtain line where "line \<in> configured_lines m" "argv ! 0 = Some (program_of line)"
    by (auto simp: ran_ok_def)
  with ok show ?thesis by (fastforce simp: config_ok_def command_ok_def configured_lines_def)
qed


definition demo_deployed :: ctl_state where
  "demo_deployed =
     fst (ctl_handle demo_ctl_world
       (Ctl_deploy ''gekkofs-r'' adhoc_gekkofs \<lparr>adhoc_nodes = [mk_node ''n0'', mk_node ''n1'']\<rparr>) demo_ctl)"

lemma demo_ctl_simps [simp]:
  "config_for adhoc_gekkofs demo_ctl = Inr demo_config" "ctl_rpc_id demo_ctl = 0" "ctl_ran demo_ctl = []"
  "ctl_files demo_ctl = (\<lambda>_. False)" "ctl_process demo_ctl_world = demo_process"
  "ctl_mkdir demo_ctl_world dir" "ctl_stat demo_ctl_world dir" "ends demo_process cmd" "ctl_effect demo_ctl_world argv files = files"
  "succeeds demo_process cmd" "p_fork demo_process" "p_execvpe demo_process argv env"
  by (simp_all add: config_for_def configs_of_def demo_ctl_def set_config_def initial_ctl_def
      demo_ctl_world_def succeeds_def ends_def demo_process_def child_status_def wifexited_def wexitstatus_def)

definition demo_started :: command where
  "demo_started = started ''gekkofs-r'' ''/tmp/gekkofs-r'' [''n0'', ''n1''] demo_command"

lemma demo_started_arrays:
  "child_argv demo_started =
     as_char_array [''/bin/gkfs'', ''start'', CHR 0x22 # ''n0,n1'' @ [CHR 0x22], ''/tmp/gekkofs-r'']"
  "child_env demo_process demo_started = as_char_array [''HOME=/root'', ''V=1'']"
  by code_simp+

lemma demo_deployed_ran:
  "ctl_ran demo_deployed =
    [(as_char_array [''/bin/gkfs'', ''start'', CHR 0x22 # ''n0,n1'' @ [CHR 0x22], ''/tmp/gekkofs-r''],
      as_char_array [''HOME=/root'', ''V=1''])]"
proof -
  have "path_append (working_directory demo_config) ''gekkofs-r'' = ''/tmp/gekkofs-r''" by code_simp
  then have "ctl_ran demo_deployed = [(child_argv demo_started, child_env demo_process demo_started)]"
    by (simp add: demo_deployed_def ctl_reply_with_def ctl_deploy_eq Let_def create_directories_def
        note_run_def called_def hostnames_of_def mk_node_def demo_config_def demo_started_def)
  then show ?thesis by (simp only: demo_started_arrays)
qed

lemma demo_deployed_runs: "ctl_runs demo_ctl demo_deployed"
  unfolding demo_deployed_def by (rule ctl_runs_step [OF ctl_runs_refl])

lemma demo_plain: "plain_programs [(adhoc_gekkofs, demo_config)]"
  by (simp add: plain_programs_def configured_lines_def demo_config_def demo_command_def program_of_def)

theorem runs_configured_programs_witness:
  "\<exists>line \<in> configured_lines [(adhoc_gekkofs, demo_config)]. ''/bin/gkfs'' = program_of line"
  using runs_configured_programs [OF demo_loaded demo_plain demo_deployed_runs [unfolded demo_ctl_def],
      unfolded demo_deployed_ran, OF list.set_intros(1)]
  by (auto simp: as_char_array_def c_str_def)

end
