(* ===== verification/Deployment.thy ===== *)
theory Deployment
  imports CtlClaims ScordProps
begin

text \<open>
  The daemon and a controller together: the calls of the daemon's handlers to one address are answered
  by the handlers of a \<open>scord-ctl\<close> that runs there.
\<close>

section \<open>A world with a controller in it\<close>

text \<open>A call has a result when the handler answers: it returns, and without an exception.\<close>

definition ctl_answer :: "'r ctl_outcome \<Rightarrow> 'r option" where
  "ctl_answer x = (case snd x of Some (Inr r) \<Rightarrow> Some r | _ \<Rightarrow> None)"

text \<open>The calls are told apart by their names, as \<open>provider::define\<close> does.\<close>

definition controlled :: "'h world \<Rightarrow> string \<Rightarrow> ctl_world \<Rightarrow> ctl_state \<Rightarrow> 'h world" where
  "controlled w address cw cs =
     w\<lparr>w_lookup := (\<lambda>a. a = address \<or> w_lookup w a),
       w_ctl_deploy := (\<lambda>a name uuid ty res.
         if a = address
         then (if name = ctl_rpc_of (Ctl_deploy uuid ty res)
               then ctl_answer (ctl_deploy_adhoc_storage cw uuid ty res cs) else None)
         else w_ctl_deploy w a name uuid ty res),
       w_ctl_update := (\<lambda>a name uuid ty res.
         if a = address
         then (if name = ctl_rpc_of (Ctl_expand uuid ty res)
               then ctl_answer (ctl_expand_adhoc_storage cw uuid ty res cs)
               else if name = ctl_rpc_of (Ctl_shrink uuid ty res)
               then ctl_answer (ctl_shrink_adhoc_storage cw uuid ty res cs) else None)
         else w_ctl_update w a name uuid ty res),
       w_ctl_terminate := (\<lambda>a name uuid ty.
         if a = address
         then (if name = ctl_rpc_of (Ctl_terminate uuid ty)
               then ctl_answer (ctl_terminate_adhoc_storage cw uuid ty cs) else None)
         else w_ctl_terminate w a name uuid ty)\<rparr>"

lemma controlled_simps [simp]:
  "w_lookup (controlled w a cw cs) a"
  "w_meanwhile (controlled w a cw cs) = w_meanwhile w"
  "w_ctl_deploy (controlled w a cw cs) a ''ADM_deploy_adhoc_storage'' uuid ty res =
     ctl_answer (ctl_deploy_adhoc_storage cw uuid ty res cs)"
  "w_ctl_update (controlled w a cw cs) a ''ADM_expand_adhoc_storage'' uuid ty res =
     ctl_answer (ctl_expand_adhoc_storage cw uuid ty res cs)"
  "w_ctl_update (controlled w a cw cs) a ''ADM_shrink_adhoc_storage'' uuid ty res =
     ctl_answer (ctl_shrink_adhoc_storage cw uuid ty res cs)"
  "w_ctl_terminate (controlled w a cw cs) a ''ADM_terminate_adhoc_storage'' uuid ty =
     ctl_answer (ctl_terminate_adhoc_storage cw uuid ty cs)"
  by (simp_all add: controlled_def)

text \<open>What the controller says to a deployment, when it answers.\<close>

definition deploy_verdict :: "ctl_world \<Rightarrow> ctl_state \<Rightarrow> string \<Rightarrow> adhoc_type \<Rightarrow> adhoc_resources \<Rightarrow> error_code + string" where
  "deploy_verdict cw cs uuid ty res =
     (case config_for ty cs of
        Inl ec \<Rightarrow> Inl ec
      | Inr cfg \<Rightarrow>
          (let dir = path_append (working_directory cfg) uuid;
               cmd = started uuid dir (hostnames_of res) (startup_command cfg)
           in if ctl_files cs dir then Inl ADM_EADHOC_DIR_EXISTS
              else if \<not> ctl_mkdir cw dir then Inl ADM_EADHOC_DIR_CREATE_FAILED
              else if \<not> succeeds (ctl_process cw) cmd then Inl ADM_ESUBPROCESS_ERROR
              else Inr dir))"

lemma config_for_code: "config_for ty cs = Inl ec \<Longrightarrow> ec \<noteq> ADM_SUCCESS"
  by (auto simp: config_for_def split: option.splits)

lemma deploy_verdict_answer:
  "ctl_answer (ctl_deploy_adhoc_storage cw uuid ty res cs) \<noteq> None \<Longrightarrow>
   \<exists>v. ctl_answer (ctl_deploy_adhoc_storage cw uuid ty res cs) =
     Some (mk_response_with (ctl_rpc_id cs)
       (case deploy_verdict cw cs uuid ty res of Inl ec \<Rightarrow> ec | Inr _ \<Rightarrow> ADM_SUCCESS) v) \<and>
   (\<forall>dir. deploy_verdict cw cs uuid ty res = Inr dir \<longrightarrow> v = Some dir)"
  by (auto simp: ctl_answer_def ctl_deploy_eq deploy_verdict_def Let_def create_directories_def
      exec_code_def answered_def split: sum.splits if_splits)

lemma deploy_verdict_code: "deploy_verdict cw cs uuid ty res = Inl ec \<Longrightarrow> ec \<noteq> ADM_SUCCESS"
  by (auto simp: deploy_verdict_def Let_def dest: config_for_code split: sum.splits if_splits)

section \<open>What a client of the daemon sees\<close>

text \<open>C18: When the controller answers the call that deploys a registered storage (its handler may also throw, when
  the status of the directory cannot be had, or not return, when the startup command does not end), the daemon gives an
  answer, never its end: the directory made of the configured working directory and the
  identifier of the storage, once that directory was made and the startup command, with its keywords
  replaced by the identifier, the directory and the nodes of the storage, has succeeded; otherwise an
  empty path with the controller's reason. This is without Redis and without other requests meanwhile.\<close>

theorem deployed_through_controller:
  assumes "adhoc_find aid (m_adhoc_manager s) = Inr p" "m = adhoc_objs (m_adhoc_manager s) ! p"
    and "\<And>u. w_meanwhile w u = u" "\<not> m_redis s"
    and answers: "ctl_answer (ctl_deploy_adhoc_storage cw (am_uuid m) (adhoc_kind (am_adhoc_storage m))
      (adhoc_res (am_adhoc_storage m)) cs) \<noteq> None"
  shows "snd (h_deploy_adhoc_storage (controlled w (am_controller_address m) cw cs) aid s) =
    Inr (case deploy_verdict cw cs (am_uuid m) (adhoc_kind (am_adhoc_storage m)) (adhoc_res (am_adhoc_storage m)) of
           Inl ec \<Rightarrow> mk_response_with (sc_rpc_id s) ec (Some [])
         | Inr dir \<Rightarrow> mk_response_with (sc_rpc_id s) ADM_SUCCESS (Some dir))"
proof -
  let ?a = "am_adhoc_storage m"
  let ?w = "controlled w (am_controller_address m) cw cs"
  let ?v = "deploy_verdict cw cs (am_uuid m) (adhoc_kind ?a) (adhoc_res ?a)"
  obtain v where v: "ctl_answer (ctl_deploy_adhoc_storage cw (am_uuid m) (adhoc_kind ?a) (adhoc_res ?a) cs) =
      Some (mk_response_with (ctl_rpc_id cs) (case ?v of Inl ec \<Rightarrow> ec | Inr _ \<Rightarrow> ADM_SUCCESS) v)"
    "\<forall>dir. ?v = Inr dir \<longrightarrow> v = Some dir"
    using deploy_verdict_answer [OF answers] by blast
  note addr = am_controller_address_def [of m, symmetric]
  have h: "deploy_helper ?w (snd (enter ''deploy_adhoc_storage'' ?w s)) p (s\<lparr>sc_rpc_id := sc_rpc_id s + 1\<rparr>) =
      (s\<lparr>sc_rpc_id := sc_rpc_id s + 1\<rparr>, Inr ?v)"
  proof (cases ?v)
    case (Inl ec)
    then show ?thesis
      using deploy_verdict_code [OF Inl]
      by (simp add: deploy_helper_def Let_def assms(2) [symmetric] assms(3) addr v(1) ec_bool_def)
  next
    case (Inr dir)
    then show ?thesis
      using v(2)
      by (simp add: deploy_helper_def Let_def assms(2) [symmetric] assms(3) addr v(1) ec_bool_def
          response_value_def)
  qed
  show ?thesis
  proof (cases ?v)
    case (Inl ec)
    then show ?thesis
      using deploy_verdict_code [OF Inl] assms(1,4) h
      by (simp add: h_deploy_adhoc_storage_def enter_split Let_def)
  next
    case (Inr dir)
    then show ?thesis
      using assms(1,4) h by (simp add: h_deploy_adhoc_storage_def enter_split Let_def)
  qed
qed

theorem deployed_through_controller_witness:
  "snd (h_deploy_adhoc_storage (controlled quiet_world ''ctl'' demo_ctl_world demo_ctl) 0 (demo_state False)) =
    Inr (mk_response_with 1 ADM_SUCCESS (Some ''/tmp/gekkofs-r''))"
proof -
  let ?m = "adhoc_objs (m_adhoc_manager (demo_state False)) ! 0"
  have m: "am_controller_address ?m = ''ctl''" "am_uuid ?m = ''gekkofs-r''"
    "adhoc_kind (am_adhoc_storage ?m) = adhoc_gekkofs" "adhoc_res (am_adhoc_storage ?m) = \<lparr>adhoc_nodes = []\<rparr>"
    "sc_rpc_id (demo_state False) = 1" "adhoc_find 0 (m_adhoc_manager (demo_state False)) = Inr 0"
    by (simp_all add: am_controller_address_def demo_adhoc_def demo_ctx_def adhoc_find_def demo_state_eq)
  have "path_append ''/tmp'' ''gekkofs-r'' = ''/tmp/gekkofs-r''" by code_simp
  then have v: "deploy_verdict demo_ctl_world demo_ctl ''gekkofs-r'' adhoc_gekkofs \<lparr>adhoc_nodes = []\<rparr> =
      Inr ''/tmp/gekkofs-r''"
    by (simp add: deploy_verdict_def Let_def demo_config_def)
  have "\<not> m_redis (demo_state False)" by simp
  moreover have "ctl_answer (ctl_deploy_adhoc_storage demo_ctl_world ''gekkofs-r'' adhoc_gekkofs \<lparr>adhoc_nodes = []\<rparr> demo_ctl) \<noteq> None"
    by (simp add: ctl_answer_def ctl_deploy_eq Let_def create_directories_def answered_def)
  ultimately show ?thesis
    using deployed_through_controller [OF m(6) refl quiet_world_simps(1), of demo_ctl_world demo_ctl]
    by (simp only: m v sum.case simp_thms)
qed


text \<open>Terminating a storage leaves its directory, whatever the shutdown command
  returns, unless a program removed it: deploying the same storage again is then refused, although the
  configuration file promises that the directory is removed after the shutdown. A deployment whose
  startup command failed leaves it too.\<close>

lemma redeployment_refused:
  assumes "ctl_handle w (Ctl_deploy uuid ty res) cs = (cs1, Some (Inr (Ctl_path a)))"
    and "resp_error_code a \<in> {ADM_SUCCESS, ADM_ESUBPROCESS_ERROR, ADM_EADHOC_DIR_EXISTS}"
    and "ctl_handle w (Ctl_terminate uuid ty) cs1 = (cs2, b)"
    and "ctl_stat w = (\<lambda>_. True)" "\<And>argv files f. files f \<Longrightarrow> ctl_effect w argv files f"
  shows "\<exists>cs3 dir. ctl_handle w (Ctl_deploy uuid ty res') cs2 =
    (cs3, Some (Inr (Ctl_path (mk_response_with (ctl_rpc_id cs2) ADM_EADHOC_DIR_EXISTS (Some dir)))))"
proof -
  have run: "m_config (note_run w cmd t) = m_config t" "ctl_files t f \<Longrightarrow> ctl_files (note_run w cmd t) f"
    for cmd t f using assms(5) by (simp_all add: note_run_def Let_def)
  have conf: "config_for ty (t\<lparr>ctl_rpc_id := c\<rparr>) = config_for ty t" for t c
    by (simp add: config_for_def)
  have same: "config_for ty t = config_for ty u" if "m_config t = m_config u" for t u
    using that by (simp add: config_for_def configs_of_def)
  obtain cfg where cfg: "config_for ty cs = Inr cfg"
  proof (cases "config_for ty cs")
    case (Inl ec)
    with assms(1,2) show ?thesis
      by (auto simp: ctl_reply_with_def ctl_deploy_eq config_for_def split: option.splits)
  qed simp
  define dir where "dir = path_append (working_directory cfg) uuid"
  have one: "m_config cs1 = m_config cs \<and> ctl_files cs1 dir"
    using assms(1,2,4) cfg
    by (auto simp: ctl_reply_with_def ctl_deploy_eq Let_def dir_def create_directories_def called_def run answered_def
        split: if_splits)
  have two: "m_config cs2 = m_config cs \<and> ctl_files cs2 dir"
    using assms(3) one same [of cs1 cs] cfg
    by (auto simp: ctl_reply_with_def ctl_terminate_eq Let_def called_def run)
  then have "config_for ty cs2 = Inr cfg" using same [of cs2 cs] cfg by simp
  with two have "ctl_handle w (Ctl_deploy uuid ty res') cs2 =
      (called cs2, Some (Inr (Ctl_path (mk_response_with (ctl_rpc_id cs2) ADM_EADHOC_DIR_EXISTS (Some dir)))))"
    using assms(4) by (simp add: ctl_reply_with_def ctl_deploy_eq Let_def dir_def case_prod_beta)
  then show ?thesis by blast
qed

end
