(* ===== verification/Mutex.thy ===== *)
theory Mutex
  imports Prelude
begin

text \<open>
  The mutex of the managers and its guards (\<open>src/src/common/abt_cxx/shared_mutex.hpp\<close>). The lock itself is
  a read-write lock of the Argobots library, which is an argument; the guards \<open>unique_lock\<close> and
  \<open>shared_lock\<close> are objects that remember a mutex and whether they hold it.
\<close>

section \<open>The lock of the library\<close>

text \<open>\<open>None\<close> means that the call blocks. \<open>rw_holders\<close> reads a lock: is it held for writing, and by how many readers.\<close>

record 'l rwlock_ops =
  rw_create :: 'l
  rw_wrlock :: "'l \<Rightarrow> 'l option"
  rw_rdlock :: "'l \<Rightarrow> 'l option"
  rw_unlock :: "'l \<Rightarrow> 'l"
  rw_holders :: "'l \<Rightarrow> bool \<times> nat"

text \<open>
  What the library documents: a new lock is free, writers wait until it is free, readers until no writer
  has it, and unlocking takes away the writer or one reader.
\<close>

definition rwlock_laws :: "'l rwlock_ops \<Rightarrow> bool" where
  "rwlock_laws ops \<longleftrightarrow>
     rw_holders ops (rw_create ops) = (False, 0) \<and>
     (\<forall>l l'. rw_wrlock ops l = Some l' \<longrightarrow> rw_holders ops l = (False, 0) \<and> rw_holders ops l' = (True, 0)) \<and>
     (\<forall>l l'. rw_rdlock ops l = Some l' \<longrightarrow>
        (\<exists>n. rw_holders ops l = (False, n) \<and> rw_holders ops l' = (False, Suc n))) \<and>
     (\<forall>l n. rw_holders ops l = (True, n) \<longrightarrow> rw_holders ops (rw_unlock ops l) = (False, n)) \<and>
     (\<forall>l n. rw_holders ops l = (False, Suc n) \<longrightarrow> rw_holders ops (rw_unlock ops l) = (False, n))"

lemma rwlock_lawsD:
  assumes "rwlock_laws ops"
  shows "rw_holders ops (rw_create ops) = (False, 0)"
    and "rw_wrlock ops l = Some l' \<Longrightarrow> rw_holders ops l = (False, 0) \<and> rw_holders ops l' = (True, 0)"
    and "rw_rdlock ops l = Some l' \<Longrightarrow>
      \<exists>n. rw_holders ops l = (False, n) \<and> rw_holders ops l' = (False, Suc n)"
    and "rw_holders ops l = (True, n) \<Longrightarrow> rw_holders ops (rw_unlock ops l) = (False, n)"
    and "rw_holders ops l = (False, Suc n) \<Longrightarrow> rw_holders ops (rw_unlock ops l) = (False, n)"
  using assms unfolding rwlock_laws_def by blast+

section \<open>Mutexes and guards\<close>

text \<open>
  A program with mutexes and guards: guards are named by numbers, as are the mutexes their pointers
  lead to. A guard is exclusive (\<open>unique_lock\<close>) or shared (\<open>shared_lock\<close>), has \<open>m_device\<close> and \<open>m_owns\<close>.
\<close>

datatype guard = Guard (g_exclusive: bool) (g_device: "nat option") (g_owns: bool)

record 'l lock_state =
  mutexes :: "nat \<Rightarrow> 'l"
  guards :: "nat \<Rightarrow> guard option"

datatype guard_error = Operation_not_permitted | Resource_deadlock_would_occur

text \<open>
  \<open>None\<close>: the call blocks, or is not possible because there is no such object. \<open>Inl\<close>: it throws a
  \<open>system_error\<close>; the state is then as it was.
\<close>

type_synonym 'l guard_outcome = "(guard_error + 'l lock_state) option"

definition shared_mutex_lock :: "'l rwlock_ops \<Rightarrow> nat \<Rightarrow> 'l lock_state \<Rightarrow> 'l lock_state option" where
  "shared_mutex_lock ops d s =
     map_option (\<lambda>l. s\<lparr>mutexes := (mutexes s)(d := l)\<rparr>) (rw_wrlock ops (mutexes s d))"

definition shared_mutex_lock_shared :: "'l rwlock_ops \<Rightarrow> nat \<Rightarrow> 'l lock_state \<Rightarrow> 'l lock_state option" where
  "shared_mutex_lock_shared ops d s =
     map_option (\<lambda>l. s\<lparr>mutexes := (mutexes s)(d := l)\<rparr>) (rw_rdlock ops (mutexes s d))"

definition shared_mutex_unlock :: "'l rwlock_ops \<Rightarrow> nat \<Rightarrow> 'l lock_state \<Rightarrow> 'l lock_state" where
  "shared_mutex_unlock ops d s = s\<lparr>mutexes := (mutexes s)(d := rw_unlock ops (mutexes s d))\<rparr>"

definition put_guard :: "nat \<Rightarrow> guard option \<Rightarrow> 'l lock_state \<Rightarrow> 'l lock_state" where
  "put_guard g v s = s\<lparr>guards := (guards s)(g := v)\<rparr>"

text \<open>\<open>lock()\<close> of both guards, and \<open>unlock()\<close>.\<close>

definition guard_lock :: "'l rwlock_ops \<Rightarrow> nat \<Rightarrow> 'l lock_state \<Rightarrow> 'l guard_outcome" where
  "guard_lock ops g s =
     (case guards s g of
        None \<Rightarrow> None
      | Some (Guard ex None owns) \<Rightarrow> Some (Inl Operation_not_permitted)
      | Some (Guard ex (Some d) True) \<Rightarrow> Some (Inl Resource_deadlock_would_occur)
      | Some (Guard ex (Some d) False) \<Rightarrow>
          map_option (\<lambda>s. Inr (put_guard g (Some (Guard ex (Some d) True)) s))
            (if ex then shared_mutex_lock ops d s else shared_mutex_lock_shared ops d s))"

definition guard_unlock :: "'l rwlock_ops \<Rightarrow> nat \<Rightarrow> 'l lock_state \<Rightarrow> 'l guard_outcome" where
  "guard_unlock ops g s =
     (case guards s g of
        None \<Rightarrow> None
      | Some (Guard ex dev False) \<Rightarrow>
          Some (Inl (if ex then Operation_not_permitted else Resource_deadlock_would_occur))
      | Some (Guard ex None True) \<Rightarrow> Some (Inr s)
      | Some (Guard ex (Some d) True) \<Rightarrow>
          Some (Inr (put_guard g (Some (Guard ex (Some d) False)) (shared_mutex_unlock ops d s))))"

text \<open>Constructors: the default one, the one that locks, and the one that moves.\<close>

definition guard_default :: "bool \<Rightarrow> nat \<Rightarrow> 'l lock_state \<Rightarrow> 'l guard_outcome" where
  "guard_default ex g s =
     (if guards s g = None then Some (Inr (put_guard g (Some (Guard ex None False)) s)) else None)"

definition guard_construct :: "'l rwlock_ops \<Rightarrow> bool \<Rightarrow> nat \<Rightarrow> nat \<Rightarrow> 'l lock_state \<Rightarrow> 'l guard_outcome" where
  "guard_construct ops ex g d s =
     (if guards s g \<noteq> None then None
      else map_option (\<lambda>s. Inr (put_guard g (Some (Guard ex (Some d) True)) s))
             (if ex then shared_mutex_lock ops d s else shared_mutex_lock_shared ops d s))"

definition guard_move :: "nat \<Rightarrow> nat \<Rightarrow> 'l lock_state \<Rightarrow> 'l guard_outcome" where
  "guard_move g h s =
     (case (guards s g, guards s h) of
        (None, Some (Guard ex dev owns)) \<Rightarrow>
          Some (Inr (put_guard h (Some (Guard ex None False)) (put_guard g (Some (Guard ex dev owns)) s)))
      | _ \<Rightarrow> None)"

text \<open>The destructor releases what the guard holds.\<close>

definition guard_destroy :: "'l rwlock_ops \<Rightarrow> nat \<Rightarrow> 'l lock_state \<Rightarrow> 'l guard_outcome" where
  "guard_destroy ops g s =
     (case guards s g of
        None \<Rightarrow> None
      | Some (Guard ex (Some d) True) \<Rightarrow> Some (Inr (put_guard g None (shared_mutex_unlock ops d s)))
      | Some _ \<Rightarrow> Some (Inr (put_guard g None s)))"

text \<open>
  Move assignment. A \<open>unique_lock\<close> first unlocks what it holds, takes over and resets the other; a
  \<open>shared_lock\<close> takes over through a temporary, whose destructor releases what the guard held.
\<close>

definition guard_assign :: "'l rwlock_ops \<Rightarrow> nat \<Rightarrow> nat \<Rightarrow> 'l lock_state \<Rightarrow> 'l guard_outcome" where
  "guard_assign ops g h s =
     (case (guards s g, guards s h) of
        (Some (Guard ex dev owns), Some (Guard ex' dev' owns')) \<Rightarrow>
          if ex \<noteq> ex' then None
          else if ex
          then (let s = (case (dev, owns) of
                           (Some d, True) \<Rightarrow>
                             put_guard g (Some (Guard ex dev False)) (shared_mutex_unlock ops d s)
                         | _ \<Rightarrow> s)
                in Some (Inr (put_guard h (Some (Guard ex None False)) (put_guard g (guards s h) s))))
          else if g = h then Some (Inr s)
          else (let s = put_guard h (Some (Guard ex None False)) (put_guard g (Some (Guard ex dev' owns')) s)
                in Some (Inr (case (dev, owns) of (Some d, True) \<Rightarrow> shared_mutex_unlock ops d s | _ \<Rightarrow> s)))
      | _ \<Rightarrow> None)"

definition guard_swap :: "nat \<Rightarrow> nat \<Rightarrow> 'l lock_state \<Rightarrow> 'l guard_outcome" where
  "guard_swap g h s =
     (case (guards s g, guards s h) of
        (Some (Guard ex dev owns), Some (Guard ex' dev' owns')) \<Rightarrow>
          if ex \<noteq> ex' then None
          else Some (Inr (put_guard h (Some (Guard ex dev owns)) (put_guard g (Some (Guard ex dev' owns')) s)))
      | _ \<Rightarrow> None)"

text \<open>\<open>release\<close> gives up the mutex without unlocking it.\<close>

definition guard_release :: "nat \<Rightarrow> 'l lock_state \<Rightarrow> (nat option \<times> 'l lock_state) option" where
  "guard_release g s =
     map_option (\<lambda>v. (g_device v, put_guard g (Some (Guard (g_exclusive v) None False)) s)) (guards s g)"


text \<open>The operations a program can perform, \<open>release\<close> apart.\<close>

datatype lock_op =
    Op_default bool nat
  | Op_construct bool nat nat
  | Op_move nat nat
  | Op_destroy nat
  | Op_assign nat nat
  | Op_swap nat nat
  | Op_lock nat
  | Op_unlock nat

fun perform :: "'l rwlock_ops \<Rightarrow> lock_op \<Rightarrow> 'l lock_state \<Rightarrow> 'l guard_outcome" where
  "perform ops (Op_default ex g) s = guard_default ex g s"
| "perform ops (Op_construct ex g d) s = guard_construct ops ex g d s"
| "perform ops (Op_move g h) s = guard_move g h s"
| "perform ops (Op_destroy g) s = guard_destroy ops g s"
| "perform ops (Op_assign g h) s = guard_assign ops g h s"
| "perform ops (Op_swap g h) s = guard_swap g h s"
| "perform ops (Op_lock g) s = guard_lock ops g s"
| "perform ops (Op_unlock g) s = guard_unlock ops g s"

definition new_locks :: "'l rwlock_ops \<Rightarrow> 'l lock_state" where
  "new_locks ops = \<lparr>mutexes = (\<lambda>_. rw_create ops), guards = (\<lambda>_. None)\<rparr>"

inductive lock_runs :: "'l rwlock_ops \<Rightarrow> 'l lock_state \<Rightarrow> 'l lock_state \<Rightarrow> bool" for ops where
  lock_runs_refl: "lock_runs ops s s"
| lock_runs_step: "lock_runs ops s t \<Longrightarrow> perform ops op t = Some (Inr u) \<Longrightarrow> lock_runs ops s u"

section \<open>Who holds what\<close>

fun owner :: "guard option \<Rightarrow> (bool \<times> nat) option" where
  "owner (Some (Guard ex (Some d) True)) = Some (ex, d)"
| "owner _ = None"

definition held :: "'l lock_state \<Rightarrow> bool \<Rightarrow> nat \<Rightarrow> nat set" where
  "held s ex d = {g. owner (guards s g) = Some (ex, d)}"

text \<open>A guard that owns has a mutex; the lock of a mutex says what the guards say.\<close>

definition slot_ok :: "guard option \<Rightarrow> bool" where
  "slot_ok v \<longleftrightarrow> (\<forall>ex. v \<noteq> Some (Guard ex None True))"

definition mutex_ok :: "'l rwlock_ops \<Rightarrow> 'l lock_state \<Rightarrow> nat \<Rightarrow> bool" where
  "mutex_ok ops s d \<longleftrightarrow>
     finite (held s True d) \<and> finite (held s False d) \<and>
     rw_holders ops (mutexes s d) = (held s True d \<noteq> {}, card (held s False d)) \<and>
     card (held s True d) \<le> 1 \<and> (held s True d \<noteq> {} \<longrightarrow> held s False d = {})"

definition lock_inv :: "'l rwlock_ops \<Rightarrow> 'l lock_state \<Rightarrow> bool" where
  "lock_inv ops s \<longleftrightarrow> (\<forall>d. mutex_ok ops s d) \<and> (\<forall>g. slot_ok (guards s g))"

lemma put_guard_simps [simp]:
  "mutexes (put_guard g v s) = mutexes s" "guards (put_guard g v s) = (guards s)(g := v)"
  "put_guard g v (put_guard g w s) = put_guard g v s"
  "mutexes (shared_mutex_unlock ops d s) = (mutexes s)(d := rw_unlock ops (mutexes s d))"
  "guards (shared_mutex_unlock ops d s) = guards s"
  by (simp_all add: put_guard_def shared_mutex_unlock_def)

lemma unlock_put_guard:
  "shared_mutex_unlock ops d (put_guard g v s) = put_guard g v (shared_mutex_unlock ops d s)"
  by (simp add: put_guard_def shared_mutex_unlock_def)

lemma held_put_guard:
  "held (put_guard g v s) ex d =
     (if owner v = Some (ex, d) then insert g (held s ex d) else held s ex d - {g})"
  by (auto simp: held_def)

lemma held_same: "guards t = guards s \<Longrightarrow> held t = held s"
  by (simp add: held_def fun_eq_iff)

lemma mutex_ok_cong:
  "held t True d = held s True d \<Longrightarrow> held t False d = held s False d \<Longrightarrow> mutexes t d = mutexes s d \<Longrightarrow>
   mutex_ok ops t d = mutex_ok ops s d"
  by (simp add: mutex_ok_def)

lemma new_locks_inv: "rwlock_laws ops \<Longrightarrow> lock_inv ops (new_locks ops)"
  by (simp add: lock_inv_def mutex_ok_def new_locks_def held_def slot_ok_def rwlock_lawsD)

text \<open>The four kinds of change: no owner involved, acquiring, releasing, passing on.\<close>

lemma inv_not_owner:
  assumes "lock_inv ops s" "owner (guards s g) = None" "owner v = None" "slot_ok v"
  shows "lock_inv ops (put_guard g v s)"
proof -
  have "held (put_guard g v s) ex d = held s ex d" for ex d
    using assms(2,3) by (auto simp: held_put_guard held_def)
  with assms(1,4) show ?thesis
    by (simp add: lock_inv_def cong: mutex_ok_cong)
qed

lemma inv_acquire:
  assumes laws: "rwlock_laws ops" and inv: "lock_inv ops s" and free: "owner (guards s g) = None"
    and lock: "(if ex then shared_mutex_lock ops d s else shared_mutex_lock_shared ops d s) = Some t"
  shows "lock_inv ops (put_guard g (Some (Guard ex (Some d) True)) t)"
proof -
  define u where "u = put_guard g (Some (Guard ex (Some d) True)) t"
  obtain l where t: "t = s\<lparr>mutexes := (mutexes s)(d := l)\<rparr>"
    "(if ex then rw_wrlock ops else rw_rdlock ops) (mutexes s d) = Some l"
    using lock by (auto simp: shared_mutex_lock_def shared_mutex_lock_shared_def split: if_splits)
  have h: "held u ex' d' = (if ex' = ex \<and> d' = d then insert g (held s ex' d') else held s ex' d')" for ex' d'
    using free by (auto simp: u_def t(1) held_def)
  have m: "mutexes u = (mutexes s)(d := l)" by (simp add: u_def t(1))
  have g: "g \<notin> held s ex' d'" for ex' d' using free by (simp add: held_def)
  have ok: "mutex_ok ops s d'" for d' using inv by (simp add: lock_inv_def)
  have "mutex_ok ops u d'" for d'
  proof (cases "d' = d")
    case False
    then show ?thesis using ok [of d'] by (simp add: mutex_ok_def h m)
  next
    case True
    show ?thesis
    proof (cases ex)
      case True
      then have "rw_holders ops (mutexes s d) = (False, 0)" "rw_holders ops l = (True, 0)"
        using rwlock_lawsD(2) [OF laws] t(2) by auto
      then show ?thesis using ok [of d] True \<open>d' = d\<close> by (auto simp: mutex_ok_def h m)
    next
      case False
      then obtain n where "rw_holders ops (mutexes s d) = (False, n)" "rw_holders ops l = (False, Suc n)"
        using rwlock_lawsD(3) [OF laws] t(2) by fastforce
      then show ?thesis using ok [of d] False \<open>d' = d\<close> g by (auto simp: mutex_ok_def h m)
    qed
  qed
  then have "lock_inv ops u" using inv by (simp add: lock_inv_def u_def t(1) slot_ok_def)
  then show ?thesis by (simp only: u_def)
qed

lemma inv_release:
  assumes laws: "rwlock_laws ops" and inv: "lock_inv ops s" and own: "guards s g = Some (Guard ex (Some d) True)"
    and v: "owner v = None" "slot_ok v"
  shows "lock_inv ops (put_guard g v (shared_mutex_unlock ops d s))"
proof -
  let ?u = "put_guard g v (shared_mutex_unlock ops d s)"
  have h: "held ?u ex' d' = (if ex' = ex \<and> d' = d then held s ex' d' - {g} else held s ex' d')" for ex' d'
    using own v by (auto simp: held_def)
  have g: "g \<in> held s ex d" using own by (simp add: held_def)
  have ok: "mutex_ok ops s d'" for d' using inv by (simp add: lock_inv_def)
  have "mutex_ok ops ?u d'" for d'
  proof (cases "d' = d")
    case False
    then show ?thesis using ok [of d'] by (simp add: mutex_ok_def h)
  next
    case True
    show ?thesis
    proof (cases ex)
      case True
      then have one: "held s True d = {g}" "held s False d = {}"
        using ok [of d] g by (auto simp: mutex_ok_def card_le_Suc0_iff_eq)
      then have "rw_holders ops (rw_unlock ops (mutexes s d)) = (False, 0)"
        using ok [of d] rwlock_lawsD(4) [OF laws, of "mutexes s d" 0] by (simp add: mutex_ok_def)
      with True one \<open>d' = d\<close> show ?thesis by (simp add: mutex_ok_def h)
    next
      case False
      with g have n: "held s True d = {}" "card (held s False d) = Suc (card (held s False d - {g}))"
        "finite (held s False d)"
        using ok [of d] card_Suc_Diff1 [of "held s False d" g] by (auto simp: mutex_ok_def)
      then have "rw_holders ops (rw_unlock ops (mutexes s d)) = (False, card (held s False d - {g}))"
        using ok [of d] rwlock_lawsD(5) [OF laws, of "mutexes s d" "card (held s False d - {g})"]
        by (simp add: mutex_ok_def)
      with False n \<open>d' = d\<close> show ?thesis by (simp add: mutex_ok_def h)
    qed
  qed
  then show ?thesis using inv v(2) by (simp add: lock_inv_def)
qed

lemma inv_permute:
  assumes "lock_inv ops s" "mutexes t = mutexes s" "\<And>x. slot_ok (guards t x)"
    and "\<And>x. owner (guards t x) = owner (guards s (f x))" "bij f"
  shows "lock_inv ops t"
proof -
  have h: "held t ex d = f -` held s ex d" for ex d by (auto simp: held_def assms(4))
  have f: "inj f" "range f = UNIV" using assms(5) by (simp_all add: bij_def)
  have c: "finite (f -` A) = finite A" "card (f -` A) = card A" "f -` A = {} \<longleftrightarrow> A = {}" for A
    using f by (auto simp: card_vimage_inj surj_vimage_empty finite_vimage_iff [OF assms(5)])
  have "mutex_ok ops t d" for d
    using assms(1,2) by (simp add: lock_inv_def mutex_ok_def h c)
  with assms(3) show ?thesis by (simp add: lock_inv_def)
qed

lemma bij_transpose: "bij (\<lambda>x. if x = g then h else if x = h then g else x)"
  by (rule bij_betw_byWitness [where f' = "\<lambda>x. if x = g then h else if x = h then g else x"]) auto

lemma inv_pass_on:
  assumes "lock_inv ops s" "owner (guards s g) = None" "guards s h = Some v" "owner w = None" "slot_ok w"
  shows "lock_inv ops (put_guard h w (put_guard g (Some v) s))"
proof (rule inv_permute [OF assms(1) _ _ _ bij_transpose [of g h]])
  show "mutexes (put_guard h w (put_guard g (Some v) s)) = mutexes s" by simp
  have "slot_ok (Some v)" using assms(1,3) unfolding lock_inv_def by metis
  then show "slot_ok (guards (put_guard h w (put_guard g (Some v) s)) x)" for x
    using assms(1,5) by (simp add: lock_inv_def)
  show "owner (guards (put_guard h w (put_guard g (Some v) s)) x) =
      owner (guards s (if x = g then h else if x = h then g else x))" for x
    using assms(2,3,4) by auto
qed


section \<open>Every operation keeps the book\<close>

lemma lock_inv_slot: "lock_inv ops s \<Longrightarrow> slot_ok (guards s g)"
  by (simp add: lock_inv_def)

lemma slot_ok_simps [simp]:
  "slot_ok None" "slot_ok (Some (Guard ex dev False))" "slot_ok (Some (Guard ex (Some d) owns))"
  "\<not> slot_ok (Some (Guard ex None True))"
  by (simp_all add: slot_ok_def)

lemma owner_None_iff:
  "slot_ok (Some (Guard ex dev owns)) \<Longrightarrow> owner (Some (Guard ex dev owns)) = None \<longleftrightarrow> \<not> owns"
  by (cases dev; cases owns) auto

lemma assign_exclusive:
  assumes "rwlock_laws ops" "lock_inv ops s" "guards s g = Some (Guard True dev owns)" "guards s h = Some v"
  shows "\<exists>t. guard_assign ops g h s = Some (Inr t) \<and> lock_inv ops t \<or> \<not> g_exclusive v"
proof (cases "owns")
  case True
  then obtain d where d: "dev = Some d" using lock_inv_slot [OF assms(2), of g] assms(3) by (cases dev) auto
  let ?s = "put_guard g (Some (Guard True dev False)) (shared_mutex_unlock ops d s)"
  have inv: "lock_inv ops ?s"
    using inv_release [OF assms(1,2), of g True d "Some (Guard True dev False)"] assms(3) True d by simp
  define v' where "v' = (if h = g then Guard True dev False else v)"
  have v': "guards ?s h = Some v'" using assms(4) by (simp add: v'_def)
  have "lock_inv ops (put_guard h (Some (Guard True None False)) (put_guard g (Some v') ?s))"
    by (rule inv_pass_on [OF inv _ v']) simp_all
  with assms(3,4) True d v' show ?thesis
    by (cases v) (auto simp: guard_assign_def Let_def)
next
  case False
  have "lock_inv ops (put_guard h (Some (Guard True None False)) (put_guard g (Some v) s))"
    by (rule inv_pass_on [OF assms(2) _ assms(4)]) (simp_all add: assms(3) False)
  with assms(3,4) False show ?thesis
    by (cases v) (auto simp: guard_assign_def Let_def split: option.split)
qed

lemma assign_shared:
  assumes "rwlock_laws ops" "lock_inv ops s" "guards s g = Some (Guard False dev owns)" "guards s h = Some v"
  shows "\<exists>t. guard_assign ops g h s = Some (Inr t) \<and> lock_inv ops t \<or> g_exclusive v"
proof (cases "g = h \<or> g_exclusive v")
  case True
  with assms show ?thesis by (cases v) (auto simp: guard_assign_def)
next
  case other: False
  show ?thesis
  proof (cases owns)
    case True
    then obtain d where d: "dev = Some d" using lock_inv_slot [OF assms(2), of g] assms(3) by (cases dev) auto
    let ?s = "put_guard g (Some (Guard False None False)) (shared_mutex_unlock ops d s)"
    have inv: "lock_inv ops ?s"
      using inv_release [OF assms(1,2), of g False d "Some (Guard False None False)"] assms(3) True d by simp
    have v: "guards ?s h = Some v" using assms(4) other by auto
    have "lock_inv ops (put_guard h (Some (Guard False None False)) (put_guard g (Some v) ?s))"
      by (rule inv_pass_on [OF inv _ v]) simp_all
    with assms(3,4) True d other show ?thesis
      by (cases v) (auto simp: guard_assign_def Let_def unlock_put_guard)
  next
    case False
    have "lock_inv ops (put_guard h (Some (Guard False None False)) (put_guard g (Some v) s))"
      by (rule inv_pass_on [OF assms(2) _ assms(4)]) (simp_all add: assms(3) False)
    with assms(3,4) False other show ?thesis
      by (cases v) (auto simp: guard_assign_def Let_def split: option.split)
  qed
qed

lemma swap_inv:
  assumes inv: "lock_inv ops s" and "guards s g = Some u" "guards s h = Some v"
  shows "lock_inv ops (put_guard h (Some u) (put_guard g (Some v) s))"
proof (rule inv_permute [OF inv _ _ _ bij_transpose [of g h]])
  show "mutexes (put_guard h (Some u) (put_guard g (Some v) s)) = mutexes s" by simp
  show "slot_ok (guards (put_guard h (Some u) (put_guard g (Some v) s)) x)" for x
    using inv assms(2,3) unfolding lock_inv_def by (simp, metis)
  show "owner (guards (put_guard h (Some u) (put_guard g (Some v) s)) x) =
      owner (guards s (if x = g then h else if x = h then g else x))" for x
    using assms(2,3) by auto
qed

lemma perform_inv:
  assumes laws: "rwlock_laws ops" and inv: "lock_inv ops s" and step: "perform ops op s = Some (Inr t)"
  shows "lock_inv ops t"
proof (cases op)
  case (Op_default ex g)
  with step inv show ?thesis
    by (auto simp: guard_default_def inv_not_owner split: if_splits)
next
  case (Op_construct ex g d)
  with step obtain u where u: "(if ex then shared_mutex_lock ops d s else shared_mutex_lock_shared ops d s) = Some u"
    "t = put_guard g (Some (Guard ex (Some d) True)) u" "guards s g = None"
    by (auto simp: guard_construct_def split: if_splits)
  then show ?thesis using inv_acquire [OF laws inv _ u(1)] by simp
next
  case (Op_move g h)
  with step obtain ex dev owns where
    "guards s g = None" "guards s h = Some (Guard ex dev owns)"
    "t = put_guard h (Some (Guard ex None False)) (put_guard g (Some (Guard ex dev owns)) s)"
    by (auto simp: guard_move_def split: option.splits guard.splits)
  then show ?thesis using inv_pass_on [OF inv] by simp
next
  case (Op_destroy g)
  then obtain ex dev owns where g: "guards s g = Some (Guard ex dev owns)"
    using step by (auto simp: guard_destroy_def split: option.splits guard.splits)
  show ?thesis
  proof (cases owns)
    case True
    then obtain d where "dev = Some d" using lock_inv_slot [OF inv, of g] g by (cases dev) auto
    with g True step Op_destroy show ?thesis
      using inv_release [OF laws inv, of g ex d None] by (auto simp: guard_destroy_def)
  next
    case False
    with g step Op_destroy show ?thesis
      using inv_not_owner [OF inv, of g None] by (auto simp: guard_destroy_def split: option.splits)
  qed
next
  case (Op_assign g h)
  then obtain ex dev owns v where gh: "guards s g = Some (Guard ex dev owns)" "guards s h = Some v"
    using step by (auto simp: guard_assign_def split: option.splits guard.splits)
  have "g_exclusive v = ex" using step Op_assign gh by (cases v) (auto simp: guard_assign_def split: if_splits)
  then show ?thesis
    using assign_exclusive [OF laws inv _ gh(2), of g dev owns] assign_shared [OF laws inv _ gh(2), of g dev owns]
      gh(1) step Op_assign
    by (cases ex) auto
next
  case (Op_swap g h)
  with step show ?thesis
    using swap_inv [OF inv]
    by (auto simp: guard_swap_def split: option.splits guard.splits if_splits)
next
  case (Op_lock g)
  with step obtain ex d u where g: "guards s g = Some (Guard ex (Some d) False)"
    "(if ex then shared_mutex_lock ops d s else shared_mutex_lock_shared ops d s) = Some u"
    "t = put_guard g (Some (Guard ex (Some d) True)) u"
    by (auto simp: guard_lock_def split: option.splits guard.splits bool.splits)
  then show ?thesis using inv_acquire [OF laws inv _ g(2)] by simp
next
  case (Op_unlock g)
  then obtain ex dev where "guards s g = Some (Guard ex dev True)"
    using step by (auto simp: guard_unlock_def split: option.splits guard.splits bool.splits)
  with step Op_unlock show ?thesis
    using lock_inv_slot [OF inv, of g] inv_release [OF laws inv, of g ex]
    by (cases dev) (auto simp: guard_unlock_def)
qed

lemma lock_runs_inv: "lock_runs ops s t \<Longrightarrow> rwlock_laws ops \<Longrightarrow> lock_inv ops s \<Longrightarrow> lock_inv ops t"
  by (induction rule: lock_runs.induct) (auto intro: perform_inv)


section \<open>Exclusion\<close>

lemma owner_Some: "owner v = Some (ex, d) \<longleftrightarrow> v = Some (Guard ex (Some d) True)"
  by (cases v rule: owner.cases) auto

text \<open>C22: Whatever a program does with guards, short of \<open>release\<close> (constructing, destroying,
  moving, assigning, swapping, locking and unlocking them, with calls that block or throw left out),
  a guard that holds a mutex exclusively is the only one that holds it, and the lock of every mutex is
  held exactly by the guards that say so. In particular it is free when they are gone: no path leaves
  it locked, none unlocks it twice.\<close>

theorem guards_exclude:
  assumes "rwlock_laws ops" "lock_runs ops (new_locks ops) s"
  shows "(\<forall>g h ex. guards s g = Some (Guard True (Some d) True) \<and> guards s h = Some (Guard ex (Some d) True) \<longrightarrow> g = h) \<and>
    rw_holders ops (mutexes s d) =
      (\<exists>g. guards s g = Some (Guard True (Some d) True), card {g. guards s g = Some (Guard False (Some d) True)})"
proof -
  have "mutex_ok ops s d"
    using lock_runs_inv [OF assms(2,1) new_locks_inv [OF assms(1)]] by (simp add: lock_inv_def)
  then have ok: "finite (held s True d)" "card (held s True d) \<le> 1" "held s True d \<noteq> {} \<longrightarrow> held s False d = {}"
    "rw_holders ops (mutexes s d) = (held s True d \<noteq> {}, card (held s False d))"
    by (simp_all add: mutex_ok_def)
  have mem: "g \<in> held s ex d \<longleftrightarrow> guards s g = Some (Guard ex (Some d) True)" for g ex
    by (simp add: held_def owner_Some)
  have "g = h" if "g \<in> held s True d" "h \<in> held s ex d" for g h ex
    using that ok(1,2,3) by (cases ex) (auto simp: card_le_Suc0_iff_eq)
  then show ?thesis using ok(4) by (auto simp: mem held_def owner_Some)
qed

text \<open>A lock that counts.\<close>

definition counting_lock :: "(bool \<times> nat) rwlock_ops" where
  "counting_lock =
     \<lparr>rw_create = (False, 0),
      rw_wrlock = (\<lambda>l. if l = (False, 0) then Some (True, 0) else None),
      rw_rdlock = (\<lambda>(w, n). if w then None else Some (False, Suc n)),
      rw_unlock = (\<lambda>(w, n). if w then (False, n) else (False, n - 1)),
      rw_holders = (\<lambda>l. l)\<rparr>"

lemma counting_lock_laws: "rwlock_laws counting_lock"
  by (auto simp: rwlock_laws_def counting_lock_def split: if_splits)

definition demo_locks :: "(bool \<times> nat) lock_state" where
  "demo_locks =
     \<lparr>mutexes = (\<lambda>_. (False, 0))(3 := (True, 0)),
      guards = (\<lambda>_. None)(0 := Some (Guard True None False), 1 := Some (Guard True (Some 3) True))\<rparr>"

lemma demo_locks_runs: "lock_runs counting_lock (new_locks counting_lock) demo_locks"
proof -
  have 1: "perform counting_lock (Op_construct True 0 3) (new_locks counting_lock) =
    Some (Inr (put_guard 0 (Some (Guard True (Some 3) True))
      \<lparr>mutexes = (\<lambda>_. (False, 0))(3 := (True, 0)), guards = (\<lambda>_. None)\<rparr>))"
    by (simp add: guard_construct_def new_locks_def shared_mutex_lock_def counting_lock_def)
  have 2: "perform counting_lock (Op_move 1 0) (put_guard 0 (Some (Guard True (Some 3) True))
      \<lparr>mutexes = (\<lambda>_. (False, 0))(3 := (True, 0)), guards = (\<lambda>_. None)\<rparr>) = Some (Inr demo_locks)"
    by (simp add: guard_move_def put_guard_def demo_locks_def fun_upd_twist)
  show ?thesis by (rule lock_runs_step [OF lock_runs_step [OF lock_runs_refl 1] 2])
qed

theorem guards_exclude_witness: "rw_holders counting_lock (mutexes demo_locks 3) = (True, 0)"
  using guards_exclude [OF counting_lock_laws demo_locks_runs, of 3]
  by (simp add: demo_locks_def counting_lock_def)

end
