(* ===== verification/Server.thy ===== *)
theory Server
  imports Ctl
begin

text \<open>
  The life of a server process (\<open>src/src/common/net/server.hpp\<close>, \<open>server.cpp\<close> and
  \<open>src/src/common/utils/signal_listener.hpp\<close>): turning into a daemon, the pid file, signals, waiting, and
  the end. What the process does to the system is written down as a sequence of events.
\<close>

section \<open>The system around the process\<close>

datatype signum = SIGHUP | SIGINT | SIGTERM | SIG_other nat

datatype server_event =
    Ev_logger_created
  | Ev_logger_destroyed
  | Ev_fork_prepare
  | Ev_fork_parent
  | Ev_fork_child
  | Ev_new_session
  | Ev_stdio nat
  | Ev_umask
  | Ev_chdir
  | Ev_null_closed
  | Ev_ignored string
  | Ev_pidfile
  | Ev_handlers
  | Ev_waiting
  | Ev_flushed
  | Ev_finalized
  | Ev_listener_stopped
  | Ev_pidfile_removed

text \<open>
  The answers of the system calls. \<open>sw_fork\<close> is what \<open>fork\<close> returns to this process; \<open>sw_signals\<close> are
  the signals that arrive while it waits.
\<close>

record server_world =
  sw_getppid :: int
  sw_fork :: int
  sw_child_pid :: nat
  sw_setsid :: bool
  sw_dev_null :: bool
  sw_dup2 :: "nat \<Rightarrow> bool"
  sw_chdir :: bool
  sw_open :: "string \<Rightarrow> bool"
  sw_write :: bool
  sw_unlink :: bool
  sw_signals :: "signum list"

text \<open>
  Files have a content; a lock of \<open>lockf\<close> belongs to a process. A process has threads: the one that runs
  the code, and those that were started before.
\<close>

record server_os =
  os_files :: "string \<Rightarrow> string option"
  os_locks :: "string \<Rightarrow> nat option"
  os_pid :: nat
  os_threads :: "string list"
  os_events :: "server_event list"

text \<open>The listener of signals: the installed handler, the set of signals, whether it waits for one.\<close>

record signal_listener =
  m_user_handler :: bool
  m_signals :: "signum list"
  ls_armed :: bool
  ls_stopped :: bool

text \<open>
  \<open>m_prefinalize\<close> are the threads that the callbacks before the end of the network engine wait for;
  \<open>m_finalized\<close> says that the engine has come to its end.
\<close>

record server_process =
  m_name :: string
  m_address :: string
  m_daemonize :: bool
  m_rundir :: string
  m_pidfile :: "string option"
  m_shutting_down :: bool
  m_prefinalize :: "string list"
  m_finalized :: bool
  m_signal_listener :: signal_listener
  sv_os :: server_os

definition emit :: "server_event \<Rightarrow> server_process \<Rightarrow> server_process" where
  "emit e s = s\<lparr>sv_os := (sv_os s)\<lparr>os_events := os_events (sv_os s) @ [e]\<rparr>\<rparr>"

definition new_listener :: signal_listener where
  "new_listener = \<lparr>m_user_handler = False, m_signals = [], ls_armed = False, ls_stopped = False\<rparr>"

text \<open>The constructor. A daemon has its pid file in its run directory, whatever was asked for.\<close>

definition new_server :: "string \<Rightarrow> string \<Rightarrow> bool \<Rightarrow> string \<Rightarrow> string option \<Rightarrow> server_os \<Rightarrow> server_process" where
  "new_server name address daemonize rundir pidfile os =
     \<lparr>m_name = name, m_address = address, m_daemonize = daemonize, m_rundir = rundir,
      m_pidfile = (if daemonize then Some (path_append rundir (name @ ''.pid'')) else pidfile),
      m_shutting_down = False, m_prefinalize = [], m_finalized = False, m_signal_listener = new_listener, sv_os = os\<rparr>"

section \<open>The pid file\<close>

text \<open>
  The file is opened without truncating it, locked, written from its start, and closed; a process loses
  its locks on a file when it closes it. Failures leave the descriptor open.
\<close>

definition write_pidfile :: "server_world \<Rightarrow> string \<Rightarrow> server_os \<Rightarrow> server_os \<times> (string + unit)" where
  "write_pidfile w pidfile os =
     (if \<not> sw_open w pidfile then (os, Inl ''Failed to create daemon lock file'')
      else
        (let old = (case os_files os pidfile of None \<Rightarrow> [] | Some c \<Rightarrow> c);
             os = os\<lparr>os_files := (os_files os)(pidfile \<mapsto> old)\<rparr>
         in if os_locks os pidfile \<noteq> None \<and> os_locks os pidfile \<noteq> Some (os_pid os)
            then (os, Inl (''Failed to acquire lock on pidfile. Another '' @
                           ''instance of this daemon may already be running''))
            else
              (let os = os\<lparr>os_locks := (os_locks os)(pidfile \<mapsto> os_pid os)\<rparr>;
                   pidstr = nat_to_string (os_pid os)
               in if \<not> sw_write w then (os, Inl ''Failed to write pidfile'')
                  else
                    (os\<lparr>os_files := (os_files os)(pidfile \<mapsto> pidstr @ drop (length pidstr) old),
                        os_locks := (os_locks os)(pidfile := None)\<rparr>, Inr ()))))"

section \<open>Signals\<close>

definition listener_set_handler :: "signum list \<Rightarrow> signal_listener \<Rightarrow> signal_listener" where
  "listener_set_handler signums l = l\<lparr>m_user_handler := True, m_signals := signums\<rparr>"

definition listener_clear_handler :: "signal_listener \<Rightarrow> signal_listener" where
  "listener_clear_handler l = l\<lparr>m_user_handler := False, m_signals := []\<rparr>"

definition listener_do_accept :: "signal_listener \<Rightarrow> signal_listener" where
  "listener_do_accept l = (if m_user_handler l then l\<lparr>ls_armed := True\<rparr> else l)"

definition listener_run :: "signal_listener \<Rightarrow> signal_listener" where
  "listener_run l = listener_do_accept l"

definition listener_stop :: "signal_listener \<Rightarrow> signal_listener" where
  "listener_stop l = l\<lparr>ls_stopped := True\<rparr>"

text \<open>
  \<open>shutdown\<close> sets the flag, at which the threads that look for it end, and finalizes the engine. The callbacks come
  first: they join threads, which does not end for a thread that the process does not have. The engine is then
  never finalized, and neither the caller of \<open>shutdown\<close> nor whoever waits for the engine goes on.
\<close>

definition joinable :: "server_process \<Rightarrow> bool" where
  "joinable s \<longleftrightarrow> set (m_prefinalize s) \<subseteq> set (os_threads (sv_os s))"

definition join_threads :: "server_process \<Rightarrow> server_process" where
  "join_threads s =
     s\<lparr>sv_os := (sv_os s)\<lparr>os_threads := filter (\<lambda>t. t \<notin> set (m_prefinalize s)) (os_threads (sv_os s))\<rparr>\<rparr>"

definition server_shutdown :: "server_process \<Rightarrow> server_process" where
  "server_shutdown s =
     (let s = s\<lparr>m_shutting_down := True\<rparr>
      in if joinable s then emit Ev_finalized ((join_threads s)\<lparr>m_finalized := True\<rparr>) else s)"

definition server_signal_handler :: "signum \<Rightarrow> server_process \<Rightarrow> server_process" where
  "server_signal_handler n s =
     (case n of
        SIGINT \<Rightarrow> server_shutdown s
      | SIGTERM \<Rightarrow> server_shutdown s
      | SIGHUP \<Rightarrow> emit Ev_flushed s
      | SIG_other _ \<Rightarrow> s)"

text \<open>A signal reaches the handler when the listener waits for it; the listener then waits again.\<close>

definition deliver :: "signum \<Rightarrow> server_process \<Rightarrow> server_process" where
  "deliver n s =
     (let l = m_signal_listener s
      in if ls_armed l \<and> \<not> ls_stopped l \<and> n \<in> set (m_signals l)
         then (server_signal_handler n s)\<lparr>m_signal_listener := l\<lparr>ls_armed := True\<rparr>\<rparr>
         else s)"

definition install_signal_handlers :: "server_process \<Rightarrow> server_process" where
  "install_signal_handlers s =
     emit Ev_handlers
       (s\<lparr>m_signal_listener :=
            listener_run (listener_set_handler [SIGHUP, SIGTERM, SIGINT] (m_signal_listener s))\<rparr>)"

text \<open>
  Waiting ends when the network engine is finalized, which a handler does; \<open>None\<close> is still waiting. A handler that is
  stuck in the shutdown keeps the listener from every further signal.
\<close>

fun wait_for_finalize :: "signum list \<Rightarrow> server_process \<Rightarrow> server_process option" where
  "wait_for_finalize sigs s =
     (if m_finalized s then Some s
      else if m_shutting_down s then None
      else case sigs of [] \<Rightarrow> None | n # sigs \<Rightarrow> wait_for_finalize sigs (deliver n s))"

declare wait_for_finalize.simps [simp del]

section \<open>Becoming a daemon\<close>

text \<open>The standard streams, one after the other; \<open>Inl\<close> is a call of \<open>exit(EXIT_FAILURE)\<close>.\<close>

fun redirect :: "server_world \<Rightarrow> nat list \<Rightarrow> server_process \<Rightarrow> server_process + server_process" where
  "redirect w [] s = Inr s"
| "redirect w (n # ns) s = (if sw_dup2 w n then redirect w ns (emit (Ev_stdio n) s) else Inl s)"

text \<open>The result is what \<open>daemonize\<close> returns: 0 for a daemon, the pid of the child for its parent.\<close>

definition server_daemonize :: "server_world \<Rightarrow> server_process \<Rightarrow> server_process + server_process \<times> int" where
  "server_daemonize w s =
     (if sw_getppid w = 1 then Inr (s, 0)
      else
        (let s = emit Ev_logger_created (emit Ev_fork_prepare (emit Ev_logger_destroyed s))
         in if sw_fork w < 0 then Inl s
            else if sw_fork w \<noteq> 0 then Inr (emit Ev_fork_parent s, sw_fork w)
            else
              (let s = emit Ev_fork_child
                     (s\<lparr>sv_os := (sv_os s)\<lparr>os_pid := sw_child_pid w, os_threads := [''main'']\<rparr>\<rparr>)
               in if \<not> sw_setsid w then Inl s
                  else if \<not> sw_dev_null w then Inl (emit Ev_new_session s)
                  else case redirect w [0, 1, 2] (emit Ev_new_session s) of
                         Inl s \<Rightarrow> Inl s
                       | Inr s \<Rightarrow>
                           (let s = emit Ev_umask s
                            in if \<not> sw_chdir w then Inl s
                               else Inr (foldl (\<lambda>s e. emit e s) s
                                 [Ev_chdir, Ev_null_closed, Ev_ignored ''SIGCHLD'', Ev_ignored ''SIGTSTP'',
                                  Ev_ignored ''SIGTTOU'', Ev_ignored ''SIGTTIN''], 0)))))"

section \<open>Running\<close>

definition server_teardown :: "server_world \<Rightarrow> server_process \<Rightarrow> server_process" where
  "server_teardown w s =
     (let s = emit Ev_listener_stopped (s\<lparr>m_signal_listener := listener_stop (m_signal_listener s)\<rparr>)
      in if \<not> m_daemonize s then s
         else case m_pidfile s of
                None \<Rightarrow> s
              | Some f \<Rightarrow>
                  if sw_unlink w
                  then emit Ev_pidfile_removed
                         (s\<lparr>sv_os := (sv_os s)\<lparr>os_files := (os_files (sv_os s))(f := None)\<rparr>\<rparr>)
                  else s)"

datatype exit_code = EXIT_SUCCESS | EXIT_FAILURE

text \<open>Writing the pid file, when there is one.\<close>

definition server_pidfile :: "server_world \<Rightarrow> server_process \<Rightarrow> server_process + server_process" where
  "server_pidfile w s =
     (case m_pidfile s of
        None \<Rightarrow> Inr s
      | Some f \<Rightarrow>
          (case write_pidfile w f (sv_os s) of
             (os, Inl _) \<Rightarrow> Inl (s\<lparr>sv_os := os\<rparr>)
           | (os, Inr _) \<Rightarrow> Inr (emit Ev_pidfile (s\<lparr>sv_os := os\<rparr>))))"

text \<open>
  Up to the waiting for requests. \<open>Inl\<close> is a process that does not come to it: the parent of a daemon ends, or does not
  return from its shutdown, and a failure ends the process.
\<close>

definition server_start ::
  "server_world \<Rightarrow> server_process \<Rightarrow> (server_process \<times> exit_code) option + server_process" where
  "server_start w s =
     (let s = emit Ev_logger_created s
      in case (if m_daemonize s then server_daemonize w s else Inr (s, 0)) of
           Inl s \<Rightarrow> Inl (Some (s, EXIT_FAILURE))
         | Inr (s, pid) \<Rightarrow>
             if pid \<noteq> 0
             then (let s = server_shutdown s in Inl (if m_finalized s then Some (s, EXIT_SUCCESS) else None))
             else case server_pidfile w s of
                    Inl s \<Rightarrow> Inl (Some (s, EXIT_FAILURE))
                  | Inr s \<Rightarrow> Inr (emit Ev_waiting (install_signal_handlers s)))"

text \<open>From the waiting to the end.\<close>

definition server_serve :: "server_world \<Rightarrow> server_process \<Rightarrow> (server_process \<times> exit_code) option" where
  "server_serve w s =
     map_option (\<lambda>s. (server_teardown w s, EXIT_SUCCESS)) (wait_for_finalize (sw_signals w) s)"

definition server_run :: "server_world \<Rightarrow> server_process \<Rightarrow> (server_process \<times> exit_code) option" where
  "server_run w s = (case server_start w s of Inl r \<Rightarrow> r | Inr s \<Rightarrow> server_serve w s)"

text \<open>
  The daemon of the project: its constructor makes a thread for the scheduler before \<open>run\<close> is called, and a callback
  that joins it before the engine ends (\<open>src/src/scord/rpc_server.cpp\<close>). A child of \<open>fork\<close> has only the thread that
  called it.
\<close>

definition scord_server :: "string \<Rightarrow> string \<Rightarrow> bool \<Rightarrow> string \<Rightarrow> server_os \<Rightarrow> server_process" where
  "scord_server name address daemonize rundir os =
     (new_server name address daemonize rundir None
        (os\<lparr>os_threads := os_threads os @ [''scheduler'']\<rparr>))\<lparr>m_prefinalize := [''scheduler'']\<rparr>"

section \<open>Waiting for the end\<close>

lemma emit_simps [simp]:
  "m_shutting_down (emit e s) = m_shutting_down s" "m_signal_listener (emit e s) = m_signal_listener s"
  "m_daemonize (emit e s) = m_daemonize s" "m_pidfile (emit e s) = m_pidfile s"
  "m_prefinalize (emit e s) = m_prefinalize s" "m_finalized (emit e s) = m_finalized s"
  "os_events (sv_os (emit e s)) = os_events (sv_os s) @ [e]"
  "os_files (sv_os (emit e s)) = os_files (sv_os s)" "os_locks (sv_os (emit e s)) = os_locks (sv_os s)"
  "os_threads (sv_os (emit e s)) = os_threads (sv_os s)" "os_pid (sv_os (emit e s)) = os_pid (sv_os s)"
  by (simp_all add: emit_def)

definition listening :: "server_process \<Rightarrow> bool" where
  "listening s \<longleftrightarrow>
     m_signal_listener s =
       \<lparr>m_user_handler = True, m_signals = [SIGHUP, SIGTERM, SIGINT], ls_armed = True, ls_stopped = False\<rparr>"

definition stop_signals :: "signum set" where
  "stop_signals = {SIGINT, SIGTERM}"

text \<open>What the signals before the first one that stops the server leave in the trace.\<close>

definition flushes :: "signum list \<Rightarrow> server_event list" where
  "flushes sigs = concat (map (\<lambda>n. if n = SIGHUP then [Ev_flushed] else []) (takeWhile (\<lambda>n. n \<notin> stop_signals) sigs))"

lemma server_shutdown_simps [simp]:
  "m_shutting_down (server_shutdown s)"
  "m_finalized (server_shutdown s) \<longleftrightarrow> joinable s \<or> m_finalized s"
  "m_signal_listener (server_shutdown s) = m_signal_listener s"
  by (simp_all add: server_shutdown_def Let_def joinable_def join_threads_def)

lemma deliver_listening:
  assumes "listening s"
  shows "deliver n s =
    (if n \<in> stop_signals then server_shutdown s else if n = SIGHUP then emit Ev_flushed s else s)"
proof -
  have "(server_shutdown s)\<lparr>m_signal_listener := (m_signal_listener s)\<lparr>ls_armed := True\<rparr>\<rparr> = server_shutdown s"
    using assms by (simp add: listening_def server_shutdown_def Let_def join_threads_def emit_def)
  then show ?thesis
    using assms
    by (cases n) (auto simp: deliver_def listening_def Let_def stop_signals_def server_signal_handler_def emit_def)
qed

definition after_signals :: "signum list \<Rightarrow> server_process \<Rightarrow> server_process" where
  "after_signals sigs s =
     (join_threads s)\<lparr>m_shutting_down := True, m_finalized := True,
       sv_os := (sv_os (join_threads s))\<lparr>os_events := os_events (sv_os s) @ flushes sigs @ [Ev_finalized]\<rparr>\<rparr>"

lemma wait_for_finalize_eq:
  "listening s \<Longrightarrow> \<not> m_shutting_down s \<Longrightarrow> \<not> m_finalized s \<Longrightarrow>
   wait_for_finalize sigs s =
     (if set sigs \<inter> stop_signals = {} \<or> \<not> joinable s then None else Some (after_signals sigs s))"
proof (induction sigs arbitrary: s)
  case Nil
  then show ?case by (simp add: wait_for_finalize.simps)
next
  case (Cons n sigs)
  show ?case
  proof (cases "n \<in> stop_signals")
    case True
    have "wait_for_finalize sigs (server_shutdown s) = (if joinable s then Some (server_shutdown s) else None)"
      using Cons.prems(3) by (subst wait_for_finalize.simps) simp
    with True Cons.prems show ?thesis
      by (subst wait_for_finalize.simps)
        (simp add: deliver_listening flushes_def server_shutdown_def after_signals_def emit_def joinable_def
          join_threads_def)
  next
    case False
    have d: "listening (deliver n s)" "\<not> m_shutting_down (deliver n s)" "\<not> m_finalized (deliver n s)"
      using Cons.prems False by (auto simp: deliver_listening listening_def)
    from Cons.IH [OF d] Cons.prems False show ?thesis
      by (subst wait_for_finalize.simps)
        (simp add: deliver_listening flushes_def after_signals_def emit_def joinable_def join_threads_def)
  qed
qed

lemma listening_installed:
  "m_signal_listener s = new_listener \<Longrightarrow> listening (emit e (install_signal_handlers s))"
  by (simp add: listening_def install_signal_handlers_def new_listener_def listener_run_def
      listener_do_accept_def listener_set_handler_def)

definition waiting :: "server_process \<Rightarrow> server_process" where
  "waiting s = emit Ev_waiting (install_signal_handlers s)"

lemma server_serve_eq:
  assumes "m_signal_listener s = new_listener" "\<not> m_shutting_down s" "\<not> m_finalized s"
  shows "server_serve w (waiting s) =
    (if set (sw_signals w) \<inter> stop_signals = {} \<or> \<not> joinable s then None
     else Some (server_teardown w (after_signals (sw_signals w) (waiting s)), EXIT_SUCCESS))"
proof -
  have "\<not> m_shutting_down (waiting s)" "\<not> m_finalized (waiting s)" "joinable (waiting s) = joinable s"
    using assms(2,3) by (simp_all add: waiting_def install_signal_handlers_def joinable_def)
  with listening_installed [OF assms(1), of Ev_waiting] show ?thesis
    by (simp add: server_serve_def wait_for_finalize_eq waiting_def)
qed

text \<open>A server in the foreground without a pid file.\<close>

lemma server_start_foreground:
  "\<not> m_daemonize s \<Longrightarrow> m_pidfile s = None \<Longrightarrow> server_start w s = Inr (waiting (emit Ev_logger_created s))"
  by (simp add: server_start_def Let_def server_pidfile_def waiting_def)

section \<open>What a server_process promises\<close>

text \<open>The events of a daemon up to its pid file.\<close>

definition daemon_events :: "server_event list" where
  "daemon_events =
     [Ev_logger_created, Ev_logger_destroyed, Ev_fork_prepare, Ev_logger_created, Ev_fork_child,
      Ev_new_session, Ev_stdio 0, Ev_stdio 1, Ev_stdio 2, Ev_umask, Ev_chdir, Ev_null_closed,
      Ev_ignored ''SIGCHLD'', Ev_ignored ''SIGTSTP'', Ev_ignored ''SIGTTOU'', Ev_ignored ''SIGTTIN'']"

definition system_works :: "server_world \<Rightarrow> bool" where
  "system_works w \<longleftrightarrow>
     sw_setsid w \<and> sw_dev_null w \<and> (\<forall>n. sw_dup2 w n) \<and> sw_chdir w \<and> (\<forall>f. sw_open w f) \<and> sw_write w \<and>
     sw_unlink w"

definition daemonized :: "server_world \<Rightarrow> server_process \<Rightarrow> server_process" where
  "daemonized w s =
     s\<lparr>sv_os := (sv_os s)\<lparr>os_pid := sw_child_pid w, os_threads := [''main''],
         os_events := os_events (sv_os s) @ tl daemon_events\<rparr>\<rparr>"

lemma server_daemonize_child:
  assumes "system_works w" "sw_getppid w \<noteq> 1" "sw_fork w = 0"
  shows "server_daemonize w s = Inr (daemonized w s, 0)"
  using assms
  by (simp add: server_daemonize_def Let_def system_works_def daemonized_def daemon_events_def emit_def)

lemma write_pidfile_works:
  assumes "sw_open w f" "sw_write w" "os_locks os f = None"
  shows "write_pidfile w f os =
    (os\<lparr>os_files := (os_files os)(f \<mapsto> nat_to_string (os_pid os) @
          drop (length (nat_to_string (os_pid os))) (case os_files os f of None \<Rightarrow> [] | Some c \<Rightarrow> c)),
        os_locks := (os_locks os)(f := None)\<rparr>, Inr ())"
  using assms by (simp add: write_pidfile_def Let_def)


definition removed_pidfile :: "string \<Rightarrow> server_process \<Rightarrow> server_process" where
  "removed_pidfile f s = s\<lparr>sv_os := (sv_os s)\<lparr>os_files := (os_files (sv_os s))(f := None)\<rparr>\<rparr>"

lemma daemon_pidfile:
  assumes "system_works w" "m_pidfile s = Some f" "os_locks (sv_os s) f = None"
  shows "\<exists>os. server_pidfile w s = Inr (emit Ev_pidfile (s\<lparr>sv_os := os\<rparr>)) \<and>
    os_events os = os_events (sv_os s) \<and> os_threads os = os_threads (sv_os s) \<and>
    os_pid os = os_pid (sv_os s)"
proof -
  define os where "os = fst (write_pidfile w f (sv_os s))"
  have w: "sw_open w f" "sw_write w" using assms(1) by (simp_all add: system_works_def)
  note works = write_pidfile_works [OF w assms(3)]
  have "write_pidfile w f (sv_os s) = (os, Inr ())" by (simp add: works os_def)
  then have "server_pidfile w s = Inr (emit Ev_pidfile (s\<lparr>sv_os := os\<rparr>))"
    using assms(2) by (simp add: server_pidfile_def)
  moreover have "os_events os = os_events (sv_os s)" "os_threads os = os_threads (sv_os s)"
    "os_pid os = os_pid (sv_os s)" by (simp_all add: works os_def)
  ultimately show ?thesis by blast
qed

lemma server_teardown_daemon:
  assumes "system_works w" "m_daemonize s" "m_pidfile s = Some f"
  shows "os_events (sv_os (server_teardown w s)) = os_events (sv_os s) @ [Ev_listener_stopped, Ev_pidfile_removed]"
    and "os_files (sv_os (server_teardown w s)) f = None"
    and "os_threads (sv_os (server_teardown w s)) = os_threads (sv_os s)"
    and "m_shutting_down (server_teardown w s) = m_shutting_down s"
    and "ls_stopped (m_signal_listener (server_teardown w s))"
  using assms by (simp_all add: server_teardown_def Let_def system_works_def emit_def listener_stop_def)

lemma after_signals_simps [simp]:
  "os_events (sv_os (after_signals sigs s)) = os_events (sv_os s) @ flushes sigs @ [Ev_finalized]"
  "os_threads (sv_os (after_signals sigs s)) = filter (\<lambda>t. t \<notin> set (m_prefinalize s)) (os_threads (sv_os s))"
  "m_shutting_down (after_signals sigs s)" "m_daemonize (after_signals sigs s) = m_daemonize s"
  "m_pidfile (after_signals sigs s) = m_pidfile s"
  by (simp_all add: after_signals_def join_threads_def)

lemma waiting_simps [simp]:
  "os_events (sv_os (waiting s)) = os_events (sv_os s) @ [Ev_handlers, Ev_waiting]"
  "os_threads (sv_os (waiting s)) = os_threads (sv_os s)" "m_prefinalize (waiting s) = m_prefinalize s"
  "m_daemonize (waiting s) = m_daemonize s" "m_pidfile (waiting s) = m_pidfile s"
  by (simp_all add: waiting_def install_signal_handlers_def)

text \<open>A daemon whose system calls work: until it waits, and its whole run.\<close>

lemma daemon_start_eq:
  assumes w: "system_works w" "sw_getppid w \<noteq> 1" "sw_fork w = 0"
    and s: "m_daemonize s" "m_pidfile s = Some f" "m_signal_listener s = new_listener" "\<not> m_shutting_down s" "\<not> m_finalized s"
    and os: "os_locks (sv_os s) f = None" "os_events (sv_os s) = []"
  shows "\<exists>t. server_start w s = Inr (waiting t) \<and> m_signal_listener t = new_listener \<and> \<not> m_shutting_down t \<and>
    \<not> m_finalized t \<and> m_daemonize t \<and> m_pidfile t = Some f \<and> m_prefinalize t = m_prefinalize s \<and>
    os_threads (sv_os t) = [''main''] \<and> os_events (sv_os t) = daemon_events @ [Ev_pidfile]"
proof -
  let ?d = "daemonized w (emit Ev_logger_created s)"
  have d: "m_pidfile ?d = Some f" "os_locks (sv_os ?d) f = None" "os_threads (sv_os ?d) = [''main'']"
    "os_events (sv_os ?d) = daemon_events" "m_signal_listener ?d = new_listener" "\<not> m_shutting_down ?d"
    "m_daemonize ?d" "\<not> m_finalized ?d" "m_prefinalize ?d = m_prefinalize s"
    using s os by (simp_all add: daemonized_def daemon_events_def)
  obtain os' where p: "server_pidfile w ?d = Inr (emit Ev_pidfile (?d\<lparr>sv_os := os'\<rparr>))"
    "os_events os' = daemon_events" "os_threads os' = [''main'']"
    using daemon_pidfile [OF w(1) d(1,2)] d(3,4) by auto
  let ?p = "emit Ev_pidfile (?d\<lparr>sv_os := os'\<rparr>)"
  have "server_start w s = Inr (waiting ?p)"
    using s(1) p(1) by (simp add: server_start_def Let_def server_daemonize_child w waiting_def)
  with d p(2,3) show ?thesis by (intro exI [of _ ?p]) simp
qed

lemma daemon_run_eq:
  assumes w: "system_works w" "sw_getppid w \<noteq> 1" "sw_fork w = 0"
    and s: "m_daemonize s" "m_pidfile s = Some f" "m_signal_listener s = new_listener" "\<not> m_shutting_down s" "\<not> m_finalized s"
    and os: "os_locks (sv_os s) f = None" "os_events (sv_os s) = []"
  shows "if set (sw_signals w) \<inter> stop_signals = {} \<or> \<not> set (m_prefinalize s) \<subseteq> {''main''} then server_run w s = None
    else \<exists>t. server_run w s = Some (t, EXIT_SUCCESS) \<and> m_shutting_down t \<and> os_files (sv_os t) f = None \<and>
      ls_stopped (m_signal_listener t) \<and>
      os_events (sv_os t) = daemon_events @ [Ev_pidfile, Ev_handlers, Ev_waiting] @ flushes (sw_signals w) @
        [Ev_finalized, Ev_listener_stopped, Ev_pidfile_removed]"
proof -
  obtain t where t: "server_start w s = Inr (waiting t)" "m_signal_listener t = new_listener" "\<not> m_shutting_down t"
    "\<not> m_finalized t" "m_daemonize t" "m_pidfile t = Some f" "m_prefinalize t = m_prefinalize s"
    "os_threads (sv_os t) = [''main'']" "os_events (sv_os t) = daemon_events @ [Ev_pidfile]"
    using daemon_start_eq [OF w s os] by blast
  note serve = server_serve_eq [OF t(2,3,4), of w]
  let ?a = "after_signals (sw_signals w) (waiting t)"
  have a: "m_daemonize ?a" "m_pidfile ?a = Some f" using t(5,6) by simp_all
  show ?thesis
    using server_teardown_daemon [OF w(1) a] t(7-9)
    by (simp add: server_run_def t(1) serve joinable_def)
qed

text \<open>C23: A server that turns into a daemon, whose system calls work and which adds no callbacks of its own to
  its end, ends exactly when it gets SIGINT or SIGTERM, with success; other signals leave it waiting. By then it has done, in this order: forked, left its
  session, standard streams and directory, written its pid file, installed its signal handlers, and
  only then waited for requests; at the end its flag for the scheduler is set, its signal listener
  is stopped and its pid file is gone.\<close>

theorem daemon_life:
  assumes "system_works w" "sw_getppid w \<noteq> 1" "sw_fork w = 0" "os_events os = []"
    and "f = path_append rundir (name @ ''.pid'')" "os_locks os f = None"
    and "s = new_server name address True rundir asked os"
  shows "if set (sw_signals w) \<inter> {SIGINT, SIGTERM} = {} then server_run w s = None
    else \<exists>t. server_run w s = Some (t, EXIT_SUCCESS) \<and> m_shutting_down t \<and> os_files (sv_os t) f = None \<and>
      ls_stopped (m_signal_listener t) \<and>
      os_events (sv_os t) = daemon_events @ [Ev_pidfile, Ev_handlers, Ev_waiting] @ flushes (sw_signals w) @
        [Ev_finalized, Ev_listener_stopped, Ev_pidfile_removed]"
  using daemon_run_eq [OF assms(1,2,3), of s f] assms(4-7)
  by (auto simp: new_server_def stop_signals_def split: if_splits)

definition demo_server_world :: "signum list \<Rightarrow> server_world" where
  "demo_server_world sigs =
     \<lparr>sw_getppid = 5, sw_fork = 0, sw_child_pid = 99, sw_setsid = True, sw_dev_null = True, sw_dup2 = (\<lambda>_. True),
      sw_chdir = True, sw_open = (\<lambda>_. True), sw_write = True, sw_unlink = True, sw_signals = sigs\<rparr>"

definition demo_os :: server_os where
  "demo_os =
     \<lparr>os_files = (\<lambda>_. None), os_locks = (\<lambda>_. None), os_pid = 7, os_threads = [''main''], os_events = []\<rparr>"

lemma demo_server_world_simps [simp]:
  "system_works (demo_server_world sigs)" "sw_getppid (demo_server_world sigs) = 5"
  "sw_fork (demo_server_world sigs) = 0" "sw_signals (demo_server_world sigs) = sigs"
  "sw_open (demo_server_world sigs) f" "sw_write (demo_server_world sigs)"
  "os_events demo_os = []" "os_locks demo_os f = None" "os_pid demo_os = 7" "os_files demo_os f = None"
  by (simp_all add: demo_server_world_def system_works_def demo_os_def)

theorem daemon_life_witness:
  "\<exists>t. server_run (demo_server_world [SIGHUP, SIGTERM]) (new_server ''scord'' ''a'' True ''/run'' None demo_os) =
      Some (t, EXIT_SUCCESS) \<and> os_files (sv_os t) (path_append ''/run'' (''scord'' @ ''.pid'')) = None"
  using daemon_life [of "demo_server_world [SIGHUP, SIGTERM]" demo_os, OF _ _ _ _ refl _ refl,
      of "''/run''" "''scord''" "''a''" None] by auto

text \<open>The lock on the pid file is gone as soon as the file is closed: after one
  process has written it, another one writes it too, so a second instance is never noticed. The
  file is not truncated: when the new number is shorter, it ends with digits of the old one.\<close>

lemma pidfile_does_not_exclude:
  assumes "write_pidfile w f os = (os1, Inr ())" "sw_open w' f" "sw_write w'"
  shows "\<exists>os2. write_pidfile w' f (os1\<lparr>os_pid := q\<rparr>) = (os2, Inr ()) \<and>
    (\<exists>old. os_files os1 f = Some old \<and>
       os_files os2 f = Some (nat_to_string q @ drop (length (nat_to_string q)) old))"
proof -
  have "os_locks os1 f = None" "\<exists>old. os_files os1 f = Some old"
    using assms(1) by (auto simp: write_pidfile_def Let_def split: if_splits)
  with assms(2,3) show ?thesis by (auto simp: write_pidfile_works)
qed

text \<open>C24: The thread of the scheduler is made by the constructor of the server, before
  \<open>run\<close> forks. When the server has come to wait for requests, with its signal handlers installed, a daemon does not have
  that thread, and a server in the foreground does; so that the shutdown, which a signal to stop asks for, brings the
  network engine to its end in the foreground only.\<close>

theorem daemon_loses_scheduler:
  assumes "system_works w" "sw_getppid w \<noteq> 1" "sw_fork w = 0" "os_events os = []"
    and "\<And>f. os_locks os f = None"
  shows "\<exists>t. server_start w (scord_server name address daemonize rundir os) = Inr t \<and> listening t \<and>
    (''scheduler'' \<in> set (os_threads (sv_os t)) \<longleftrightarrow> \<not> daemonize) \<and>
    (\<forall>n \<in> {SIGINT, SIGTERM}. m_shutting_down (deliver n t) \<and> (m_finalized (deliver n t) \<longleftrightarrow> \<not> daemonize))"
proof -
  let ?s = "scord_server name address daemonize rundir os"
  have s: "m_daemonize ?s = daemonize" "m_signal_listener ?s = new_listener" "\<not> m_shutting_down ?s" "\<not> m_finalized ?s"
    "os_events (sv_os ?s) = []" "\<And>f. os_locks (sv_os ?s) f = None" "m_prefinalize ?s = [''scheduler'']"
    "m_pidfile ?s = (if daemonize then Some (path_append rundir (name @ ''.pid'')) else None)"
    "''scheduler'' \<in> set (os_threads (sv_os ?s))"
    using assms(4,5) by (simp_all add: scord_server_def new_server_def)
  have "\<exists>t. server_start w ?s = Inr (waiting t) \<and> m_signal_listener t = new_listener \<and> \<not> m_finalized t \<and>
      m_prefinalize t = [''scheduler''] \<and> (''scheduler'' \<in> set (os_threads (sv_os t)) \<longleftrightarrow> \<not> daemonize)"
  proof (cases daemonize)
    case True
    have d: "m_daemonize ?s" "m_pidfile ?s = Some (path_append rundir (name @ ''.pid''))" using True s(1,8) by simp_all
    obtain t where "server_start w ?s = Inr (waiting t)" "m_signal_listener t = new_listener" "\<not> m_finalized t"
      "m_prefinalize t = [''scheduler'']" "os_threads (sv_os t) = [''main'']"
      using daemon_start_eq [OF assms(1-3) d s(2,3,4,6,5)] s(7) by auto
    with True show ?thesis by auto
  next
    case False
    then have d: "\<not> m_daemonize ?s" "m_pidfile ?s = None" using s(1,8) by simp_all
    from server_start_foreground [OF d, of w] s False show ?thesis by auto
  qed
  then obtain t where t: "server_start w ?s = Inr (waiting t)" "m_signal_listener t = new_listener" "\<not> m_finalized t"
      "m_prefinalize t = [''scheduler'']" "''scheduler'' \<in> set (os_threads (sv_os t)) \<longleftrightarrow> \<not> daemonize"
    by blast
  have l: "listening (waiting t)" unfolding waiting_def by (rule listening_installed [OF t(2)])
  moreover have "\<not> m_finalized (waiting t)" using t(3) by (simp add: waiting_def install_signal_handlers_def)
  moreover have "joinable (waiting t) \<longleftrightarrow> \<not> daemonize" using t(4,5) by (simp add: joinable_def)
  ultimately show ?thesis using t(1,5) by (auto simp: deliver_listening stop_signals_def)
qed

theorem daemon_loses_scheduler_witness:
  "\<exists>t. server_start (demo_server_world []) (scord_server ''scord'' ''a'' True ''/run'' demo_os) = Inr t \<and>
     ''scheduler'' \<notin> set (os_threads (sv_os t)) \<and> \<not> m_finalized (deliver SIGTERM t)"
  using daemon_loses_scheduler [of "demo_server_world []" demo_os "''scord''" "''a''" True "''/run''"] by auto

end
