(* ===== verification/Startup.thy ===== *)
theory Startup
  imports Server Scord
begin

text \<open>
  The main programs of the two daemons (\<open>src/src/scord/scord.cpp\<close>, \<open>src/src/scord-ctl/scord_ctl.cpp\<close>): the
  reading of the daemon's configuration file for the CLI11 library, and what \<open>main\<close> does once that library has
  filled the structure of the arguments.
\<close>

section \<open>The configuration file of the daemon\<close>

text \<open>
  A node of the tree that the ryml library parses: a map whose entries may have a key, a sequence, a scalar, or
  none of them (an empty document). What the CLI11 library gets is a list of items.
\<close>

datatype yaml_node =
  Node_map "(string option \<times> yaml_node) list"
| Node_seq "yaml_node list"
| Node_val string
| Node_none

record config_item =
  item_parents :: "string list"
  item_name :: string
  item_inputs :: "string list"

fun node_val :: "yaml_node \<Rightarrow> string option" where
  "node_val (Node_val v) = Some v"
| "node_val _ = None"

definition key_name :: "string option \<Rightarrow> string" where
  "key_name k = (case k of None \<Rightarrow> [] | Some k \<Rightarrow> k)"

definition conversion_error :: string where
  "conversion_error = ''Missing name''"

fun parse_node :: "yaml_node \<Rightarrow> string \<Rightarrow> string list \<Rightarrow> string + config_item list"
and parse_entries :: "(string option \<times> yaml_node) list \<Rightarrow> string \<Rightarrow> string list \<Rightarrow> string + config_item list" where
  "parse_node (Node_map cs) parent_name prefix = parse_entries cs parent_name prefix"
| "parse_node (Node_seq ns) parent_name prefix =
     (if parent_name \<noteq> []
      then Inr [\<lparr>item_parents = prefix, item_name = parent_name, item_inputs = List.map_filter node_val ns\<rparr>]
      else Inl conversion_error)"
| "parse_node (Node_val v) parent_name prefix =
     (if parent_name \<noteq> [] then Inr [\<lparr>item_parents = prefix, item_name = parent_name, item_inputs = [v]\<rparr>]
      else Inl conversion_error)"
| "parse_node Node_none parent_name prefix = Inl conversion_error"
| "parse_entries [] parent_name prefix = Inr []"
| "parse_entries ((k, c) # cs) parent_name prefix =
     bind_sum (parse_node c (key_name k) (if parent_name \<noteq> [] then prefix @ [parent_name] else prefix)) (\<lambda>sub_results.
     bind_sum (parse_entries cs parent_name prefix) (\<lambda>results.
       Inr (sub_results @ results)))"

definition from_config :: "yaml_node \<Rightarrow> string + config_item list" where
  "from_config tree = parse_node tree [] []"

text \<open>
  The settings of a node: for every leaf, the keys on the way to it, and its values. Levels without a name do not
  count; a sequence keeps only its scalars.
\<close>

fun settings_of :: "yaml_node \<Rightarrow> (string list \<times> string list) list"
and entry_settings :: "(string option \<times> yaml_node) list \<Rightarrow> (string list \<times> string list) list" where
  "settings_of (Node_map cs) = entry_settings cs"
| "settings_of (Node_seq ns) = [([], List.map_filter node_val ns)]"
| "settings_of (Node_val v) = [([], [v])]"
| "settings_of Node_none = []"
| "entry_settings [] = []"
| "entry_settings ((k, c) # cs) =
     map (\<lambda>(path, vs). (if key_name k = [] then path else key_name k # path, vs)) (settings_of c) @ entry_settings cs"

text \<open>Every leaf has a name of its own, and none is neither a scalar nor a sequence.\<close>

fun named_leaves :: "yaml_node \<Rightarrow> bool \<Rightarrow> bool"
and named_entries :: "(string option \<times> yaml_node) list \<Rightarrow> bool" where
  "named_leaves (Node_map cs) named = named_entries cs"
| "named_leaves (Node_seq ns) named = named"
| "named_leaves (Node_val v) named = named"
| "named_leaves Node_none named = False"
| "named_entries [] = True"
| "named_entries ((k, c) # cs) = (named_leaves c (key_name k \<noteq> []) \<and> named_entries cs)"

definition item_of :: "string list \<times> string list \<Rightarrow> config_item" where
  "item_of s = \<lparr>item_parents = butlast (fst s), item_name = last (fst s), item_inputs = snd s\<rparr>"

text \<open>A setting below a level: its path starts with the levels above.\<close>

definition below :: "string \<Rightarrow> string list \<Rightarrow> string list \<times> string list \<Rightarrow> string list \<times> string list" where
  "below parent prefix s = (prefix @ (if parent = [] then [] else [parent]) @ fst s, snd s)"

lemma below_entry:
  "below parent prefix (if key_name k = [] then path else key_name k # path, vs) =
   below (key_name k) (if parent \<noteq> [] then prefix @ [parent] else prefix) (path, vs)"
  by (simp add: below_def)

lemma parse_node_settings:
  "parse_node n parent prefix =
     (if named_leaves n (parent \<noteq> []) then Inr (map (item_of \<circ> below parent prefix) (settings_of n))
      else Inl conversion_error)"
  "parse_entries cs parent prefix =
     (if named_entries cs then Inr (map (item_of \<circ> below parent prefix) (entry_settings cs))
      else Inl conversion_error)"
proof (induction n parent prefix and cs parent prefix rule: parse_node_parse_entries.induct)
  case (6 k c cs parent prefix)
  then show ?case
    by (simp add: comp_def case_prod_unfold below_entry [unfolded below_def] below_def)
qed (simp_all add: item_of_def below_def)

text \<open>C28: the daemon's configuration file is accepted exactly when every leaf of it has a name; then
  the library gets one item for every leaf, in the order of the file, with the named levels above it as parents,
  its own name, and its scalars as values.\<close>

theorem daemon_config_read:
  "from_config n =
     (if named_leaves n False
      then Inr (map (\<lambda>(path, vs). \<lparr>item_parents = butlast path, item_name = last path, item_inputs = vs\<rparr>) (settings_of n))
      else Inl ''Missing name'')"
  by (simp add: from_config_def parse_node_settings comp_def below_def item_of_def conversion_error_def
      case_prod_unfold)

text \<open>The file that is installed with the daemon.\<close>

definition installed_config :: "string \<Rightarrow> string \<Rightarrow> string \<Rightarrow> string \<Rightarrow> yaml_node" where
  "installed_config logfile rundir address redis =
     Node_map [(Some ''global_settings'', Node_map
       [(Some ''logfile'', Node_val logfile), (Some ''rundir'', Node_val rundir),
        (Some ''address'', Node_val address), (Some ''redisaddress'', Node_val redis)])]"

lemma installed_config_items:
  "from_config (installed_config l r a d) =
     Inr (map (\<lambda>(n, v). \<lparr>item_parents = [''global_settings''], item_name = n, item_inputs = [v]\<rparr>)
       [(''logfile'', l), (''rundir'', r), (''address'', a), (''redisaddress'', d)])"
  by (simp add: installed_config_def from_config_def key_name_def)

section \<open>The daemon\<close>

text \<open>
  What \<open>main\<close> meets: the system as far as a server process goes, the network engine (an exception of its
  constructor or its being there), the current directory or the exception of asking for it, and the Redis servers
  that can be reached and those that answer.
\<close>

record startup_world =
  up_system :: server_world
  up_engine :: "string \<Rightarrow> string + unit"
  up_current_path :: "string + string"
  up_redis :: "string \<Rightarrow> bool"
  up_redis_answers :: "string \<Rightarrow> bool"

text \<open>The arguments, apart from those for the logger.\<close>

record scord_args =
  arg_foreground :: bool
  arg_rundir :: "string option"
  arg_address :: "string option"
  arg_redis_address :: "string option"

text \<open>How a main program ends: the system, what it wrote to the standard error stream, and its exit code.\<close>

record main_result =
  main_os :: server_os
  main_stderr :: string
  main_exit :: exit_code

text \<open>
  The object of the server: the process, with the thread of the scheduler, and the tables. The base class comes
  first, so that no thread is made without a network engine.
\<close>

definition construct_server ::
  "startup_world \<Rightarrow> string \<Rightarrow> scord_args \<Rightarrow> server_os \<Rightarrow> cpp_error + server_process" where
  "construct_server w progname args os =
     (case arg_address args of
        None \<Rightarrow> Inl Undefined_behaviour
      | Some address \<Rightarrow>
          case arg_redis_address args of
            None \<Rightarrow> Inl Undefined_behaviour
          | Some _ \<Rightarrow>
              bind_sum (map_sum Runtime_error id (up_current_path w)) (\<lambda>cwd.
              bind_sum (map_sum Runtime_error id (up_engine w address)) (\<lambda>_.
                Inr (scord_server progname address (\<not> arg_foreground args)
                       (case arg_rundir args of Some d \<Rightarrow> d | None \<Rightarrow> cwd) os))))"

definition unhandled :: "string \<Rightarrow> string \<Rightarrow> string" where
  "unhandled progname what =
     progname @ '': error: an unhandled exception reached the top of main(), '' @ progname @ '' will exit:'' @
     [CHR 0x0A] @ ''  what():  '' @ what @ [CHR 0x0A]"

text \<open>
  \<open>None\<close> is a server that still waits for requests; with a result comes the state that the requests found at the
  start, when the server got that far.
\<close>

definition scord_main ::
  "startup_world \<Rightarrow> string \<Rightarrow> scord_args \<Rightarrow> server_os \<Rightarrow>
   cpp_error + 'h scord option \<times> main_result option" where
  "scord_main w progname args os =
     (if arg_address args = None
      then Inr (None, Some \<lparr>main_os = os,
             main_stderr = progname @ '': error: required option '' @ [CHR 0x27] @ ''address'' @ [CHR 0x27] @
               '' missing from configuration file'' @ [CHR 0x0A],
             main_exit = EXIT_FAILURE\<rparr>)
      else
        case construct_server w progname args os of
          Inl (Runtime_error what) \<Rightarrow>
            Inr (None, Some \<lparr>main_os = os, main_stderr = unhandled progname what, main_exit = EXIT_FAILURE\<rparr>)
        | Inl e \<Rightarrow> Inl e
        | Inr srv \<Rightarrow>
            (let redis = the (arg_redis_address args) in
            Inr (Some (init_redis (up_redis w redis) (up_redis_answers w redis) (initial_scord False)),
              map_option (\<lambda>(srv, code). \<lparr>main_os = sv_os srv, main_stderr = [], main_exit = code\<rparr>)
                (server_run (up_system w) srv))))"

lemma init_redis_initial: "init_redis c a (initial_scord r) = initial_scord (c \<and> a)"
  by (simp add: init_redis_def initial_scord_def)

lemma foreground_run:
  assumes "m_signal_listener s = new_listener" "\<not> m_shutting_down s" "\<not> m_finalized s" "joinable s"
    and "\<not> m_daemonize s" "m_pidfile s = None"
  shows "if set (sw_signals w) \<inter> stop_signals = {} then server_run w s = None else \<exists>t. server_run w s = Some (t, EXIT_SUCCESS)"
proof -
  let ?s = "emit Ev_logger_created s"
  have s: "m_signal_listener ?s = new_listener" "\<not> m_shutting_down ?s" "\<not> m_finalized ?s" "joinable ?s"
    using assms by (simp_all add: joinable_def)
  from server_serve_eq [OF s(1-3), of w] s(4) show ?thesis
    by (simp add: server_run_def server_start_foreground [OF assms(5,6)])
qed

lemma parent_run:
  assumes "m_daemonize s" "sw_getppid w \<noteq> 1" "0 < sw_fork w" "joinable s"
  shows "\<exists>t. server_run w s = Some (t, EXIT_SUCCESS)"
  using assms by (simp add: server_run_def server_start_def Let_def server_daemonize_def joinable_def)

text \<open>C25: \<open>main\<close> of the daemon fails with a message when there is no address, and its behaviour is
  undefined when there is no Redis address. Otherwise it starts from the initial tables, with Redis when it can be
  reached and answers, and: in the foreground it exits with success exactly when it gets SIGINT or SIGTERM; in the background
  the parent exits with success, and the child never exits, whatever signals it gets, because it waits for a
  thread of the scheduler that only its parent has.\<close>

theorem scord_main_outcome:
  assumes sys: "system_works (up_system w)" "sw_getppid (up_system w) \<noteq> 1" "0 \<le> sw_fork (up_system w)"
    and os: "os_events os = []" "\<And>f. os_locks os f = None"
    and env: "up_current_path w = Inr cwd" "\<And>a. arg_address args = Some a \<Longrightarrow> up_engine w a = Inr ()"
  shows "case (arg_address args, arg_redis_address args) of
      (None, _) \<Rightarrow> (\<exists>r. scord_main w p args os = Inr (None, Some r) \<and> main_exit r = EXIT_FAILURE \<and> main_os r = os \<and>
        main_stderr r \<noteq> [])
    | (Some _, None) \<Rightarrow> scord_main w p args os = Inl Undefined_behaviour
    | (Some _, Some d) \<Rightarrow>
        \<exists>end. scord_main w p args os = Inr (Some (initial_scord (up_redis w d \<and> up_redis_answers w d)), end) \<and>
          (end = None \<longleftrightarrow>
             (if arg_foreground args then set (sw_signals (up_system w)) \<inter> {SIGINT, SIGTERM} = {}
              else sw_fork (up_system w) = 0)) \<and>
          (\<forall>r. end = Some r \<longrightarrow> main_exit r = EXIT_SUCCESS)"
proof (cases "arg_address args")
  case None
  then show ?thesis by (simp add: scord_main_def)
next
  case (Some a)
  note addr = this
  show ?thesis
  proof (cases "arg_redis_address args")
    case None
    then show ?thesis by (simp add: scord_main_def construct_server_def addr)
  next
    case (Some d)
    let ?w = "up_system w" and ?dir = "case arg_rundir args of Some d \<Rightarrow> d | None \<Rightarrow> cwd"
    let ?s = "scord_server p a (\<not> arg_foreground args) ?dir os"
    have main: "scord_main w p args os = Inr (Some (initial_scord (up_redis w d \<and> up_redis_answers w d)),
        map_option (\<lambda>(srv, code). \<lparr>main_os = sv_os srv, main_stderr = [], main_exit = code\<rparr>) (server_run ?w ?s))"
      using env(1) env(2) [OF addr] addr Some by (simp add: scord_main_def construct_server_def init_redis_initial Let_def)
    have s: "m_signal_listener ?s = new_listener" "\<not> m_shutting_down ?s" "\<not> m_finalized ?s" "joinable ?s"
      "m_daemonize ?s \<longleftrightarrow> \<not> arg_foreground args" "os_events (sv_os ?s) = []" "\<And>f. os_locks (sv_os ?s) f = None"
      "m_pidfile ?s = (if arg_foreground args then None else Some (path_append ?dir (p @ ''.pid'')))"
      "m_prefinalize ?s = [''scheduler'']"
      using os by (simp_all add: scord_server_def new_server_def joinable_def)
    have "(server_run ?w ?s = None \<longleftrightarrow>
          (if arg_foreground args then set (sw_signals ?w) \<inter> stop_signals = {} else sw_fork ?w = 0)) \<and>
        (\<forall>t code. server_run ?w ?s = Some (t, code) \<longrightarrow> code = EXIT_SUCCESS)"
    proof (cases "arg_foreground args")
      case True
      with foreground_run [OF s(1-4), of ?w] s(5,8) show ?thesis by (auto split: if_splits)
    next
      case False
      then have d: "m_daemonize ?s" "m_pidfile ?s = Some (path_append ?dir (p @ ''.pid''))" using s(5,8) by simp_all
      show ?thesis
      proof (cases "sw_fork ?w = 0")
        case True
        from daemon_run_eq [OF sys(1,2) True d s(1,2,3,7,6)] s(9) True False show ?thesis by (auto split: if_splits)
      next
        case False
        then obtain t where "server_run ?w ?s = Some (t, EXIT_SUCCESS)"
          using parent_run [OF d(1) sys(2) _ s(4)] sys(3) by auto
        with False \<open>\<not> arg_foreground args\<close> show ?thesis by simp
      qed
    qed
    with main addr Some show ?thesis by (auto simp: stop_signals_def)
  qed
qed

definition demo_startup :: "signum list \<Rightarrow> startup_world" where
  "demo_startup sigs =
     \<lparr>up_system = demo_server_world sigs, up_engine = (\<lambda>_. Inr ()), up_current_path = Inr ''/'', up_redis = (\<lambda>_. True),
      up_redis_answers = (\<lambda>_. True)\<rparr>"

definition demo_args :: scord_args where
  "demo_args =
     \<lparr>arg_foreground = False, arg_rundir = Some ''/run'', arg_address = Some ''a'', arg_redis_address = Some ''r''\<rparr>"

theorem scord_main_outcome_witness:
  "scord_main (demo_startup [SIGHUP, SIGTERM]) ''scord'' demo_args demo_os =
     Inr (Some (initial_scord True :: nat scord), None)"
  using scord_main_outcome [of "demo_startup [SIGHUP, SIGTERM]" demo_os "''/''" demo_args "''scord''"]
  by (simp add: demo_startup_def demo_args_def)

section \<open>The controller\<close>

text \<open>
  \<open>scord-ctl\<close> loads its configuration first (\<open>config\<close> is what the constructor of \<open>config_file\<close> gives) and runs in the foreground. A
  runtime error has another message than the other exceptions, whose texts are not known here.
\<close>

definition ctl_unhandled :: "string \<Rightarrow> string \<Rightarrow> string" where
  "ctl_unhandled progname what =
     ''An unhandled exception reached the top of main(), '' @ progname @ '' will exit:'' @ [CHR 0x0A] @
     ''  what():  '' @ what @ [CHR 0x0A]"

definition scord_ctl_main ::
  "startup_world \<Rightarrow> string \<Rightarrow> string \<Rightarrow> string option \<Rightarrow> cpp_error + adhoc_storage_config_map \<Rightarrow> ctl_state \<Rightarrow> server_os \<Rightarrow>
   cpp_error + ctl_state option \<times> main_result option" where
  "scord_ctl_main w progname address pidfile config s os =
     (let failed = (\<lambda>err. Inr (None, Some \<lparr>main_os = os, main_stderr = err, main_exit = EXIT_FAILURE\<rparr>))
      in case config of
           Inl (Runtime_error what) \<Rightarrow> failed (''ERROR: '' @ what @ [CHR 0x0A])
         | Inl e \<Rightarrow>
             if is_exception e
             then failed (ctl_unhandled progname [])
             else Inl e
         | Inr m \<Rightarrow>
             case up_current_path w of
               Inl what \<Rightarrow> failed (''ERROR: '' @ what @ [CHR 0x0A])
             | Inr cwd \<Rightarrow>
             case up_engine w address of
               Inl what \<Rightarrow> failed (ctl_unhandled progname what)
             | Inr _ \<Rightarrow>
                 Inr (Some (set_config (Some m) s),
                   map_option (\<lambda>(srv, code). \<lparr>main_os = sv_os srv, main_stderr = [], main_exit = code\<rparr>)
                     (server_run (up_system w) (new_server progname address False cwd pidfile os))))"

text \<open>The controller serves requests only with a configuration all of whose commands can be run.\<close>

lemma scord_ctl_main_config:
  assumes "scord_ctl_main w p a f (load_config c parse path content) s os = Inr (Some t, r)"
  shows "\<exists>m. load_config c parse path content = Inr m \<and> config_ok c m \<and> t = set_config (Some m) s"
proof (cases "load_config c parse path content")
  case (Inl e)
  with assms show ?thesis by (cases e) (simp_all add: scord_ctl_main_def Let_def)
next
  case (Inr m)
  with assms have "t = set_config (Some m) s" by (auto simp: scord_ctl_main_def Let_def split: sum.splits)
  moreover have "config_ok c m"
    using Inr load_root_ok by (fastforce simp: load_config_def split: option.splits)
  ultimately show ?thesis using Inr by simp
qed

text \<open>Started with a configuration, it answers until it gets SIGINT or SIGTERM.\<close>

lemma scord_ctl_main_run:
  assumes "config = Inr m" "up_current_path w = Inr cwd" "up_engine w a = Inr ()"
  shows "\<exists>end. scord_ctl_main w p a None config s os = Inr (Some (set_config (Some m) s), end) \<and>
    (end = None \<longleftrightarrow> set (sw_signals (up_system w)) \<inter> {SIGINT, SIGTERM} = {}) \<and>
    (\<forall>r. end = Some r \<longrightarrow> main_exit r = EXIT_SUCCESS)"
proof -
  let ?s = "new_server p a False cwd None os"
  let ?e = "emit Ev_logger_created ?s"
  have s: "m_signal_listener ?e = new_listener" "\<not> m_shutting_down ?e" "\<not> m_finalized ?e" "joinable ?e"
    by (simp_all add: new_server_def joinable_def)
  have d: "\<not> m_daemonize ?s" "m_pidfile ?s = None" by (simp_all add: new_server_def)
  have "server_run (up_system w) ?s = server_serve (up_system w) (waiting ?e)"
    by (simp add: server_run_def server_start_foreground [OF d])
  with server_serve_eq [OF s(1-3), of "up_system w"] s(4) assms show ?thesis
    by (auto simp: scord_ctl_main_def stop_signals_def)
qed

end
