(* ===== verification/CHeap.thy ===== *)
theory CHeap
  imports CTypes
begin

text \<open>
  The memory of the C side of the library (\<open>src/src/lib/types.c\<close>, \<open>types_private.h\<close>): a heap of blocks, each an
  array of bytes or of structures; pointers; the functions of the C library the code calls (\<open>malloc\<close>,
  \<open>calloc\<close>, \<open>free\<close>, \<open>strlen\<close>, \<open>strcpy\<close>, \<open>strncpy\<close>, assignment of structures); and the ways in which an
  access is undefined. An allocation may fail: the heap says which of the coming ones do.
\<close>

named_theorems heap_simps "reading the heap after the operations on it"

section \<open>Pointers, structures and blocks\<close>

text \<open>A pointer is null or points to element \<open>i\<close> of block \<open>b\<close>; element 0 is where the block starts.\<close>

datatype ptr = Null | At nat nat

text \<open>
  The structures of \<open>types_private.h\<close>, their members in order. A member is \<open>None\<close> as long as it holds the
  indeterminate value that \<open>malloc\<close> leaves. The union of an entity keeps the member last written.
\<close>

datatype entity_ref =
    Ref_node ptr
  | Ref_job ptr
  | Ref_dataset ptr
  | Ref_transfer ptr

datatype cstruct =
    S_server "ptr option" "ptr option"
  | S_node "ptr option" "nat option"
  | S_dataset "ptr option"
  | S_dataset_route "ptr option" "ptr option"
  | S_job "u64 option" "u64 option"
  | S_qos_entity "nat option" "entity_ref option"
  | S_qos_limit "ptr option" "nat option" "u64 option"
  | S_transfer "u64 option"
  | S_transfer_status "nat option" "nat option"
  | S_dataset_info "u32 option"
  | S_adhoc_context "ptr option" "ptr option" "nat option" "nat option" "u32 option" "bool option"
  | S_pfs_context "ptr option"
  | S_adhoc_storage "ptr option" "nat option" "u64 option" "ptr option" "ptr option"
  | S_pfs_storage "ptr option" "nat option" "u64 option" "ptr option"
  | S_adhoc_resources "ptr option"
  | S_data_operation "u32 option"
  | S_job_requirements "ptr option" "ptr option" "ptr option" "ptr option"
  | S_job_resources "ptr option"
  | S_dataset_list "ptr option" "nat option"
  | S_dataset_route_list "ptr option" "nat option"
  | S_qos_limit_list "ptr option" "nat option"
  | S_node_list "ptr option" "nat option"

datatype block =
    Bytes "char list"
  | Structs "cstruct list"

datatype cell = Live block | Freed

text \<open>
  \<open>h_oom\<close> answers the coming allocations, \<open>True\<close> for failure; when it is used up, all succeed.
  \<open>h_zero_null\<close> is what the C standard leaves to the implementation: whether an allocation of no bytes
  returns a null pointer.
\<close>

record heap =
  h_cells :: "cell list"
  h_oom :: "bool list"
  h_zero_null :: bool

text \<open>What a program can do wrong. \<open>Assertion_failed\<close> is a failed \<open>assert\<close>, which aborts the process.\<close>

datatype c_fault =
    Null_pointer
  | Dangling_pointer
  | Beyond_end
  | Wrong_type
  | Indeterminate_value
  | Invalid_free
  | Assertion_failed

section \<open>Statements\<close>

text \<open>A C function takes the heap to a fault, or to its result and the heap it leaves.\<close>

type_synonym 'a c = "heap \<Rightarrow> c_fault + 'a \<times> heap"

definition ret :: "'a \<Rightarrow> 'a c" where
  "ret x h = Inr (x, h)"

definition fault :: "c_fault \<Rightarrow> 'a c" where
  "fault e h = Inl e"

definition seq :: "'a c \<Rightarrow> ('a \<Rightarrow> 'b c) \<Rightarrow> 'b c" where
  "seq m k h = (case m h of Inl e \<Rightarrow> Inl e | Inr (x, h') \<Rightarrow> k x h')"

text \<open>\<open>if(p) s\<close> for a statement \<open>s\<close>.\<close>

definition when_c :: "bool \<Rightarrow> unit c \<Rightarrow> unit c" where
  "when_c b m = (if b then m else ret ())"

text \<open>Using the value of a member.\<close>

definition val :: "'a option \<Rightarrow> 'a c" where
  "val v = (case v of None \<Rightarrow> fault Indeterminate_value | Some x \<Rightarrow> ret x)"

text \<open>\<open>for(i = 0; i < n; ++i) s\<close>, and the same with a body that may jump to the cleanup (\<open>False\<close>).\<close>

primrec for_c :: "nat list \<Rightarrow> (nat \<Rightarrow> unit c) \<Rightarrow> unit c" where
  "for_c [] s = ret ()"
| "for_c (i # is) s = seq (s i) (\<lambda>_. for_c is s)"

primrec for_goto :: "nat list \<Rightarrow> (nat \<Rightarrow> bool c) \<Rightarrow> bool c" where
  "for_goto [] s = ret True"
| "for_goto (i # is) s = seq (s i) (\<lambda>ok. if ok then for_goto is s else ret False)"

lemma ret_apply [simp]: "ret x h = Inr (x, h)"
  by (simp add: ret_def)

lemma fault_apply [simp]: "fault e h = Inl e"
  by (simp add: fault_def)

lemma seq_Inr [simp]: "m h = Inr (x, h') \<Longrightarrow> seq m k h = k x h'"
  by (simp add: seq_def)

lemma seq_Inl [simp]: "m h = Inl e \<Longrightarrow> seq m k h = Inl e"
  by (simp add: seq_def)

lemma when_c_simps [simp]: "when_c True m = m" "when_c False m = ret ()"
  by (simp_all add: when_c_def)

lemma val_Some [simp]: "val (Some x) = ret x"
  by (simp add: val_def)

lemma val_None [simp]: "val None = fault Indeterminate_value"
  by (simp add: val_def)

section \<open>Memory\<close>

definition cell :: "heap \<Rightarrow> nat \<Rightarrow> cell" where
  "cell h b = (if b < length (h_cells h) then h_cells h ! b else Freed)"

definition live :: "heap \<Rightarrow> nat \<Rightarrow> bool" where
  "live h b \<longleftrightarrow> cell h b \<noteq> Freed"

definition next_block :: "heap \<Rightarrow> nat" where
  "next_block h = length (h_cells h)"

text \<open>\<open>place\<close>: new blocks in a row; \<open>release\<close>: blocks given back; \<open>put\<close>: a block overwritten.\<close>

definition place :: "block list \<Rightarrow> heap \<Rightarrow> heap" where
  "place bs h = h\<lparr>h_cells := h_cells h @ map Live bs\<rparr>"

definition release :: "nat list \<Rightarrow> heap \<Rightarrow> heap" where
  "release bs h =
     h\<lparr>h_cells := map (\<lambda>b. if b \<in> set bs then Freed else cell h b) [0..<length (h_cells h)]\<rparr>"

definition put :: "nat \<Rightarrow> block \<Rightarrow> heap \<Rightarrow> heap" where
  "put b x h = h\<lparr>h_cells := (h_cells h)[b := Live x]\<rparr>"

definition allocate :: "block \<Rightarrow> ptr c" where
  "allocate x h =
     (case h_oom h of
        True # r \<Rightarrow> Inr (Null, h\<lparr>h_oom := r\<rparr>)
      | False # r \<Rightarrow> Inr (At (next_block h) 0, place [x] (h\<lparr>h_oom := r\<rparr>))
      | [] \<Rightarrow> Inr (At (next_block h) 0, place [x] h))"

text \<open>\<open>malloc(sizeof(struct s))\<close> and \<open>calloc(1, sizeof(struct s))\<close>: the caller gives the members.\<close>

definition malloc_struct :: "cstruct \<Rightarrow> ptr c" where
  "malloc_struct s = allocate (Structs [s])"

text \<open>\<open>calloc(n, sizeof(struct s))\<close> and \<open>calloc(n, sizeof(char))\<close>.\<close>

definition calloc_structs :: "nat \<Rightarrow> cstruct \<Rightarrow> ptr c" where
  "calloc_structs n s h =
     (if n = 0 \<and> h_zero_null h then Inr (Null, h) else allocate (Structs (replicate n s)) h)"

definition calloc_bytes :: "nat \<Rightarrow> ptr c" where
  "calloc_bytes n h =
     (if n = 0 \<and> h_zero_null h then Inr (Null, h) else allocate (Bytes (replicate n (CHR 0x00))) h)"

definition free :: "ptr \<Rightarrow> unit c" where
  "free p h =
     (case p of
        Null \<Rightarrow> Inr ((), h)
      | At b i \<Rightarrow> if i = 0 \<and> live h b then Inr ((), release [b] h) else Inl Invalid_free)"

text \<open>\<open>*p\<close> for a pointer to a structure, and assignment to it.\<close>

definition load :: "ptr \<Rightarrow> cstruct c" where
  "load p h =
     (case p of
        Null \<Rightarrow> Inl Null_pointer
      | At b i \<Rightarrow>
          (case cell h b of
             Freed \<Rightarrow> Inl Dangling_pointer
           | Live (Bytes _) \<Rightarrow> Inl Wrong_type
           | Live (Structs xs) \<Rightarrow> if i < length xs then Inr (xs ! i, h) else Inl Beyond_end))"

definition store :: "ptr \<Rightarrow> cstruct \<Rightarrow> unit c" where
  "store p s h =
     (case p of
        Null \<Rightarrow> Inl Null_pointer
      | At b i \<Rightarrow>
          (case cell h b of
             Freed \<Rightarrow> Inl Dangling_pointer
           | Live (Bytes _) \<Rightarrow> Inl Wrong_type
           | Live (Structs xs) \<Rightarrow>
               if i < length xs then Inr ((), put b (Structs (xs[i := s])) h) else Inl Beyond_end))"

text \<open>\<open>&p[i]\<close>.\<close>

fun elem_ptr :: "ptr \<Rightarrow> nat \<Rightarrow> ptr" where
  "elem_ptr Null i = Null"
| "elem_ptr (At b j) i = At b (j + i)"

text \<open>\<open>a[i]\<close> of an array that the caller passes.\<close>

definition array_arg :: "'a list \<Rightarrow> nat \<Rightarrow> 'a c" where
  "array_arg xs i = (if i < length xs then ret (xs ! i) else fault Beyond_end)"

section \<open>Strings\<close>

text \<open>The characters a pointer leads to, up to the first NUL.\<close>

definition c_string :: "ptr \<Rightarrow> string c" where
  "c_string p h =
     (case p of
        Null \<Rightarrow> Inl Null_pointer
      | At b i \<Rightarrow>
          (case cell h b of
             Freed \<Rightarrow> Inl Dangling_pointer
           | Live (Structs _) \<Rightarrow> Inl Wrong_type
           | Live (Bytes cs) \<Rightarrow>
               if CHR 0x00 \<in> set (drop i cs) then Inr (takeWhile (\<lambda>c. c \<noteq> CHR 0x00) (drop i cs), h)
               else Inl Beyond_end))"

definition strlen :: "ptr \<Rightarrow> nat c" where
  "strlen p = seq (c_string p) (\<lambda>s. ret (length s))"

definition write_bytes :: "ptr \<Rightarrow> char list \<Rightarrow> unit c" where
  "write_bytes p ws h =
     (case p of
        Null \<Rightarrow> Inl Null_pointer
      | At b i \<Rightarrow>
          (case cell h b of
             Freed \<Rightarrow> Inl Dangling_pointer
           | Live (Structs _) \<Rightarrow> Inl Wrong_type
           | Live (Bytes cs) \<Rightarrow>
               if i + length ws \<le> length cs
               then Inr ((), put b (Bytes (take i cs @ ws @ drop (i + length ws) cs)) h)
               else Inl Beyond_end))"

definition strcpy :: "ptr \<Rightarrow> ptr \<Rightarrow> unit c" where
  "strcpy dst src = seq (c_string src) (\<lambda>s. write_bytes dst (s @ [CHR 0x00]))"

text \<open>\<open>strncpy\<close> writes exactly \<open>n\<close> characters: no NUL when the source has that many or more.\<close>

definition strncpy :: "ptr \<Rightarrow> ptr \<Rightarrow> nat \<Rightarrow> unit c" where
  "strncpy dst src n =
     seq (c_string src)
       (\<lambda>s. write_bytes dst (take n s @ replicate (n - length s) (CHR 0x00)))"

section \<open>Lemmas\<close>

lemma cell_place [heap_simps]:
  "cell (place bs h) b =
     (if next_block h \<le> b \<and> b < next_block h + length bs then Live (bs ! (b - next_block h)) else cell h b)"
  by (auto simp: cell_def place_def next_block_def nth_append)

lemma cell_release [heap_simps]: "cell (release bs h) b = (if b \<in> set bs then Freed else cell h b)"
  by (auto simp: cell_def release_def)

lemma cell_put [heap_simps]:
  "live h a \<Longrightarrow> cell (put a x h) b = (if b = a then Live x else cell h b)"
  by (auto simp: cell_def put_def live_def nth_list_update split: if_splits)

lemma live_below [intro]: "live h b \<Longrightarrow> b < next_block h"
  by (auto simp: live_def cell_def next_block_def split: if_splits)

lemma cell_LiveD: "cell h b = Live x \<Longrightarrow> live h b"
  by (simp add: live_def)

lemma cell_Live_below: "cell h b = Live x \<Longrightarrow> b < next_block h"
  by (auto dest: cell_LiveD)

lemma not_live_next [simp]: "\<not> live h (next_block h)"
  using live_below by blast

lemma live_release [heap_simps]: "live (release bs h) b \<longleftrightarrow> b \<notin> set bs \<and> live h b"
  by (simp add: live_def cell_release)

lemma next_block_simps [simp]:
  "next_block (place bs h) = next_block h + length bs"
  "next_block (release cs h) = next_block h"
  "next_block (put b x h) = next_block h"
  "next_block (h\<lparr>h_oom := os\<rparr>) = next_block h"
  by (simp_all add: next_block_def place_def release_def put_def)

lemma place_frame [simp]:
  "h_oom (place bs h) = h_oom h" "h_zero_null (place bs h) = h_zero_null h"
  "h_oom (release cs h) = h_oom h" "h_zero_null (release cs h) = h_zero_null h"
  "h_oom (put b x h) = h_oom h" "h_zero_null (put b x h) = h_zero_null h"
  by (simp_all add: place_def release_def put_def)

lemma place_place [simp]: "place cs (place bs h) = place (bs @ cs) h"
  by (simp add: place_def)

lemma place_Nil [simp]: "place [] h = h"
  by (simp add: place_def)

lemma cells_eqI:
  "next_block h = next_block h' \<Longrightarrow> (\<And>b. cell h b = cell h' b) \<Longrightarrow> h_oom h = h_oom h' \<Longrightarrow>
   h_zero_null h = h_zero_null h' \<Longrightarrow> h = (h' :: heap)"
proof -
  assume n: "next_block h = next_block h'" and c: "\<And>b. cell h b = cell h' b"
    and rest: "h_oom h = h_oom h'" "h_zero_null h = h_zero_null h'"
  have "h_cells h = h_cells h'"
  proof (rule nth_equalityI)
    show "length (h_cells h) = length (h_cells h')" using n by (simp add: next_block_def)
    show "h_cells h ! b = h_cells h' ! b" if "b < length (h_cells h)" for b
      using c [of b] n that by (simp add: cell_def next_block_def)
  qed
  with rest show ?thesis by simp
qed

lemma release_release [simp]: "release cs (release bs h) = release (bs @ cs) h"
  by (rule cells_eqI) (auto simp: cell_release)

lemma release_Nil [simp]: "release [] h = h"
  by (rule cells_eqI) (auto simp: cell_release)

lemma release_cong: "set bs = set cs \<Longrightarrow> release bs h = release cs h"
  by (rule cells_eqI) (auto simp: cell_release)

lemma put_place_new [simp]:
  "put (next_block h + i) x (place bs h) = place (bs[i := x]) h"
  by (simp add: put_def place_def next_block_def list_update_append map_update)

lemma put_place_first [simp]: "put (next_block h) x (place (y # bs) h) = place (x # bs) h"
  using put_place_new [of h 0 x "y # bs"] by simp

lemma free_live [simp]: "live h b \<Longrightarrow> free (At b 0) h = Inr ((), release [b] h)"
  by (simp add: free_def)

lemma free_Null [simp]: "free Null h = Inr ((), h)"
  by (simp add: free_def)

lemma free_freed: "\<not> live h b \<Longrightarrow> free (At b i) h = Inl Invalid_free"
  by (simp add: free_def)

lemma load_struct [simp]:
  "cell h b = Live (Structs xs) \<Longrightarrow> i < length xs \<Longrightarrow> load (At b i) h = Inr (xs ! i, h)"
  by (simp add: load_def)

lemma load_Null [simp]: "load Null h = Inl Null_pointer"
  by (simp add: load_def)

lemma load_freed: "\<not> live h b \<Longrightarrow> load (At b i) h = Inl Dangling_pointer"
  by (simp add: load_def live_def)

lemma store_struct [simp]:
  "cell h b = Live (Structs xs) \<Longrightarrow> i < length xs \<Longrightarrow>
   store (At b i) s h = Inr ((), put b (Structs (xs[i := s])) h)"
  by (simp add: store_def)

lemma load_InrD:
  "load p h = Inr (s, h') \<Longrightarrow>
     \<exists>b i xs. p = At b i \<and> cell h b = Live (Structs xs) \<and> i < length xs \<and> s = xs ! i \<and> h' = h"
  by (auto simp: load_def split: ptr.splits cell.splits block.splits if_splits)

lemma allocate_free_memory [simp]:
  "h_oom h = [] \<Longrightarrow> allocate x h = Inr (At (next_block h) 0, place [x] h)"
  by (simp add: allocate_def)

lemma allocate_fails [simp]: "h_oom h = True # r \<Longrightarrow> allocate x h = Inr (Null, h\<lparr>h_oom := r\<rparr>)"
  by (simp add: allocate_def)

lemma c_string_InrD:
  "c_string p h = Inr (s, h') \<Longrightarrow>
     h' = h \<and> CHR 0x00 \<notin> set s \<and>
     (\<exists>b i cs. p = At b i \<and> cell h b = Live (Bytes cs) \<and> s = takeWhile (\<lambda>c. c \<noteq> CHR 0x00) (drop i cs) \<and>
               CHR 0x00 \<in> set (drop i cs))"
  by (auto simp: c_string_def dest: set_takeWhileD split: ptr.splits cell.splits block.splits if_splits)

lemma c_string_bytes [simp]:
  "cell h b = Live (Bytes (s @ [CHR 0x00])) \<Longrightarrow> CHR 0x00 \<notin> set s \<Longrightarrow> c_string (At b 0) h = Inr (s, h)"
  by (auto simp: c_string_def takeWhile_tail takeWhile_eq_all_conv)

end
