(* ===== verification/CObjects.thy ===== *)
theory CObjects
  imports CHeap
begin

text \<open>
  The functions of \<open>src/src/lib/types.c\<close>, statement by statement over the heap of \<open>CHeap\<close>. A pointer result is
  null for failure. Calls to the logger have no effect on the memory and are left out. An argument
  \<open>T x[]\<close> is the list of its elements.
\<close>

section \<open>Members\<close>

definition server_at :: "ptr \<Rightarrow> (ptr option \<times> ptr option) c" where
  "server_at p = seq (load p) (\<lambda>s. case s of S_server a b \<Rightarrow> ret (a, b) | _ \<Rightarrow> fault Wrong_type)"

definition node_at :: "ptr \<Rightarrow> (ptr option \<times> nat option) c" where
  "node_at p = seq (load p) (\<lambda>s. case s of S_node a b \<Rightarrow> ret (a, b) | _ \<Rightarrow> fault Wrong_type)"

definition dataset_at :: "ptr \<Rightarrow> ptr option c" where
  "dataset_at p = seq (load p) (\<lambda>s. case s of S_dataset a \<Rightarrow> ret a | _ \<Rightarrow> fault Wrong_type)"

definition route_at :: "ptr \<Rightarrow> (ptr option \<times> ptr option) c" where
  "route_at p = seq (load p) (\<lambda>s. case s of S_dataset_route a b \<Rightarrow> ret (a, b) | _ \<Rightarrow> fault Wrong_type)"

definition limit_at :: "ptr \<Rightarrow> (ptr option \<times> nat option \<times> u64 option) c" where
  "limit_at p = seq (load p) (\<lambda>s. case s of S_qos_limit a b d \<Rightarrow> ret (a, b, d) | _ \<Rightarrow> fault Wrong_type)"

definition adhoc_storage_at ::
    "ptr \<Rightarrow> (ptr option \<times> nat option \<times> u64 option \<times> ptr option \<times> ptr option) c" where
  "adhoc_storage_at p =
     seq (load p)
       (\<lambda>s. case s of S_adhoc_storage a b d e f \<Rightarrow> ret (a, b, d, e, f) | _ \<Rightarrow> fault Wrong_type)"

definition pfs_storage_at :: "ptr \<Rightarrow> (ptr option \<times> nat option \<times> u64 option \<times> ptr option) c" where
  "pfs_storage_at p =
     seq (load p) (\<lambda>s. case s of S_pfs_storage a b d e \<Rightarrow> ret (a, b, d, e) | _ \<Rightarrow> fault Wrong_type)"

definition adhoc_resources_at :: "ptr \<Rightarrow> ptr option c" where
  "adhoc_resources_at p =
     seq (load p) (\<lambda>s. case s of S_adhoc_resources a \<Rightarrow> ret a | _ \<Rightarrow> fault Wrong_type)"

definition job_resources_at :: "ptr \<Rightarrow> ptr option c" where
  "job_resources_at p = seq (load p) (\<lambda>s. case s of S_job_resources a \<Rightarrow> ret a | _ \<Rightarrow> fault Wrong_type)"

definition requirements_at ::
    "ptr \<Rightarrow> (ptr option \<times> ptr option \<times> ptr option \<times> ptr option) c" where
  "requirements_at p =
     seq (load p) (\<lambda>s. case s of S_job_requirements a b d e \<Rightarrow> ret (a, b, d, e) | _ \<Rightarrow> fault Wrong_type)"

definition node_list_at :: "ptr \<Rightarrow> (ptr option \<times> nat option) c" where
  "node_list_at p = seq (load p) (\<lambda>s. case s of S_node_list a n \<Rightarrow> ret (a, n) | _ \<Rightarrow> fault Wrong_type)"

definition dataset_list_at :: "ptr \<Rightarrow> (ptr option \<times> nat option) c" where
  "dataset_list_at p =
     seq (load p) (\<lambda>s. case s of S_dataset_list a n \<Rightarrow> ret (a, n) | _ \<Rightarrow> fault Wrong_type)"

definition route_list_at :: "ptr \<Rightarrow> (ptr option \<times> nat option) c" where
  "route_list_at p =
     seq (load p) (\<lambda>s. case s of S_dataset_route_list a n \<Rightarrow> ret (a, n) | _ \<Rightarrow> fault Wrong_type)"

definition limit_list_at :: "ptr \<Rightarrow> (ptr option \<times> nat option) c" where
  "limit_list_at p =
     seq (load p) (\<lambda>s. case s of S_qos_limit_list a n \<Rightarrow> ret (a, n) | _ \<Rightarrow> fault Wrong_type)"

text \<open>
  A new copy of a string: \<open>n = strlen(s); x = calloc(n + 1, sizeof(char)); strcpy(x, s)\<close>. The result of
  \<open>calloc\<close> is not looked at, as in the code.
\<close>

definition dup_string :: "ptr \<Rightarrow> ptr c" where
  "dup_string s =
     seq (strlen s) (\<lambda>n.
     seq (calloc_bytes (n + 1)) (\<lambda>x.
     seq (strcpy x s) (\<lambda>_. ret x)))"

text \<open>\<open>if(!p) return ADM_EBADARGS; free(p); return ADM_SUCCESS;\<close>\<close>

definition free_object :: "ptr \<Rightarrow> adm_return c" where
  "free_object p = (if p = Null then ret ADM_EBADARGS else seq (free p) (\<lambda>_. ret ADM_SUCCESS))"

text \<open>\<open>if(p) free(p);\<close>\<close>

definition free_if :: "ptr \<Rightarrow> unit c" where
  "free_if p = when_c (p \<noteq> Null) (free p)"

text \<open>\<open>if(p) ADM_..._destroy(p);\<close>\<close>

definition destroy_if :: "(ptr \<Rightarrow> adm_return c) \<Rightarrow> ptr \<Rightarrow> unit c" where
  "destroy_if destroy p = when_c (p \<noteq> Null) (seq (destroy p) (\<lambda>_. ret ()))"

section \<open>Servers and nodes\<close>

definition ADM_server_create :: "ptr \<Rightarrow> ptr \<Rightarrow> ptr c" where
  "ADM_server_create protocol address =
     seq (malloc_struct (S_server None None)) (\<lambda>p.
     if p = Null then ret Null else
     seq (store p (S_server (Some protocol) None)) (\<lambda>_.
     seq (store p (S_server (Some protocol) (Some address))) (\<lambda>_. ret p)))"

definition ADM_server_destroy :: "ptr \<Rightarrow> adm_return c" where
  "ADM_server_destroy server = free_object server"

definition ADM_node_create :: "ptr \<Rightarrow> nat \<Rightarrow> ptr c" where
  "ADM_node_create host ty =
     seq (malloc_struct (S_node None None)) (\<lambda>p.
     if p = Null then ret Null else
     if host = Null then ret p else
     seq (dup_string host) (\<lambda>x.
     seq (store p (S_node (Some x) (Some ty))) (\<lambda>_. ret p)))"

definition ADM_node_get_hostname :: "ptr \<Rightarrow> ptr c" where
  "ADM_node_get_hostname node =
     (if node = Null then ret Null else seq (node_at node) (\<lambda>(host, ty). val host))"

text \<open>\<open>ADM_NODE_INVALID\<close> is the third constant of its enumeration.\<close>

definition ADM_node_get_type :: "ptr \<Rightarrow> nat c" where
  "ADM_node_get_type node =
     (if node = Null then ret (node_type_code (node_type_other 0))
      else seq (node_at node) (\<lambda>(host, ty). val ty))"

definition ADM_node_copy :: "ptr \<Rightarrow> ptr \<Rightarrow> ptr c" where
  "ADM_node_copy dst src =
     (if src = Null \<or> dst = Null then ret Null else
      seq (load src) (\<lambda>s.
      seq (store dst s) (\<lambda>_.
      seq (node_at src) (\<lambda>(host, _).
      seq (val host) (\<lambda>host.
      if host = Null then ret dst else
      seq (strlen host) (\<lambda>n.
      seq (calloc_bytes (n + 1)) (\<lambda>x.
      seq (node_at dst) (\<lambda>(_, ty).
      seq (store dst (S_node (Some x) ty)) (\<lambda>_.
      seq (node_at src) (\<lambda>(host, _).
      seq (val host) (\<lambda>host.
      seq (strncpy x host n) (\<lambda>_. ret dst))))))))))))"

definition ADM_node_destroy :: "ptr \<Rightarrow> adm_return c" where
  "ADM_node_destroy node =
     (if node = Null then ret ADM_EBADARGS else
      seq (node_at node) (\<lambda>(host, _).
      seq (val host) (\<lambda>host.
      seq (free_if host) (\<lambda>_.
      seq (free node) (\<lambda>_. ret ADM_SUCCESS)))))"

text \<open>
  The creation of a list: the list object, the array, and a loop that fills the array and may jump to
  the cleanup, which frees the array and the list object.
\<close>

definition cleanup_list :: "ptr \<Rightarrow> ptr \<Rightarrow> ptr c" where
  "cleanup_list p a = seq (free_if a) (\<lambda>_. seq (free p) (\<lambda>_. ret Null))"

definition ADM_node_list_create :: "ptr list \<Rightarrow> nat \<Rightarrow> ptr c" where
  "ADM_node_list_create nodes n =
     seq (malloc_struct (S_node_list None None)) (\<lambda>p.
     if p = Null then ret Null else
     seq (store p (S_node_list None (Some n))) (\<lambda>_.
     seq (calloc_structs n (S_node (Some Null) (Some 0))) (\<lambda>a.
     seq (store p (S_node_list (Some a) (Some n))) (\<lambda>_.
     if a = Null then cleanup_list p a else
     seq (for_goto [0..<n] (\<lambda>i.
            seq (array_arg nodes i) (\<lambda>x.
            seq (ADM_node_copy (elem_ptr a i) x) (\<lambda>r. ret (r \<noteq> Null)))))
       (\<lambda>ok. if ok then ret p else cleanup_list p a)))))"

definition ADM_node_list_destroy :: "ptr \<Rightarrow> adm_return c" where
  "ADM_node_list_destroy list =
     (if list = Null then ret ADM_EBADARGS else
      seq (node_list_at list) (\<lambda>(a, n).
      seq (val a) (\<lambda>a.
      seq (when_c (a \<noteq> Null)
             (seq (val n) (\<lambda>n.
              seq (for_c [0..<n] (\<lambda>i.
                     seq (node_at (elem_ptr a i)) (\<lambda>(host, _). seq (val host) free)))
                (\<lambda>_. free a))))
        (\<lambda>_. seq (free list) (\<lambda>_. ret ADM_SUCCESS)))))"

section \<open>Datasets\<close>

definition ADM_dataset_create :: "ptr \<Rightarrow> ptr c" where
  "ADM_dataset_create i =
     seq (malloc_struct (S_dataset (Some Null))) (\<lambda>p.
     if p = Null then ret Null else
     if i = Null then ret p else
     seq (dup_string i) (\<lambda>x.
     seq (store p (S_dataset (Some x))) (\<lambda>_. ret p)))"

definition ADM_dataset_copy :: "ptr \<Rightarrow> ptr \<Rightarrow> ptr c" where
  "ADM_dataset_copy dst src =
     (if src = Null \<or> dst = Null then ret Null else
      seq (load src) (\<lambda>s.
      seq (store dst s) (\<lambda>_.
      seq (dataset_at src) (\<lambda>i.
      seq (val i) (\<lambda>i.
      if i = Null then ret dst else
      seq (strlen i) (\<lambda>n.
      seq (calloc_bytes (n + 1)) (\<lambda>x.
      seq (store dst (S_dataset (Some x))) (\<lambda>_.
      seq (dataset_at src) (\<lambda>i.
      seq (val i) (\<lambda>i.
      seq (strncpy x i n) (\<lambda>_. ret dst)))))))))))"

definition ADM_dataset_destroy :: "ptr \<Rightarrow> adm_return c" where
  "ADM_dataset_destroy dataset =
     (if dataset = Null then ret ADM_EBADARGS else
      seq (dataset_at dataset) (\<lambda>i.
      seq (val i) (\<lambda>i.
      seq (free_if i) (\<lambda>_.
      seq (free dataset) (\<lambda>_. ret ADM_SUCCESS)))))"

definition ADM_dataset_list_create :: "ptr list \<Rightarrow> nat \<Rightarrow> ptr c" where
  "ADM_dataset_list_create datasets n =
     seq (malloc_struct (S_dataset_list None None)) (\<lambda>p.
     if p = Null then ret Null else
     seq (store p (S_dataset_list None (Some n))) (\<lambda>_.
     seq (calloc_structs n (S_dataset (Some Null))) (\<lambda>a.
     seq (store p (S_dataset_list (Some a) (Some n))) (\<lambda>_.
     if a = Null then cleanup_list p a else
     seq (for_goto [0..<n] (\<lambda>i.
            seq (array_arg datasets i) (\<lambda>x.
            seq (ADM_dataset_copy (elem_ptr a i) x) (\<lambda>r. ret (r \<noteq> Null)))))
       (\<lambda>ok. if ok then ret p else cleanup_list p a)))))"

definition ADM_dataset_list_destroy :: "ptr \<Rightarrow> adm_return c" where
  "ADM_dataset_list_destroy list =
     (if list = Null then ret ADM_EBADARGS else
      seq (dataset_list_at list) (\<lambda>(a, n).
      seq (val a) (\<lambda>a.
      seq (when_c (a \<noteq> Null)
             (seq (val n) (\<lambda>n.
              seq (for_c [0..<n] (\<lambda>i. seq (dataset_at (elem_ptr a i)) (\<lambda>x. seq (val x) free)))
                (\<lambda>_. free a))))
        (\<lambda>_. seq (free list) (\<lambda>_. ret ADM_SUCCESS)))))"

definition ADM_dataset_route_create :: "ptr \<Rightarrow> ptr \<Rightarrow> ptr c" where
  "ADM_dataset_route_create source destination =
     seq (malloc_struct (S_dataset_route None None)) (\<lambda>p.
     if p = Null then ret Null else
     seq (dataset_at source) (\<lambda>i. seq (val i) (\<lambda>i.
     seq (ADM_dataset_create i) (\<lambda>s.
     seq (store p (S_dataset_route (Some s) None)) (\<lambda>_.
     if s = Null then ret Null else
     seq (dataset_at destination) (\<lambda>j. seq (val j) (\<lambda>j.
     seq (ADM_dataset_create j) (\<lambda>d.
     seq (store p (S_dataset_route (Some s) (Some d))) (\<lambda>_.
     if d = Null then ret Null else ret p)))))))))"

definition ADM_dataset_route_copy :: "ptr \<Rightarrow> ptr \<Rightarrow> ptr c" where
  "ADM_dataset_route_copy dst src =
     (if src = Null \<or> dst = Null then ret Null else
      seq (load src) (\<lambda>s.
      seq (store dst s) (\<lambda>_.
      seq (route_at src) (\<lambda>(a, _). seq (val a) (\<lambda>a.
      seq (when_c (a \<noteq> Null)
             (seq (dataset_at a) (\<lambda>i. seq (val i) (\<lambda>i.
              seq (ADM_dataset_create i) (\<lambda>x.
              seq (route_at dst) (\<lambda>(_, d). store dst (S_dataset_route (Some x) d)))))))
        (\<lambda>_.
      seq (route_at src) (\<lambda>(_, b). seq (val b) (\<lambda>b.
      seq (when_c (b \<noteq> Null)
             (seq (dataset_at b) (\<lambda>i. seq (val i) (\<lambda>i.
              seq (ADM_dataset_create i) (\<lambda>x.
              seq (route_at dst) (\<lambda>(s, _). store dst (S_dataset_route s (Some x))))))))
        (\<lambda>_. ret dst)))))))))"

text \<open>\<open>free(route)\<close> is commented out in the code: the route itself stays.\<close>

definition ADM_dataset_route_destroy :: "ptr \<Rightarrow> adm_return c" where
  "ADM_dataset_route_destroy route =
     (if route = Null then ret ADM_EBADARGS else
      seq (route_at route) (\<lambda>(s, _). seq (val s) (\<lambda>s.
      seq (destroy_if ADM_dataset_destroy s) (\<lambda>_.
      seq (route_at route) (\<lambda>(_, d). seq (val d) (\<lambda>d.
      seq (destroy_if ADM_dataset_destroy d) (\<lambda>_.
      ret ADM_SUCCESS)))))))"

definition ADM_dataset_route_list_create :: "ptr list \<Rightarrow> nat \<Rightarrow> ptr c" where
  "ADM_dataset_route_list_create routes n =
     seq (malloc_struct (S_dataset_route_list None None)) (\<lambda>p.
     if p = Null then ret Null else
     seq (store p (S_dataset_route_list None (Some n))) (\<lambda>_.
     seq (calloc_structs n (S_dataset_route (Some Null) (Some Null))) (\<lambda>a.
     seq (store p (S_dataset_route_list (Some a) (Some n))) (\<lambda>_.
     if a = Null then cleanup_list p a else
     seq (for_goto [0..<n] (\<lambda>i.
            seq (array_arg routes i) (\<lambda>x.
            seq (ADM_dataset_route_copy (elem_ptr a i) x) (\<lambda>r. ret (r \<noteq> Null)))))
       (\<lambda>ok. if ok then ret p else cleanup_list p a)))))"

definition ADM_dataset_route_list_destroy :: "ptr \<Rightarrow> adm_return c" where
  "ADM_dataset_route_list_destroy list =
     (if list = Null then ret ADM_EBADARGS else
      seq (route_list_at list) (\<lambda>(a, n).
      seq (val a) (\<lambda>a.
      seq (when_c (a \<noteq> Null)
             (seq (val n) (\<lambda>n.
              seq (for_c [0..<n] (\<lambda>i. seq (ADM_dataset_route_destroy (elem_ptr a i)) (\<lambda>_. ret ())))
                (\<lambda>_. free a))))
        (\<lambda>_. seq (free list) (\<lambda>_. ret ADM_SUCCESS)))))"

definition ADM_dataset_info_create :: "ptr c" where
  "ADM_dataset_info_create = malloc_struct (S_dataset_info None)"

definition ADM_dataset_info_destroy :: "ptr \<Rightarrow> adm_return c" where
  "ADM_dataset_info_destroy info = free_object info"

section \<open>Quality of service\<close>

fun entity_member :: "nat \<Rightarrow> ptr \<Rightarrow> entity_ref option" where
  "entity_member scope p =
     (if scope = qos_scope_code qos_scope_node then Some (Ref_node p)
      else if scope = qos_scope_code qos_scope_job then Some (Ref_job p)
      else if scope = qos_scope_code qos_scope_dataset then Some (Ref_dataset p)
      else if scope = qos_scope_code qos_scope_transfer then Some (Ref_transfer p)
      else None)"

definition ADM_qos_entity_create :: "nat \<Rightarrow> ptr \<Rightarrow> ptr c" where
  "ADM_qos_entity_create scope p =
     seq (malloc_struct (S_qos_entity None None)) (\<lambda>e.
     if e = Null then ret Null else
     seq (store e (S_qos_entity (Some scope) None)) (\<lambda>_.
     seq (store e (S_qos_entity (Some scope) (entity_member scope p))) (\<lambda>_. ret e)))"

definition ADM_qos_entity_destroy :: "ptr \<Rightarrow> adm_return c" where
  "ADM_qos_entity_destroy entity = free_object entity"

definition ADM_qos_limit_create :: "ptr \<Rightarrow> nat \<Rightarrow> u64 \<Rightarrow> ptr c" where
  "ADM_qos_limit_create entity cls v =
     seq (malloc_struct (S_qos_limit None None None)) (\<lambda>p.
     if p = Null then ret Null else
     seq (store p (S_qos_limit (Some entity) (Some cls) (Some v))) (\<lambda>_. ret p))"

definition ADM_qos_limit_destroy :: "ptr \<Rightarrow> adm_return c" where
  "ADM_qos_limit_destroy limit = free_object limit"

definition ADM_qos_limit_destroy_all :: "ptr \<Rightarrow> adm_return c" where
  "ADM_qos_limit_destroy_all limit =
     (if limit = Null then ret ADM_EBADARGS else
      seq (limit_at limit) (\<lambda>(e, _).
      seq (val e) (\<lambda>e.
      seq (destroy_if ADM_qos_entity_destroy e) (\<lambda>_.
      seq (free limit) (\<lambda>_. ret ADM_SUCCESS)))))"

definition ADM_qos_limit_list_create :: "ptr list \<Rightarrow> nat \<Rightarrow> ptr c" where
  "ADM_qos_limit_list_create limits n =
     seq (malloc_struct (S_qos_limit_list None None)) (\<lambda>p.
     if p = Null then ret Null else
     seq (store p (S_qos_limit_list None (Some n))) (\<lambda>_.
     seq (calloc_structs n (S_qos_limit (Some Null) (Some 0) (Some 0))) (\<lambda>a.
     seq (store p (S_qos_limit_list (Some a) (Some n))) (\<lambda>_.
     if a = Null then cleanup_list p a else
     seq (for_c [0..<n] (\<lambda>i.
            seq (array_arg limits i) (\<lambda>x.
            seq (load x) (\<lambda>l. store (elem_ptr a i) l))))
       (\<lambda>_. ret p)))))"

definition ADM_qos_limit_list_destroy :: "ptr \<Rightarrow> adm_return c" where
  "ADM_qos_limit_list_destroy list =
     (if list = Null then ret ADM_EBADARGS else
      seq (limit_list_at list) (\<lambda>(a, n).
      seq (val a) (\<lambda>a.
      seq (when_c (a \<noteq> Null)
             (seq (val n) (\<lambda>n.
              seq (for_c [0..<n] (\<lambda>i.
                     seq (limit_at (elem_ptr a i)) (\<lambda>(e, _).
                     seq (val e) (\<lambda>e.
                     destroy_if ADM_qos_entity_destroy e))))
                (\<lambda>_. free a))))
        (\<lambda>_. seq (free list) (\<lambda>_. ret ADM_SUCCESS)))))"

section \<open>Storages\<close>

definition ADM_adhoc_storage_destroy :: "ptr \<Rightarrow> adm_return c" where
  "ADM_adhoc_storage_destroy storage =
     (if storage = Null then ret ADM_EBADARGS else
      seq (adhoc_storage_at storage) (\<lambda>(name, _). seq (val name) (\<lambda>name.
      seq (free_if name) (\<lambda>_.
      seq (adhoc_storage_at storage) (\<lambda>(_, _, _, ctx, _). seq (val ctx) (\<lambda>ctx.
      seq (free_if ctx) (\<lambda>_.
      seq (free storage) (\<lambda>_. ret ADM_SUCCESS))))))))"

text \<open>
  On failure the code destroys the object and asserts that the returned code is not zero; it is
  \<open>ADM_SUCCESS\<close>, which is zero.
\<close>

definition assert_nonzero :: "adm_return \<Rightarrow> ptr c" where
  "assert_nonzero r = (if r = ADM_SUCCESS then fault Assertion_failed else ret Null)"

definition ADM_adhoc_storage_create :: "ptr \<Rightarrow> nat \<Rightarrow> u64 \<Rightarrow> ptr \<Rightarrow> ptr \<Rightarrow> ptr c" where
  "ADM_adhoc_storage_create name ty i ctx resources =
     seq (malloc_struct (S_adhoc_storage None None None None None)) (\<lambda>p.
     if p = Null then ret Null else
     if name = Null then ret Null else
     if ctx = Null then ret Null else
     seq (dup_string name) (\<lambda>x.
     seq (store p (S_adhoc_storage (Some x) (Some ty) (Some i) None None)) (\<lambda>_.
     seq (malloc_struct (S_adhoc_context (Some Null) (Some Null) (Some 0) (Some 0) (Some 0) (Some False)))
       (\<lambda>d.
     seq (store p (S_adhoc_storage (Some x) (Some ty) (Some i) (Some d) None)) (\<lambda>_.
     if d = Null then seq (ADM_adhoc_storage_destroy p) assert_nonzero else
     seq (load ctx) (\<lambda>s.
     seq (store d s) (\<lambda>_.
     seq (store p (S_adhoc_storage (Some x) (Some ty) (Some i) (Some d) (Some resources))) (\<lambda>_.
     ret p))))))))"

definition ADM_pfs_storage_destroy :: "ptr \<Rightarrow> adm_return c" where
  "ADM_pfs_storage_destroy storage =
     (if storage = Null then ret ADM_EBADARGS else
      seq (pfs_storage_at storage) (\<lambda>(name, _). seq (val name) (\<lambda>name.
      seq (free_if name) (\<lambda>_.
      seq (pfs_storage_at storage) (\<lambda>(_, _, _, ctx). seq (val ctx) (\<lambda>ctx.
      seq (free_if ctx) (\<lambda>_.
      seq (free storage) (\<lambda>_. ret ADM_SUCCESS))))))))"

definition ADM_pfs_storage_create :: "ptr \<Rightarrow> nat \<Rightarrow> u64 \<Rightarrow> ptr \<Rightarrow> ptr c" where
  "ADM_pfs_storage_create name ty i ctx =
     seq (malloc_struct (S_pfs_storage None None None None)) (\<lambda>p.
     if p = Null then ret Null else
     if name = Null then ret Null else
     if ctx = Null then ret Null else
     seq (dup_string name) (\<lambda>x.
     seq (store p (S_pfs_storage (Some x) (Some ty) (Some i) None)) (\<lambda>_.
     seq (malloc_struct (S_pfs_context (Some Null))) (\<lambda>d.
     seq (store p (S_pfs_storage (Some x) (Some ty) (Some i) (Some d))) (\<lambda>_.
     if d = Null then seq (ADM_pfs_storage_destroy p) assert_nonzero else
     seq (load ctx) (\<lambda>s.
     seq (store d s) (\<lambda>_. ret p)))))))"

definition ADM_adhoc_context_create :: "ptr \<Rightarrow> ptr \<Rightarrow> nat \<Rightarrow> nat \<Rightarrow> u32 \<Rightarrow> bool \<Rightarrow> ptr c" where
  "ADM_adhoc_context_create ctl stager m ac wt fl =
     (if ctl = Null then ret Null else
      if stager = Null then ret Null else
      seq (malloc_struct (S_adhoc_context None None None None None None)) (\<lambda>p.
      if p = Null then ret Null else
      seq (dup_string ctl) (\<lambda>x.
      seq (store p (S_adhoc_context (Some x) None None None None None)) (\<lambda>_.
      seq (dup_string stager) (\<lambda>y.
      seq (store p (S_adhoc_context (Some x) (Some y) None None None None)) (\<lambda>_.
      seq (store p (S_adhoc_context (Some x) (Some y) (Some m) (Some ac) (Some wt) (Some fl))) (\<lambda>_.
      ret p)))))))"

definition ADM_adhoc_context_destroy :: "ptr \<Rightarrow> adm_return c" where
  "ADM_adhoc_context_destroy ctx = free_object ctx"

definition ADM_pfs_context_create :: "ptr \<Rightarrow> ptr c" where
  "ADM_pfs_context_create mountpoint =
     seq (malloc_struct (S_pfs_context None)) (\<lambda>p.
     if p = Null then ret Null else
     if mountpoint = Null then ret p else
     seq (dup_string mountpoint) (\<lambda>x.
     seq (store p (S_pfs_context (Some x))) (\<lambda>_. ret p)))"

definition ADM_pfs_context_destroy :: "ptr \<Rightarrow> adm_return c" where
  "ADM_pfs_context_destroy ctx = free_object ctx"

section \<open>Resources\<close>

definition ADM_adhoc_resources_destroy :: "ptr \<Rightarrow> adm_return c" where
  "ADM_adhoc_resources_destroy res =
     (if res = Null then ret ADM_EBADARGS else
      seq (adhoc_resources_at res) (\<lambda>nodes. seq (val nodes) (\<lambda>nodes.
      seq (destroy_if ADM_node_list_destroy nodes) (\<lambda>_.
      seq (free res) (\<lambda>_. ret ADM_SUCCESS)))))"

text \<open>The cleanup destroys the object, whose member \<open>r_nodes\<close> has not been written yet.\<close>

definition ADM_adhoc_resources_create :: "ptr list \<Rightarrow> nat \<Rightarrow> ptr c" where
  "ADM_adhoc_resources_create nodes n =
     seq (malloc_struct (S_adhoc_resources None)) (\<lambda>p.
     if p = Null then ret Null else
     seq (ADM_node_list_create nodes n) (\<lambda>ns.
     if ns = Null then seq (ADM_adhoc_resources_destroy p) (\<lambda>_. ret Null) else
     seq (store p (S_adhoc_resources (Some ns))) (\<lambda>_. ret p)))"

definition ADM_job_resources_destroy :: "ptr \<Rightarrow> adm_return c" where
  "ADM_job_resources_destroy res =
     (if res = Null then ret ADM_EBADARGS else
      seq (job_resources_at res) (\<lambda>nodes. seq (val nodes) (\<lambda>nodes.
      seq (destroy_if ADM_node_list_destroy nodes) (\<lambda>_.
      seq (free res) (\<lambda>_. ret ADM_SUCCESS)))))"

definition ADM_job_resources_create :: "ptr list \<Rightarrow> nat \<Rightarrow> ptr c" where
  "ADM_job_resources_create nodes n =
     seq (malloc_struct (S_job_resources None)) (\<lambda>p.
     if p = Null then ret Null else
     seq (ADM_node_list_create nodes n) (\<lambda>ns.
     if ns = Null then seq (ADM_job_resources_destroy p) (\<lambda>_. ret Null) else
     seq (store p (S_job_resources (Some ns))) (\<lambda>_. ret p)))"

section \<open>Requirements\<close>

definition ADM_job_requirements_destroy :: "ptr \<Rightarrow> adm_return c" where
  "ADM_job_requirements_destroy reqs =
     (if reqs = Null then ret ADM_EBADARGS else
      seq (requirements_at reqs) (\<lambda>(a, _). seq (val a) (\<lambda>a.
      seq (destroy_if ADM_dataset_route_list_destroy a) (\<lambda>_.
      seq (requirements_at reqs) (\<lambda>(_, b, _). seq (val b) (\<lambda>b.
      seq (destroy_if ADM_dataset_route_list_destroy b) (\<lambda>_.
      seq (requirements_at reqs) (\<lambda>(_, _, e, _). seq (val e) (\<lambda>e.
      seq (destroy_if ADM_dataset_route_list_destroy e) (\<lambda>_.
      seq (requirements_at reqs) (\<lambda>(_, _, _, s). seq (val s) (\<lambda>s.
      seq (destroy_if ADM_adhoc_storage_destroy s) (\<lambda>_.
      seq (free reqs) (\<lambda>_. ret ADM_SUCCESS))))))))))))))"

definition known_adhoc_type :: "nat \<Rightarrow> bool" where
  "known_adhoc_type ty \<longleftrightarrow>
     ty = adhoc_type_code adhoc_gekkofs \<or> ty = adhoc_type_code adhoc_dataclay \<or>
     ty = adhoc_type_code adhoc_expand \<or> ty = adhoc_type_code adhoc_hercules"

text \<open>\<open>goto cleanup_on_error\<close>: the lists made so far are members only once all three exist.\<close>

definition cleanup_requirements :: "ptr \<Rightarrow> ptr c" where
  "cleanup_requirements p = seq (ADM_job_requirements_destroy p) (\<lambda>_. ret Null)"

definition ADM_job_requirements_create ::
    "ptr list \<Rightarrow> nat \<Rightarrow> ptr list \<Rightarrow> nat \<Rightarrow> ptr list \<Rightarrow> nat \<Rightarrow> ptr \<Rightarrow> ptr c" where
  "ADM_job_requirements_create inputs n outputs m expected k storage =
     seq (malloc_struct (S_job_requirements (Some Null) (Some Null) (Some Null) (Some Null))) (\<lambda>p.
     if p = Null then ret Null else
     seq (ADM_dataset_route_list_create inputs n) (\<lambda>a.
     if a = Null then cleanup_requirements p else
     seq (ADM_dataset_route_list_create outputs m) (\<lambda>b.
     if b = Null then cleanup_requirements p else
     seq (ADM_dataset_route_list_create expected k) (\<lambda>e.
     if e = Null then cleanup_requirements p else
     seq (store p (S_job_requirements (Some a) (Some b) (Some e) (Some Null))) (\<lambda>_.
     if storage = Null then ret p else
     seq (adhoc_storage_at storage) (\<lambda>(name, ty, i, ctx, res).
     seq (val ty) (\<lambda>ty.
     if \<not> known_adhoc_type ty then cleanup_requirements p else
     seq (val name) (\<lambda>name. seq (val i) (\<lambda>i. seq (val ctx) (\<lambda>ctx. seq (val res) (\<lambda>res.
     seq (ADM_adhoc_storage_create name ty i ctx res) (\<lambda>s.
     seq (store p (S_job_requirements (Some a) (Some b) (Some e) (Some s))) (\<lambda>_.
     ret p)))))))))))))"

section \<open>Handles\<close>

definition ADM_job_create :: "u64 \<Rightarrow> u64 \<Rightarrow> ptr c" where
  "ADM_job_create i slurm =
     seq (malloc_struct (S_job None None)) (\<lambda>p.
     if p = Null then ret Null else
     seq (store p (S_job (Some i) (Some slurm))) (\<lambda>_. ret p))"

definition ADM_job_destroy :: "ptr \<Rightarrow> adm_return c" where
  "ADM_job_destroy job = free_object job"

definition ADM_transfer_create :: "u64 \<Rightarrow> ptr c" where
  "ADM_transfer_create i =
     seq (malloc_struct (S_transfer None)) (\<lambda>p.
     if p = Null then ret Null else seq (store p (S_transfer (Some i))) (\<lambda>_. ret p))"

definition ADM_transfer_destroy :: "ptr \<Rightarrow> adm_return c" where
  "ADM_transfer_destroy tx = free_object tx"

definition ADM_transfer_status_create :: "nat \<Rightarrow> ptr c" where
  "ADM_transfer_status_create t =
     seq (malloc_struct (S_transfer_status None None)) (\<lambda>p.
     if p = Null then ret Null else seq (store p (S_transfer_status (Some t) None)) (\<lambda>_. ret p))"

definition ADM_transfer_status_destroy :: "ptr \<Rightarrow> adm_return c" where
  "ADM_transfer_status_destroy tx = free_object tx"

definition ADM_data_operation_create :: "ptr c" where
  "ADM_data_operation_create = malloc_struct (S_data_operation None)"

definition ADM_data_operation_destroy :: "ptr \<Rightarrow> adm_return c" where
  "ADM_data_operation_destroy op = free_object op"

end
