(* ===== verification/CRead.thy ===== *)
theory CRead
  imports CObjects
begin

text \<open>
  The values that C objects in memory stand for: the functions \<open>read_\<close> take a pointer to the structure of
  \<open>CTypes\<close> it leads to, if every pointer on the way is valid and every member has a value. \<open>keeps\<close> says
  that a later heap still has all blocks of an earlier one; what was read then is read now.
\<close>

section \<open>Reading values\<close>

definition read_string :: "heap \<Rightarrow> ptr \<Rightarrow> string option" where
  "read_string h p = (case c_string p h of Inr (s, _) \<Rightarrow> Some s | Inl _ \<Rightarrow> None)"

definition read_struct :: "heap \<Rightarrow> ptr \<Rightarrow> cstruct option" where
  "read_struct h p = (case load p h of Inr (s, _) \<Rightarrow> Some s | Inl _ \<Rightarrow> None)"

definition read_node :: "heap \<Rightarrow> ptr \<Rightarrow> adm_node option" where
  "read_node h p =
     (case read_struct h p of
        Some (S_node (Some q) (Some t)) \<Rightarrow> map_option (\<lambda>s. \<lparr>n_hostname = s, n_type = t\<rparr>) (read_string h q)
      | _ \<Rightarrow> None)"

definition read_dataset :: "heap \<Rightarrow> ptr \<Rightarrow> adm_dataset option" where
  "read_dataset h p =
     (case read_struct h p of
        Some (S_dataset (Some q)) \<Rightarrow> map_option (\<lambda>s. \<lparr>d_id = s\<rparr>) (read_string h q)
      | _ \<Rightarrow> None)"

definition read_route :: "heap \<Rightarrow> ptr \<Rightarrow> adm_dataset_route option" where
  "read_route h p =
     (case read_struct h p of
        Some (S_dataset_route (Some s) (Some d)) \<Rightarrow>
          Option.bind (read_dataset h s)
            (\<lambda>x. map_option (\<lambda>y. \<lparr>d_src = x, d_dst = y\<rparr>) (read_dataset h d))
      | _ \<Rightarrow> None)"

definition read_array :: "(ptr \<Rightarrow> 'a option) \<Rightarrow> ptr \<Rightarrow> nat \<Rightarrow> 'a list option" where
  "read_array r a n = those (map (\<lambda>i. r (elem_ptr a i)) [0..<n])"

definition read_node_list :: "heap \<Rightarrow> ptr \<Rightarrow> adm_node list option" where
  "read_node_list h p =
     (case read_struct h p of
        Some (S_node_list (Some a) (Some n)) \<Rightarrow> read_array (read_node h) a n | _ \<Rightarrow> None)"

definition read_dataset_list :: "heap \<Rightarrow> ptr \<Rightarrow> adm_dataset list option" where
  "read_dataset_list h p =
     (case read_struct h p of
        Some (S_dataset_list (Some a) (Some n)) \<Rightarrow> read_array (read_dataset h) a n | _ \<Rightarrow> None)"

definition read_route_list :: "heap \<Rightarrow> ptr \<Rightarrow> adm_dataset_route list option" where
  "read_route_list h p =
     (case read_struct h p of
        Some (S_dataset_route_list (Some a) (Some n)) \<Rightarrow> read_array (read_route h) a n | _ \<Rightarrow> None)"

definition read_adhoc_context :: "heap \<Rightarrow> ptr \<Rightarrow> adm_adhoc_context option" where
  "read_adhoc_context h p =
     (case read_struct h p of
        Some (S_adhoc_context (Some x) (Some y) (Some m) (Some a) (Some w) (Some f)) \<Rightarrow>
          Option.bind (read_string h x)
            (\<lambda>ctl. map_option
               (\<lambda>st. \<lparr>c_ctl_address = ctl, c_stager_address = st, c_mode = m, c_access = a,
                      c_walltime = w, c_should_bg_flush = f\<rparr>) (read_string h y))
      | _ \<Rightarrow> None)"

definition read_adhoc_resources :: "heap \<Rightarrow> ptr \<Rightarrow> adm_adhoc_resources option" where
  "read_adhoc_resources h p =
     (case read_struct h p of
        Some (S_adhoc_resources (Some l)) \<Rightarrow> map_option (\<lambda>ns. \<lparr>ar_nodes = ns\<rparr>) (read_node_list h l)
      | _ \<Rightarrow> None)"

definition read_job_resources :: "heap \<Rightarrow> ptr \<Rightarrow> adm_job_resources option" where
  "read_job_resources h p =
     (case read_struct h p of
        Some (S_job_resources (Some l)) \<Rightarrow> map_option (\<lambda>ns. \<lparr>jr_nodes = ns\<rparr>) (read_node_list h l)
      | _ \<Rightarrow> None)"

definition read_adhoc_storage :: "heap \<Rightarrow> ptr \<Rightarrow> adm_adhoc_storage option" where
  "read_adhoc_storage h p =
     (case read_struct h p of
        Some (S_adhoc_storage (Some x) (Some t) (Some i) (Some c) (Some r)) \<Rightarrow>
          Option.bind (read_string h x) (\<lambda>name.
          Option.bind (read_adhoc_context h c) (\<lambda>ctx.
          map_option (\<lambda>res. \<lparr>as_name = name, as_type = t, as_id = i, as_adhoc_ctx = ctx,
                             as_resources = res\<rparr>) (read_adhoc_resources h r)))
      | _ \<Rightarrow> None)"

definition read_requirements :: "heap \<Rightarrow> ptr \<Rightarrow> adm_job_requirements option" where
  "read_requirements h p =
     (case read_struct h p of
        Some (S_job_requirements (Some a) (Some b) (Some e) (Some s)) \<Rightarrow>
          Option.bind (read_route_list h a) (\<lambda>ins.
          Option.bind (read_route_list h b) (\<lambda>outs.
          Option.bind (read_route_list h e) (\<lambda>exps.
          map_option (\<lambda>st. \<lparr>r_inputs = ins, r_outputs = outs, r_expected_outputs = exps,
                            r_adhoc_storage = st\<rparr>)
            (if s = Null then Some None else map_option Some (read_adhoc_storage h s)))))
      | _ \<Rightarrow> None)"

lemma read_structD: "read_struct h p = Some s \<Longrightarrow> load p h = Inr (s, h)"
  by (auto simp: read_struct_def split: sum.splits dest: load_InrD)

lemma read_stringD: "read_string h p = Some s \<Longrightarrow> c_string p h = Inr (s, h)"
  by (auto simp: read_string_def split: sum.splits dest: c_string_InrD)

lemma read_string_no_nul: "read_string h p = Some s \<Longrightarrow> CHR 0x00 \<notin> set s"
  by (blast dest: read_stringD c_string_InrD)

lemma read_structI: "load p h = Inr (s, h) \<Longrightarrow> read_struct h p = Some s"
  by (simp add: read_struct_def)

lemma read_stringI: "c_string p h = Inr (s, h) \<Longrightarrow> read_string h p = Some s"
  by (simp add: read_string_def)

lemma read_Null [simp]: "read_struct h Null = None" "read_string h Null = None"
  by (simp_all add: read_struct_def read_string_def c_string_def)

section \<open>What later changes leave alone\<close>

text \<open>\<open>keeps h h'\<close>: every block in use at \<open>h\<close> has the same contents at \<open>h'\<close>.\<close>

definition keeps :: "heap \<Rightarrow> heap \<Rightarrow> bool" where
  "keeps h h' \<longleftrightarrow> (\<forall>b. live h b \<longrightarrow> cell h' b = cell h b)"

lemma mem_keeps_refl [simp]: "keeps h h"
  by (simp add: keeps_def)

lemma keeps_place [simp]: "keeps h (place bs h)"
  by (auto simp: keeps_def cell_place dest: live_below)

lemma mem_keeps_trans: "keeps h h' \<Longrightarrow> keeps h' h'' \<Longrightarrow> keeps h h''"
  by (auto simp: keeps_def live_def)

lemma keeps_release: "(\<And>b. b \<in> set bs \<Longrightarrow> \<not> live h b) \<Longrightarrow> keeps h (release bs h)"
  by (auto simp: keeps_def cell_release live_def)

lemma read_struct_keeps: "read_struct h p = Some s \<Longrightarrow> keeps h h' \<Longrightarrow> read_struct h' p = Some s"
proof (rule read_structI)
  assume "read_struct h p = Some s" and k: "keeps h h'"
  then obtain b i xs where p: "p = At b i" "cell h b = Live (Structs xs)" "i < length xs" "s = xs ! i"
    by (blast dest: read_structD load_InrD)
  then have "cell h' b = Live (Structs xs)" using k by (simp add: keeps_def cell_LiveD)
  with p show "load p h' = Inr (s, h')" by simp
qed

lemma read_string_keeps: "read_string h p = Some s \<Longrightarrow> keeps h h' \<Longrightarrow> read_string h' p = Some s"
proof (rule read_stringI)
  assume "read_string h p = Some s" and k: "keeps h h'"
  then obtain b i cs where p: "p = At b i" "cell h b = Live (Bytes cs)"
      "s = takeWhile (\<lambda>c. c \<noteq> CHR 0x00) (drop i cs)" "CHR 0x00 \<in> set (drop i cs)"
    by (blast dest: read_stringD c_string_InrD)
  then have "cell h' b = Live (Bytes cs)" using k by (simp add: keeps_def cell_LiveD)
  with p show "c_string p h' = Inr (s, h')" by (simp add: c_string_def)
qed

lemma those_Some_iff: "those xs = Some ys \<longleftrightarrow> length ys = length xs \<and> (\<forall>i<length xs. xs ! i = Some (ys ! i))"
proof (induction xs arbitrary: ys)
  case (Cons x xs)
  show ?case
  proof (cases ys)
    case (Cons z zs)
    then show ?thesis
      using Cons.IH [of zs] by (auto simp: nth_Cons less_Suc_eq_0_disj split: option.splits nat.splits)
  qed (auto split: option.splits)
qed auto

lemma read_array_Some_iff:
  "read_array r a n = Some ys \<longleftrightarrow> length ys = n \<and> (\<forall>i<n. r (elem_ptr a i) = Some (ys ! i))"
  by (auto simp: read_array_def those_Some_iff)

lemma read_node_Some_iff:
  "read_node h p = Some v \<longleftrightarrow>
     (\<exists>q. read_struct h p = Some (S_node (Some q) (Some (n_type v))) \<and>
          read_string h q = Some (n_hostname v))"
  by (auto simp: read_node_def split: option.splits cstruct.splits)

lemma read_dataset_Some_iff:
  "read_dataset h p = Some v \<longleftrightarrow>
     (\<exists>q. read_struct h p = Some (S_dataset (Some q)) \<and> read_string h q = Some (d_id v))"
  by (auto simp: read_dataset_def split: option.splits cstruct.splits)

lemma read_route_Some_iff:
  "read_route h p = Some v \<longleftrightarrow>
     (\<exists>s d. read_struct h p = Some (S_dataset_route (Some s) (Some d)) \<and>
            read_dataset h s = Some (d_src v) \<and> read_dataset h d = Some (d_dst v))"
  by (auto simp: read_route_def bind_eq_Some_conv split: option.splits cstruct.splits)

lemma read_node_list_Some_iff:
  "read_node_list h p = Some vs \<longleftrightarrow>
     (\<exists>a n. read_struct h p = Some (S_node_list (Some a) (Some n)) \<and> read_array (read_node h) a n = Some vs)"
  by (auto simp: read_node_list_def split: option.splits cstruct.splits)

lemma read_dataset_list_Some_iff:
  "read_dataset_list h p = Some vs \<longleftrightarrow>
     (\<exists>a n. read_struct h p = Some (S_dataset_list (Some a) (Some n)) \<and>
            read_array (read_dataset h) a n = Some vs)"
  by (auto simp: read_dataset_list_def split: option.splits cstruct.splits)

lemma read_route_list_Some_iff:
  "read_route_list h p = Some vs \<longleftrightarrow>
     (\<exists>a n. read_struct h p = Some (S_dataset_route_list (Some a) (Some n)) \<and>
            read_array (read_route h) a n = Some vs)"
  by (auto simp: read_route_list_def split: option.splits cstruct.splits)

lemma read_adhoc_resources_Some_iff:
  "read_adhoc_resources h p = Some v \<longleftrightarrow>
     (\<exists>l. read_struct h p = Some (S_adhoc_resources (Some l)) \<and> read_node_list h l = Some (ar_nodes v))"
  by (auto simp: read_adhoc_resources_def split: option.splits cstruct.splits)

lemma read_job_resources_Some_iff:
  "read_job_resources h p = Some v \<longleftrightarrow>
     (\<exists>l. read_struct h p = Some (S_job_resources (Some l)) \<and> read_node_list h l = Some (jr_nodes v))"
  by (auto simp: read_job_resources_def split: option.splits cstruct.splits)

lemma read_node_keeps: "read_node h p = Some v \<Longrightarrow> keeps h h' \<Longrightarrow> read_node h' p = Some v"
  unfolding read_node_Some_iff by (blast intro: read_struct_keeps read_string_keeps)

lemma read_dataset_keeps: "read_dataset h p = Some v \<Longrightarrow> keeps h h' \<Longrightarrow> read_dataset h' p = Some v"
  unfolding read_dataset_Some_iff by (blast intro: read_struct_keeps read_string_keeps)

lemma read_route_keeps: "read_route h p = Some v \<Longrightarrow> keeps h h' \<Longrightarrow> read_route h' p = Some v"
  unfolding read_route_Some_iff by (blast intro: read_struct_keeps read_dataset_keeps)

lemma read_array_mono:
  "read_array r a n = Some vs \<Longrightarrow> (\<And>p v. r p = Some v \<Longrightarrow> r' p = Some v) \<Longrightarrow> read_array r' a n = Some vs"
  by (auto simp: read_array_Some_iff)

lemma read_node_list_keeps:
  "read_node_list h p = Some vs \<Longrightarrow> keeps h h' \<Longrightarrow> read_node_list h' p = Some vs"
  unfolding read_node_list_Some_iff by (blast intro: read_struct_keeps read_array_mono read_node_keeps)

lemma read_route_list_keeps:
  "read_route_list h p = Some vs \<Longrightarrow> keeps h h' \<Longrightarrow> read_route_list h' p = Some vs"
  unfolding read_route_list_Some_iff by (blast intro: read_struct_keeps read_array_mono read_route_keeps)

lemma read_adhoc_resources_keeps:
  "read_adhoc_resources h p = Some v \<Longrightarrow> keeps h h' \<Longrightarrow> read_adhoc_resources h' p = Some v"
  unfolding read_adhoc_resources_Some_iff by (blast intro: read_struct_keeps read_node_list_keeps)

lemma read_adhoc_context_keeps:
  assumes "read_adhoc_context h p = Some v" "keeps h h'"
  shows "read_adhoc_context h' p = Some v"
proof -
  obtain x y m a w f where s: "read_struct h p =
      Some (S_adhoc_context (Some x) (Some y) (Some m) (Some a) (Some w) (Some f))"
    using assms(1) by (auto simp: read_adhoc_context_def split: option.splits cstruct.splits)
  then have "read_struct h' p =
      Some (S_adhoc_context (Some x) (Some y) (Some m) (Some a) (Some w) (Some f))"
    using assms(2) by (rule read_struct_keeps)
  with s assms show ?thesis
    by (auto simp: read_adhoc_context_def bind_eq_Some_conv intro: read_string_keeps)
qed

lemma read_adhoc_storage_keeps:
  assumes "read_adhoc_storage h p = Some v" "keeps h h'"
  shows "read_adhoc_storage h' p = Some v"
proof -
  obtain x t i c r where s: "read_struct h p =
      Some (S_adhoc_storage (Some x) (Some t) (Some i) (Some c) (Some r))"
    using assms(1) by (auto simp: read_adhoc_storage_def split: option.splits cstruct.splits)
  then have "read_struct h' p = Some (S_adhoc_storage (Some x) (Some t) (Some i) (Some c) (Some r))"
    using assms(2) by (rule read_struct_keeps)
  with s assms show ?thesis
    by (auto simp: read_adhoc_storage_def bind_eq_Some_conv
             intro: read_string_keeps read_adhoc_context_keeps read_adhoc_resources_keeps)
qed

end
