(* ===== verification/CCreate.thy ===== *)
theory CCreate
  imports CRead
begin

text \<open>
  What the functions of \<open>types.c\<close> that create objects leave in memory when no allocation fails, in closed
  form: the new blocks in the order of their allocation (\<open>_layout\<close>), after all blocks that were there.
\<close>

section \<open>Steps on new blocks\<close>

lemma write_bytes_block [simp]:
  "cell h b = Live (Bytes cs) \<Longrightarrow> length ws \<le> length cs \<Longrightarrow>
   write_bytes (At b 0) ws h = Inr ((), put b (Bytes (ws @ drop (length ws) cs)) h)"
  by (simp add: write_bytes_def)

lemma load_read [simp]: "read_struct h p = Some s \<Longrightarrow> load p h = Inr (s, h)"
  by (rule read_structD)

lemma load_place [simp]: "read_struct h p = Some s \<Longrightarrow> load p (place bs h) = Inr (s, place bs h)"
  by (blast intro: read_structD read_struct_keeps keeps_place)

lemma c_string_place [simp]:
  "read_string h p = Some s \<Longrightarrow> c_string p (place bs h) = Inr (s, place bs h)"
  by (blast intro: read_stringD read_string_keeps keeps_place)

lemma load_new [simp]:
  "i < length bs \<Longrightarrow> bs ! i = Structs xs \<Longrightarrow> j < length xs \<Longrightarrow>
   load (At (next_block h + i) j) (place bs h) = Inr (xs ! j, place bs h)"
  by (rule load_struct) (simp_all add: cell_place)

lemma load_first [simp]:
  "j < length xs \<Longrightarrow> load (At (next_block h) j) (place (Structs xs # bs) h) = Inr (xs ! j, place (Structs xs # bs) h)"
  using load_new [of 0 "Structs xs # bs" xs j h] by simp

lemma load_second [simp]:
  "j < length xs \<Longrightarrow> load (At (Suc (next_block h)) j) (place (b # Structs xs # bs) h) =
     Inr (xs ! j, place (b # Structs xs # bs) h)"
  using load_new [of 1 "b # Structs xs # bs" xs j h] by simp

lemma store_new [simp]:
  "i < length bs \<Longrightarrow> bs ! i = Structs xs \<Longrightarrow> j < length xs \<Longrightarrow>
   store (At (next_block h + i) j) s (place bs h) = Inr ((), place (bs[i := Structs (xs[j := s])]) h)"
  by (subst store_struct) (simp_all add: cell_place)

lemma store_first [simp]:
  "j < length xs \<Longrightarrow> store (At (next_block h) j) s (place (Structs xs # bs) h) =
     Inr ((), place (Structs (xs[j := s]) # bs) h)"
  using store_new [of 0 "Structs xs # bs" xs j h s] by simp

lemma store_second [simp]:
  "j < length xs \<Longrightarrow> store (At (Suc (next_block h)) j) s (place (b # Structs xs # bs) h) =
     Inr ((), place (b # Structs (xs[j := s]) # bs) h)"
  using store_new [of 1 "b # Structs xs # bs" xs j h s] by simp

lemma malloc_struct_done [simp]:
  "h_oom h = [] \<Longrightarrow> malloc_struct s h = Inr (At (next_block h) 0, place [Structs [s]] h)"
  by (simp add: malloc_struct_def)

lemma calloc_structs_done [simp]:
  "h_oom h = [] \<Longrightarrow> n > 0 \<or> \<not> h_zero_null h \<Longrightarrow>
   calloc_structs n s h = Inr (At (next_block h) 0, place [Structs (replicate n s)] h)"
  by (auto simp: calloc_structs_def)

lemma calloc_bytes_done [simp]:
  "h_oom h = [] \<Longrightarrow> n > 0 \<Longrightarrow>
   calloc_bytes n h = Inr (At (next_block h) 0, place [Bytes (replicate n (CHR 0x00))] h)"
  by (simp add: calloc_bytes_def)

lemma strlen_place [simp]:
  "read_string h p = Some s \<Longrightarrow> strlen p (place bs h) = Inr (length s, place bs h)"
  by (simp add: strlen_def)

lemma strcpy_fresh:
  "read_string h q = Some s \<Longrightarrow> length cs = length s + 1 \<Longrightarrow>
   strcpy (At (next_block h + length bs) 0) q (place (bs @ [Bytes cs]) h) =
     Inr ((), place (bs @ [Bytes (s @ [CHR 0x00])]) h)"
  by (simp add: strcpy_def cell_place)

lemma replicate_one: "replicate (Suc 0) x = [x]"
  by simp

lemma strncpy_fresh:
  "read_string h q = Some s \<Longrightarrow> cs = replicate (length s + 1) (CHR 0x00) \<Longrightarrow>
   strncpy (At (next_block h + length bs) 0) q (length s) (place (bs @ [Bytes cs]) h) =
     Inr ((), place (bs @ [Bytes (s @ [CHR 0x00])]) h)"
  by (simp add: strncpy_def cell_place replicate_one del: replicate_Suc)

lemma dup_string_place:
  "read_string h q = Some s \<Longrightarrow> h_oom h = [] \<Longrightarrow>
   dup_string q (place bs h) =
     Inr (At (next_block h + length bs) 0, place (bs @ [Bytes (s @ [CHR 0x00])]) h)"
  by (simp add: dup_string_def strcpy_fresh del: replicate_Suc)

lemma dup_string_done [simp]:
  "read_string h q = Some s \<Longrightarrow> h_oom h = [] \<Longrightarrow>
   dup_string q h = Inr (At (next_block h) 0, place [Bytes (s @ [CHR 0x00])] h)"
  using dup_string_place [of h q s "[]"] by simp

lemma ADM_node_copy_elem:
  assumes v: "read_node h x = Some v" and o: "h_oom h = []" and i: "i < length ys"
  shows "ADM_node_copy (At (Suc (next_block h)) i) x (place (l # Structs ys # bs) h) =
    Inr (At (Suc (next_block h)) i,
         place (l # Structs (ys[i := S_node (Some (At (next_block h + 2 + length bs) 0)) (Some (n_type v))])
                  # bs @ [Bytes (n_hostname v @ [CHR 0x00])]) h)"
proof -
  obtain q where x: "read_struct h x = Some (S_node (Some q) (Some (n_type v)))"
      "read_string h q = Some (n_hostname v)"
    using v by (auto simp: read_node_Some_iff)
  then have "x \<noteq> Null" "q \<noteq> Null" by auto
  with x o i show ?thesis
    using strncpy_fresh [of h q "n_hostname v" _ "l # Structs (ys[i := S_node (Some (At (next_block h + 2 + length bs) 0)) (Some (n_type v))]) # bs"]
    by (simp add: ADM_node_copy_def node_at_def del: replicate_Suc)
qed

lemma ADM_dataset_copy_elem:
  assumes v: "read_dataset h x = Some v" and o: "h_oom h = []" and i: "i < length ys"
  shows "ADM_dataset_copy (At (Suc (next_block h)) i) x (place (l # Structs ys # bs) h) =
    Inr (At (Suc (next_block h)) i,
         place (l # Structs (ys[i := S_dataset (Some (At (next_block h + 2 + length bs) 0))])
                  # bs @ [Bytes (d_id v @ [CHR 0x00])]) h)"
proof -
  obtain q where x: "read_struct h x = Some (S_dataset (Some q))" "read_string h q = Some (d_id v)"
    using v by (auto simp: read_dataset_Some_iff)
  then have "x \<noteq> Null" "q \<noteq> Null" by auto
  with x o i show ?thesis
    using strncpy_fresh [of h q "d_id v" _
        "l # Structs (ys[i := S_dataset (Some (At (next_block h + 2 + length bs) 0))]) # bs"]
    by (simp add: ADM_dataset_copy_def dataset_at_def del: replicate_Suc)
qed

lemma read_string_place [simp]: "read_string h p = Some s \<Longrightarrow> read_string (place bs h) p = Some s"
  by (erule read_string_keeps) simp

lemma read_struct_place [simp]: "read_struct h p = Some s \<Longrightarrow> read_struct (place bs h) p = Some s"
  by (erule read_struct_keeps) simp

lemma ADM_dataset_create_done:
  assumes "read_string h q = Some s" "h_oom h = []"
  shows "ADM_dataset_create q h =
    Inr (At (next_block h) 0,
         place [Structs [S_dataset (Some (At (Suc (next_block h)) 0))], Bytes (s @ [CHR 0x00])] h)"
proof -
  have "q \<noteq> Null" using assms(1) by auto
  with assms show ?thesis
    by (simp add: ADM_dataset_create_def dup_string_place)
qed

text \<open>The two datasets of a copied route, four blocks in a row.\<close>

definition dataset_blocks_at :: "nat \<Rightarrow> adm_dataset \<Rightarrow> block list" where
  "dataset_blocks_at b d = [Structs [S_dataset (Some (At (Suc b) 0))], Bytes (d_id d @ [CHR 0x00])]"

lemma length_dataset_blocks_at [simp]: "length (dataset_blocks_at b d) = 2"
  by (simp add: dataset_blocks_at_def)

lemma ADM_dataset_create_place:
  assumes "read_dataset h x = Some d" "h_oom h = []" "read_struct h x = Some (S_dataset (Some q))"
  shows "ADM_dataset_create q (place bs h) =
    Inr (At (next_block h + length bs) 0, place (bs @ dataset_blocks_at (next_block h + length bs) d) h)"
proof -
  have "read_string h q = Some (d_id d)" using assms(1,3) by (auto simp: read_dataset_Some_iff)
  then show ?thesis
    using assms(2) by (simp add: ADM_dataset_create_done dataset_blocks_at_def)
qed

lemma ADM_dataset_route_copy_elem:
  assumes v: "read_route h x = Some v" and o: "h_oom h = []" and i: "i < length ys"
  shows "ADM_dataset_route_copy (At (Suc (next_block h)) i) x (place (l # Structs ys # bs) h) =
    Inr (At (Suc (next_block h)) i,
         place (l # Structs (ys[i := S_dataset_route (Some (At (next_block h + 2 + length bs) 0))
                                                     (Some (At (next_block h + 2 + length bs + 2) 0))])
                  # bs @ dataset_blocks_at (next_block h + 2 + length bs) (d_src v)
                       @ dataset_blocks_at (next_block h + 2 + length bs + 2) (d_dst v)) h)"
proof -
  obtain s d where x: "read_struct h x = Some (S_dataset_route (Some s) (Some d))"
      "read_dataset h s = Some (d_src v)" "read_dataset h d = Some (d_dst v)"
    using v by (auto simp: read_route_Some_iff)
  obtain q r where y: "read_struct h s = Some (S_dataset (Some q))" "read_struct h d = Some (S_dataset (Some r))"
    using x by (auto simp: read_dataset_Some_iff)
  have "x \<noteq> Null" "s \<noteq> Null" "d \<noteq> Null" using x y by auto
  with x y o i show ?thesis
    using ADM_dataset_create_place [OF x(2) o y(1)] ADM_dataset_create_place [OF x(3) o y(2)]
    by (simp add: ADM_dataset_route_copy_def route_at_def dataset_at_def eval_nat_numeral)
qed

section \<open>Filling an array\<close>

lemma for_goto_fill_upto:
  assumes body: "\<And>i ys bs. i < j \<Longrightarrow> length ys = n \<Longrightarrow> length bs = k * i \<Longrightarrow>
      body i (place (l # Structs ys # bs) h) =
        Inr (True, place (l # Structs (ys[i := E i]) # bs @ S i) h)"
    and S: "\<And>i. length (S i) = k"
    and ys: "length ys = n" and j: "j \<le> n"
  shows "for_goto [0..<j] body (place [l, Structs ys] h) =
      Inr (True, place (l # Structs (map E [0..<j] @ drop j ys) # concat (map S [0..<j])) h)"
proof -
  define st where "st i = place (l # Structs (map E [0..<i] @ drop i ys) # concat (map S [0..<i])) h" for i
  have step: "body i (st i) = Inr (True, st (Suc i))" if "i < j" for i
  proof -
    have len: "length (concat (map S [0..<i])) = k * i"
      using S by (simp add: length_concat comp_def sum_list_triv)
    have "i < n" using that j by simp
    then have upd: "(map E [0..<i] @ drop i ys)[i := E i] = map E [0..<Suc i] @ drop (Suc i) ys"
      using ys by (simp add: list_update_append Cons_nth_drop_Suc [symmetric])
    show ?thesis
      unfolding st_def using body [OF that _ len, of "map E [0..<i] @ drop i ys"] \<open>i < n\<close> ys
      by (simp add: upd)
  qed
  have run: "for_goto [i..<j] body (st i) = Inr (True, st j)" if "i \<le> j" for i
    using that
  proof (induction "j - i" arbitrary: i)
    case 0
    then show ?case by simp
  next
    case (Suc m)
    then have "i < j" by simp
    with Suc step show ?case by (simp add: upt_conv_Cons)
  qed
  from run [of 0] ys show ?thesis by (simp add: st_def)
qed

lemma for_goto_fill:
  assumes "\<And>i ys bs. i < n \<Longrightarrow> length ys = n \<Longrightarrow> length bs = k * i \<Longrightarrow>
      body i (place (l # Structs ys # bs) h) =
        Inr (True, place (l # Structs (ys[i := E i]) # bs @ S i) h)"
    and "\<And>i. length (S i) = k" and "length ys = n"
  shows "for_goto [0..<n] body (place [l, Structs ys] h) =
      Inr (True, place (l # Structs (map E [0..<n]) # concat (map S [0..<n])) h)"
proof -
  have "for_goto [0..<n] body (place [l, Structs ys] h) =
      Inr (True, place (l # Structs (map E [0..<n] @ drop n ys) # concat (map S [0..<n])) h)"
    by (rule for_goto_fill_upto [where k = k]) (use assms in blast)+
  then show ?thesis using assms(3) by simp
qed

section \<open>Lists\<close>

text \<open>The values of the first \<open>n\<close> elements of an array argument.\<close>

definition read_args :: "(ptr \<Rightarrow> 'a option) \<Rightarrow> ptr list \<Rightarrow> nat \<Rightarrow> 'a list option" where
  "read_args r xs n = (if n \<le> length xs then those (map r (take n xs)) else None)"

lemma read_args_Some_iff:
  "read_args r xs n = Some vs \<longleftrightarrow>
     n \<le> length xs \<and> length vs = n \<and> (\<forall>i<n. r (xs ! i) = Some (vs ! i))"
  by (auto simp: read_args_def those_Some_iff)

text \<open>Memory for \<open>n\<close> elements: an implementation may give a null pointer for none.\<close>

definition room :: "heap \<Rightarrow> nat \<Rightarrow> bool" where
  "room h n \<longleftrightarrow> n > 0 \<or> \<not> h_zero_null h"

lemma room_place [simp]: "room (place bs h) n = room h n"
  by (simp add: room_def)

lemma calloc_structs_room [simp]:
  "h_oom h = [] \<Longrightarrow> room h n \<Longrightarrow>
   calloc_structs n s h = Inr (At (next_block h) 0, place [Structs (replicate n s)] h)"
  by (simp add: room_def)

definition node_list_layout :: "nat \<Rightarrow> adm_node list \<Rightarrow> block list" where
  "node_list_layout b vs =
     Structs [S_node_list (Some (At (Suc b) 0)) (Some (length vs))] #
     Structs (map (\<lambda>i. S_node (Some (At (b + 2 + i) 0)) (Some (n_type (vs ! i)))) [0..<length vs]) #
     concat (map (\<lambda>i. [Bytes (n_hostname (vs ! i) @ [CHR 0x00])]) [0..<length vs])"

definition dataset_list_layout :: "nat \<Rightarrow> adm_dataset list \<Rightarrow> block list" where
  "dataset_list_layout b vs =
     Structs [S_dataset_list (Some (At (Suc b) 0)) (Some (length vs))] #
     Structs (map (\<lambda>i. S_dataset (Some (At (b + 2 + i) 0))) [0..<length vs]) #
     concat (map (\<lambda>i. [Bytes (d_id (vs ! i) @ [CHR 0x00])]) [0..<length vs])"

definition route_list_layout :: "nat \<Rightarrow> adm_dataset_route list \<Rightarrow> block list" where
  "route_list_layout b vs =
     Structs [S_dataset_route_list (Some (At (Suc b) 0)) (Some (length vs))] #
     Structs (map (\<lambda>i. S_dataset_route (Some (At (b + 2 + 4 * i) 0)) (Some (At (b + 2 + 4 * i + 2) 0)))
               [0..<length vs]) #
     concat (map (\<lambda>i. dataset_blocks_at (b + 2 + 4 * i) (d_src (vs ! i)) @
                       dataset_blocks_at (b + 2 + 4 * i + 2) (d_dst (vs ! i))) [0..<length vs])"

lemma ADM_node_list_create_done:
  assumes v: "read_args (read_node h) xs n = Some vs" and o: "h_oom h = []" and r: "room h n"
  shows "ADM_node_list_create xs n h =
    Inr (At (next_block h) 0, place (node_list_layout (next_block h) vs) h)"
proof -
  define l where "l = Structs [S_node_list (Some (At (Suc (next_block h)) 0)) (Some n)]"
  define body where "body = (\<lambda>i. seq (array_arg xs i) (\<lambda>x.
      seq (ADM_node_copy (elem_ptr (At (Suc (next_block h)) 0) i) x) (\<lambda>r. ret (r \<noteq> Null))))"
  have vs: "n \<le> length xs" "length vs = n" "\<And>i. i < n \<Longrightarrow> read_node h (xs ! i) = Some (vs ! i)"
    using v by (auto simp: read_args_Some_iff)
  have loop: "for_goto [0..<n] body (place [l, Structs (replicate n (S_node (Some Null) (Some 0)))] h) =
      Inr (True, place (node_list_layout (next_block h) vs) h)"
    unfolding node_list_layout_def vs l_def
    by (rule for_goto_fill [where k = 1])
       (use vs o in \<open>simp_all add: body_def array_arg_def ADM_node_copy_elem\<close>)
  then show ?thesis
    using o r by (simp add: ADM_node_list_create_def body_def l_def)
qed

lemma ADM_dataset_list_create_done:
  assumes v: "read_args (read_dataset h) xs n = Some vs" and o: "h_oom h = []" and r: "room h n"
  shows "ADM_dataset_list_create xs n h =
    Inr (At (next_block h) 0, place (dataset_list_layout (next_block h) vs) h)"
proof -
  define l where "l = Structs [S_dataset_list (Some (At (Suc (next_block h)) 0)) (Some n)]"
  define body where "body = (\<lambda>i. seq (array_arg xs i) (\<lambda>x.
      seq (ADM_dataset_copy (elem_ptr (At (Suc (next_block h)) 0) i) x) (\<lambda>r. ret (r \<noteq> Null))))"
  have vs: "n \<le> length xs" "length vs = n" "\<And>i. i < n \<Longrightarrow> read_dataset h (xs ! i) = Some (vs ! i)"
    using v by (auto simp: read_args_Some_iff)
  have loop: "for_goto [0..<n] body (place [l, Structs (replicate n (S_dataset (Some Null)))] h) =
      Inr (True, place (dataset_list_layout (next_block h) vs) h)"
    unfolding dataset_list_layout_def vs l_def
    by (rule for_goto_fill [where k = 1])
       (use vs o in \<open>simp_all add: body_def array_arg_def ADM_dataset_copy_elem\<close>)
  then show ?thesis
    using o r by (simp add: ADM_dataset_list_create_def body_def l_def)
qed

lemma ADM_dataset_route_list_create_done:
  assumes v: "read_args (read_route h) xs n = Some vs" and o: "h_oom h = []" and r: "room h n"
  shows "ADM_dataset_route_list_create xs n h =
    Inr (At (next_block h) 0, place (route_list_layout (next_block h) vs) h)"
proof -
  define l where "l = Structs [S_dataset_route_list (Some (At (Suc (next_block h)) 0)) (Some n)]"
  define body where "body = (\<lambda>i. seq (array_arg xs i) (\<lambda>x.
      seq (ADM_dataset_route_copy (elem_ptr (At (Suc (next_block h)) 0) i) x) (\<lambda>r. ret (r \<noteq> Null))))"
  have vs: "n \<le> length xs" "length vs = n" "\<And>i. i < n \<Longrightarrow> read_route h (xs ! i) = Some (vs ! i)"
    using v by (auto simp: read_args_Some_iff)
  have loop: "for_goto [0..<n] body (place [l, Structs (replicate n (S_dataset_route (Some Null) (Some Null)))] h) =
      Inr (True, place (route_list_layout (next_block h) vs) h)"
    unfolding route_list_layout_def vs l_def
    by (rule for_goto_fill [where k = 4])
       (use vs o in \<open>simp_all add: body_def array_arg_def ADM_dataset_route_copy_elem\<close>)
  then show ?thesis
    using o r by (simp add: ADM_dataset_route_list_create_def body_def l_def)
qed
end
