(* ===== verification/CLayout.thy ===== *)
theory CLayout
  imports CCreate
begin

text \<open>
  Where an object created by \<open>types.c\<close> lies in memory (\<open>laid\<close>: blocks in a row from a given number on), that
  it reads back as the value it was made from, and the closed forms of the functions that build objects
  out of others: contexts, storages, resources and the requirements of a job.
\<close>

section \<open>Blocks in a row\<close>

definition laid :: "heap \<Rightarrow> nat \<Rightarrow> block list \<Rightarrow> bool" where
  "laid h b bs \<longleftrightarrow> (\<forall>i<length bs. cell h (b + i) = Live (bs ! i))"

lemma laid_Nil [simp]: "laid h b []"
  by (simp add: laid_def)

lemma laid_Cons [simp]: "laid h b (x # bs) \<longleftrightarrow> cell h b = Live x \<and> laid h (Suc b) bs"
  by (auto simp: laid_def less_Suc_eq_0_disj)

lemma laid_append [simp]: "laid h b (xs @ ys) \<longleftrightarrow> laid h b xs \<and> laid h (b + length xs) ys"
  by (induction xs arbitrary: b) auto

lemma laid_place [simp]: "laid (place bs h) (next_block h) bs"
  by (simp add: laid_def cell_place)

lemma laid_concat:
  assumes "\<And>i. length (S i) = k"
  shows "laid h b (concat (map S [0..<n])) \<longleftrightarrow> (\<forall>i<n. laid h (b + k * i) (S i))"
proof (induction n)
  case (Suc n)
  have "length (concat (map S [0..<n])) = k * n"
    using assms by (simp add: length_concat comp_def sum_list_triv)
  with Suc show ?case by (auto simp: less_Suc_eq)
qed simp

lemma laid_map [simp]: "laid h b (map f [0..<n]) \<longleftrightarrow> (\<forall>i<n. cell h (b + i) = Live (f i))"
  by (simp add: laid_def)

lemma laid_keeps: "laid h b bs \<Longrightarrow> keeps h h' \<Longrightarrow> laid h' b bs"
  by (auto simp: laid_def keeps_def live_def)

lemma read_struct_cell [simp]: "cell h b = Live (Structs xs) \<Longrightarrow> i < length xs \<Longrightarrow> read_struct h (At b i) = Some (xs ! i)"
  by (simp add: read_struct_def)

lemma read_string_cell [simp]:
  "cell h b = Live (Bytes (s @ [CHR 0x00])) \<Longrightarrow> CHR 0x00 \<notin> set s \<Longrightarrow> read_string h (At b 0) = Some s"
  by (simp add: read_string_def)

section \<open>Reading back\<close>

lemma read_node_list_laid:
  assumes "laid h b (node_list_layout b vs)" "\<And>v. v \<in> set vs \<Longrightarrow> no_nul (n_hostname v)"
  shows "read_node_list h (At b 0) = Some vs"
  using assms
  by (auto simp: node_list_layout_def read_node_list_Some_iff read_array_Some_iff read_node_Some_iff
                 no_nul_def)

lemma read_dataset_list_laid:
  assumes "laid h b (dataset_list_layout b vs)" "\<And>v. v \<in> set vs \<Longrightarrow> no_nul (d_id v)"
  shows "read_dataset_list h (At b 0) = Some vs"
  using assms
  by (auto simp: dataset_list_layout_def read_dataset_list_Some_iff read_array_Some_iff
                 read_dataset_Some_iff no_nul_def)

lemma read_dataset_laid:
  "laid h b (dataset_blocks_at b d) \<Longrightarrow> no_nul (d_id d) \<Longrightarrow> read_dataset h (At b 0) = Some d"
  by (auto simp: dataset_blocks_at_def read_dataset_Some_iff no_nul_def)

lemma read_route_list_laid:
  assumes l: "laid h b (route_list_layout b vs)"
    and ok: "\<And>v. v \<in> set vs \<Longrightarrow> no_nul (d_id (d_src v)) \<and> no_nul (d_id (d_dst v))"
  shows "read_route_list h (At b 0) = Some vs"
proof -
  have parts: "laid h (b + 2 + 4 * i) (dataset_blocks_at (b + 2 + 4 * i) (d_src (vs ! i)))"
      "laid h (b + 2 + 4 * i + 2) (dataset_blocks_at (b + 2 + 4 * i + 2) (d_dst (vs ! i)))" if "i < length vs" for i
    using l that
    by (auto simp: route_list_layout_def laid_concat [where k = 4] add.commute add.left_commute)
  have "read_route h (At (Suc b) i) = Some (vs ! i)" if "i < length vs" for i
    using l that read_dataset_laid [OF parts(1) [OF that]] read_dataset_laid [OF parts(2) [OF that]] ok
    by (auto simp: route_list_layout_def read_route_Some_iff)
  with l show ?thesis
    by (auto simp: route_list_layout_def read_route_list_Some_iff read_array_Some_iff)
qed

lemma length_node_list_layout [simp]: "length (node_list_layout b vs) = 2 + length vs"
  by (simp add: node_list_layout_def length_concat comp_def sum_list_triv)

lemma length_route_list_layout [simp]: "length (route_list_layout b vs) = 2 + 4 * length vs"
  by (simp add: route_list_layout_def length_concat comp_def sum_list_triv)

section \<open>Single objects\<close>

lemma ADM_node_create_done:
  assumes "read_string h q = Some s" "h_oom h = []"
  shows "ADM_node_create q t h = Inr (At (next_block h) 0,
     place [Structs [S_node (Some (At (Suc (next_block h)) 0)) (Some t)], Bytes (s @ [CHR 0x00])] h)"
proof -
  have "q \<noteq> Null" using assms(1) by auto
  with assms show ?thesis by (simp add: ADM_node_create_def dup_string_place)
qed

lemma ADM_dataset_route_create_done:
  assumes s: "read_dataset h s = Some x" and d: "read_dataset h d = Some y" and o: "h_oom h = []"
  shows "ADM_dataset_route_create s d h = Inr (At (next_block h) 0,
    place (Structs [S_dataset_route (Some (At (Suc (next_block h)) 0)) (Some (At (Suc (next_block h) + 2) 0))] #
           dataset_blocks_at (Suc (next_block h)) x @ dataset_blocks_at (Suc (next_block h) + 2) y) h)"
proof -
  obtain q r where q: "read_struct h s = Some (S_dataset (Some q))" "read_struct h d = Some (S_dataset (Some r))"
    using s d by (auto simp: read_dataset_Some_iff)
  have "ADM_dataset_create q (place bs h) = Inr (At (next_block h + length bs) 0,
      place (bs @ dataset_blocks_at (next_block h + length bs) x) h)" for bs
    using ADM_dataset_create_place [OF s o q(1)] .
  moreover have "ADM_dataset_create r (place bs h) = Inr (At (next_block h + length bs) 0,
      place (bs @ dataset_blocks_at (next_block h + length bs) y) h)" for bs
    using ADM_dataset_create_place [OF d o q(2)] .
  ultimately show ?thesis
    using q o by (simp add: ADM_dataset_route_create_def dataset_at_def eval_nat_numeral)
qed

lemma keeps_release_new: "keeps h g \<Longrightarrow> (\<And>b. b \<in> set bs \<Longrightarrow> \<not> live h b) \<Longrightarrow> keeps h (release bs g)"
  by (auto simp: keeps_def cell_release)

lemma ADM_adhoc_context_create_done:
  assumes "read_string h q = Some ctl" "read_string h r = Some st" "h_oom h = []"
  shows "ADM_adhoc_context_create q r m a w f h = Inr (At (next_block h) 0,
     place [Structs [S_adhoc_context (Some (At (next_block h + 1) 0)) (Some (At (next_block h + 2) 0))
                       (Some m) (Some a) (Some w) (Some f)],
            Bytes (ctl @ [CHR 0x00]), Bytes (st @ [CHR 0x00])] h)"
proof -
  have "q \<noteq> Null" "r \<noteq> Null" using assms by auto
  with assms show ?thesis by (simp add: ADM_adhoc_context_create_def dup_string_place)
qed

lemma ADM_adhoc_storage_create_done:
  assumes "read_string h q = Some name" "read_struct h ctx = Some s" "h_oom h = []"
  shows "ADM_adhoc_storage_create q t i ctx res h = Inr (At (next_block h) 0,
     place [Structs [S_adhoc_storage (Some (At (next_block h + 1) 0)) (Some t) (Some i)
                       (Some (At (next_block h + 2) 0)) (Some res)],
            Bytes (name @ [CHR 0x00]), Structs [s]] h)"
proof -
  have "q \<noteq> Null" "ctx \<noteq> Null" using assms by auto
  with assms show ?thesis
    using store_new [of 2 "[Structs [S_adhoc_storage (Some (At (Suc (next_block h)) 0)) (Some t) (Some i)
             (Some (At (Suc (Suc (next_block h))) 0)) None], Bytes (name @ [CHR 0x00]), Structs
             [S_adhoc_context (Some Null) (Some Null) (Some 0) (Some 0) (Some 0) (Some False)]]" _ 0 h s]
    by (simp add: ADM_adhoc_storage_create_def dup_string_place)
qed

lemma ADM_adhoc_resources_create_done:
  assumes "read_args (read_node h) xs n = Some vs" "h_oom h = []" "room h n"
  shows "ADM_adhoc_resources_create xs n h = Inr (At (next_block h) 0,
     place (Structs [S_adhoc_resources (Some (At (Suc (next_block h)) 0))] #
            node_list_layout (Suc (next_block h)) vs) h)"
proof -
  have "read_args (read_node (place [x] h)) xs n = Some vs" for x
    using assms(1) by (auto simp: read_args_Some_iff intro: read_node_keeps)
  with assms show ?thesis
    by (simp add: ADM_adhoc_resources_create_def ADM_node_list_create_done)
qed

lemma ADM_job_resources_create_done:
  assumes "read_args (read_node h) xs n = Some vs" "h_oom h = []" "room h n"
  shows "ADM_job_resources_create xs n h = Inr (At (next_block h) 0,
     place (Structs [S_job_resources (Some (At (Suc (next_block h)) 0))] #
            node_list_layout (Suc (next_block h)) vs) h)"
proof -
  have "read_args (read_node (place [x] h)) xs n = Some vs" for x
    using assms(1) by (auto simp: read_args_Some_iff intro: read_node_keeps)
  with assms show ?thesis
    by (simp add: ADM_job_resources_create_def ADM_node_list_create_done)
qed

section \<open>Requirements\<close>

fun storage_layout :: "nat \<Rightarrow> (string \<times> nat \<times> u64 \<times> cstruct \<times> ptr) option \<Rightarrow> block list" where
  "storage_layout b None = []"
| "storage_layout b (Some (name, t, i, ctx, res)) =
     [Structs [S_adhoc_storage (Some (At (b + 1) 0)) (Some t) (Some i) (Some (At (b + 2) 0)) (Some res)],
      Bytes (name @ [CHR 0x00]), Structs [ctx]]"

definition requirements_layout ::
    "nat \<Rightarrow> adm_dataset_route list \<Rightarrow> adm_dataset_route list \<Rightarrow> adm_dataset_route list \<Rightarrow>
     (string \<times> nat \<times> u64 \<times> cstruct \<times> ptr) option \<Rightarrow> block list" where
  "requirements_layout b ins outs exps st =
     (let b1 = Suc b; b2 = b1 + (2 + 4 * length ins); b3 = b2 + (2 + 4 * length outs);
          b4 = b3 + (2 + 4 * length exps)
      in Structs [S_job_requirements (Some (At b1 0)) (Some (At b2 0)) (Some (At b3 0))
                    (Some (if st = None then Null else At b4 0))] #
         route_list_layout b1 ins @ route_list_layout b2 outs @ route_list_layout b3 exps @
         storage_layout b4 st)"

text \<open>What \<open>ADM_job_requirements_create\<close> takes from the storage it is given.\<close>

definition storage_arg :: "heap \<Rightarrow> ptr \<Rightarrow> (string \<times> nat \<times> u64 \<times> cstruct \<times> ptr) option option" where
  "storage_arg h p =
     (if p = Null then Some None else
      case read_struct h p of
        Some (S_adhoc_storage (Some q) (Some t) (Some i) (Some c) (Some r)) \<Rightarrow>
          Option.bind (read_string h q) (\<lambda>name.
          Option.bind (read_struct h c) (\<lambda>ctx.
          if known_adhoc_type t then Some (Some (name, t, i, ctx, r)) else None))
      | _ \<Rightarrow> None)"

lemma storage_arg_Some:
  "storage_arg h p = Some (Some (name, t, i, ctx, r)) \<longleftrightarrow>
     known_adhoc_type t \<and>
     (\<exists>q c. read_struct h p = Some (S_adhoc_storage (Some q) (Some t) (Some i) (Some c) (Some r)) \<and>
           read_string h q = Some name \<and> read_struct h c = Some ctx)"
  by (auto simp: storage_arg_def bind_eq_Some_conv split: option.splits cstruct.splits if_splits)

lemma storage_arg_None: "storage_arg h p = Some None \<longleftrightarrow> p = Null"
  by (auto simp: storage_arg_def bind_eq_Some_conv split: option.splits cstruct.splits if_splits)

lemma read_args_place:
  "read_args (read_route h) xs n = Some vs \<Longrightarrow> read_args (read_route (place bs h)) xs n = Some vs"
  by (auto simp: read_args_Some_iff intro: read_route_keeps)

lemma ADM_job_requirements_create_done:
  assumes i: "read_args (read_route h) xs n = Some ins"
    and u: "read_args (read_route h) ys m = Some outs"
    and e: "read_args (read_route h) zs k = Some exps"
    and st: "storage_arg h p = Some st"
    and o: "h_oom h = []" and room: "room h n" "room h m" "room h k"
  shows "ADM_job_requirements_create xs n ys m zs k p h =
    Inr (At (next_block h) 0, place (requirements_layout (next_block h) ins outs exps st) h)"
proof -
  define b1 b2 b3 b4 where "b1 = Suc (next_block h)" and "b2 = b1 + (2 + 4 * length ins)"
    and "b3 = b2 + (2 + 4 * length outs)" and "b4 = b3 + (2 + 4 * length exps)"
  define R where "R = Structs [S_job_requirements (Some Null) (Some Null) (Some Null) (Some Null)]"
  define I O' E where "I = route_list_layout b1 ins" and "O' = route_list_layout b2 outs"
    and "E = route_list_layout b3 exps"
  have len: "length I = 2 + 4 * length ins" "length O' = 2 + 4 * length outs" "length E = 2 + 4 * length exps"
    by (simp_all add: I_def O'_def E_def)
  have c1: "ADM_dataset_route_list_create xs n (place [R] h) = Inr (At b1 0, place (R # I) h)"
    using ADM_dataset_route_list_create_done [OF read_args_place [OF i, of "[R]"]] o room
    by (simp add: b1_def I_def)
  have c2: "ADM_dataset_route_list_create ys m (place (R # I) h) = Inr (At b2 0, place (R # I @ O') h)"
    using ADM_dataset_route_list_create_done [OF read_args_place [OF u, of "R # I"]] o room len
    by (simp add: b1_def b2_def O'_def)
  have c3: "ADM_dataset_route_list_create zs k (place (R # I @ O') h) = Inr (At b3 0, place (R # I @ O' @ E) h)"
    using ADM_dataset_route_list_create_done [OF read_args_place [OF e, of "R # I @ O'"]] o room len
    by (simp add: b1_def b2_def b3_def E_def add.assoc)
  have malloc: "malloc_struct (S_job_requirements (Some Null) (Some Null) (Some Null) (Some Null)) h =
      Inr (At (next_block h) 0, place [R] h)"
    using o by (simp add: R_def)
  show ?thesis
  proof (cases st)
    case None
    then have "p = Null" using st by (simp add: storage_arg_None)
    with None show ?thesis
      using malloc c1 c2 c3
      by (simp add: ADM_job_requirements_create_def requirements_layout_def R_def I_def O'_def E_def
                    b1_def b2_def b3_def)
  next
    case (Some v)
    obtain name t j ctx r where v: "v = (name, t, j, ctx, r)" by (cases v)
    obtain q d where s: "read_struct h p = Some (S_adhoc_storage (Some q) (Some t) (Some j) (Some d) (Some r))"
        "read_string h q = Some name" "read_struct h d = Some ctx" "known_adhoc_type t"
      using st Some v by (auto simp: storage_arg_Some)
    have "p \<noteq> Null" using s by auto
    define R' where "R' = Structs [S_job_requirements (Some (At b1 0)) (Some (At b2 0)) (Some (At b3 0)) (Some Null)]"
    have "ADM_adhoc_storage_create q t j d r (place (R' # I @ O' @ E) h) =
        Inr (At b4 0, place (R' # I @ O' @ E @ storage_layout b4 st) h)"
      using ADM_adhoc_storage_create_done [of "place (R' # I @ O' @ E) h" q name d ctx t j r] s o len Some v
      by (simp add: b1_def b2_def b3_def b4_def add.assoc)
    then show ?thesis
      using malloc c1 c2 c3 s \<open>p \<noteq> Null\<close> Some
      by (simp add: ADM_job_requirements_create_def adhoc_storage_at_def requirements_layout_def Let_def
                    R_def R'_def I_def O'_def E_def b1_def b2_def b3_def b4_def)
  qed
qed

end
