(* ===== verification/COwner.thy ===== *)
theory COwner
  imports CLayout
begin

text \<open>
  Who frees what. The functions \<open>_blocks\<close> list the blocks that belong to an object: those its destroy
  function gives back. Locale \<open>c_object\<close> is the contract of a kind of object and its destroy function,
  interpreted for every kind of \<open>types.c\<close> that keeps it.
\<close>

section \<open>Lists of blocks\<close>

fun cat2 :: "'a list option \<Rightarrow> 'a list option \<Rightarrow> 'a list option" where
  "cat2 (Some xs) (Some ys) = Some (xs @ ys)"
| "cat2 _ _ = None"

lemma cat2_Some_iff: "cat2 a b = Some zs \<longleftrightarrow> (\<exists>xs ys. a = Some xs \<and> b = Some ys \<and> zs = xs @ ys)"
  by (cases a; cases b) auto

text \<open>The block a pointer starts, and the same for a pointer that may be null.\<close>

definition whole :: "heap \<Rightarrow> ptr \<Rightarrow> nat list option" where
  "whole h p = (case p of At b i \<Rightarrow> if i = 0 \<and> live h b then Some [b] else None | Null \<Rightarrow> None)"

definition opt_block :: "heap \<Rightarrow> ptr \<Rightarrow> nat list option" where
  "opt_block h p = (if p = Null then Some [] else whole h p)"

lemma whole_Some_iff: "whole h p = Some bs \<longleftrightarrow> (\<exists>b. p = At b 0 \<and> live h b \<and> bs = [b])"
  by (auto simp: whole_def split: ptr.splits)

lemma opt_block_live: "opt_block h p = Some bs \<Longrightarrow> b \<in> set bs \<Longrightarrow> live h b"
  by (auto simp: opt_block_def whole_Some_iff split: if_splits)

text \<open>Two heaps that agree on some blocks.\<close>

definition agree :: "nat list \<Rightarrow> heap \<Rightarrow> heap \<Rightarrow> bool" where
  "agree bs h h' \<longleftrightarrow> (\<forall>b\<in>set bs. cell h' b = cell h b)"

lemma agree_append [simp]: "agree (xs @ ys) h h' \<longleftrightarrow> agree xs h h' \<and> agree ys h h'"
  by (auto simp: agree_def)

lemma agree_Cons [simp]: "agree (x # ys) h h' \<longleftrightarrow> cell h' x = cell h x \<and> agree ys h h'"
  by (auto simp: agree_def)

lemma agree_release: "set fs \<inter> set bs = {} \<Longrightarrow> agree bs h (release fs h)"
  by (auto simp: agree_def cell_release)

lemma live_cong: "cell h' b = cell h b \<Longrightarrow> live h' b = live h b"
  by (simp add: live_def)

lemma read_struct_cong: "cell h' b = cell h b \<Longrightarrow> read_struct h' (At b i) = read_struct h (At b i)"
  by (simp add: read_struct_def load_def split: cell.splits block.splits)

lemma whole_agree: "whole h p = Some bs \<Longrightarrow> agree bs h h' \<Longrightarrow> whole h' p = Some bs"
  by (auto simp: whole_Some_iff live_def)

lemma opt_block_agree: "opt_block h p = Some bs \<Longrightarrow> agree bs h h' \<Longrightarrow> opt_block h' p = Some bs"
  by (auto simp: opt_block_def intro: whole_agree split: if_splits)

lemma free_if_block:
  "opt_block h p = Some bs \<Longrightarrow> free_if p h = Inr ((), release bs h)"
  by (auto simp: free_if_def opt_block_def whole_Some_iff split: if_splits)

lemma free_opt_block: "opt_block h p = Some bs \<Longrightarrow> free p h = Inr ((), release bs h)"
  by (auto simp: opt_block_def whole_Some_iff split: if_splits)

lemma free_whole: "whole h p = Some bs \<Longrightarrow> free p h = Inr ((), release bs h)"
  by (auto simp: whole_Some_iff)

lemma for_c_releases:
  assumes body: "\<And>i fs. i < n \<Longrightarrow> set fs \<inter> (K \<union> set (B i)) = {} \<Longrightarrow>
      body i (release fs h) = Inr ((), release (fs @ B i) h)"
    and d: "distinct (concat (map B [0..<n]))" and K: "K \<inter> set (concat (map B [0..<n])) = {}"
  shows "for_c [0..<n] body h = Inr ((), release (concat (map B [0..<n])) h)"
proof -
  have "for_c [j..<n] body (release (concat (map B [0..<j])) h) =
      Inr ((), release (concat (map B [0..<n])) h)" if "j \<le> n" for j
    using that
  proof (induction "n - j" arbitrary: j)
    case 0
    then show ?case by simp
  next
    case (Suc k)
    then have j: "j < n" by simp
    have split: "map B [0..<n] = map B [0..<j] @ B j # map B [Suc j..<n]"
      using j upt_add_eq_append [of 0 j "n - j"] by (simp add: upt_conv_Cons)
    have "set (concat (map B [0..<j])) \<inter> (K \<union> set (B j)) = {}"
      using d K unfolding split by auto
    from body [OF j this] have step: "body j (release (concat (map B [0..<j])) h) =
        Inr ((), release (concat (map B [0..<Suc j])) h)" by simp
    have "for_c [Suc j..<n] body (release (concat (map B [0..<Suc j])) h) =
        Inr ((), release (concat (map B [0..<n])) h)"
      using Suc j by (intro Suc.hyps(1)) simp_all
    with step show ?case
      unfolding upt_conv_Cons [OF j] for_c.simps by (simp only: seq_Inr)
  qed
  from this [of 0] show ?thesis by simp
qed

section \<open>The contract\<close>

text \<open>
  The blocks of an object are in use; they are found by looking only at them; destroying an object that
  has them all to itself succeeds and frees exactly them; doing it once more is undefined.
\<close>

locale c_object =
  fixes blocks :: "heap \<Rightarrow> 'p \<Rightarrow> nat list option"
    and destroy :: "'p \<Rightarrow> adm_return c"
  assumes blocks_live: "blocks h p = Some bs \<Longrightarrow> b \<in> set bs \<Longrightarrow> live h b"
    and blocks_agree: "blocks h p = Some bs \<Longrightarrow> agree bs h h' \<Longrightarrow> blocks h' p = Some bs"
    and destroy_frees:
      "blocks h p = Some bs \<Longrightarrow> distinct bs \<Longrightarrow> destroy p h = Inr (ADM_SUCCESS, release bs h)"
    and destroy_freed: "blocks h p = Some bs \<Longrightarrow> set bs \<subseteq> set fs \<Longrightarrow> \<exists>e. destroy p (release fs h) = Inl e"
begin

lemma destroy_twice:
  assumes "blocks h p = Some bs" "distinct bs"
  shows "\<exists>e. seq (destroy p) (\<lambda>_. destroy p) h = Inl e"
  using assms destroy_frees [OF assms] destroy_freed [OF assms(1), of bs] by auto

lemma others_stay:
  assumes "blocks h p = Some bs" "distinct bs" "blocks h q = Some cs" "set bs \<inter> set cs = {}"
  shows "\<exists>h'. destroy p h = Inr (ADM_SUCCESS, h') \<and> blocks h' q = Some cs"
  using assms destroy_frees [OF assms(1,2)] blocks_agree [OF assms(3) agree_release] by blast

text \<open>Objects that share no block can be destroyed in any order.\<close>

lemma destroy_all:
  assumes "\<And>i. i < length ps \<Longrightarrow> blocks h (ps ! i) = Some (bss ! i)" "length bss = length ps"
    and "distinct (concat bss)"
  shows "for_c [0..<length ps] (\<lambda>i. seq (destroy (ps ! i)) (\<lambda>_. ret ())) h = Inr ((), release (concat bss) h)"
proof -
  have bss: "map ((!) bss) [0..<length ps] = bss"
    using assms(2) map_nth [of bss] by simp
  have "for_c [0..<length ps] (\<lambda>i. seq (destroy (ps ! i)) (\<lambda>_. ret ())) h =
      Inr ((), release (concat (map ((!) bss) [0..<length ps])) h)"
  proof (rule for_c_releases [where K = "{}"])
    fix i fs assume i: "i < length ps" and fs: "set fs \<inter> ({} \<union> set (bss ! i)) = {}"
    have "blocks (release fs h) (ps ! i) = Some (bss ! i)"
      using assms(1) [OF i] fs by (auto intro: blocks_agree agree_release)
    moreover have "distinct (bss ! i)"
      using assms(2,3) i by (auto simp: distinct_concat_iff)
    ultimately have "destroy (ps ! i) (release fs h) = Inr (ADM_SUCCESS, release (bss ! i) (release fs h))"
      by (rule destroy_frees)
    then show "seq (destroy (ps ! i)) (\<lambda>_. ret ()) (release fs h) = Inr ((), release (fs @ bss ! i) h)"
      by simp
  qed (use assms(3) bss in auto)
  then show ?thesis by (simp add: bss)
qed

end

end
