(* ===== verification/COwned.thy ===== *)
theory COwned
  imports COwner
begin

text \<open>
  The blocks of every kind of object of \<open>types.c\<close>, and the proof that its destroy function keeps the
  contract \<open>c_object\<close>.
\<close>

section \<open>Objects in one block\<close>

lemma free_object_contract: "c_object whole free_object"
proof
  fix h p bs h' fs b
  assume w: "whole h p = Some bs"
  show "b \<in> set bs \<Longrightarrow> live h b" using w by (auto simp: whole_Some_iff)
  show "agree bs h h' \<Longrightarrow> whole h' p = Some bs" using w by (rule whole_agree)
  show "free_object p h = Inr (ADM_SUCCESS, release bs h)"
    using w by (auto simp: free_object_def whole_Some_iff)
  show "\<exists>e. free_object p (release fs h) = Inl e" if "set bs \<subseteq> set fs"
    using w that by (auto simp: free_object_def whole_Some_iff free_freed live_release)
qed

lemma simple_contract: "destroy = free_object \<Longrightarrow> c_object whole destroy"
  by (simp add: free_object_contract)

interpretation c_server: c_object whole ADM_server_destroy
  by (rule simple_contract) (simp add: fun_eq_iff ADM_server_destroy_def)

interpretation c_entity: c_object whole ADM_qos_entity_destroy
  by (rule simple_contract) (simp add: fun_eq_iff ADM_qos_entity_destroy_def)

interpretation c_limit: c_object whole ADM_qos_limit_destroy
  by (rule simple_contract) (simp add: fun_eq_iff ADM_qos_limit_destroy_def)

interpretation c_info: c_object whole ADM_dataset_info_destroy
  by (rule simple_contract) (simp add: fun_eq_iff ADM_dataset_info_destroy_def)

interpretation c_job: c_object whole ADM_job_destroy
  by (rule simple_contract) (simp add: fun_eq_iff ADM_job_destroy_def)

interpretation c_transfer: c_object whole ADM_transfer_destroy
  by (rule simple_contract) (simp add: fun_eq_iff ADM_transfer_destroy_def)

interpretation c_status: c_object whole ADM_transfer_status_destroy
  by (rule simple_contract) (simp add: fun_eq_iff ADM_transfer_status_destroy_def)

interpretation c_operation: c_object whole ADM_data_operation_destroy
  by (rule simple_contract) (simp add: fun_eq_iff ADM_data_operation_destroy_def)

interpretation c_adhoc_context: c_object whole ADM_adhoc_context_destroy
  by (rule simple_contract) (simp add: fun_eq_iff ADM_adhoc_context_destroy_def)

interpretation c_pfs_context: c_object whole ADM_pfs_context_destroy
  by (rule simple_contract) (simp add: fun_eq_iff ADM_pfs_context_destroy_def)

section \<open>Nodes and datasets\<close>

definition node_text :: "heap \<Rightarrow> ptr \<Rightarrow> nat list option" where
  "node_text h p = (case read_struct h p of Some (S_node (Some q) _) \<Rightarrow> opt_block h q | _ \<Rightarrow> None)"

definition node_blocks :: "heap \<Rightarrow> ptr \<Rightarrow> nat list option" where
  "node_blocks h p = cat2 (whole h p) (node_text h p)"

definition dataset_text :: "heap \<Rightarrow> ptr \<Rightarrow> nat list option" where
  "dataset_text h p = (case read_struct h p of Some (S_dataset (Some q)) \<Rightarrow> opt_block h q | _ \<Rightarrow> None)"

definition dataset_blocks :: "heap \<Rightarrow> ptr \<Rightarrow> nat list option" where
  "dataset_blocks h p = cat2 (whole h p) (dataset_text h p)"

lemma node_text_Some_iff:
  "node_text h p = Some bs \<longleftrightarrow> (\<exists>q t. read_struct h p = Some (S_node (Some q) t) \<and> opt_block h q = Some bs)"
  by (auto simp: node_text_def split: option.splits cstruct.splits)

lemma dataset_text_Some_iff:
  "dataset_text h p = Some bs \<longleftrightarrow> (\<exists>q. read_struct h p = Some (S_dataset (Some q)) \<and> opt_block h q = Some bs)"
  by (auto simp: dataset_text_def split: option.splits cstruct.splits)

lemma node_text_agree:
  "node_text h (At b i) = Some bs \<Longrightarrow> cell h' b = cell h b \<Longrightarrow> agree bs h h' \<Longrightarrow>
   node_text h' (At b i) = Some bs"
  using read_struct_cong [of h' b h i] by (auto simp: node_text_Some_iff intro: opt_block_agree)

lemma dataset_text_agree:
  "dataset_text h (At b i) = Some bs \<Longrightarrow> cell h' b = cell h b \<Longrightarrow> agree bs h h' \<Longrightarrow>
   dataset_text h' (At b i) = Some bs"
  using read_struct_cong [of h' b h i] by (auto simp: dataset_text_Some_iff intro: opt_block_agree)

interpretation c_node: c_object node_blocks ADM_node_destroy
proof
  fix h p bs h' fs c
  assume w: "node_blocks h p = Some bs"
  then obtain b ys where p: "p = At b 0" "live h b" "node_text h p = Some ys" "bs = b # ys"
    by (auto simp: node_blocks_def cat2_Some_iff whole_Some_iff)
  obtain q t where q: "read_struct h p = Some (S_node (Some q) t)" "opt_block h q = Some ys"
    using p by (auto simp: node_text_Some_iff)
  show "c \<in> set bs \<Longrightarrow> live h c" using p q by (auto dest: opt_block_live)
  show "node_blocks h' p = Some bs" if "agree bs h h'"
    using that p by (auto simp: node_blocks_def cat2_Some_iff whole_Some_iff live_def intro: node_text_agree)
  show "ADM_node_destroy p h = Inr (ADM_SUCCESS, release bs h)" if d: "distinct bs"
  proof -
    have "free p (release ys h) = Inr ((), release bs h)"
      using d p by (auto simp: live_release intro: release_cong)
    then show ?thesis
      using q p free_if_block [OF q(2)] by (simp add: ADM_node_destroy_def node_at_def)
  qed
  show "\<exists>e. ADM_node_destroy p (release fs h) = Inl e" if "set bs \<subseteq> set fs"
    using that p by (simp add: ADM_node_destroy_def node_at_def load_freed live_release)
qed

interpretation c_dataset: c_object dataset_blocks ADM_dataset_destroy
proof
  fix h p bs h' fs c
  assume w: "dataset_blocks h p = Some bs"
  then obtain b ys where p: "p = At b 0" "live h b" "dataset_text h p = Some ys" "bs = b # ys"
    by (auto simp: dataset_blocks_def cat2_Some_iff whole_Some_iff)
  obtain q where q: "read_struct h p = Some (S_dataset (Some q))" "opt_block h q = Some ys"
    using p by (auto simp: dataset_text_Some_iff)
  show "c \<in> set bs \<Longrightarrow> live h c" using p q by (auto dest: opt_block_live)
  show "dataset_blocks h' p = Some bs" if "agree bs h h'"
    using that p
    by (auto simp: dataset_blocks_def cat2_Some_iff whole_Some_iff live_def intro: dataset_text_agree)
  show "ADM_dataset_destroy p h = Inr (ADM_SUCCESS, release bs h)" if d: "distinct bs"
  proof -
    have "free p (release ys h) = Inr ((), release bs h)"
      using d p by (auto simp: live_release intro: release_cong)
    then show ?thesis
      using q p free_if_block [OF q(2)] by (simp add: ADM_dataset_destroy_def dataset_at_def)
  qed
  show "\<exists>e. ADM_dataset_destroy p (release fs h) = Inl e" if "set bs \<subseteq> set fs"
    using that p by (simp add: ADM_dataset_destroy_def dataset_at_def load_freed live_release)
qed

section \<open>Objects that own others\<close>

text \<open>An object that may be absent.\<close>

definition maybe :: "(heap \<Rightarrow> ptr \<Rightarrow> nat list option) \<Rightarrow> heap \<Rightarrow> ptr \<Rightarrow> nat list option" where
  "maybe blocks h p = (if p = Null then Some [] else blocks h p)"

context c_object
begin

lemma destroy_frees_rest:
  "blocks h p = Some bs \<Longrightarrow> distinct bs \<Longrightarrow> set fs \<inter> set bs = {} \<Longrightarrow>
   destroy p (release fs h) = Inr (ADM_SUCCESS, release (fs @ bs) h)"
  using destroy_frees [of "release fs h" p bs] blocks_agree [OF _ agree_release] by auto

end

lemma maybe_live:
  "c_object blocks destroy \<Longrightarrow> maybe blocks h p = Some bs \<Longrightarrow> b \<in> set bs \<Longrightarrow> live h b"
  by (auto simp: maybe_def c_object.blocks_live split: if_splits)

lemma maybe_agree:
  "c_object blocks destroy \<Longrightarrow> maybe blocks h p = Some bs \<Longrightarrow> agree bs h h' \<Longrightarrow> maybe blocks h' p = Some bs"
  by (auto simp: maybe_def intro: c_object.blocks_agree split: if_splits)

lemma destroy_if_frees:
  "c_object blocks destroy \<Longrightarrow> maybe blocks h p = Some bs \<Longrightarrow> distinct bs \<Longrightarrow> set fs \<inter> set bs = {} \<Longrightarrow>
   destroy_if destroy p (release fs h) = Inr ((), release (fs @ bs) h)"
  by (auto simp: maybe_def destroy_if_def c_object.destroy_frees_rest split: if_splits)

definition limit_entity_blocks :: "heap \<Rightarrow> ptr \<Rightarrow> nat list option" where
  "limit_entity_blocks h p =
     (case read_struct h p of Some (S_qos_limit (Some e) _ _) \<Rightarrow> maybe whole h e | _ \<Rightarrow> None)"

definition limit_all_blocks :: "heap \<Rightarrow> ptr \<Rightarrow> nat list option" where
  "limit_all_blocks h p = cat2 (whole h p) (limit_entity_blocks h p)"

lemma limit_entity_blocks_Some_iff:
  "limit_entity_blocks h p = Some bs \<longleftrightarrow>
     (\<exists>e c v. read_struct h p = Some (S_qos_limit (Some e) c v) \<and> maybe whole h e = Some bs)"
  by (auto simp: limit_entity_blocks_def split: option.splits cstruct.splits)

lemma release_whole:
  "live h b \<Longrightarrow> b \<notin> set fs \<Longrightarrow> free (At b 0) (release fs h) = Inr ((), release (b # fs) h)"
  by (auto simp: live_release intro: release_cong)

interpretation c_limit_all: c_object limit_all_blocks ADM_qos_limit_destroy_all
proof
  fix h p bs h' fs c
  assume w: "limit_all_blocks h p = Some bs"
  then obtain b ys where p: "p = At b 0" "live h b" "limit_entity_blocks h p = Some ys" "bs = b # ys"
    by (auto simp: limit_all_blocks_def cat2_Some_iff whole_Some_iff)
  obtain e k v where q: "read_struct h p = Some (S_qos_limit (Some e) k v)" "maybe whole h e = Some ys"
    using p by (auto simp: limit_entity_blocks_Some_iff)
  show "c \<in> set bs \<Longrightarrow> live h c" using p q by (auto dest: maybe_live [OF c_entity.c_object_axioms])
  show "limit_all_blocks h' p = Some bs" if a: "agree bs h h'"
  proof -
    have c: "cell h' b = cell h b" "agree ys h h'" using a p by simp_all
    have "read_struct h' p = Some (S_qos_limit (Some e) k v)"
      using q(1) read_struct_cong [OF c(1), of 0] p(1) by simp
    then have "limit_entity_blocks h' p = Some ys"
      using maybe_agree [OF c_entity.c_object_axioms q(2) c(2)] by (simp add: limit_entity_blocks_def)
    then show ?thesis
      using p c by (simp add: limit_all_blocks_def whole_def live_def)
  qed
  show "ADM_qos_limit_destroy_all p h = Inr (ADM_SUCCESS, release bs h)" if d: "distinct bs"
    using destroy_if_frees [OF c_entity.c_object_axioms q(2), of "[]"] q p d release_whole [of h b ys]
    by (simp add: ADM_qos_limit_destroy_all_def limit_at_def)
  show "\<exists>e. ADM_qos_limit_destroy_all p (release fs h) = Inl e" if "set bs \<subseteq> set fs"
    using that p by (simp add: ADM_qos_limit_destroy_all_def limit_at_def load_freed live_release)
qed

section \<open>Lists\<close>

text \<open>The list object, its array, and what belongs to the elements.\<close>

definition elems_blocks :: "(ptr \<Rightarrow> nat list option) \<Rightarrow> ptr \<Rightarrow> nat \<Rightarrow> nat list option" where
  "elems_blocks f a n = map_option concat (those (map (\<lambda>i. f (elem_ptr a i)) [0..<n]))"

definition list_parts :: "(heap \<Rightarrow> ptr \<Rightarrow> nat list option) \<Rightarrow> heap \<Rightarrow> ptr \<Rightarrow> ptr \<Rightarrow> nat \<Rightarrow> nat list option" where
  "list_parts f h p a n = cat2 (whole h p) (cat2 (whole h a) (elems_blocks (f h) a n))"

lemma elems_blocks_Some_iff:
  "elems_blocks f (At a 0) n = Some bs \<longleftrightarrow>
     (\<exists>B. bs = concat (map B [0..<n]) \<and> (\<forall>i<n. f (At a i) = Some (B i)))"
proof
  assume "elems_blocks f (At a 0) n = Some bs"
  then obtain bss where b: "length bss = n" "\<forall>i<n. f (At a i) = Some (bss ! i)" "bs = concat bss"
    by (auto simp: elems_blocks_def those_Some_iff)
  then have "bs = concat (map ((!) bss) [0..<n])" using map_nth [of bss] by simp
  with b show "\<exists>B. bs = concat (map B [0..<n]) \<and> (\<forall>i<n. f (At a i) = Some (B i))" by blast
next
  assume "\<exists>B. bs = concat (map B [0..<n]) \<and> (\<forall>i<n. f (At a i) = Some (B i))"
  then obtain B where B: "bs = concat (map B [0..<n])" "\<forall>i<n. f (At a i) = Some (B i)" by blast
  then have "those (map (\<lambda>i. f (At a i)) [0..<n]) = Some (map B [0..<n])"
    by (simp add: those_Some_iff)
  with B show "elems_blocks f (At a 0) n = Some bs" by (simp add: elems_blocks_def)
qed

lemma list_parts_Some:
  assumes "list_parts f h p a n = Some bs"
  obtains b c B where "p = At b 0" "a = At c 0" "live h b" "live h c"
    "bs = b # c # concat (map B [0..<n])" "\<And>i. i < n \<Longrightarrow> f h (At c i) = Some (B i)"
  using assms
  by (auto simp: list_parts_def cat2_Some_iff whole_Some_iff elems_blocks_Some_iff)

lemma list_partsI:
  "live h b \<Longrightarrow> live h c \<Longrightarrow> (\<And>i. i < n \<Longrightarrow> f h (At c i) = Some (B i)) \<Longrightarrow>
   list_parts f h (At b 0) (At c 0) n = Some (b # c # concat (map B [0..<n]))"
  by (auto simp: list_parts_def cat2_Some_iff whole_Some_iff elems_blocks_Some_iff)

text \<open>The part of the destroy function that all lists have.\<close>

lemma list_destroyed:
  assumes live: "live h b" "live h c"
    and body: "\<And>i fs. i < n \<Longrightarrow> set fs \<inter> ({b, c} \<union> set (B i)) = {} \<Longrightarrow>
      body i (release fs h) = Inr ((), release (fs @ B i) h)"
    and d: "distinct (b # c # concat (map B [0..<n]))"
  shows "seq (when_c (At c 0 \<noteq> Null) (seq (val (Some n)) (\<lambda>n. seq (for_c [0..<n] body) (\<lambda>_. free (At c 0)))))
     (\<lambda>_. seq (free (At b 0)) (\<lambda>_. ret ADM_SUCCESS)) h =
     Inr (ADM_SUCCESS, release (b # c # concat (map B [0..<n])) h)"
proof -
  define E where "E = concat (map B [0..<n])"
  have "for_c [0..<n] body h = Inr ((), release E h)"
    unfolding E_def by (rule for_c_releases [where K = "{b, c}"]) (use body d in auto)
  moreover have "free (At c 0) (release E h) = Inr ((), release (c # E) h)"
    using live d by (intro release_whole) (auto simp: E_def)
  moreover have "free (At b 0) (release (c # E) h) = Inr ((), release (b # c # E) h)"
    using live d by (intro release_whole) (auto simp: E_def)
  ultimately show ?thesis by (simp add: E_def)
qed

definition node_list_blocks :: "heap \<Rightarrow> ptr \<Rightarrow> nat list option" where
  "node_list_blocks h p =
     (case read_struct h p of
        Some (S_node_list (Some a) (Some n)) \<Rightarrow> list_parts node_text h p a n | _ \<Rightarrow> None)"

definition dataset_list_blocks :: "heap \<Rightarrow> ptr \<Rightarrow> nat list option" where
  "dataset_list_blocks h p =
     (case read_struct h p of
        Some (S_dataset_list (Some a) (Some n)) \<Rightarrow> list_parts dataset_text h p a n | _ \<Rightarrow> None)"

definition route_parts :: "heap \<Rightarrow> ptr \<Rightarrow> nat list option" where
  "route_parts h p =
     (case read_struct h p of
        Some (S_dataset_route (Some s) (Some d)) \<Rightarrow>
          cat2 (maybe dataset_blocks h s) (maybe dataset_blocks h d)
      | _ \<Rightarrow> None)"

definition route_list_blocks :: "heap \<Rightarrow> ptr \<Rightarrow> nat list option" where
  "route_list_blocks h p =
     (case read_struct h p of
        Some (S_dataset_route_list (Some a) (Some n)) \<Rightarrow> list_parts route_parts h p a n | _ \<Rightarrow> None)"

lemma node_list_blocks_Some_iff:
  "node_list_blocks h p = Some bs \<longleftrightarrow>
     (\<exists>a n. read_struct h p = Some (S_node_list (Some a) (Some n)) \<and> list_parts node_text h p a n = Some bs)"
  by (auto simp: node_list_blocks_def split: option.splits cstruct.splits)

lemma dataset_list_blocks_Some_iff:
  "dataset_list_blocks h p = Some bs \<longleftrightarrow>
     (\<exists>a n. read_struct h p = Some (S_dataset_list (Some a) (Some n)) \<and>
            list_parts dataset_text h p a n = Some bs)"
  by (auto simp: dataset_list_blocks_def split: option.splits cstruct.splits)

lemma route_list_blocks_Some_iff:
  "route_list_blocks h p = Some bs \<longleftrightarrow>
     (\<exists>a n. read_struct h p = Some (S_dataset_route_list (Some a) (Some n)) \<and>
            list_parts route_parts h p a n = Some bs)"
  by (auto simp: route_list_blocks_def split: option.splits cstruct.splits)

lemma route_parts_Some_iff:
  "route_parts h p = Some bs \<longleftrightarrow>
     (\<exists>s d xs ys. read_struct h p = Some (S_dataset_route (Some s) (Some d)) \<and>
        maybe dataset_blocks h s = Some xs \<and> maybe dataset_blocks h d = Some ys \<and> bs = xs @ ys)"
  by (auto simp: route_parts_def cat2_Some_iff split: option.splits cstruct.splits)

lemma route_parts_agree:
  "route_parts h (At b i) = Some bs \<Longrightarrow> cell h' b = cell h b \<Longrightarrow> agree bs h h' \<Longrightarrow>
   route_parts h' (At b i) = Some bs"
proof -
  assume r: "route_parts h (At b i) = Some bs" and c: "cell h' b = cell h b" "agree bs h h'"
  then obtain s d xs ys where q: "read_struct h (At b i) = Some (S_dataset_route (Some s) (Some d))"
      "maybe dataset_blocks h s = Some xs" "maybe dataset_blocks h d = Some ys" "bs = xs @ ys"
    by (auto simp: route_parts_Some_iff)
  have "maybe dataset_blocks h' s = Some xs" "maybe dataset_blocks h' d = Some ys"
    using c(2) maybe_agree [OF c_dataset.c_object_axioms q(2)]
      maybe_agree [OF c_dataset.c_object_axioms q(3)] unfolding q(4) agree_append by blast+
  then show ?thesis
    using q read_struct_cong [OF c(1), of i] by (simp add: route_parts_def)
qed

lemma list_parts_agree:
  assumes l: "list_parts f h p a n = Some bs" and a: "agree bs h h'"
    and f: "\<And>b i cs. f h (At b i) = Some cs \<Longrightarrow> cell h' b = cell h b \<Longrightarrow> agree cs h h' \<Longrightarrow>
      f h' (At b i) = Some cs"
  shows "list_parts f h' p a n = Some bs"
proof -
  obtain b c B where p: "p = At b 0" "a = At c 0" "live h b" "live h c"
      "bs = b # c # concat (map B [0..<n])" "\<And>i. i < n \<Longrightarrow> f h (At c i) = Some (B i)"
    using list_parts_Some [OF l] by metis
  have "agree (B i) h h'" if "i < n" for i using a p(5) that by (auto simp: agree_def)
  then have "f h' (At c i) = Some (B i)" if "i < n" for i using p a that by (auto intro: f)
  moreover have "live h' b" "live h' c" using p a by (auto simp: live_def)
  ultimately show ?thesis unfolding p(1,2,5) by (intro list_partsI)
qed

lemma list_parts_live:
  assumes l: "list_parts f h p a n = Some bs" and c: "c \<in> set bs"
    and f: "\<And>b i cs. f h (At b i) = Some cs \<Longrightarrow> c \<in> set cs \<Longrightarrow> live h c"
  shows "live h c"
proof -
  obtain b d B where p: "live h b" "live h d" "bs = b # d # concat (map B [0..<n])"
      "\<And>i. i < n \<Longrightarrow> f h (At d i) = Some (B i)"
    using list_parts_Some [OF l] by metis
  then consider "c = b" | "c = d" | i where "i < n" "c \<in> set (B i)" using c by auto
  then show ?thesis by cases (use p f in blast)+
qed

end
