(* ===== verification/COwnedLists.thy ===== *)
theory COwnedLists
  imports COwned
begin

text \<open>The contract \<open>c_object\<close> of lists, resources, storages and requirements.\<close>

section \<open>Lists\<close>

lemma list_freed:
  "list_parts f h p a n = Some bs \<Longrightarrow> set bs \<subseteq> set fs \<Longrightarrow> load p (release fs h) = Inl Dangling_pointer"
  by (erule list_parts_Some) (simp add: load_freed live_release)

lemma node_text_live: "node_text h (At b i) = Some cs \<Longrightarrow> c \<in> set cs \<Longrightarrow> live h c"
  by (auto simp: node_text_Some_iff dest: opt_block_live)

lemma dataset_text_live: "dataset_text h (At b i) = Some cs \<Longrightarrow> c \<in> set cs \<Longrightarrow> live h c"
  by (auto simp: dataset_text_Some_iff dest: opt_block_live)

lemma route_parts_live: "route_parts h (At b i) = Some cs \<Longrightarrow> c \<in> set cs \<Longrightarrow> live h c"
  by (auto simp: route_parts_Some_iff dest: maybe_live [OF c_dataset.c_object_axioms])

text \<open>The bodies of the loops that free the elements.\<close>

lemma free_node_text:
  assumes "node_text h (At c i) = Some B" "c \<notin> set fs" "set fs \<inter> set B = {}"
  shows "seq (node_at (At c i)) (\<lambda>(host, _). seq (val host) free) (release fs h) = Inr ((), release (fs @ B) h)"
proof -
  have "node_text (release fs h) (At c i) = Some B"
    by (rule node_text_agree [OF assms(1)]) (use assms in \<open>auto simp: cell_release agree_release\<close>)
  then obtain q t where "read_struct (release fs h) (At c i) = Some (S_node (Some q) t)"
      "opt_block (release fs h) q = Some B"
    by (auto simp: node_text_Some_iff)
  then show ?thesis by (simp add: node_at_def free_opt_block)
qed

lemma free_dataset_text:
  assumes "dataset_text h (At c i) = Some B" "c \<notin> set fs" "set fs \<inter> set B = {}"
  shows "seq (dataset_at (At c i)) (\<lambda>x. seq (val x) free) (release fs h) = Inr ((), release (fs @ B) h)"
proof -
  have "dataset_text (release fs h) (At c i) = Some B"
    by (rule dataset_text_agree [OF assms(1)]) (use assms in \<open>auto simp: cell_release agree_release\<close>)
  then obtain q where "read_struct (release fs h) (At c i) = Some (S_dataset (Some q))"
      "opt_block (release fs h) q = Some B"
    by (auto simp: dataset_text_Some_iff)
  then show ?thesis by (simp add: dataset_at_def free_opt_block)
qed

text \<open>Destroying a route frees its two datasets and leaves the block the route is in.\<close>

lemma destroy_route_parts:
  assumes r: "route_parts h (At c i) = Some B" and c: "c \<notin> set fs" "c \<notin> set B" "set fs \<inter> set B = {}"
    and d: "distinct B"
  shows "ADM_dataset_route_destroy (At c i) (release fs h) = Inr (ADM_SUCCESS, release (fs @ B) h)"
proof -
  obtain s t xs ys where q: "read_struct h (At c i) = Some (S_dataset_route (Some s) (Some t))"
      "maybe dataset_blocks h s = Some xs" "maybe dataset_blocks h t = Some ys" "B = xs @ ys"
    using r by (auto simp: route_parts_Some_iff)
  have keep: "read_struct (release gs h) (At c i) = Some (S_dataset_route (Some s) (Some t))"
    if "c \<notin> set gs" for gs
    using q(1) read_struct_cong [of "release gs h" c h i] that by (simp add: cell_release)
  have "destroy_if ADM_dataset_destroy s (release fs h) = Inr ((), release (fs @ xs) h)"
    using q c d by (intro destroy_if_frees [OF c_dataset.c_object_axioms]) auto
  moreover have "destroy_if ADM_dataset_destroy t (release (fs @ xs) h) = Inr ((), release (fs @ B) h)"
    using destroy_if_frees [OF c_dataset.c_object_axioms q(3), of "fs @ xs"] q(4) c d by auto
  moreover have "read_struct (release fs h) (At c i) = Some (S_dataset_route (Some s) (Some t))"
      "read_struct (release (fs @ xs) h) (At c i) = Some (S_dataset_route (Some s) (Some t))"
    using c q(4) by (auto intro!: keep)
  ultimately show ?thesis
    by (simp add: ADM_dataset_route_destroy_def route_at_def del: release_release)
qed

interpretation c_node_list: c_object node_list_blocks ADM_node_list_destroy
proof
  fix h p bs h' fs c
  assume w: "node_list_blocks h p = Some bs"
  then obtain a n where s: "read_struct h p = Some (S_node_list (Some a) (Some n))"
    and l: "list_parts node_text h p a n = Some bs"
    by (auto simp: node_list_blocks_Some_iff)
  obtain b d B where p: "p = At b 0" "a = At d 0" "live h b" "live h d"
      "bs = b # d # concat (map B [0..<n])" "\<And>i. i < n \<Longrightarrow> node_text h (At d i) = Some (B i)"
    using list_parts_Some [OF l] by metis
  show "c \<in> set bs \<Longrightarrow> live h c" using list_parts_live [OF l] node_text_live by blast
  show "node_list_blocks h' p = Some bs" if "agree bs h h'"
    using s p that list_parts_agree [OF l that node_text_agree] read_struct_cong [of h' b h 0]
    by (simp add: node_list_blocks_def)
  show "ADM_node_list_destroy p h = Inr (ADM_SUCCESS, release bs h)" if "distinct bs"
    using list_destroyed [OF p(3,4), where B = B and n = n] that s p free_node_text
    by (simp add: ADM_node_list_destroy_def node_list_at_def)
  show "\<exists>e. ADM_node_list_destroy p (release fs h) = Inl e" if "set bs \<subseteq> set fs"
    using list_freed [OF l that] p by (simp add: ADM_node_list_destroy_def node_list_at_def)
qed

interpretation c_dataset_list: c_object dataset_list_blocks ADM_dataset_list_destroy
proof
  fix h p bs h' fs c
  assume w: "dataset_list_blocks h p = Some bs"
  then obtain a n where s: "read_struct h p = Some (S_dataset_list (Some a) (Some n))"
    and l: "list_parts dataset_text h p a n = Some bs"
    by (auto simp: dataset_list_blocks_Some_iff)
  obtain b d B where p: "p = At b 0" "a = At d 0" "live h b" "live h d"
      "bs = b # d # concat (map B [0..<n])" "\<And>i. i < n \<Longrightarrow> dataset_text h (At d i) = Some (B i)"
    using list_parts_Some [OF l] by metis
  show "c \<in> set bs \<Longrightarrow> live h c" using list_parts_live [OF l] dataset_text_live by blast
  show "dataset_list_blocks h' p = Some bs" if "agree bs h h'"
    using s p that list_parts_agree [OF l that dataset_text_agree] read_struct_cong [of h' b h 0]
    by (simp add: dataset_list_blocks_def)
  show "ADM_dataset_list_destroy p h = Inr (ADM_SUCCESS, release bs h)" if "distinct bs"
    using list_destroyed [OF p(3,4), where B = B and n = n] that s p free_dataset_text
    by (simp add: ADM_dataset_list_destroy_def dataset_list_at_def)
  show "\<exists>e. ADM_dataset_list_destroy p (release fs h) = Inl e" if "set bs \<subseteq> set fs"
    using list_freed [OF l that] p by (simp add: ADM_dataset_list_destroy_def dataset_list_at_def)
qed

interpretation c_route_list: c_object route_list_blocks ADM_dataset_route_list_destroy
proof
  fix h p bs h' fs c
  assume w: "route_list_blocks h p = Some bs"
  then obtain a n where s: "read_struct h p = Some (S_dataset_route_list (Some a) (Some n))"
    and l: "list_parts route_parts h p a n = Some bs"
    by (auto simp: route_list_blocks_Some_iff)
  obtain b d B where p: "p = At b 0" "a = At d 0" "live h b" "live h d"
      "bs = b # d # concat (map B [0..<n])" "\<And>i. i < n \<Longrightarrow> route_parts h (At d i) = Some (B i)"
    using list_parts_Some [OF l] by metis
  show "c \<in> set bs \<Longrightarrow> live h c" using list_parts_live [OF l] route_parts_live by blast
  show "route_list_blocks h' p = Some bs" if "agree bs h h'"
    using s p that list_parts_agree [OF l that route_parts_agree] read_struct_cong [of h' b h 0]
    by (simp add: route_list_blocks_def)
  show "ADM_dataset_route_list_destroy p h = Inr (ADM_SUCCESS, release bs h)" if dist: "distinct bs"
  proof -
    have B: "distinct (B i)" "d \<notin> set (B i)" if "i < n" for i
      using dist p(5) that by (auto simp: distinct_concat_iff)
    have "seq (ADM_dataset_route_destroy (At d i)) (\<lambda>_. ret ()) (release gs h) = Inr ((), release (gs @ B i) h)"
      if "i < n" "set gs \<inter> ({b, d} \<union> set (B i)) = {}" for i gs
      using destroy_route_parts [OF p(6) [OF that(1)], of gs] B [OF that(1)] that(2) by simp
    then show ?thesis
      using list_destroyed [OF p(3,4), where B = B and n = n] dist s p
      by (simp add: ADM_dataset_route_list_destroy_def route_list_at_def)
  qed
  show "\<exists>e. ADM_dataset_route_list_destroy p (release fs h) = Inl e" if "set bs \<subseteq> set fs"
    using list_freed [OF l that] p by (simp add: ADM_dataset_route_list_destroy_def route_list_at_def)
qed

section \<open>Resources and storages\<close>

definition adhoc_resources_blocks :: "heap \<Rightarrow> ptr \<Rightarrow> nat list option" where
  "adhoc_resources_blocks h p =
     (case read_struct h p of
        Some (S_adhoc_resources (Some l)) \<Rightarrow> cat2 (whole h p) (maybe node_list_blocks h l) | _ \<Rightarrow> None)"

definition job_resources_blocks :: "heap \<Rightarrow> ptr \<Rightarrow> nat list option" where
  "job_resources_blocks h p =
     (case read_struct h p of
        Some (S_job_resources (Some l)) \<Rightarrow> cat2 (whole h p) (maybe node_list_blocks h l) | _ \<Rightarrow> None)"

text \<open>A storage owns its name and its copy of the context, not the resources and not the context's strings.\<close>

definition adhoc_storage_blocks :: "heap \<Rightarrow> ptr \<Rightarrow> nat list option" where
  "adhoc_storage_blocks h p =
     (case read_struct h p of
        Some (S_adhoc_storage (Some x) _ _ (Some c) _) \<Rightarrow> cat2 (whole h p) (cat2 (opt_block h x) (opt_block h c))
      | _ \<Rightarrow> None)"

definition pfs_storage_blocks :: "heap \<Rightarrow> ptr \<Rightarrow> nat list option" where
  "pfs_storage_blocks h p =
     (case read_struct h p of
        Some (S_pfs_storage (Some x) _ _ (Some c)) \<Rightarrow> cat2 (whole h p) (cat2 (opt_block h x) (opt_block h c))
      | _ \<Rightarrow> None)"

definition requirements_blocks :: "heap \<Rightarrow> ptr \<Rightarrow> nat list option" where
  "requirements_blocks h p =
     (case read_struct h p of
        Some (S_job_requirements (Some a) (Some b) (Some e) (Some s)) \<Rightarrow>
          cat2 (whole h p) (cat2 (maybe route_list_blocks h a) (cat2 (maybe route_list_blocks h b)
            (cat2 (maybe route_list_blocks h e) (maybe adhoc_storage_blocks h s))))
      | _ \<Rightarrow> None)"

lemma adhoc_resources_blocks_Some:
  "adhoc_resources_blocks h p = Some bs \<longleftrightarrow>
     (\<exists>b l ys. p = At b 0 \<and> live h b \<and> read_struct h p = Some (S_adhoc_resources (Some l)) \<and>
        maybe node_list_blocks h l = Some ys \<and> bs = b # ys)"
  by (auto simp: adhoc_resources_blocks_def cat2_Some_iff whole_Some_iff split: option.splits cstruct.splits)

lemma job_resources_blocks_Some:
  "job_resources_blocks h p = Some bs \<longleftrightarrow>
     (\<exists>b l ys. p = At b 0 \<and> live h b \<and> read_struct h p = Some (S_job_resources (Some l)) \<and>
        maybe node_list_blocks h l = Some ys \<and> bs = b # ys)"
  by (auto simp: job_resources_blocks_def cat2_Some_iff whole_Some_iff split: option.splits cstruct.splits)

lemma adhoc_storage_blocks_Some:
  "adhoc_storage_blocks h p = Some bs \<longleftrightarrow>
     (\<exists>b x t i c r xs ys. p = At b 0 \<and> live h b \<and>
        read_struct h p = Some (S_adhoc_storage (Some x) t i (Some c) r) \<and>
        opt_block h x = Some xs \<and> opt_block h c = Some ys \<and> bs = b # xs @ ys)"
  by (auto simp: adhoc_storage_blocks_def cat2_Some_iff whole_Some_iff split: option.splits cstruct.splits)

lemma pfs_storage_blocks_Some:
  "pfs_storage_blocks h p = Some bs \<longleftrightarrow>
     (\<exists>b x t i c xs ys. p = At b 0 \<and> live h b \<and>
        read_struct h p = Some (S_pfs_storage (Some x) t i (Some c)) \<and>
        opt_block h x = Some xs \<and> opt_block h c = Some ys \<and> bs = b # xs @ ys)"
  by (auto simp: pfs_storage_blocks_def cat2_Some_iff whole_Some_iff split: option.splits cstruct.splits)

lemma requirements_blocks_Some:
  "requirements_blocks h p = Some bs \<longleftrightarrow>
     (\<exists>b x y z s xs ys zs ss. p = At b 0 \<and> live h b \<and>
        read_struct h p = Some (S_job_requirements (Some x) (Some y) (Some z) (Some s)) \<and>
        maybe route_list_blocks h x = Some xs \<and> maybe route_list_blocks h y = Some ys \<and>
        maybe route_list_blocks h z = Some zs \<and> maybe adhoc_storage_blocks h s = Some ss \<and>
        bs = b # xs @ ys @ zs @ ss)"
  by (auto simp: requirements_blocks_def cat2_Some_iff whole_Some_iff split: option.splits cstruct.splits)

text \<open>Reading the structure itself again after some of its parts are gone.\<close>

lemma read_struct_released:
  "read_struct h (At b i) = Some s \<Longrightarrow> b \<notin> set fs \<Longrightarrow> read_struct (release fs h) (At b i) = Some s"
  using read_struct_cong [of "release fs h" b h i] by (simp add: cell_release)

lemma opt_block_released: "opt_block h q = Some bs \<Longrightarrow> set fs \<inter> set bs = {} \<Longrightarrow> opt_block (release fs h) q = Some bs"
  by (rule opt_block_agree [OF _ agree_release])

interpretation c_adhoc_resources: c_object adhoc_resources_blocks ADM_adhoc_resources_destroy
proof
  fix h p bs h' fs c
  assume w: "adhoc_resources_blocks h p = Some bs"
  then obtain b l ys where p: "p = At b 0" "live h b" "read_struct h p = Some (S_adhoc_resources (Some l))"
      "maybe node_list_blocks h l = Some ys" "bs = b # ys"
    by (auto simp: adhoc_resources_blocks_Some)
  show "c \<in> set bs \<Longrightarrow> live h c" using p by (auto dest: maybe_live [OF c_node_list.c_object_axioms])
  show "adhoc_resources_blocks h' p = Some bs" if "agree bs h h'"
    using that p read_struct_cong [of h' b h 0] maybe_agree [OF c_node_list.c_object_axioms p(4), of h']
    by (simp add: adhoc_resources_blocks_Some live_def)
  show "ADM_adhoc_resources_destroy p h = Inr (ADM_SUCCESS, release bs h)" if "distinct bs"
    using destroy_if_frees [OF c_node_list.c_object_axioms p(4), of "[]"] p that release_whole [OF p(2), of ys]
    by (simp add: ADM_adhoc_resources_destroy_def adhoc_resources_at_def)
  show "\<exists>e. ADM_adhoc_resources_destroy p (release fs h) = Inl e" if "set bs \<subseteq> set fs"
    using that p by (simp add: ADM_adhoc_resources_destroy_def adhoc_resources_at_def load_freed live_release)
qed

interpretation c_job_resources: c_object job_resources_blocks ADM_job_resources_destroy
proof
  fix h p bs h' fs c
  assume w: "job_resources_blocks h p = Some bs"
  then obtain b l ys where p: "p = At b 0" "live h b" "read_struct h p = Some (S_job_resources (Some l))"
      "maybe node_list_blocks h l = Some ys" "bs = b # ys"
    by (auto simp: job_resources_blocks_Some)
  show "c \<in> set bs \<Longrightarrow> live h c" using p by (auto dest: maybe_live [OF c_node_list.c_object_axioms])
  show "job_resources_blocks h' p = Some bs" if "agree bs h h'"
    using that p read_struct_cong [of h' b h 0] maybe_agree [OF c_node_list.c_object_axioms p(4), of h']
    by (simp add: job_resources_blocks_Some live_def)
  show "ADM_job_resources_destroy p h = Inr (ADM_SUCCESS, release bs h)" if "distinct bs"
    using destroy_if_frees [OF c_node_list.c_object_axioms p(4), of "[]"] p that release_whole [OF p(2), of ys]
    by (simp add: ADM_job_resources_destroy_def job_resources_at_def)
  show "\<exists>e. ADM_job_resources_destroy p (release fs h) = Inl e" if "set bs \<subseteq> set fs"
    using that p by (simp add: ADM_job_resources_destroy_def job_resources_at_def load_freed live_release)
qed

interpretation c_adhoc_storage: c_object adhoc_storage_blocks ADM_adhoc_storage_destroy
proof
  fix h p bs h' fs k
  assume w: "adhoc_storage_blocks h p = Some bs"
  then obtain b x t i c r xs ys where p: "p = At b 0" "live h b"
      "read_struct h p = Some (S_adhoc_storage (Some x) t i (Some c) r)"
      "opt_block h x = Some xs" "opt_block h c = Some ys" "bs = b # xs @ ys"
    by (auto simp: adhoc_storage_blocks_Some)
  show "k \<in> set bs \<Longrightarrow> live h k" using p by (auto dest: opt_block_live)
  show "adhoc_storage_blocks h' p = Some bs" if "agree bs h h'"
    using that p read_struct_cong [of h' b h 0] opt_block_agree [OF p(4), of h'] opt_block_agree [OF p(5), of h']
    by (simp add: adhoc_storage_blocks_Some live_def)
  show "ADM_adhoc_storage_destroy p h = Inr (ADM_SUCCESS, release bs h)" if d: "distinct bs"
  proof -
    have "opt_block (release xs h) c = Some ys" using d p by (intro opt_block_released) auto
    then have "free_if c (release xs h) = Inr ((), release (xs @ ys) h)" by (simp add: free_if_block)
    moreover have "free p (release (xs @ ys) h) = Inr ((), release bs h)"
      using p d release_whole [OF p(2), of "xs @ ys"] by simp
    moreover have "read_struct (release xs h) p = Some (S_adhoc_storage (Some x) t i (Some c) r)"
      using p d by (auto intro: read_struct_released)
    ultimately show ?thesis
      using p free_if_block [OF p(4)] by (simp add: ADM_adhoc_storage_destroy_def adhoc_storage_at_def)
  qed
  show "\<exists>e. ADM_adhoc_storage_destroy p (release fs h) = Inl e" if "set bs \<subseteq> set fs"
    using that p by (simp add: ADM_adhoc_storage_destroy_def adhoc_storage_at_def load_freed live_release)
qed

interpretation c_pfs_storage: c_object pfs_storage_blocks ADM_pfs_storage_destroy
proof
  fix h p bs h' fs k
  assume w: "pfs_storage_blocks h p = Some bs"
  then obtain b x t i c xs ys where p: "p = At b 0" "live h b"
      "read_struct h p = Some (S_pfs_storage (Some x) t i (Some c))"
      "opt_block h x = Some xs" "opt_block h c = Some ys" "bs = b # xs @ ys"
    by (auto simp: pfs_storage_blocks_Some)
  show "k \<in> set bs \<Longrightarrow> live h k" using p by (auto dest: opt_block_live)
  show "pfs_storage_blocks h' p = Some bs" if "agree bs h h'"
    using that p read_struct_cong [of h' b h 0] opt_block_agree [OF p(4), of h'] opt_block_agree [OF p(5), of h']
    by (simp add: pfs_storage_blocks_Some live_def)
  show "ADM_pfs_storage_destroy p h = Inr (ADM_SUCCESS, release bs h)" if d: "distinct bs"
  proof -
    have "opt_block (release xs h) c = Some ys" using d p by (intro opt_block_released) auto
    then have "free_if c (release xs h) = Inr ((), release (xs @ ys) h)" by (simp add: free_if_block)
    moreover have "free p (release (xs @ ys) h) = Inr ((), release bs h)"
      using p d release_whole [OF p(2), of "xs @ ys"] by simp
    moreover have "read_struct (release xs h) p = Some (S_pfs_storage (Some x) t i (Some c))"
      using p d by (auto intro: read_struct_released)
    ultimately show ?thesis
      using p free_if_block [OF p(4)] by (simp add: ADM_pfs_storage_destroy_def pfs_storage_at_def)
  qed
  show "\<exists>e. ADM_pfs_storage_destroy p (release fs h) = Inl e" if "set bs \<subseteq> set fs"
    using that p by (simp add: ADM_pfs_storage_destroy_def pfs_storage_at_def load_freed live_release)
qed

interpretation c_requirements: c_object requirements_blocks ADM_job_requirements_destroy
proof
  fix h p bs h' fs k
  assume w: "requirements_blocks h p = Some bs"
  then obtain b x y z s xs ys zs ss where p: "p = At b 0" "live h b"
      "read_struct h p = Some (S_job_requirements (Some x) (Some y) (Some z) (Some s))"
      "maybe route_list_blocks h x = Some xs" "maybe route_list_blocks h y = Some ys"
      "maybe route_list_blocks h z = Some zs" "maybe adhoc_storage_blocks h s = Some ss"
      "bs = b # xs @ ys @ zs @ ss"
    by (auto simp: requirements_blocks_Some)
  note routes = c_route_list.c_object_axioms and storage = c_adhoc_storage.c_object_axioms
  show "k \<in> set bs \<Longrightarrow> live h k"
    using p by (auto dest: maybe_live [OF routes] maybe_live [OF storage])
  show "requirements_blocks h' p = Some bs" if "agree bs h h'"
    using that p read_struct_cong [of h' b h 0] maybe_agree [OF routes p(4), of h']
      maybe_agree [OF routes p(5), of h'] maybe_agree [OF routes p(6), of h']
      maybe_agree [OF storage p(7), of h']
    by (simp add: requirements_blocks_Some live_def)
  show "ADM_job_requirements_destroy p h = Inr (ADM_SUCCESS, release bs h)" if d: "distinct bs"
  proof -
    have "destroy_if ADM_dataset_route_list_destroy x h = Inr ((), release xs h)"
      using destroy_if_frees [OF routes p(4), of "[]"] d p by auto
    moreover have "destroy_if ADM_dataset_route_list_destroy y (release xs h) = Inr ((), release (xs @ ys) h)"
      using d p by (intro destroy_if_frees [OF routes]) auto
    moreover have "destroy_if ADM_dataset_route_list_destroy z (release (xs @ ys) h) =
        Inr ((), release (xs @ ys @ zs) h)"
      using destroy_if_frees [OF routes p(6), of "xs @ ys"] d p by auto
    moreover have "destroy_if ADM_adhoc_storage_destroy s (release (xs @ ys @ zs) h) =
        Inr ((), release (xs @ ys @ zs @ ss) h)"
      using destroy_if_frees [OF storage p(7), of "xs @ ys @ zs"] d p by auto
    moreover have "free p (release (xs @ ys @ zs @ ss) h) = Inr ((), release bs h)"
      using p d release_whole [OF p(2), of "xs @ ys @ zs @ ss"] by simp
    moreover have at: "requirements_at p (release gs h) =
        Inr ((Some x, Some y, Some z, Some s), release gs h)" if "set gs \<subseteq> set (xs @ ys @ zs)" for gs
    proof -
      have "b \<notin> set gs" using d p(8) that by auto
      then have "read_struct (release gs h) p = Some (S_job_requirements (Some x) (Some y) (Some z) (Some s))"
        using p(1,3) by (simp add: read_struct_released)
      then show ?thesis by (simp add: requirements_at_def)
    qed
    moreover have "requirements_at p h = Inr ((Some x, Some y, Some z, Some s), h)"
      using at [of "[]"] by simp
    moreover have
      "requirements_at p (release xs h) = Inr ((Some x, Some y, Some z, Some s), release xs h)"
      "requirements_at p (release (xs @ ys) h) = Inr ((Some x, Some y, Some z, Some s), release (xs @ ys) h)"
      "requirements_at p (release (xs @ ys @ zs) h) =
         Inr ((Some x, Some y, Some z, Some s), release (xs @ ys @ zs) h)"
      by (rule at; auto)+
    moreover have "p \<noteq> Null" using p(1) by simp
    ultimately show ?thesis
      by (simp add: ADM_job_requirements_destroy_def)
  qed
  show "\<exists>e. ADM_job_requirements_destroy p (release fs h) = Inl e" if "set bs \<subseteq> set fs"
    using that p by (simp add: ADM_job_requirements_destroy_def requirements_at_def load_freed live_release)
qed

end
