(* ===== verification/CMaker.thy ===== *)
theory CMaker
  imports COwnedLists "HOL-Library.Multiset"
begin

text \<open>
  Creating and destroying together: an object that \<open>types.c\<close> has just made owns exactly the blocks
  allocated for it, so destroying it leaves the memory as it was before. Locale \<open>c_maker\<close> extends the
  contract \<open>c_object\<close> with the function that creates the object.
\<close>

section \<open>The blocks of new objects\<close>

lemma laid_live: "laid h b bs \<Longrightarrow> i < length bs \<Longrightarrow> live h (b + i)"
  by (simp add: laid_def live_def)

lemma upt_block: "concat (map (\<lambda>i. [b + k * i..<b + k * i + k]) [0..<n]) = [b..<b + k * n]"
proof (induction n)
  case (Suc n)
  have "[b..<b + k * Suc n] = [b..<b + k * n] @ [b + k * n..<b + k * n + k]"
    using upt_add_eq_append [of b "b + k * n" k] by (simp add: algebra_simps)
  with Suc show ?case by simp
qed simp

lemma upt_two: "[b..<b + (2 + k)] = b # Suc b # [b + 2..<b + 2 + k]"
  by (subst upt_conv_Cons, simp, subst upt_conv_Cons, simp, simp)

lemma upt_join: "i \<le> j \<Longrightarrow> j \<le> k \<Longrightarrow> [i..<j] @ [j..<k] @ xs = [i..<k] @ xs"
  using upt_add_eq_append [of i j "k - j"] by simp

lemma node_list_blocks_laid:
  assumes "laid h b (node_list_layout b vs)"
  shows "node_list_blocks h (At b 0) = Some [b..<b + length (node_list_layout b vs)]"
proof -
  have t: "node_text h (At (Suc b) i) = Some [b + 2 + 1 * i..<b + 2 + 1 * i + 1]" if "i < length vs" for i
    using assms that
    by (simp add: node_list_layout_def node_text_def opt_block_def whole_def cell_LiveD)
  have "[b..<b + length (node_list_layout b vs)] = b # Suc b # [b + 2..<b + 2 + 1 * length vs]"
    by (simp only: length_node_list_layout upt_two mult_1)
  then show ?thesis
    using assms list_partsI [where f = node_text and h = h and b = b and c = "Suc b" and n = "length vs",
        OF _ _ t] upt_block [of "b + 2" 1 "length vs"]
    by (simp add: node_list_layout_def node_list_blocks_def cell_LiveD)
qed

lemma dataset_blocks_laid:
  assumes "laid h b (dataset_blocks_at b d)"
  shows "dataset_blocks h (At b 0) = Some [b, Suc b]"
  using assms
  by (simp add: dataset_blocks_at_def dataset_blocks_def dataset_text_def opt_block_def whole_def cell_LiveD)

lemma route_list_blocks_laid:
  assumes l: "laid h b (route_list_layout b vs)"
  shows "route_list_blocks h (At b 0) = Some [b..<b + length (route_list_layout b vs)]"
proof -
  have t: "route_parts h (At (Suc b) i) = Some [b + 2 + 4 * i..<b + 2 + 4 * i + 4]" if i: "i < length vs" for i
  proof -
    have "laid h (b + 2 + 4 * i) (dataset_blocks_at (b + 2 + 4 * i) (d_src (vs ! i)))"
      "laid h (b + 2 + 4 * i + 2) (dataset_blocks_at (b + 2 + 4 * i + 2) (d_dst (vs ! i)))"
      using l i by (auto simp: route_list_layout_def laid_concat [where k = 4])
    note d = dataset_blocks_laid [OF this(1)] dataset_blocks_laid [OF this(2)]
    have "cell h (Suc b) = Live (Structs (map (\<lambda>i. S_dataset_route (Some (At (b + 2 + 4 * i) 0))
        (Some (At (b + 2 + 4 * i + 2) 0))) [0..<length vs]))"
      using l by (simp add: route_list_layout_def)
    then have "read_struct h (At (Suc b) i) =
        Some (S_dataset_route (Some (At (b + 2 + 4 * i) 0)) (Some (At (b + 2 + 4 * i + 2) 0)))"
      using i by simp
    moreover have "[b + 2 + 4 * i..<b + 2 + 4 * i + 4] =
        [b + 2 + 4 * i, Suc (b + 2 + 4 * i)] @ [b + 2 + 4 * i + 2, Suc (b + 2 + 4 * i + 2)]"
      by (simp add: upt_conv_Cons)
    ultimately show ?thesis
      using d by (simp only: route_parts_def maybe_def option.case cstruct.case cat2.simps ptr.distinct if_False)
  qed
  have "[b..<b + length (route_list_layout b vs)] = b # Suc b # [b + 2..<b + 2 + 4 * length vs]"
    by (simp only: length_route_list_layout upt_two)
  then show ?thesis
    using l list_partsI [where f = route_parts and h = h and b = b and c = "Suc b" and n = "length vs",
        OF _ _ t] upt_block [of "b + 2" 4 "length vs"]
    by (simp add: route_list_layout_def route_list_blocks_def cell_LiveD)
qed

lemma adhoc_storage_blocks_laid:
  assumes "laid h b (storage_layout b (Some v))"
  shows "adhoc_storage_blocks h (At b 0) = Some [b..<b + length (storage_layout b (Some v))]"
proof -
  obtain name t i ctx r where v: "v = (name, t, i, ctx, r)" by (cases v)
  show ?thesis
    using assms unfolding v
    by (simp add: adhoc_storage_blocks_def opt_block_def whole_def cell_LiveD upt_conv_Cons)
qed

lemma laid_requirements:
  assumes l: "laid h b (requirements_layout b ins outs exps st)"
  obtains b1 b2 b3 b4 s where "b1 = Suc b" "b2 = b1 + (2 + 4 * length ins)" "b3 = b2 + (2 + 4 * length outs)"
    "b4 = b3 + (2 + 4 * length exps)" "s = (if st = None then Null else At b4 0)"
    "cell h b = Live (Structs [S_job_requirements (Some (At b1 0)) (Some (At b2 0)) (Some (At b3 0)) (Some s)])"
    "laid h b1 (route_list_layout b1 ins)" "laid h b2 (route_list_layout b2 outs)"
    "laid h b3 (route_list_layout b3 exps)" "laid h b4 (storage_layout b4 st)"
    "b4 + length (storage_layout b4 st) = b + length (requirements_layout b ins outs exps st)"
proof -
  define b1 b2 b3 b4 where "b1 = Suc b" and "b2 = b1 + (2 + 4 * length ins)"
    and "b3 = b2 + (2 + 4 * length outs)" and "b4 = b3 + (2 + 4 * length exps)"
  define s where "s = (if st = None then Null else At b4 0)"
  have lay: "requirements_layout b ins outs exps st =
      Structs [S_job_requirements (Some (At b1 0)) (Some (At b2 0)) (Some (At b3 0)) (Some s)] #
      route_list_layout b1 ins @ route_list_layout b2 outs @ route_list_layout b3 exps @ storage_layout b4 st"
    by (simp add: requirements_layout_def Let_def b1_def b2_def b3_def b4_def s_def)
  show ?thesis
  proof (rule that)
    show "cell h b = Live (Structs [S_job_requirements (Some (At b1 0)) (Some (At b2 0)) (Some (At b3 0)) (Some s)])"
      "laid h b1 (route_list_layout b1 ins)" "laid h b2 (route_list_layout b2 outs)"
      "laid h b3 (route_list_layout b3 exps)" "laid h b4 (storage_layout b4 st)"
      using l unfolding lay by (simp_all add: b1_def b2_def b3_def b4_def add.assoc)
    show "b4 + length (storage_layout b4 st) = b + length (requirements_layout b ins outs exps st)"
      unfolding lay by (simp add: b1_def b2_def b3_def b4_def)
  qed (simp_all add: b1_def b2_def b3_def b4_def s_def)
qed

lemma requirements_blocks_laid:
  assumes l: "laid h b (requirements_layout b ins outs exps st)"
  shows "requirements_blocks h (At b 0) = Some [b..<b + length (requirements_layout b ins outs exps st)]"
proof -
  obtain b1 b2 b3 b4 s where bs: "b1 = Suc b" "b2 = b1 + (2 + 4 * length ins)"
      "b3 = b2 + (2 + 4 * length outs)" "b4 = b3 + (2 + 4 * length exps)"
    and s: "s = (if st = None then Null else At b4 0)"
    and c: "cell h b = Live (Structs [S_job_requirements (Some (At b1 0)) (Some (At b2 0)) (Some (At b3 0)) (Some s)])"
    and ls: "laid h b1 (route_list_layout b1 ins)" "laid h b2 (route_list_layout b2 outs)"
      "laid h b3 (route_list_layout b3 exps)" "laid h b4 (storage_layout b4 st)"
    and e: "b4 + length (storage_layout b4 st) = b + length (requirements_layout b ins outs exps st)"
    using l by (rule laid_requirements)
  have st: "maybe adhoc_storage_blocks h s = Some [b4..<b4 + length (storage_layout b4 st)]"
    using ls(4) adhoc_storage_blocks_laid by (cases st) (auto simp: maybe_def s)
  have "requirements_blocks h (At b 0) = Some (b # [b1..<b2] @ [b2..<b3] @ [b3..<b4] @
      [b4..<b4 + length (storage_layout b4 st)])"
    using c st route_list_blocks_laid [OF ls(1)] route_list_blocks_laid [OF ls(2)]
      route_list_blocks_laid [OF ls(3)]
    by (simp add: requirements_blocks_def maybe_def whole_def cell_LiveD bs(2-4))
  also have "b # [b1..<b2] @ [b2..<b3] @ [b3..<b4] @ [b4..<b4 + length (storage_layout b4 st)] =
      [b..<b4 + length (storage_layout b4 st)]"
  proof -
    have "b # [b1..<b2] @ [b2..<b3] @ [b3..<b4] @ [b4..<b4 + length (storage_layout b4 st)] =
        b # [b1..<b4 + length (storage_layout b4 st)]"
    proof -
      have le: "b1 \<le> b2" "b2 \<le> b3" "b3 \<le> b4" "b1 \<le> b3" "b1 \<le> b4"
        by (simp_all add: bs)
      show ?thesis
        unfolding upt_join [OF le(1,2)] upt_join [OF le(4,3)]
        using upt_join [OF le(5), of "b4 + length (storage_layout b4 st)" "[]"] by simp
    qed
    also have "\<dots> = [b..<b4 + length (storage_layout b4 st)]"
      by (subst (2) upt_conv_Cons) (simp_all add: bs)
    finally show ?thesis .
  qed
  also note e
  finally show ?thesis .
qed

section \<open>The contract of creating and destroying\<close>

text \<open>The same blocks in use with the same contents.\<close>

definition same_memory :: "heap \<Rightarrow> heap \<Rightarrow> bool" where
  "same_memory h h' \<longleftrightarrow> (\<forall>b < max (next_block h) (next_block h'). cell h b = cell h' b)"

lemma same_memoryI: "(\<And>b. cell h b = cell h' b) \<Longrightarrow> same_memory h h'"
  by (simp add: same_memory_def)

lemma same_memory_new:
  "set cs = {next_block h..<next_block h + length bs} \<Longrightarrow> same_memory h (release cs (place bs h))"
proof (rule same_memoryI)
  fix b assume cs: "set cs = {next_block h..<next_block h + length bs}"
  have "cell h b = Freed" if "next_block h \<le> b" using that by (simp add: cell_def next_block_def)
  with cs show "cell h b = cell (release cs (place bs h)) b" by (auto simp: cell_release cell_place)
qed

primrec create_each :: "('v \<Rightarrow> ptr c) \<Rightarrow> 'v list \<Rightarrow> ptr list c" where
  "create_each create [] = ret []"
| "create_each create (v # vs) =
     seq (create v) (\<lambda>p. seq (create_each create vs) (\<lambda>ps. ret (p # ps)))"

definition destroy_each :: "(ptr \<Rightarrow> adm_return c) \<Rightarrow> ptr list \<Rightarrow> unit c" where
  "destroy_each destroy ps = for_c [0..<length ps] (\<lambda>i. seq (destroy (ps ! i)) (\<lambda>_. ret ()))"

locale c_maker = c_object blocks destroy
  for blocks :: "heap \<Rightarrow> ptr \<Rightarrow> nat list option" and destroy :: "ptr \<Rightarrow> adm_return c" +
  fixes create :: "'v \<Rightarrow> ptr c"
    and ready :: "heap \<Rightarrow> 'v \<Rightarrow> bool"
  assumes created: "h_oom h = [] \<Longrightarrow> ready h v \<Longrightarrow>
      \<exists>bs. bs \<noteq> [] \<and> create v h = Inr (At (next_block h) 0, place bs h) \<and>
        blocks (place bs h) (At (next_block h) 0) = Some [next_block h..<next_block h + length bs]"
    and ready_place: "ready h v \<Longrightarrow> ready (place bs h) v"
begin

lemma create_destroy:
  assumes "h_oom h = []" "ready h v"
  shows "\<exists>p h' h''. create v h = Inr (p, h') \<and> p \<noteq> Null \<and> keeps h h' \<and>
    destroy p h' = Inr (ADM_SUCCESS, h'') \<and> same_memory h h''"
proof -
  obtain bs where c: "create v h = Inr (At (next_block h) 0, place bs h)"
    and b: "blocks (place bs h) (At (next_block h) 0) = Some [next_block h..<next_block h + length bs]"
    using created [OF assms] by blast
  show ?thesis
    using c destroy_frees [OF b] by (auto intro!: same_memory_new)
qed

lemma create_each_done:
  assumes "h_oom h = []" "\<And>v. v \<in> set vs \<Longrightarrow> ready h v"
  shows "\<exists>ps bs f. create_each create vs h = Inr (ps, place bs h) \<and> length ps = length vs \<and>
    (\<forall>p\<in>set ps. blocks (place bs h) p = Some (f p)) \<and>
    concat (map f ps) = [next_block h..<next_block h + length bs]"
  using assms
proof (induction vs arbitrary: h)
  case Nil
  have "create_each create [] h = Inr ([], place [] h)" by simp
  moreover have "concat (map f []) = [next_block h..<next_block h + length []]" for f :: "ptr \<Rightarrow> nat list"
    by simp
  ultimately show ?case by (metis length_0_conv list.size(3) all_not_in_conv empty_set)
next
  case (Cons v vs)
  let ?n = "next_block h"
  obtain as where ne: "as \<noteq> []" and c: "create v h = Inr (At ?n 0, place as h)"
    and b: "blocks (place as h) (At ?n 0) = Some [?n..<?n + length as]"
    using created [OF Cons.prems(1), of v] Cons.prems(2) [of v] by auto
  obtain ps bs f where r: "create_each create vs (place as h) = Inr (ps, place bs (place as h))"
      "length ps = length vs" "\<forall>p\<in>set ps. blocks (place bs (place as h)) p = Some (f p)"
      "concat (map f ps) = [?n + length as..<?n + length as + length bs]"
    using Cons.IH [of "place as h"] Cons.prems ready_place by auto
  have first: "blocks (place (as @ bs) h) (At ?n 0) = Some [?n..<?n + length as]"
  proof (rule blocks_agree [OF b])
    show "agree [?n..<?n + length as] (place as h) (place (as @ bs) h)"
      by (auto simp: agree_def cell_place nth_append)
  qed
  have notin: "At ?n 0 \<notin> set ps"
  proof
    assume "At ?n 0 \<in> set ps"
    then have eq: "f (At ?n 0) = [?n..<?n + length as]" using r(3) first by simp
    have "set (f (At ?n 0)) \<subseteq> set (concat (map f ps))" using \<open>At ?n 0 \<in> set ps\<close> by auto
    then have "{?n..<?n + length as} \<subseteq> {?n + length as..<?n + length as + length bs}"
      by (simp only: eq r(4) set_upt)
    with ne show False by auto
  qed
  define g where "g = f(At ?n 0 := [?n..<?n + length as])"
  have g0: "g (At ?n 0) = [?n..<?n + length as]" by (simp add: g_def)
  have "map g ps = map f ps" using notin by (auto simp: g_def)
  moreover have "[?n..<?n + length as] @ [?n + length as..<?n + length as + length bs] =
      [?n..<?n + length (as @ bs)]"
    by (simp add: upt_add_eq_append [symmetric] add.assoc [symmetric])
  ultimately have all: "concat (map g (At ?n 0 # ps)) = [?n..<?n + length (as @ bs)]"
    using r(4) g0 by (simp only: list.map concat.simps)
  have "\<forall>p\<in>set (At ?n 0 # ps). blocks (place (as @ bs) h) p = Some (g p)"
    using r(3) first notin by (auto simp: g_def)
  moreover have "create_each create (v # vs) h = Inr (At ?n 0 # ps, place (as @ bs) h)"
    using c r(1) by simp
  ultimately show ?case using all r(2) by (intro exI [of _ "At ?n 0 # ps"] exI [of _ "as @ bs"] exI [of _ g]) simp
qed

lemma create_destroy_any_order:
  assumes "h_oom h = []" "\<And>v. v \<in> set vs \<Longrightarrow> ready h v"
  shows "\<exists>ps h'. create_each create vs h = Inr (ps, h') \<and>
    (\<forall>qs. mset qs = mset ps \<longrightarrow> (\<exists>h''. destroy_each destroy qs h' = Inr ((), h'') \<and> same_memory h h''))"
proof -
  obtain ps bs f where c: "create_each create vs h = Inr (ps, place bs h)"
    and b: "\<forall>p\<in>set ps. blocks (place bs h) p = Some (f p)"
    and all: "concat (map f ps) = [next_block h..<next_block h + length bs]"
    using create_each_done [OF assms] by blast
  have "\<exists>h''. destroy_each destroy qs (place bs h) = Inr ((), h'') \<and> same_memory h h''"
    if "mset qs = mset ps" for qs
  proof -
    have set: "set qs = set ps" using that by (rule mset_eq_setD)
    have "mset (concat (map f qs)) = mset (concat (map f ps))"
      using that by (simp add: mset_concat flip: sum_mset_sum_list)
    then have d: "distinct (concat (map f qs))" and s: "set (concat (map f qs)) = set (concat (map f ps))"
      unfolding all by (metis mset_eq_imp_distinct_iff distinct_upt, metis mset_eq_setD)
    have "destroy_each destroy qs (place bs h) = Inr ((), release (concat (map f qs)) (place bs h))"
      unfolding destroy_each_def
    proof (rule destroy_all)
      show "blocks (place bs h) (qs ! i) = Some (map f qs ! i)" if "i < length qs" for i
        using b set that nth_mem [of i qs] by simp
    qed (use d in simp_all)
    then show ?thesis
      using s same_memory_new [of "concat (map f qs)" h bs] unfolding all by auto
  qed
  with c show ?thesis by blast
qed

end

end
