(* ===== verification/CMemoryClaims.thy ===== *)
theory CMemoryClaims
  imports CMaker
begin

text \<open>The properties of the C objects in memory.\<close>

section \<open>Makers\<close>

lemma read_args_keeps:
  "read_args r xs n = Some vs \<Longrightarrow> (\<And>p v. r p = Some v \<Longrightarrow> r' p = Some v) \<Longrightarrow> read_args r' xs n = Some vs"
  by (auto simp: read_args_Some_iff)

definition nodes_ready :: "heap \<Rightarrow> ptr list \<times> nat \<Rightarrow> bool" where
  "nodes_ready h v = (case v of (xs, n) \<Rightarrow> read_args (read_node h) xs n \<noteq> None \<and> room h n)"

definition routes_ready :: "heap \<Rightarrow> ptr list \<times> nat \<Rightarrow> bool" where
  "routes_ready h v = (case v of (xs, n) \<Rightarrow> read_args (read_route h) xs n \<noteq> None \<and> room h n)"

type_synonym requirements_args =
  "(ptr list \<times> nat) \<times> (ptr list \<times> nat) \<times> (ptr list \<times> nat) \<times> ptr"

definition requirements_ready :: "heap \<Rightarrow> requirements_args \<Rightarrow> bool" where
  "requirements_ready h v = (case v of (a, b, e, p) \<Rightarrow>
     routes_ready h a \<and> routes_ready h b \<and> routes_ready h e \<and> storage_arg h p \<noteq> None)"

definition requirements_create :: "requirements_args \<Rightarrow> ptr c" where
  "requirements_create v = (case v of ((xs, n), (ys, m), (zs, k), p) \<Rightarrow>
     ADM_job_requirements_create xs n ys m zs k p)"

lemma nodes_ready_place: "nodes_ready h v \<Longrightarrow> nodes_ready (place bs h) v"
  using read_args_keeps [OF _ read_node_keeps [OF _ keeps_place]] by (fastforce simp: nodes_ready_def)

lemma routes_ready_place: "routes_ready h v \<Longrightarrow> routes_ready (place bs h) v"
  using read_args_keeps [OF _ read_route_keeps [OF _ keeps_place]] by (fastforce simp: routes_ready_def)

lemma storage_arg_place: "storage_arg h p = Some st \<Longrightarrow> storage_arg (place bs h) p = Some st"
  by (cases st) (auto simp: storage_arg_Some storage_arg_None)

interpretation m_node_list: c_maker node_list_blocks ADM_node_list_destroy
  "\<lambda>(xs, n). ADM_node_list_create xs n" nodes_ready
proof
  fix h :: heap and v bs
  show "nodes_ready h v \<Longrightarrow> nodes_ready (place bs h) v" by (rule nodes_ready_place)
  assume "h_oom h = []" "nodes_ready h v"
  then obtain xs n vs where "v = (xs, n)" "read_args (read_node h) xs n = Some vs" "room h n"
    by (cases v) (auto simp: nodes_ready_def)
  then show "\<exists>bs. bs \<noteq> [] \<and> (case v of (xs, n) \<Rightarrow> ADM_node_list_create xs n) h =
        Inr (At (next_block h) 0, place bs h) \<and>
      node_list_blocks (place bs h) (At (next_block h) 0) = Some [next_block h..<next_block h + length bs]"
    using \<open>h_oom h = []\<close>
    by (intro exI [of _ "node_list_layout (next_block h) vs"] conjI node_list_blocks_laid laid_place)
       (simp_all add: ADM_node_list_create_done, simp add: node_list_layout_def)
qed

interpretation m_route_list: c_maker route_list_blocks ADM_dataset_route_list_destroy
  "\<lambda>(xs, n). ADM_dataset_route_list_create xs n" routes_ready
proof
  fix h :: heap and v bs
  show "routes_ready h v \<Longrightarrow> routes_ready (place bs h) v" by (rule routes_ready_place)
  assume "h_oom h = []" "routes_ready h v"
  then obtain xs n vs where "v = (xs, n)" "read_args (read_route h) xs n = Some vs" "room h n"
    by (cases v) (auto simp: routes_ready_def)
  then show "\<exists>bs. bs \<noteq> [] \<and> (case v of (xs, n) \<Rightarrow> ADM_dataset_route_list_create xs n) h =
        Inr (At (next_block h) 0, place bs h) \<and>
      route_list_blocks (place bs h) (At (next_block h) 0) = Some [next_block h..<next_block h + length bs]"
    using \<open>h_oom h = []\<close>
    by (intro exI [of _ "route_list_layout (next_block h) vs"] conjI route_list_blocks_laid laid_place)
       (simp_all add: ADM_dataset_route_list_create_done, simp add: route_list_layout_def)
qed

interpretation m_requirements: c_maker requirements_blocks ADM_job_requirements_destroy
  requirements_create requirements_ready
proof
  fix h :: heap and v bs
  show "requirements_ready h v \<Longrightarrow> requirements_ready (place bs h) v"
    by (auto simp: requirements_ready_def intro: routes_ready_place storage_arg_place)
  assume o: "h_oom h = []" and r: "requirements_ready h v"
  obtain xs n ys m zs k p where v: "v = ((xs, n), (ys, m), (zs, k), p)" by (metis surj_pair)
  then obtain ins outs exps st where a: "read_args (read_route h) xs n = Some ins"
      "read_args (read_route h) ys m = Some outs" "read_args (read_route h) zs k = Some exps"
      "storage_arg h p = Some st" "room h n" "room h m" "room h k"
    using r by (auto simp: requirements_ready_def routes_ready_def)
  let ?L = "requirements_layout (next_block h) ins outs exps st"
  have "requirements_create v h = Inr (At (next_block h) 0, place ?L h)"
    using ADM_job_requirements_create_done [OF a(1-4) o a(5-7)] by (simp add: requirements_create_def v)
  moreover have "?L \<noteq> []" by (simp add: requirements_layout_def Let_def)
  ultimately show "\<exists>bs. bs \<noteq> [] \<and> requirements_create v h = Inr (At (next_block h) 0, place bs h) \<and>
      requirements_blocks (place bs h) (At (next_block h) 0) =
        Some [next_block h..<next_block h + length bs]"
    using requirements_blocks_laid [OF laid_place] by blast
qed

section \<open>Requirements\<close>

lemma requirements_read_back:
  assumes l: "laid h b (requirements_layout b ins outs exps st)"
    and ok: "\<And>v. v \<in> set ins \<union> set outs \<union> set exps \<Longrightarrow> no_nul (d_id (d_src v)) \<and> no_nul (d_id (d_dst v))"
    and st: "\<And>name t i ctx r. st = Some (name, t, i, ctx, r) \<Longrightarrow> no_nul name \<and>
      (\<exists>c. read_struct h c = Some ctx \<and> read_adhoc_context h c = Some (as_adhoc_ctx a)) \<and>
      a = \<lparr>as_name = name, as_type = t, as_id = i, as_adhoc_ctx = as_adhoc_ctx a, as_resources = as_resources a\<rparr> \<and>
      read_adhoc_resources h r = Some (as_resources a)"
  shows "read_requirements h (At b 0) =
    Some \<lparr>r_inputs = ins, r_outputs = outs, r_expected_outputs = exps,
          r_adhoc_storage = (if st = None then None else Some a)\<rparr>"
proof -
  obtain b1 b2 b3 b4 s where s: "s = (if st = None then Null else At b4 0)"
    and c: "cell h b = Live (Structs [S_job_requirements (Some (At b1 0)) (Some (At b2 0)) (Some (At b3 0)) (Some s)])"
    and ls: "laid h b1 (route_list_layout b1 ins)" "laid h b2 (route_list_layout b2 outs)"
      "laid h b3 (route_list_layout b3 exps)" "laid h b4 (storage_layout b4 st)"
    using l by (rule laid_requirements)
  have lists: "read_route_list h (At b1 0) = Some ins" "read_route_list h (At b2 0) = Some outs"
      "read_route_list h (At b3 0) = Some exps"
    using read_route_list_laid [OF ls(1)] read_route_list_laid [OF ls(2)] read_route_list_laid [OF ls(3)] ok
    by auto
  have "read_adhoc_storage h (At b4 0) = Some a" if some: "st = Some (name, t, i, ctx, r)" for name t i ctx r
  proof -
    have a: "a = \<lparr>as_name = name, as_type = t, as_id = i, as_adhoc_ctx = as_adhoc_ctx a, as_resources = as_resources a\<rparr>"
      and n: "no_nul name" and res: "read_adhoc_resources h r = Some (as_resources a)"
      using st [OF some] by auto
    obtain d where d: "read_struct h d = Some ctx" "read_adhoc_context h d = Some (as_adhoc_ctx a)"
      using st [OF some] by auto
    have cs: "cell h b4 = Live (Structs [S_adhoc_storage (Some (At (Suc b4) 0)) (Some t) (Some i)
          (Some (At (Suc (Suc b4)) 0)) (Some r)])"
        "cell h (Suc b4) = Live (Bytes (name @ [CHR 0x00]))" "cell h (Suc (Suc b4)) = Live (Structs [ctx])"
      using ls(4) some by simp_all
    have "read_adhoc_context h (At (Suc (Suc b4)) 0) = read_adhoc_context h d"
      using cs(3) d(1) by (simp add: read_adhoc_context_def)
    then show ?thesis
      using cs d res n by (subst a) (simp add: read_adhoc_storage_def no_nul_def)
  qed
  then have "(if s = Null then Some None else map_option Some (read_adhoc_storage h s)) =
      Some (if st = None then None else Some a)"
    by (cases st) (auto simp: s)
  with c lists show ?thesis
    by (simp add: read_requirements_def)
qed

lemma read_dataset_no_nul: "read_dataset h p = Some v \<Longrightarrow> no_nul (d_id v)"
  by (auto simp: read_dataset_Some_iff no_nul_def dest: read_string_no_nul)

lemma read_route_no_nul: "read_route h p = Some v \<Longrightarrow> no_nul (d_id (d_src v)) \<and> no_nul (d_id (d_dst v))"
  by (auto simp: read_route_Some_iff dest: read_dataset_no_nul)

lemma read_args_set: "read_args r xs n = Some vs \<Longrightarrow> v \<in> set vs \<Longrightarrow> \<exists>p. r p = Some v"
  by (auto simp: read_args_Some_iff in_set_conv_nth)

lemma read_adhoc_storage_Some_iff:
  "read_adhoc_storage h p = Some a \<longleftrightarrow>
     (\<exists>x c r. read_struct h p =
        Some (S_adhoc_storage (Some x) (Some (as_type a)) (Some (as_id a)) (Some c) (Some r)) \<and>
        read_string h x = Some (as_name a) \<and> read_adhoc_context h c = Some (as_adhoc_ctx a) \<and>
        read_adhoc_resources h r = Some (as_resources a))"
  by (auto simp: read_adhoc_storage_def bind_eq_Some_conv split: option.splits cstruct.splits)

lemma read_adhoc_context_struct:
  "read_adhoc_context h c = Some v \<Longrightarrow> \<exists>ctx. read_struct h c = Some ctx"
  by (auto simp: read_adhoc_context_def split: option.splits)

lemma requirements_layout_reads:
  assumes "read_args (read_route h) xs n = Some ins" "read_args (read_route h) ys m = Some outs"
    and "read_args (read_route h) zs k = Some exps"
    and storage: "(if p = Null then Some None else map_option Some (read_adhoc_storage h p)) = Some st"
    and known: "\<forall>a. st = Some a \<longrightarrow> known_adhoc_type (as_type a)"
  shows "\<exists>sa. storage_arg h p = Some sa \<and>
     read_requirements (place (requirements_layout (next_block h) ins outs exps sa) h) (At (next_block h) 0) =
       Some \<lparr>r_inputs = ins, r_outputs = outs, r_expected_outputs = exps, r_adhoc_storage = st\<rparr>"
proof -
  have ok: "no_nul (d_id (d_src v)) \<and> no_nul (d_id (d_dst v))" if "v \<in> set ins \<union> set outs \<union> set exps" for v
    using that assms(1-3) by (auto dest!: read_args_set read_route_no_nul)
  show ?thesis
  proof (cases st)
    case None
    then have p: "storage_arg h p = Some None" using storage by (auto simp: storage_arg_None split: if_splits)
    have "read_requirements (place (requirements_layout (next_block h) ins outs exps None) h) (At (next_block h) 0) =
        Some \<lparr>r_inputs = ins, r_outputs = outs, r_expected_outputs = exps,
              r_adhoc_storage = (if (None :: (string \<times> nat \<times> u64 \<times> cstruct \<times> ptr) option) = None then None
                                else Some undefined)\<rparr>"
      by (rule requirements_read_back [OF laid_place ok]) simp_all
    then show ?thesis using None by (intro exI [of _ None]) (simp add: p)
  next
    case (Some a)
    then have r: "p \<noteq> Null" "read_adhoc_storage h p = Some a" "known_adhoc_type (as_type a)"
      using storage known by (auto split: if_splits)
    then obtain x c res ctx where s:
        "read_struct h p = Some (S_adhoc_storage (Some x) (Some (as_type a)) (Some (as_id a)) (Some c) (Some res))"
        "read_string h x = Some (as_name a)" "read_adhoc_context h c = Some (as_adhoc_ctx a)"
        "read_adhoc_resources h res = Some (as_resources a)" "read_struct h c = Some ctx"
      using read_adhoc_context_struct by (fastforce simp: read_adhoc_storage_Some_iff)
    define sa where "sa = Some (as_name a, as_type a, as_id a, ctx, res)"
    have p: "storage_arg h p = Some sa" using s r by (auto simp: sa_def storage_arg_Some)
    let ?h = "place (requirements_layout (next_block h) ins outs exps sa) h"
    have "read_requirements ?h (At (next_block h) 0) =
        Some \<lparr>r_inputs = ins, r_outputs = outs, r_expected_outputs = exps,
              r_adhoc_storage = (if sa = None then None else Some a)\<rparr>"
    proof (rule requirements_read_back [OF laid_place ok])
      show "no_nul name \<and> (\<exists>c. read_struct ?h c = Some ctx \<and> read_adhoc_context ?h c = Some (as_adhoc_ctx a)) \<and>
          a = \<lparr>as_name = name, as_type = t, as_id = i, as_adhoc_ctx = as_adhoc_ctx a, as_resources = as_resources a\<rparr> \<and>
          read_adhoc_resources ?h r = Some (as_resources a)"
        if "sa = Some (name, t, i, ctx, r)" for name t i ctx r
        using that s(2,3,4,5) read_string_no_nul [OF s(2)] read_adhoc_context_keeps [OF s(3) keeps_place]
          read_adhoc_resources_keeps [OF s(4) keeps_place]
        by (auto simp: sa_def no_nul_def intro: read_struct_place)
    qed
    then show ?thesis using Some by (intro exI [of _ sa]) (simp add: p sa_def)
  qed
qed

text \<open>A heap with a route, a storage with its context and resources, and the strings they use.\<close>

definition sample_heap :: heap where
  "sample_heap =
     \<lparr>h_cells =
        [Live (Bytes (''in'' @ [CHR 0x00])), Live (Structs [S_dataset (Some (At 0 0))]),
         Live (Structs [S_dataset_route (Some (At 1 0)) (Some (At 1 0))]),
         Live (Bytes (''st'' @ [CHR 0x00])),
         Live (Structs [S_adhoc_context (Some (At 0 0)) (Some (At 3 0)) (Some 2) (Some 1) (Some 60) (Some False)]),
         Live (Structs [S_node (Some (At 3 0)) (Some 0)]), Live (Structs [S_node_list (Some (At 5 0)) (Some 1)]),
         Live (Structs [S_adhoc_resources (Some (At 6 0))]),
         Live (Structs [S_adhoc_storage (Some (At 3 0)) (Some 0) (Some 5) (Some (At 4 0)) (Some (At 7 0))]),
         Live (Structs [S_qos_entity (Some 0) (Some (Ref_dataset (At 1 0)))]),
         Live (Structs [S_qos_limit (Some (At 9 0)) (Some 1) (Some 50)])],
      h_oom = [], h_zero_null = False\<rparr>"

definition sample_route :: adm_dataset_route where
  "sample_route = \<lparr>d_src = \<lparr>d_id = ''in''\<rparr>, d_dst = \<lparr>d_id = ''in''\<rparr>\<rparr>"

definition sample_storage :: adm_adhoc_storage where
  "sample_storage = \<lparr>as_name = ''st'', as_type = 0, as_id = 5,
     as_adhoc_ctx = \<lparr>c_ctl_address = ''in'', c_stager_address = ''st'', c_mode = 2, c_access = 1,
                     c_walltime = 60, c_should_bg_flush = False\<rparr>,
     as_resources = \<lparr>ar_nodes = [\<lparr>n_hostname = ''st'', n_type = 0\<rparr>]\<rparr>\<rparr>"

lemma sample_reads:
  "h_oom sample_heap = []" "room sample_heap n"
  "read_args (read_route sample_heap) [At 2 0] 1 = Some [sample_route]"
  "read_args (read_route sample_heap) [] 0 = Some []"
  "read_adhoc_storage sample_heap (At 8 0) = Some sample_storage"
  "known_adhoc_type (as_type sample_storage)"
  by (simp add: sample_heap_def, simp add: room_def sample_heap_def, code_simp+)

text \<open>C14: When memory does not run out, ADM_job_requirements_create returns a new object that
  reads as exactly the requirements its arguments describe (inputs, outputs, expected outputs and the
  storage with its context and resources), without touching anything that was there; and
  ADM_job_requirements_destroy then returns ADM_SUCCESS and leaves the memory as it was before.\<close>

theorem requirements_in_memory:
  assumes "read_args (read_route h) xs n = Some ins" "read_args (read_route h) ys m = Some outs"
    and "read_args (read_route h) zs k = Some exps"
    and storage: "(if p = Null then Some None else map_option Some (read_adhoc_storage h p)) = Some st"
    and known: "\<forall>a. st = Some a \<longrightarrow> known_adhoc_type (as_type a)"
    and o: "h_oom h = []" and "room h n" "room h m" "room h k"
  shows "\<exists>q h' h''. ADM_job_requirements_create xs n ys m zs k p h = Inr (q, h') \<and> keeps h h' \<and>
     read_requirements h' q =
       Some \<lparr>r_inputs = ins, r_outputs = outs, r_expected_outputs = exps, r_adhoc_storage = st\<rparr> \<and>
     ADM_job_requirements_destroy q h' = Inr (ADM_SUCCESS, h'') \<and> same_memory h h''"
proof -
  obtain sa where sa: "storage_arg h p = Some sa"
    and reads: "read_requirements (place (requirements_layout (next_block h) ins outs exps sa) h)
        (At (next_block h) 0) =
      Some \<lparr>r_inputs = ins, r_outputs = outs, r_expected_outputs = exps, r_adhoc_storage = st\<rparr>"
    using requirements_layout_reads [OF assms(1-5)] by blast
  have c: "ADM_job_requirements_create xs n ys m zs k p h =
      Inr (At (next_block h) 0, place (requirements_layout (next_block h) ins outs exps sa) h)"
    using ADM_job_requirements_create_done [OF assms(1-3) sa o assms(7-9)] .
  have ready: "requirements_ready h ((xs, n), (ys, m), (zs, k), p)"
    using assms sa by (simp add: requirements_ready_def routes_ready_def)
  show ?thesis
    using m_requirements.create_destroy [OF o ready] c reads by (auto simp: requirements_create_def)
qed

theorem requirements_in_memory_witness:
  "\<exists>q h' h''. ADM_job_requirements_create [At 2 0] 1 [] 0 [At 2 0] 1 (At 8 0) sample_heap = Inr (q, h') \<and>
     keeps sample_heap h' \<and>
     read_requirements h' q =
       Some \<lparr>r_inputs = [sample_route], r_outputs = [], r_expected_outputs = [sample_route],
             r_adhoc_storage = Some sample_storage\<rparr> \<and>
     ADM_job_requirements_destroy q h' = Inr (ADM_SUCCESS, h'') \<and> same_memory sample_heap h''"
  by (rule requirements_in_memory) (simp_all add: sample_reads del: One_nat_def)

end
