(* ===== verification/CFaults.thy ===== *)
theory CFaults
  imports CMemoryClaims
begin

text \<open>Where the C objects go wrong: failed creations, shared parts, and what destroying leaves behind.\<close>

section \<open>Order of destruction\<close>

lemma sample_ready:
  "requirements_ready sample_heap (([At 2 0], 1), ([], 0), ([At 2 0], 1), Null)"
  using sample_reads(2-4) by (simp add: requirements_ready_def routes_ready_def storage_arg_def)

text \<open>C15: Any number of requirements objects can be created one after another and destroyed in any
  order: every destroy succeeds and in the end the memory is what it was before the first creation.\<close>

theorem requirements_any_order:
  assumes "h_oom h = []" "\<forall>v\<in>set vs. requirements_ready h v"
  shows "\<exists>ps h'. create_each requirements_create vs h = Inr (ps, h') \<and>
    (\<forall>qs. mset qs = mset ps \<longrightarrow>
       (\<exists>h''. destroy_each ADM_job_requirements_destroy qs h' = Inr ((), h'') \<and> same_memory h h''))"
  by (rule m_requirements.create_destroy_any_order) (use assms in auto)

theorem requirements_any_order_witness:
  "\<exists>ps h'. create_each requirements_create
      (replicate 2 (([At 2 0], 1), ([], 0), ([At 2 0], 1), Null)) sample_heap = Inr (ps, h') \<and>
    (\<forall>qs. mset qs = mset ps \<longrightarrow>
       (\<exists>h''. destroy_each ADM_job_requirements_destroy qs h' = Inr ((), h'') \<and> same_memory sample_heap h''))"
  by (rule requirements_any_order) (use sample_ready sample_reads(1) in simp_all)

section \<open>A null entry in a list of nodes\<close>

lemma for_goto_append:
  "for_goto (xs @ ys) s h = seq (for_goto xs s) (\<lambda>ok. if ok then for_goto ys s else ret False) h"
proof (induction xs arbitrary: h)
  case (Cons x xs)
  show ?case
  proof (cases "s x h")
    case (Inr r)
    with Cons show ?thesis by (cases r) (auto simp: seq_def)
  qed simp
qed simp

lemma null_node_list:
  assumes v: "read_args (read_node h) xs i = Some vs" and null: "i < length xs" "xs ! i = Null" "i < n"
    and o: "h_oom h = []"
  shows "\<exists>h'. ADM_node_list_create xs n h = Inr (Null, h') \<and> keeps h h' \<and>
    (\<forall>j<i. cell h' (next_block h + 2 + j) = Live (Bytes (n_hostname (vs ! j) @ [CHR 0x00])))"
proof -
  define a where "a = At (Suc (next_block h)) 0"
  define l where "l = Structs [S_node_list (Some a) (Some n)]"
  define z where "z = replicate n (S_node (Some Null) (Some 0))"
  define E where "E j = S_node (Some (At (next_block h + 2 + j) 0)) (Some (n_type (vs ! j)))" for j
  define S where "S j = [Bytes (n_hostname (vs ! j) @ [CHR 0x00])]" for j
  define body where "body = (\<lambda>i. seq (array_arg xs i) (\<lambda>x.
      seq (ADM_node_copy (elem_ptr a i) x) (\<lambda>r. ret (r \<noteq> Null))))"
  have vs: "length vs = i" "\<And>j. j < i \<Longrightarrow> read_node h (xs ! j) = Some (vs ! j)"
    using v by (auto simp: read_args_Some_iff)
  let ?h = "place (l # Structs (map E [0..<i] @ drop i z) # concat (map S [0..<i])) h"
  have "for_goto [0..<i] body (place [l, Structs z] h) = Inr (True, ?h)"
    by (rule for_goto_fill_upto [where k = 1 and n = n])
       (use vs null o in \<open>simp_all add: body_def a_def E_def S_def z_def array_arg_def ADM_node_copy_elem\<close>)
  moreover have "body i ?h = Inr (False, ?h)"
    using null by (simp add: body_def array_arg_def ADM_node_copy_def)
  moreover have "[0..<n] = [0..<i] @ i # [Suc i..<n]"
    using null upt_add_eq_append [of 0 i "n - i"] by (simp add: upt_conv_Cons)
  ultimately have "for_goto [0..<n] body (place [l, Structs z] h) = Inr (False, ?h)"
    by (simp only: for_goto_append for_goto.simps seq_Inr if_True if_False ret_apply)
  moreover have "ADM_node_list_create xs n h =
      seq (for_goto [0..<n] body) (\<lambda>ok. if ok then ret (At (next_block h) 0) else cleanup_list (At (next_block h) 0) a)
        (place [l, Structs z] h)"
    unfolding l_def z_def a_def body_def using o null by (simp add: ADM_node_list_create_def)
  ultimately have "ADM_node_list_create xs n h = cleanup_list (At (next_block h) 0) a ?h"
    by (simp only: seq_Inr if_False)
  moreover have "cleanup_list (At (next_block h) 0) a ?h =
      Inr (Null, release [Suc (next_block h), next_block h] ?h)"
    by (simp add: cleanup_list_def free_if_def a_def live_def cell_place cell_release)
  moreover have "keeps h (release [Suc (next_block h), next_block h] ?h)"
    using mem_keeps_trans [OF keeps_place [of h] keeps_release] not_live_next
    by (auto simp: keeps_def cell_release cell_place dest: live_below)
  moreover have "laid ?h (next_block h + 2) (concat (map S [0..<i]))"
    using laid_place [of "l # Structs (map E [0..<i] @ drop i z) # concat (map S [0..<i])" h] by simp
  then have "cell ?h (next_block h + 2 + j) = Live (Bytes (n_hostname (vs ! j) @ [CHR 0x00]))" if "j < i" for j
    using that by (simp add: laid_concat [where k = 1 and S = S] S_def)
  ultimately show ?thesis
    by (intro exI [of _ "release [Suc (next_block h), next_block h] ?h"]) (simp add: cell_release)
qed

text \<open>A null pointer among the nodes makes ADM_node_list_create return NULL, but the copies of the
  host names before it stay allocated, and no pointer to them is left.\<close>

lemma null_node_leaks:
  assumes "read_args (read_node h) xs i = Some vs" "i < length xs" "xs ! i = Null" "i < n" "h_oom h = []"
  shows "\<exists>h'. ADM_node_list_create xs n h = Inr (Null, h') \<and> keeps h h' \<and>
    (\<forall>j<i. cell h' (next_block h + 2 + j) = Live (Bytes (n_hostname (vs ! j) @ [CHR 0x00])))"
  using assms by (rule null_node_list)

text \<open>With a null pointer among the nodes, ADM_job_resources_create and
  ADM_adhoc_resources_create do not return NULL: their cleanup destroys the new object, whose member
  r_nodes has not been written, and uses the indeterminate value it holds.\<close>

lemma resources_cleanup_undefined:
  assumes v: "read_args (read_node h) xs i = Some vs" and null: "i < length xs" "xs ! i = Null" "i < n"
    and o: "h_oom h = []"
  shows "ADM_job_resources_create xs n h = Inl Indeterminate_value \<and>
    ADM_adhoc_resources_create xs n h = Inl Indeterminate_value"
proof -
  have fails: "\<exists>h'. ADM_node_list_create xs n (place [Structs [s]] h) = Inr (Null, h') \<and>
      read_struct h' (At (next_block h) 0) = Some s" for s
  proof -
    have "read_args (read_node (place [Structs [s]] h)) xs i = Some vs"
      by (rule read_args_keeps [OF v]) (erule read_node_keeps, simp)
    then obtain h' where "ADM_node_list_create xs n (place [Structs [s]] h) = Inr (Null, h')"
        "keeps (place [Structs [s]] h) h'"
      using null_node_list [of "place [Structs [s]] h" xs i vs n] null o by auto
    moreover have "read_struct (place [Structs [s]] h) (At (next_block h) 0) = Some s"
      by (simp add: cell_place)
    ultimately show ?thesis using read_struct_keeps by blast
  qed
  show ?thesis
    using fails [of "S_job_resources None"] fails [of "S_adhoc_resources None"] o
    by (auto simp: ADM_job_resources_create_def ADM_adhoc_resources_create_def
          ADM_job_resources_destroy_def ADM_adhoc_resources_destroy_def
          job_resources_at_def adhoc_resources_at_def)
qed

section \<open>Running out of memory\<close>

lemma read_oom [simp]:
  "read_string (h\<lparr>h_oom := os\<rparr>) p = read_string h p" "read_struct (h\<lparr>h_oom := os\<rparr>) p = read_struct h p"
  by (simp_all add: read_string_def c_string_def read_struct_def load_def cell_def
        split: ptr.splits cell.splits block.splits)

lemma place_oom [simp]: "(place bs h)\<lparr>h_oom := os\<rparr> = place bs (h\<lparr>h_oom := os\<rparr>)"
  by (simp add: place_def)

lemma allocate_next [simp]:
  "h_oom h = False # r \<Longrightarrow> allocate x h = Inr (At (next_block h) 0, place [x] (h\<lparr>h_oom := r\<rparr>))"
  by (simp add: allocate_def)

lemma dup_string_next:
  assumes "read_string h q = Some s" "h_oom h = False # r"
  shows "dup_string q (place bs h) =
     Inr (At (next_block h + length bs) 0, place (bs @ [Bytes (s @ [CHR 0x00])]) (h\<lparr>h_oom := r\<rparr>))"
proof -
  have "strcpy (At (next_block h + length bs) 0) q
      (place (bs @ [Bytes (replicate (length s + 1) (CHR 0x00))]) (h\<lparr>h_oom := r\<rparr>)) =
    Inr ((), place (bs @ [Bytes (s @ [CHR 0x00])]) (h\<lparr>h_oom := r\<rparr>))"
    using strcpy_fresh [of "h\<lparr>h_oom := r\<rparr>" q s _ bs] assms(1) by simp
  with assms show ?thesis
    by (simp add: dup_string_def calloc_bytes_def del: replicate_Suc)
qed

text \<open>When the memory for the copy of the context cannot be allocated,
  ADM_adhoc_storage_create and ADM_pfs_storage_create do not return NULL: they destroy the new object and
  then assert that the code returned for that, ADM_SUCCESS, is not zero.\<close>

lemma storage_create_aborts:
  assumes "read_string h name = Some s" "read_struct h ctx = Some v"
    and o: "h_oom h = False # False # True # r"
  shows "ADM_adhoc_storage_create name ty i ctx res h = Inl Assertion_failed \<and>
    ADM_pfs_storage_create name ty i ctx h = Inl Assertion_failed"
proof -
  define g where "g = h\<lparr>h_oom := False # True # r\<rparr>"
  have g: "allocate x h = Inr (At (next_block h) 0, place [x] g)" for x
    using o by (simp add: g_def)
  have nulls: "name \<noteq> Null" "ctx \<noteq> Null" and n: "next_block g = next_block h" "h_oom g = False # True # r"
    using assms by (auto simp: g_def)
  have dup: "dup_string name (place [x] g) =
      Inr (At (Suc (next_block h)) 0, place [x, Bytes (s @ [CHR 0x00])] (g\<lparr>h_oom := True # r\<rparr>))" for x
    using dup_string_next [of g name s "True # r" "[x]"] assms(1) n by (simp add: g_def)
  have st: "store (At (next_block h) 0) t (place [Structs [x], y] (g\<lparr>h_oom := os\<rparr>)) =
      Inr ((), place [Structs [t], y] (g\<lparr>h_oom := os\<rparr>))" for t x y os
    using store_first [of 0 "[x]" "g\<lparr>h_oom := os\<rparr>" t "[y]"] n by simp
  define g' where "g' = g\<lparr>h_oom := r\<rparr>"
  have g': "next_block g' = next_block h" by (simp add: g'_def n)
  let ?a = "S_adhoc_storage (Some (At (Suc (next_block h)) 0)) (Some ty) (Some i) (Some Null) None"
  let ?p = "S_pfs_storage (Some (At (Suc (next_block h)) 0)) (Some ty) (Some i) (Some Null)"
  have "ADM_adhoc_storage_destroy (At (next_block h) 0) (place [Structs [?a], Bytes (s @ [CHR 0x00])] g') =
      Inr (ADM_SUCCESS, release [next_block h, Suc (next_block h)] (place [Structs [?a], Bytes (s @ [CHR 0x00])] g'))"
    by (rule c_adhoc_storage.destroy_frees)
       (simp_all add: adhoc_storage_blocks_def opt_block_def whole_def live_def cell_place g')
  moreover have "ADM_pfs_storage_destroy (At (next_block h) 0) (place [Structs [?p], Bytes (s @ [CHR 0x00])] g') =
      Inr (ADM_SUCCESS, release [next_block h, Suc (next_block h)] (place [Structs [?p], Bytes (s @ [CHR 0x00])] g'))"
    by (rule c_pfs_storage.destroy_frees)
       (simp_all add: pfs_storage_blocks_def opt_block_def whole_def live_def cell_place g')
  ultimately show ?thesis
    using nulls
    by (simp add: ADM_adhoc_storage_create_def ADM_pfs_storage_create_def malloc_struct_def g dup st
          st [where os = r, folded g'_def] assert_nonzero_def n g'_def [symmetric])
qed

section \<open>What destroying leaves\<close>

text \<open>Destroying a dataset route that ADM_dataset_route_create has made returns ADM_SUCCESS and frees
  the two datasets but not the route: its block stays allocated, with two pointers to freed memory in it,
  so that destroying it again is undefined. Everything else is as before the route was created.\<close>

lemma route_destroy_leaks:
  assumes s: "read_dataset h s = Some x" and d: "read_dataset h d = Some y" and o: "h_oom h = []"
  shows "\<exists>b h' h'' e. ADM_dataset_route_create s d h = Inr (At b 0, h') \<and>
    ADM_dataset_route_destroy (At b 0) h' = Inr (ADM_SUCCESS, h'') \<and>
    \<not> live h b \<and> cell h'' b = cell h' b \<and> live h'' b \<and> (\<forall>c. c \<noteq> b \<longrightarrow> cell h'' c = cell h c) \<and>
    ADM_dataset_route_destroy (At b 0) h'' = Inl e"
proof -
  let ?b = "next_block h"
  let ?R = "Structs [S_dataset_route (Some (At (Suc ?b) 0)) (Some (At (Suc ?b + 2) 0))]"
  let ?L = "?R # dataset_blocks_at (Suc ?b) x @ dataset_blocks_at (Suc ?b + 2) y"
  let ?B = "[Suc ?b, Suc (Suc ?b), Suc ?b + 2, Suc (Suc ?b + 2)]"
  define h1 h2 where "h1 = place ?L h" and "h2 = release ?B h1"
  have l: "laid h1 ?b ?L" unfolding h1_def by (rule laid_place)
  then have "dataset_blocks h1 (At (Suc ?b) 0) = Some [Suc ?b, Suc (Suc ?b)]"
      "dataset_blocks h1 (At (Suc ?b + 2) 0) = Some [Suc ?b + 2, Suc (Suc ?b + 2)]"
    by (auto intro!: dataset_blocks_laid)
  moreover have c: "cell h1 ?b = Live ?R" using l by simp
  ultimately have r: "route_parts h1 (At ?b 0) = Some ?B"
    by (simp add: route_parts_def maybe_def)
  have destroyed: "ADM_dataset_route_destroy (At ?b 0) h1 = Inr (ADM_SUCCESS, h2)"
    using destroy_route_parts [OF r, of "[]"] by (simp add: h2_def)
  have rest: "cell h2 k = cell h k" if "k \<noteq> ?b" for k
  proof (cases "?b \<le> k")
    case True
    then have "cell h k = Freed" by (simp add: cell_def next_block_def)
    with True that show ?thesis
      by (auto simp: h2_def h1_def cell_release cell_place dataset_blocks_at_def)
  qed (auto simp: h2_def h1_def cell_release cell_place)
  have same: "cell h2 ?b = cell h1 ?b" by (simp add: h2_def cell_release)
  have "\<not> live h2 (Suc ?b)" by (simp add: h2_def live_release)
  then have "ADM_dataset_destroy (At (Suc ?b) 0) h2 = Inl Dangling_pointer"
    by (simp add: ADM_dataset_destroy_def dataset_at_def load_freed)
  moreover have "read_struct h2 (At ?b 0) =
      Some (S_dataset_route (Some (At (Suc ?b) 0)) (Some (At (Suc ?b + 2) 0)))"
    using same c by simp
  ultimately have again: "ADM_dataset_route_destroy (At ?b 0) h2 = Inl Dangling_pointer"
    by (simp add: ADM_dataset_route_destroy_def route_at_def destroy_if_def)
  have "ADM_dataset_route_create s d h = Inr (At ?b 0, h1)"
    unfolding h1_def by (rule ADM_dataset_route_create_done [OF s assms(2) o])
  moreover have "live h2 ?b" using same c by (simp add: live_def)
  ultimately show ?thesis using destroyed rest same again not_live_next by blast
qed

text \<open>A storage made with a context has a copy of the context structure that shares its two
  strings. Destroying the context leaves the strings allocated, so the storage still reads as before; but
  then destroying the storage does not free them either.\<close>

lemma storage_outlives_context:
  assumes strings: "read_string h q = Some ctl" "read_string h r = Some stager" "read_string h name = Some nm"
    and res: "read_adhoc_resources h rs = Some nodes" and o: "h_oom h = []"
  shows "\<exists>c p h1 h2 h3 h4. ADM_adhoc_context_create q r m a w f h = Inr (c, h1) \<and>
    ADM_adhoc_storage_create name ty i c rs h1 = Inr (p, h2) \<and>
    ADM_adhoc_context_destroy c h2 = Inr (ADM_SUCCESS, h3) \<and>
    read_adhoc_storage h3 p = Some \<lparr>as_name = nm, as_type = ty, as_id = i,
      as_adhoc_ctx = \<lparr>c_ctl_address = ctl, c_stager_address = stager, c_mode = m, c_access = a,
                      c_walltime = w, c_should_bg_flush = f\<rparr>,
      as_resources = nodes\<rparr> \<and>
    ADM_adhoc_storage_destroy p h3 = Inr (ADM_SUCCESS, h4) \<and>
    cell h4 (next_block h + 1) = Live (Bytes (ctl @ [CHR 0x00])) \<and>
    cell h4 (next_block h + 2) = Live (Bytes (stager @ [CHR 0x00]))"
proof -
  let ?b = "next_block h"
  let ?C = "S_adhoc_context (Some (At (?b + 1) 0)) (Some (At (?b + 2) 0)) (Some m) (Some a) (Some w) (Some f)"
  let ?Lc = "[Structs [?C], Bytes (ctl @ [CHR 0x00]), Bytes (stager @ [CHR 0x00])]"
  let ?Ls = "[Structs [S_adhoc_storage (Some (At (?b + 4) 0)) (Some ty) (Some i) (Some (At (?b + 5) 0)) (Some rs)],
      Bytes (nm @ [CHR 0x00]), Structs [?C]]"
  define h1 h2 h3 h4 where "h1 = place ?Lc h" and "h2 = place (?Lc @ ?Ls) h" and "h3 = release [?b] h2"
    and "h4 = release [?b + 3, ?b + 4, ?b + 5] h3"
  have n: "CHR 0x00 \<notin> set ctl" "CHR 0x00 \<notin> set stager" "CHR 0x00 \<notin> set nm"
    using strings by (auto dest: read_string_no_nul)
  have c: "ADM_adhoc_context_create q r m a w f h = Inr (At ?b 0, h1)"
    unfolding h1_def by (rule ADM_adhoc_context_create_done [OF strings(1,2) o])
  have s: "ADM_adhoc_storage_create name ty i (At ?b 0) rs h1 = Inr (At (?b + 3) 0, h2)"
    using ADM_adhoc_storage_create_done [of h1 name nm "At ?b 0" ?C ty i rs] strings(3) o
    by (simp add: h1_def h2_def cell_place eval_nat_numeral)
  have l: "laid h2 ?b (?Lc @ ?Ls)" unfolding h2_def by (rule laid_place)
  have d: "ADM_adhoc_context_destroy (At ?b 0) h2 = Inr (ADM_SUCCESS, h3)"
    unfolding h3_def by (rule c_adhoc_context.destroy_frees) (use l in \<open>simp_all add: whole_def live_def\<close>)
  have cells: "cell h3 (?b + 1) = Live (?Lc ! 1)" "cell h3 (?b + 2) = Live (?Lc ! 2)"
      "cell h3 (?b + 3) = Live (?Ls ! 0)" "cell h3 (?b + 4) = Live (?Ls ! 1)" "cell h3 (?b + 5) = Live (?Ls ! 2)"
    using l by (simp_all add: h3_def cell_release eval_nat_numeral)
  have k: "keeps h h3"
    unfolding h3_def h2_def by (rule keeps_release_new) simp_all
  have reads: "read_adhoc_storage h3 (At (?b + 3) 0) = Some \<lparr>as_name = nm, as_type = ty, as_id = i,
      as_adhoc_ctx = \<lparr>c_ctl_address = ctl, c_stager_address = stager, c_mode = m, c_access = a,
                      c_walltime = w, c_should_bg_flush = f\<rparr>, as_resources = nodes\<rparr>"
    using cells n read_adhoc_resources_keeps [OF res k]
    by (simp add: read_adhoc_storage_def read_adhoc_context_def)
  have "adhoc_storage_blocks h3 (At (?b + 3) 0) = Some [?b + 3, ?b + 4, ?b + 5]"
    using cells by (simp add: adhoc_storage_blocks_def opt_block_def whole_def live_def)
  then have "ADM_adhoc_storage_destroy (At (?b + 3) 0) h3 = Inr (ADM_SUCCESS, h4)"
    unfolding h4_def by (rule c_adhoc_storage.destroy_frees) simp
  moreover have "cell h4 (?b + 1) = Live (Bytes (ctl @ [CHR 0x00]))"
      "cell h4 (?b + 2) = Live (Bytes (stager @ [CHR 0x00]))"
    using cells by (simp_all add: h4_def cell_release)
  ultimately show ?thesis using c s d reads by blast
qed

section \<open>Shared entities\<close>

lemma for_c_goto:
  "for_goto is (\<lambda>i. seq (s i) (\<lambda>_. ret True)) h = Inr (True, h') \<Longrightarrow> for_c is s h = Inr ((), h')"
proof (induction "is" arbitrary: h)
  case (Cons i "is")
  show ?case
  proof (cases "s i h")
    case (Inr r)
    with Cons show ?thesis by (cases r) (simp add: seq_def)
  qed (use Cons.prems in \<open>simp add: seq_def\<close>)
qed simp

lemma ADM_qos_limit_list_create_done:
  assumes v: "n \<le> length xs" "\<And>i. i < n \<Longrightarrow> read_struct h (xs ! i) = Some (L i)"
    and o: "h_oom h = []" and r: "room h n"
  shows "ADM_qos_limit_list_create xs n h = Inr (At (next_block h) 0,
    place [Structs [S_qos_limit_list (Some (At (Suc (next_block h)) 0)) (Some n)], Structs (map L [0..<n])] h)"
proof -
  define l where "l = Structs [S_qos_limit_list (Some (At (Suc (next_block h)) 0)) (Some n)]"
  define z where "z = replicate n (S_qos_limit (Some Null) (Some 0) (Some 0))"
  define body where "body = (\<lambda>i. seq (array_arg xs i) (\<lambda>x.
      seq (load x) (\<lambda>l. store (elem_ptr (At (Suc (next_block h)) 0) i) l)))"
  have "for_goto [0..<n] (\<lambda>i. seq (body i) (\<lambda>_. ret True)) (place [l, Structs z] h) =
      Inr (True, place (l # Structs (map L [0..<n]) # concat (map (\<lambda>_. []) [0..<n])) h)"
    by (rule for_goto_fill [where k = 0]) (use v in \<open>simp_all add: body_def array_arg_def z_def\<close>)
  then have "for_c [0..<n] body (place [l, Structs z] h) = Inr ((), place [l, Structs (map L [0..<n])] h)"
    by (simp add: for_c_goto concat_eq_Nil_conv [THEN iffD2])
  then show ?thesis
    using o r by (simp add: ADM_qos_limit_list_create_def body_def l_def z_def)
qed

lemma ADM_qos_limit_list_destroy_done:
  assumes l: "cell h b = Live (Structs [S_qos_limit_list (Some (At d 0)) (Some n)])"
      "cell h d = Live (Structs (map L [0..<n]))"
    and e: "\<And>i. i < n \<Longrightarrow> L i = S_qos_limit (Some (At (e i) 0)) (c i) (v i) \<and> live h (e i)"
    and dist: "distinct (b # d # map e [0..<n])"
  shows "ADM_qos_limit_list_destroy (At b 0) h = Inr (ADM_SUCCESS, release (b # d # map e [0..<n]) h)"
proof -
  define body where "body = (\<lambda>i. seq (limit_at (At d i)) (\<lambda>(e, _).
      seq (val e) (\<lambda>e. destroy_if ADM_qos_entity_destroy e)))"
  have step: "body i (release fs h) = Inr ((), release (fs @ [e i]) h)"
    if i: "i < n" and fs: "set fs \<inter> ({b, d} \<union> set [e i]) = {}" for i fs
  proof -
    have "read_struct h (At d i) = Some (S_qos_limit (Some (At (e i) 0)) (c i) (v i))"
      using l(2) i e by simp
    then have "read_struct (release fs h) (At d i) = Some (S_qos_limit (Some (At (e i) 0)) (c i) (v i))"
      using fs by (simp add: read_struct_released)
    moreover have "destroy_if ADM_qos_entity_destroy (At (e i) 0) (release fs h) = Inr ((), release (fs @ [e i]) h)"
      by (rule destroy_if_frees [OF c_entity.c_object_axioms])
         (use e i fs in \<open>auto simp: maybe_def whole_def\<close>)
    ultimately show ?thesis by (simp add: body_def limit_at_def)
  qed
  have "seq (when_c (At d 0 \<noteq> Null) (seq (val (Some n)) (\<lambda>n. seq (for_c [0..<n] body) (\<lambda>_. free (At d 0)))))
     (\<lambda>_. seq (free (At b 0)) (\<lambda>_. ret ADM_SUCCESS)) h =
     Inr (ADM_SUCCESS, release (b # d # concat (map (\<lambda>i. [e i]) [0..<n])) h)"
    by (rule list_destroyed) (use l step dist in \<open>auto simp: live_def\<close>)
  then show ?thesis
    using l by (simp add: ADM_qos_limit_list_destroy_def limit_list_at_def body_def)
qed

text \<open>C16: A list of QoS limits shares the entities of the limits it was made from, and destroying
  the list frees them: afterwards ADM_qos_entity_destroy on any of these entities, and
  ADM_qos_limit_destroy_all on any of the caller's limits, frees freed memory.\<close>

theorem limits_share_entities:
  assumes ls: "n \<le> length xs"
      "\<forall>i<n. read_struct h (xs ! i) = Some (S_qos_limit (Some (At (e i) 0)) (Some (c i)) (Some (v i)))"
    and es: "\<forall>i<n. cell h (e i) = Live (Structs [S_qos_entity (Some (sc i)) (Some (r i))])"
    and dist: "distinct (map e [0..<n])" and o: "h_oom h = []" and room: "room h n"
  shows "\<exists>p h' h''. ADM_qos_limit_list_create xs n h = Inr (p, h') \<and>
    ADM_qos_limit_list_destroy p h' = Inr (ADM_SUCCESS, h'') \<and>
    (\<forall>i<n. ADM_qos_entity_destroy (At (e i) 0) h'' = Inl Invalid_free \<and>
           ADM_qos_limit_destroy_all (xs ! i) h'' = Inl Invalid_free)"
proof -
  let ?b = "next_block h"
  define L where "L i = S_qos_limit (Some (At (e i) 0)) (Some (c i)) (Some (v i))" for i
  define h1 where "h1 = place [Structs [S_qos_limit_list (Some (At (Suc ?b) 0)) (Some n)], Structs (map L [0..<n])] h"
  define h2 where "h2 = release (?b # Suc ?b # map e [0..<n]) h1"
  have below: "e i < ?b" if "i < n" for i using es that by (auto dest: cell_Live_below)
  have made: "ADM_qos_limit_list_create xs n h = Inr (At ?b 0, h1)"
    unfolding h1_def by (rule ADM_qos_limit_list_create_done) (use ls o room in \<open>simp_all add: L_def\<close>)
  have gone: "ADM_qos_limit_list_destroy (At ?b 0) h1 = Inr (ADM_SUCCESS, h2)"
    unfolding h2_def
  proof (rule ADM_qos_limit_list_destroy_done [where L = L])
    show "L i = S_qos_limit (Some (At (e i) 0)) (Some (c i)) (Some (v i)) \<and> live h1 (e i)" if "i < n" for i
      using that es below [of i] by (simp add: L_def h1_def live_def cell_place)
    show "distinct (?b # Suc ?b # map e [0..<n])" using dist below by fastforce
  qed (simp_all add: h1_def cell_place)
  have freed: "\<not> live h2 (e i)" if "i < n" for i using that by (simp add: h2_def live_release)
  have "read_struct h2 (xs ! i) = Some (L i)" if i: "i < n" for i
  proof -
    obtain d j ys where x: "xs ! i = At d j" "cell h d = Live (Structs ys)" "j < length ys" "ys ! j = L i"
      using ls i by (metis L_def load_InrD read_structD)
    have "d \<notin> e ` {0..<n}" using x es by (auto simp: L_def)
    moreover have "d < ?b" using x by (auto dest: cell_Live_below)
    ultimately have "cell h2 d = Live (Structs ys)"
      using x by (auto simp: h2_def h1_def cell_release cell_place)
    with x show ?thesis by simp
  qed
  then have "ADM_qos_limit_destroy_all (xs ! i) h2 = Inl Invalid_free" if "i < n" for i
  proof -
    assume "\<And>i. i < n \<Longrightarrow> read_struct h2 (xs ! i) = Some (L i)"
    then have r: "read_struct h2 (xs ! i) = Some (L i)" using that by blast
    then have "xs ! i \<noteq> Null" by auto
    with r freed [OF that] show ?thesis
      by (simp add: ADM_qos_limit_destroy_all_def limit_at_def L_def destroy_if_def ADM_qos_entity_destroy_def
            free_object_def free_freed)
  qed
  moreover have "ADM_qos_entity_destroy (At (e i) 0) h2 = Inl Invalid_free" if "i < n" for i
    using freed [OF that] by (simp add: ADM_qos_entity_destroy_def free_object_def free_freed)
  ultimately show ?thesis using made gone by blast
qed

theorem limits_share_entities_witness:
  "\<exists>p h' h''. ADM_qos_limit_list_create [At 10 0] 1 sample_heap = Inr (p, h') \<and>
    ADM_qos_limit_list_destroy p h' = Inr (ADM_SUCCESS, h'') \<and>
    (\<forall>i<1. ADM_qos_entity_destroy (At ((\<lambda>_. 9) i) 0) h'' = Inl Invalid_free \<and>
           ADM_qos_limit_destroy_all ([At 10 0] ! i) h'' = Inl Invalid_free)"
  by (rule limits_share_entities [where c = "\<lambda>_. 1" and v = "\<lambda>_. 50" and sc = "\<lambda>_. 0" and
        r = "\<lambda>_. Ref_dataset (At 1 0)"])
     (simp_all add: sample_heap_def read_struct_def load_def cell_def room_def)

end
