(* ===== verification/Utils.thy ===== *)
theory Utils
  imports Ctl
begin

text \<open>
  The utilities (\<open>src/src/common/utils/utils.cpp\<close>): reading a size with a unit, and lexical operations
  on path names.
\<close>

section \<open>Sizes\<close>

definition is_space :: "char \<Rightarrow> bool" where
  "is_space c \<longleftrightarrow> c = CHR '' '' \<or> (9 \<le> (of_char c :: nat) \<and> (of_char c :: nat) \<le> 13)"

definition size_units :: "(string \<times> nat) list" where
  "size_units =
     [(''GiB'', 2 ^ 30), (''GB'', 10 ^ 9), (''G'', 10 ^ 9), (''MiB'', 2 ^ 20), (''MB'', 10 ^ 6), (''M'', 10 ^ 6),
      (''KiB'', 2 ^ 10), (''KB'', 10 ^ 3), (''K'', 10 ^ 3), (''B'', 1)]"

text \<open>
  The search for a unit: the first one whose first occurrence ends the string. \<open>None\<close> is \<open>npos\<close>, with
  the factor 1.
\<close>

fun find_unit :: "(string \<times> nat) list \<Rightarrow> string \<Rightarrow> nat option \<times> nat" where
  "find_unit [] s = (None, 1)"
| "find_unit ((suffix, factor) # cs) s =
     (case str_find suffix s of
        None \<Rightarrow> find_unit cs s
      | Some pos \<Rightarrow> if suffix \<noteq> drop pos s then find_unit cs s else (Some pos, factor))"

text \<open>
  A natural number as a \<open>double\<close>: 53 significant bits, rounded to nearest and to even. \<open>std::stod\<close> of
  a string of digits and the product with a factor both round this way.
\<close>

fun bit_size :: "nat \<Rightarrow> nat" where
  "bit_size n = (if n = 0 then 0 else Suc (bit_size (n div 2)))"

declare bit_size.simps [simp del]

definition to_double :: "nat \<Rightarrow> nat" where
  "to_double n =
     (if n < 2 ^ 53 then n
      else
        (let unit = 2 ^ (bit_size n - 53); q = n div unit; r = n mod unit
         in (if 2 * r > unit \<or> (2 * r = unit \<and> odd q) then q + 1 else q) * unit))"

text \<open>
  How reading can fail: an \<open>invalid_argument\<close>, an \<open>out_of_range\<close> from \<open>std::stod\<close>, and the conversion of a
  \<open>double\<close> that does not fit into 64 bits, whose behaviour is undefined.
\<close>

datatype size_error = Not_a_number | Stod_out_of_range | Conversion_undefined

definition parse_size :: "string \<Rightarrow> size_error + u64" where
  "parse_size str =
     (let scopy = filter (\<lambda>ch. \<not> is_space ch) str;
          (pos, factor) = find_unit size_units scopy;
          number_str = (case pos of None \<Rightarrow> scopy | Some p \<Rightarrow> take p scopy)
      in if number_str = [] \<or> \<not> list_all is_digit number_str then Inl Not_a_number
         else
           (let value = to_double (digits_value number_str);
                product = to_double (value * factor)
            in if value \<ge> 2 ^ 1024 then Inl Stod_out_of_range
               else if product \<ge> 2 ^ 64 then Inl Conversion_undefined
               else Inr (of_nat product)))"

section \<open>Path names\<close>

text \<open>
  The elements of a path as its iterator gives them: the root, then the names between separators, then
  an empty name for a separator at the end.
\<close>

fun path_names :: "string \<Rightarrow> string list" where
  "path_names s = filter (\<lambda>e. e \<noteq> []) (split_parts (CHR ''/'') s)"

definition path_elements :: "string \<Rightarrow> string list" where
  "path_elements p =
     (if is_absolute p then [''/''] else []) @ path_names p @
     (if path_names p \<noteq> [] \<and> last p = CHR ''/'' then [[]] else [])"

text \<open>\<open>remove_filename\<close> drops what follows the last separator, and keeps the separator.\<close>

fun remove_filename :: "string \<Rightarrow> string" where
  "remove_filename [] = []"
| "remove_filename (c # cs) =
     (if CHR ''/'' \<in> set (c # cs) then (if CHR ''/'' \<in> set cs then c # remove_filename cs else [c]) else [])"

fun lexical_loop :: "string list \<Rightarrow> string \<Rightarrow> string" where
  "lexical_loop [] tmp = tmp"
| "lexical_loop (elem # rest) tmp =
     lexical_loop rest
       (if elem = ''..''
          then (let t = remove_filename tmp in if t = [] then ''/'' else t)
        else if elem \<noteq> ''.'' \<and> elem \<noteq> ''/''
          then path_append tmp
                 (if length elem > 2 \<and> elem ! 0 = CHR ''/'' \<and> elem ! 1 = CHR ''/'' then drop 2 elem else elem)
        else tmp)"

definition lexical_normalize :: "string \<Rightarrow> bool \<Rightarrow> string" where
  "lexical_normalize pathname as_directory =
     (if pathname = [] then []
      else if pathname = ''/'' then ''/''
      else
        (let tmp = lexical_loop (path_elements pathname) ''/''
         in if tmp \<noteq> ''/'' \<and> as_directory then path_append tmp ''/'' else tmp))"

definition remove_trailing_separator :: "string \<Rightarrow> string" where
  "remove_trailing_separator str = (if str \<noteq> [] \<and> last str = CHR ''/'' then butlast str else str)"

definition remove_leading_separator :: "string \<Rightarrow> string" where
  "remove_leading_separator str = (if str \<noteq> [] \<and> hd str = CHR ''/'' then tl str else str)"


section \<open>What a size is read as\<close>

lemma str_find_after:
  "hd p \<notin> set u \<Longrightarrow> p \<noteq> [] \<Longrightarrow> str_find p (u @ v) = map_option (\<lambda>n. n + length u) (str_find p v)"
proof (induction u)
  case Nil
  then show ?case by (simp add: option.map_ident)
next
  case (Cons c u)
  then have "\<not> is_prefix p (c # u @ v)" by (cases p) auto
  with Cons show ?case by (simp add: option.map_comp comp_def)
qed

definition plain_unit :: "string \<times> nat \<Rightarrow> bool" where
  "plain_unit u \<longleftrightarrow> fst u \<noteq> [] \<and> \<not> is_digit (hd (fst u))"

lemma find_unit_after:
  "list_all plain_unit units \<Longrightarrow> list_all is_digit u \<Longrightarrow>
   find_unit units (u @ v) = map_prod (map_option (\<lambda>n. n + length u)) id (find_unit units v)"
proof (induction units)
  case (Cons x units)
  obtain suffix factor where x: "x = (suffix, factor)" by fastforce
  have "str_find suffix (u @ v) = map_option (\<lambda>n. n + length u) (str_find suffix v)"
    using Cons.prems x by (intro str_find_after) (auto simp: plain_unit_def list_all_iff)
  with Cons x show ?case by (auto split: option.split)
qed simp

lemma size_units_plain: "list_all plain_unit size_units"
  by (simp add: size_units_def plain_unit_def is_digit_def)

lemma find_unit_of_unit:
  "(suffix, factor) \<in> set size_units \<Longrightarrow> find_unit size_units suffix = (Some 0, factor)"
  "find_unit size_units [] = (None, 1)"
  by (auto simp: size_units_def)

lemma bit_size_eq: "2 ^ k \<le> n \<Longrightarrow> n < 2 ^ Suc k \<Longrightarrow> bit_size n = Suc k"
proof (induction k arbitrary: n)
  case 0
  then have "n = 1" by simp
  then show ?case by (simp add: bit_size.simps)
next
  case (Suc k)
  then have "2 ^ k \<le> n div 2" "n div 2 < 2 ^ Suc k" "n \<noteq> 0" by (auto intro: gr0I)
  with Suc.IH show ?case by (subst bit_size.simps) simp
qed

lemma to_double_exact: "n \<le> 2 ^ 53 \<Longrightarrow> to_double n = n"
proof -
  assume "n \<le> 2 ^ 53"
  moreover have "to_double (2 ^ 53) = 2 ^ 53"
    using bit_size_eq [of 53 "2 ^ 53"] by (simp add: to_double_def Let_def)
  ultimately show ?thesis by (cases "n = 2 ^ 53") (simp_all add: to_double_def)
qed

text \<open>Two numbers that are not read exactly.\<close>

lemma large_doubles:
  "to_double 9007199254740993 = 9007199254740992" "to_double 18446744073709551616 = 18446744073709551616"
  using bit_size_eq [of 53 9007199254740993] bit_size_eq [of 64 18446744073709551616]
  by (simp_all add: to_double_def Let_def)

definition units_with_none :: "(string \<times> nat) set" where
  "units_with_none = insert ([], 1) (set size_units)"

lemma factor_positive: "(suffix, factor) \<in> units_with_none \<Longrightarrow> 1 \<le> factor"
  by (auto simp: units_with_none_def size_units_def)

lemma parse_size_digits:
  assumes "filter (\<lambda>ch. \<not> is_space ch) str = digits @ suffix" "list_all is_digit digits" "digits \<noteq> []"
    and "(suffix, factor) \<in> units_with_none"
  shows "parse_size str =
    (let value = to_double (digits_value digits); product = to_double (value * factor)
     in if value \<ge> 2 ^ 1024 then Inl Stod_out_of_range
        else if product \<ge> 2 ^ 64 then Inl Conversion_undefined else Inr (of_nat product))"
proof -
  have "find_unit size_units (digits @ suffix) = (if suffix = [] then None else Some (length digits), factor)"
  proof (cases "suffix = []")
    case True
    then have "factor = 1" using assms(4) by (auto simp: units_with_none_def size_units_def)
    with True show ?thesis
      using find_unit_after [OF size_units_plain assms(2), of "[]"] by (simp add: find_unit_of_unit)
  next
    case False
    then have "(suffix, factor) \<in> set size_units" using assms(4) by (auto simp: units_with_none_def)
    with False show ?thesis
      using find_unit_after [OF size_units_plain assms(2), of suffix] by (simp add: find_unit_of_unit)
  qed
  with assms(1-3) show ?thesis by (auto simp: parse_size_def Let_def)
qed

text \<open>A number in digits, a unit and any white space around and between them are read as the
  number times the factor of the unit, for every unit, as long as the product is at most \<open>2 ^ 53\<close>. Beyond that
  sizes are rounded, and from \<open>2 ^ 64\<close> on the conversion is undefined.\<close>

lemma size_read:
  assumes "filter (\<lambda>ch. \<not> is_space ch) str = digits @ suffix" "list_all is_digit digits" "digits \<noteq> []"
    and "(suffix, factor) \<in> insert ([], 1) (set size_units)"
  shows "(digits_value digits * factor \<le> 2 ^ 53 \<longrightarrow> parse_size str = Inr (of_nat (digits_value digits * factor))) \<and>
    parse_size ''9007199254740993'' = Inr 9007199254740992 \<and>
    parse_size ''17179869184 GiB'' = Inl Conversion_undefined"
proof (intro conjI impI)
  assume small: "digits_value digits * factor \<le> 2 ^ 53"
  have "1 \<le> factor" using factor_positive assms(4) by (simp add: units_with_none_def)
  then have "digits_value digits \<le> digits_value digits * factor" by simp
  then have "digits_value digits \<le> 2 ^ 53" using small by (rule order_trans)
  then have "to_double (digits_value digits) = digits_value digits"
    "to_double (digits_value digits * factor) = digits_value digits * factor"
    using small by (simp_all add: to_double_exact)
  moreover have "(2::nat) ^ 53 < 2 ^ 64" "(2::nat) ^ 53 < 2 ^ 1024" by (simp_all add: power_strict_increasing)
  ultimately show "parse_size str = Inr (of_nat (digits_value digits * factor))"
    using parse_size_digits [OF assms(1-3)] assms(4) small \<open>digits_value digits \<le> 2 ^ 53\<close>
    by (simp only: Let_def units_with_none_def [symmetric]) (simp add: not_le [symmetric] order.strict_trans1)
next
  have "digits_value ''9007199254740993'' = 9007199254740993" by (simp add: digits_value_def)
  then show "parse_size ''9007199254740993'' = Inr 9007199254740992"
    using parse_size_digits [of "''9007199254740993''" "''9007199254740993''" "[]" 1]
    by (simp add: large_doubles to_double_exact units_with_none_def is_space_def is_digit_def)
next
  have "digits_value ''17179869184'' = 17179869184" by (simp add: digits_value_def)
  then show "parse_size ''17179869184 GiB'' = Inl Conversion_undefined"
    using parse_size_digits [of "''17179869184 GiB''" "''17179869184''" "''GiB''" "2 ^ 30"]
    by (simp add: large_doubles to_double_exact units_with_none_def size_units_def is_space_def is_digit_def)
qed


section \<open>What happens to path names\<close>

definition is_name :: "string \<Rightarrow> bool" where
  "is_name e \<longleftrightarrow> e \<noteq> [] \<and> CHR ''/'' \<notin> set e \<and> e \<noteq> ''.'' \<and> e \<noteq> ''..''"

definition abs_path :: "string list \<Rightarrow> string" where
  "abs_path ns = concat (map (\<lambda>n. CHR ''/'' # n) ns)"

lemma split_parts_append:
  "c \<notin> set w \<Longrightarrow> split_parts c (w @ c # rest) = w # split_parts c rest"
  "c \<notin> set w \<Longrightarrow> split_parts c w = [w]"
  by (induction w) (auto split: list.split)

lemma split_parts_abs:
  "\<forall>e \<in> set ns. CHR ''/'' \<notin> set e \<Longrightarrow> CHR ''/'' \<notin> set w \<Longrightarrow> split_parts (CHR ''/'') (w @ abs_path ns) = w # ns"
proof (induction ns arbitrary: w)
  case Nil
  then show ?case by (simp add: abs_path_def split_parts_append)
next
  case (Cons n ns)
  have "w @ abs_path (n # ns) = w @ CHR ''/'' # (n @ abs_path ns)" by (simp add: abs_path_def)
  with Cons show ?case by (simp add: split_parts_append)
qed

lemma last_abs_path: "ns \<noteq> [] \<Longrightarrow> last ns \<noteq> [] \<Longrightarrow> last (abs_path ns) = last (last ns)"
  by (induction ns rule: rev_induct) (auto simp: abs_path_def)

lemma path_elements_abs:
  assumes "ns \<noteq> []" "\<forall>e \<in> set ns. e \<noteq> [] \<and> CHR ''/'' \<notin> set e"
  shows "path_elements (abs_path ns) = ''/'' # ns"
proof -
  have "path_names (abs_path ns) = ns"
    using split_parts_abs [of ns "[]"] assms(2) by (simp add: filter_id_conv)
  moreover have "is_absolute (abs_path ns)" using assms(1) by (cases ns) (auto simp: abs_path_def is_absolute_def)
  moreover have "last (abs_path ns) \<noteq> CHR ''/''"
    using assms last_abs_path [of ns] last_in_set [of "last ns"] last_in_set [of ns] by metis
  ultimately show ?thesis by (simp add: path_elements_def del: path_names.simps)
qed

lemma name_not_absolute: "CHR ''/'' \<notin> set e \<Longrightarrow> \<not> is_absolute e"
  by (cases e) (auto simp: is_absolute_def)

lemma path_append_name:
  assumes "is_name e" "\<forall>n \<in> set ms. is_name n"
  shows "path_append (if ms = [] then ''/'' else abs_path ms) e = abs_path (ms @ [e])"
proof (cases "ms = []")
  case True
  with assms(1) show ?thesis by (simp add: path_append_def name_not_absolute is_name_def abs_path_def)
next
  case False
  then have m: "is_name (last ms)" using assms(2) by simp
  then have "last (abs_path ms) \<noteq> CHR ''/''"
    using last_abs_path [OF False] last_in_set [of "last ms"] by (metis is_name_def)
  moreover have "abs_path ms \<noteq> []" using False by (cases ms) (auto simp: abs_path_def)
  ultimately show ?thesis
    using False assms(1) by (simp add: path_append_def name_not_absolute is_name_def abs_path_def)
qed

lemma lexical_loop_names:
  "\<forall>e \<in> set ns. is_name e \<Longrightarrow> \<forall>n \<in> set ms. is_name n \<Longrightarrow>
   lexical_loop (ns @ rest) (if ms = [] then ''/'' else abs_path ms) =
   lexical_loop rest (if ms @ ns = [] then ''/'' else abs_path (ms @ ns))"
proof (induction ns arbitrary: ms)
  case (Cons e ns)
  have e: "is_name e" using Cons.prems by simp
  then have "e ! 0 \<noteq> CHR ''/''" "e \<noteq> ''/''" by (cases e; auto simp: is_name_def)+
  then have "lexical_loop ((e # ns) @ rest) (if ms = [] then ''/'' else abs_path ms) =
      lexical_loop (ns @ rest) (abs_path (ms @ [e]))"
    using path_append_name [OF e Cons.prems(2)] e by (simp add: is_name_def)
  also have "\<dots> = lexical_loop rest (if ms @ e # ns = [] then ''/'' else abs_path (ms @ e # ns))"
    using Cons.IH [of "ms @ [e]"] Cons.prems by simp
  finally show ?case .
qed simp

lemma remove_filename_last:
  "CHR ''/'' \<notin> set e \<Longrightarrow> remove_filename (p @ CHR ''/'' # e) = p @ ''/''"
  by (induction p) auto


lemma abs_path_not_trivial:
  "ns \<noteq> [] \<Longrightarrow> \<forall>e \<in> set ns. e \<noteq> [] \<Longrightarrow> abs_path ns \<noteq> [] \<and> abs_path ns \<noteq> ''/''"
  by (cases ns) (auto simp: abs_path_def)

text \<open>An absolute path of plain names is its own normal form. As a directory, though,
  every path but the empty one becomes the root, since appending an absolute path replaces what is there.
  One step up is taken back with the next name; of two steps up in a row the second has no effect.\<close>

lemma paths_normalized:
  assumes "ns \<noteq> []" "\<forall>e \<in> set ns. is_name e" "is_name a" "is_name b" "is_name c"
  shows "lexical_normalize (abs_path ns) False = abs_path ns \<and>
    lexical_normalize (abs_path ns) True = ''/'' \<and>
    lexical_normalize (abs_path [a, b, ''..'', c]) False = abs_path [a, c] \<and>
    lexical_normalize (abs_path [a, b, ''..'', ''..'', c]) False = abs_path [a, c]"
proof -
  have nt: "abs_path es \<noteq> [] \<and> abs_path es \<noteq> ''/''" if "es \<noteq> []" "\<forall>e \<in> set es. e \<noteq> []" for es
    using that by (rule abs_path_not_trivial)
  have loop: "lexical_loop es ''/'' = abs_path es" if "es \<noteq> []" "\<forall>e \<in> set es. is_name e" for es
    using lexical_loop_names [of es "[]" "[]"] that by simp
  have elems: "path_elements (abs_path es) = ''/'' # es" if "es \<noteq> []" "\<forall>e \<in> set es. e \<noteq> [] \<and> CHR ''/'' \<notin> set e" for es
    using that by (rule path_elements_abs)
  have "\<forall>e \<in> set ns. e \<noteq> [] \<and> CHR ''/'' \<notin> set e" using assms(2) by (simp add: is_name_def)
  with assms(1,2) nt [OF assms(1)] have 1: "lexical_normalize (abs_path ns) False = abs_path ns"
    "lexical_normalize (abs_path ns) True = path_append (abs_path ns) ''/''"
    by (simp_all add: lexical_normalize_def elems loop Let_def)
  have up: "lexical_loop (''..'' # es) (abs_path [a, b]) = lexical_loop es (CHR ''/'' # a @ ''/'')"
    "lexical_loop (''..'' # es) (CHR ''/'' # a @ ''/'') = lexical_loop es (CHR ''/'' # a @ ''/'')" for es
    using remove_filename_last [of b "CHR ''/'' # a"] remove_filename_last [of "[]" "CHR ''/'' # a"] assms(4)
    by (simp_all add: abs_path_def is_name_def Let_def)
  have ab: "lexical_loop ([a, b] @ es) ''/'' = lexical_loop es (abs_path [a, b])" for es
    using lexical_loop_names [of "[a, b]" "[]" es] assms(3,4) by simp
  have "path_append (CHR ''/'' # a @ ''/'') c = abs_path [a, c]" "c ! 0 \<noteq> CHR ''/''" "c \<noteq> ''/''"
    using assms(5) name_not_absolute [of c] by (cases c; auto simp: path_append_def is_name_def abs_path_def)+
  then have c: "lexical_loop [c] (CHR ''/'' # a @ ''/'') = abs_path [a, c]"
    using assms(5) by (simp add: is_name_def)
  have "lexical_loop (''/'' # [a, b] @ u @ [c]) ''/'' = lexical_loop (u @ [c]) (abs_path [a, b])" for u
    using ab [of "u @ [c]"] by simp
  note this [of "[''..'']"] this [of "[''..'', ''..'']"]
  moreover have "abs_path ([a, b] @ u @ [c]) \<noteq> [] \<and> abs_path ([a, b] @ u @ [c]) \<noteq> ''/''" for u
    by (simp add: abs_path_def)
  note this [of "[''..'']"] this [of "[''..'', ''..'']"]
  moreover have "path_elements (abs_path [a, b, ''..'', c]) = ''/'' # [a, b] @ [''..''] @ [c]"
    "path_elements (abs_path [a, b, ''..'', ''..'', c]) = ''/'' # [a, b] @ [''..'', ''..''] @ [c]"
    using assms(3-5) by (simp_all add: elems is_name_def)
  ultimately have 2: "lexical_normalize (abs_path [a, b, ''..'', c]) False = abs_path [a, c]"
    "lexical_normalize (abs_path [a, b, ''..'', ''..'', c]) False = abs_path [a, c]"
    using up(1) [of "[c]"] up(1) [of "[''..'', c]"] up(2) [of "[c]"] c
    by (simp_all only: lexical_normalize_def append_Cons append_Nil Let_def simp_thms if_True if_False)
  show ?thesis using 1 2 by (simp add: path_append_def is_absolute_def)
qed

end
