(* ===== verification/Routes.thy ===== *)
theory Routes
  imports Utils CLayout
begin

text \<open>
  The dataset routes of a command line (\<open>src/src/lib/utils.cpp\<close>): \<open>split\<close> and
  \<open>scord_utils_parse_dataset_routes\<close>, first as a function of the text, then with the C objects it
  makes and leaves in memory.
\<close>

section \<open>Splitting\<close>

text \<open>
  The loop looks for the separator from \<open>start\<close> on; here the text is what remains from \<open>start\<close>. The last
  token is what remains when there is no separator left.
\<close>

function split_text :: "string \<Rightarrow> char \<Rightarrow> string list" where
  "split_text text sep =
     (case str_find [sep] text of
        Some e \<Rightarrow> take e text # split_text (drop (Suc e) text) sep
      | None \<Rightarrow> [text])"
  by pat_completeness auto

lemma str_find_char_less: "str_find [c] s = Some e \<Longrightarrow> e < length s"
  by (induction s arbitrary: e) (auto split: if_splits)

termination split_text
  by (relation "measure (\<lambda>(text, sep). length text)") (auto dest: str_find_char_less)

declare split_text.simps [simp del]

lemma split_text_Nil: "split_text [] sep = [[]]"
  by (simp add: split_text.simps)


lemma split_text_parts: "split_text s sep = split_parts sep s"
proof (induction s)
  case Nil
  show ?case by (simp add: split_text_Nil)
next
  case (Cons c cs)
  show ?case
  proof (cases "c = sep")
    case True
    with Cons show ?thesis by (subst split_text.simps) simp
  next
    case False
    have "split_text (c # cs) sep =
        (case split_text cs sep of [] \<Rightarrow> [[c]] | w # ws \<Rightarrow> (c # w) # ws)"
      using False
      by (subst (1 2) split_text.simps) (auto split: option.split)
    with False Cons show ?thesis by simp
  qed
qed

section \<open>Parsing the text\<close>

text \<open>
  Routes are separated by semicolons, the two names of a route by an equals sign. \<open>None\<close> is a null pointer
  for the text; a null pointer for one of the results is rejected in the same way.
\<close>

definition parse_route :: "string \<Rightarrow> error_code + adm_dataset_route" where
  "parse_route rs =
     (let parts = split_text rs (CHR ''='')
      in if length parts \<noteq> 2 then Inl ADM_EBADARGS
         else Inr \<lparr>d_src = \<lparr>d_id = parts ! 0\<rparr>, d_dst = \<lparr>d_id = parts ! 1\<rparr>\<rparr>)"

definition parse_routes :: "string option \<Rightarrow> error_code + adm_dataset_route list" where
  "parse_routes routes =
     (case routes of
        None \<Rightarrow> Inl ADM_EBADARGS
      | Some route_str \<Rightarrow>
          if route_str = [] then Inl ADM_EBADARGS
          else try_map parse_route (split_text route_str (CHR '';'')))"

section \<open>Texts and routes\<close>

text \<open>The text of routes, and the names that can occur in one.\<close>

definition print_route :: "adm_dataset_route \<Rightarrow> string" where
  "print_route r = d_id (d_src r) @ ''='' @ d_id (d_dst r)"

definition print_routes :: "adm_dataset_route list \<Rightarrow> string" where
  "print_routes rs = join_parts (CHR '';'') (map print_route rs)"

definition route_name :: "string \<Rightarrow> bool" where
  "route_name s \<longleftrightarrow> CHR '';'' \<notin> set s \<and> CHR ''='' \<notin> set s"

definition plain_route :: "adm_dataset_route \<Rightarrow> bool" where
  "plain_route r \<longleftrightarrow> route_name (d_id (d_src r)) \<and> route_name (d_id (d_dst r))"

lemma split_join_parts:
  "ws \<noteq> [] \<Longrightarrow> \<forall>w \<in> set ws. c \<notin> set w \<Longrightarrow> split_parts c (join_parts c ws) = ws"
proof (induction c ws rule: join_parts.induct)
  case (3 c w v vs)
  then show ?case by (simp add: split_parts_append)
qed (simp_all add: split_parts_append)

lemma split_parts_eq_iff:
  "split_parts c s = ws \<longleftrightarrow> s = join_parts c ws \<and> ws \<noteq> [] \<and> (\<forall>w \<in> set ws. c \<notin> set w)"
  using join_split_parts [of c s] split_join_parts [of ws c] split_parts_no_sep [of _ c s]
    split_parts_nonempty [of c s] by metis

lemma parse_route_eq_Inr:
  "parse_route s = Inr r \<longleftrightarrow>
     s = print_route r \<and> CHR ''='' \<notin> set (d_id (d_src r)) \<and> CHR ''='' \<notin> set (d_id (d_dst r))"
proof -
  have "parse_route s = Inr r \<longleftrightarrow> split_parts (CHR ''='') s = [d_id (d_src r), d_id (d_dst r)]"
    by (cases r, cases "d_src r", cases "d_dst r")
      (auto simp: parse_route_def split_text_parts Let_def length_Suc_conv numeral_2_eq_2)
  also have "\<dots> \<longleftrightarrow> s = print_route r \<and> CHR ''='' \<notin> set (d_id (d_src r)) \<and> CHR ''='' \<notin> set (d_id (d_dst r))"
    by (simp add: split_parts_eq_iff print_route_def)
  finally show ?thesis .
qed

lemma try_map_Inr_iff:
  "try_map f xs = Inr ys \<longleftrightarrow> list_all2 (\<lambda>x y. f x = Inr y) xs ys"
proof (induction xs arbitrary: ys)
  case (Cons x xs)
  then show ?case by (cases ys) (auto simp: bind_sum_eq_Inr)
qed auto

lemma list_all2_printed:
  "list_all2 (\<lambda>s r. s = print_route r \<and> P r) ss rs \<longleftrightarrow> ss = map print_route rs \<and> (\<forall>r \<in> set rs. P r)"
proof (induction ss arbitrary: rs)
  case (Cons s ss)
  then show ?case by (cases rs) auto
qed auto

lemma semicolon_print: "CHR '';'' \<notin> set (print_route r) \<longleftrightarrow> CHR '';'' \<notin> set (d_id (d_src r)) \<and> CHR '';'' \<notin> set (d_id (d_dst r))"
  by (simp add: print_route_def)

lemma print_route_not_Nil [simp]: "print_route r \<noteq> []"
  by (simp add: print_route_def)

lemma parse_routes_iff:
  "parse_routes (Some s) = Inr rs \<longleftrightarrow> s = print_routes rs \<and> rs \<noteq> [] \<and> (\<forall>r \<in> set rs. plain_route r)"
proof -
  have nil: "s \<noteq> []" if "s = print_routes rs" "rs \<noteq> []"
    using that by (cases rs; cases "tl rs") (auto simp: print_routes_def)
  have "try_map parse_route (split_parts (CHR '';'') s) = Inr rs \<longleftrightarrow>
      split_parts (CHR '';'') s = map print_route rs \<and>
      (\<forall>r \<in> set rs. CHR ''='' \<notin> set (d_id (d_src r)) \<and> CHR ''='' \<notin> set (d_id (d_dst r)))"
    by (simp add: try_map_Inr_iff parse_route_eq_Inr list_all2_printed)
  also have "\<dots> \<longleftrightarrow> s = print_routes rs \<and> rs \<noteq> [] \<and> (\<forall>r \<in> set rs. plain_route r)"
    by (auto simp: split_parts_eq_iff print_routes_def plain_route_def route_name_def semicolon_print)
  finally show ?thesis
    using nil by (auto simp: parse_routes_def split_text_parts split: if_splits)
qed

text \<open>C37: A text of routes without blanks and commas parses exactly when it is the printed form of a
  non-empty list of routes, \<open>source=target\<close> separated by semicolons, whose names contain neither a semicolon nor an
  equals sign, and it parses to those routes: names may be empty, and no text has two meanings. Blanks and commas are
  left out because the help of the Slurm plugin gives them another meaning (the two names of a route separated by a
  blank, routes separated by commas), which the parser does not implement.\<close>

theorem route_text:
  assumes "CHR '' '' \<notin> set s" and "CHR '','' \<notin> set s"
  shows "parse_routes (Some s) = Inr rs \<longleftrightarrow> s = print_routes rs \<and> rs \<noteq> [] \<and> (\<forall>r \<in> set rs. plain_route r)"
  by (rule parse_routes_iff)

theorem route_text_witness:
  "parse_routes (Some ''lustre:/in=gekkofs:/in;a='') =
     Inr [\<lparr>d_src = \<lparr>d_id = ''lustre:/in''\<rparr>, d_dst = \<lparr>d_id = ''gekkofs:/in''\<rparr>\<rparr>,
          \<lparr>d_src = \<lparr>d_id = ''a''\<rparr>, d_dst = \<lparr>d_id = []\<rparr>\<rparr>]"
  by (subst route_text) (simp_all add: print_routes_def print_route_def plain_route_def route_name_def)

text \<open>The example in the help of the Slurm option, a pair separated by a blank, is not in the language of the
  parser.\<close>

lemma help_example_rejected: "parse_routes (Some ''lustre:/input.dat gekkofs:/input.dat'') = Inl ADM_EBADARGS"
  by code_simp

end
