(* ===== verification/RouteMemory.thy ===== *)
theory RouteMemory
  imports Routes
begin

text \<open>
  \<open>scord_utils_parse_dataset_routes\<close> (\<open>src/src/lib/utils.cpp\<close>) over the memory of the C objects: the
  routes it makes, and what it leaves behind.
\<close>

section \<open>The function\<close>

text \<open>\<open>s.c_str()\<close> of a \<open>std::string\<close> whose buffer lives as long as the statement \<open>k\<close>.\<close>

definition with_c_str :: "string \<Rightarrow> (ptr \<Rightarrow> 'a c) \<Rightarrow> 'a c" where
  "with_c_str s k h =
     (let p = next_block h
      in seq (k (At p 0)) (\<lambda>x h'. Inr (x, release [p] h')) (place [Bytes (s @ [CHR 0x00])] h))"

definition create_route :: "string \<Rightarrow> string \<Rightarrow> ptr c" where
  "create_route source destination =
     with_c_str source (\<lambda>p. with_c_str destination (\<lambda>q.
       seq (ADM_dataset_create p) (\<lambda>s.
       seq (ADM_dataset_create q) (\<lambda>d. ADM_dataset_route_create s d))))"

fun parse_loop :: "string list \<Rightarrow> ptr list \<Rightarrow> (error_code + ptr list) c" where
  "parse_loop [] tmp = ret (Inr tmp)"
| "parse_loop (rs # rest) tmp =
     (let parts = split_text rs (CHR ''='')
      in if length parts \<noteq> 2 then ret (Inl ADM_EBADARGS)
         else seq (create_route (parts ! 0) (parts ! 1)) (\<lambda>dr.
                if dr = Null then ret (Inl ADM_ENOMEM) else parse_loop rest (tmp @ [dr])))"

text \<open>
  The code returned, and what is stored through \<open>parsed_routes\<close> and \<open>parsed_routes_count\<close>: nothing, a null
  pointer (\<open>Null\<close>, the count unchanged), or the array, which is given as a pointer and its elements.
\<close>

definition scord_utils_parse_dataset_routes :: "ptr \<Rightarrow> (error_code \<times> (ptr \<times> ptr list) option) c" where
  "scord_utils_parse_dataset_routes routes =
     (if routes = Null then ret (ADM_EBADARGS, None) else
      seq (c_string routes) (\<lambda>route_str.
      if route_str = [] then ret (ADM_EBADARGS, None) else
      seq (parse_loop (split_text route_str (CHR '';'')) []) (\<lambda>r.
      case r of
        Inl ec \<Rightarrow> ret (ec, None)
      | Inr tmp \<Rightarrow>
          seq (allocate (Bytes (replicate (8 * length tmp) (CHR 0x00)))) (\<lambda>a.
          if a = Null then ret (ADM_ENOMEM, Some (Null, []))
          else ret (ADM_SUCCESS, Some (a, tmp))))))"

section \<open>Blocks in use\<close>

definition blocks_in_use :: "heap \<Rightarrow> nat" where
  "blocks_in_use h = card {b. live h b}"

lemma finite_live [simp]: "finite {b. live h b}"
  by (rule finite_subset [of _ "{..<next_block h}"]) (auto dest: live_below)

lemma live_place: "live (place bs h) b \<longleftrightarrow> live h b \<or> next_block h \<le> b \<and> b < next_block h + length bs"
  by (auto simp: live_def cell_place dest: live_below)

lemma blocks_in_use_place: "blocks_in_use (place bs h) = blocks_in_use h + length bs"
proof -
  have "{b. live (place bs h) b} = {b. live h b} \<union> {next_block h..<next_block h + length bs}"
    by (auto simp: live_place)
  moreover have "{b. live h b} \<inter> {next_block h..<next_block h + length bs} = {}"
    by (auto dest: live_below)
  ultimately show ?thesis by (simp add: blocks_in_use_def card_Un_disjoint)
qed

lemma blocks_in_use_release:
  "distinct bs \<Longrightarrow> (\<And>b. b \<in> set bs \<Longrightarrow> live h b) \<Longrightarrow>
   blocks_in_use (release bs h) + length bs = blocks_in_use h"
proof -
  assume d: "distinct bs" and l: "\<And>b. b \<in> set bs \<Longrightarrow> live h b"
  have "{b. live (release bs h) b} = {b. live h b} - set bs" by (auto simp: live_release)
  moreover have "card ({b. live h b} - set bs) = card {b. live h b} - card (set bs)"
    using l by (intro card_Diff_subset) auto
  moreover have "card (set bs) \<le> card {b. live h b}" using l by (intro card_mono) auto
  ultimately show ?thesis using d by (simp add: blocks_in_use_def distinct_card)
qed

section \<open>One route\<close>

text \<open>
  What the loop makes of one text: two datasets, which nothing points to once the route has copied them,
  and the route with its copies: nine blocks.
\<close>

lemma read_string_new:
  "CHR 0x00 \<notin> set s \<Longrightarrow> cell h b = Live (Bytes (s @ [CHR 0x00])) \<Longrightarrow> read_string h (At b 0) = Some s"
  by (rule read_stringI) (auto simp: c_string_def takeWhile_tail)

lemma create_route_done:
  assumes n: "CHR 0x00 \<notin> set a" "CHR 0x00 \<notin> set b" and o: "h_oom h = []"
  shows "\<exists>p h'. create_route a b h = Inr (p, h') \<and> p \<noteq> Null \<and> keeps h h' \<and> h_oom h' = [] \<and>
    read_route h' p = Some \<lparr>d_src = \<lparr>d_id = a\<rparr>, d_dst = \<lparr>d_id = b\<rparr>\<rparr> \<and>
    blocks_in_use h' = blocks_in_use h + 9"
proof -
  let ?n = "next_block h"
  let ?ds = "dataset_blocks_at (?n + 2) \<lparr>d_id = a\<rparr> @ dataset_blocks_at (?n + 4) \<lparr>d_id = b\<rparr>"
  let ?R = "Structs [S_dataset_route (Some (At (?n + 7) 0)) (Some (At (?n + 9) 0))]"
  let ?L0 = "[Bytes (a @ [CHR 0x00]), Bytes (b @ [CHR 0x00])]"
  let ?L1 = "?L0 @ ?ds"
  let ?L2 = "?L1 @ ?R # dataset_blocks_at (?n + 7) \<lparr>d_id = a\<rparr> @ dataset_blocks_at (?n + 9) \<lparr>d_id = b\<rparr>"
  define h0 h1 h2 where "h0 = place ?L0 h" and "h1 = place ?L1 h" and "h2 = place ?L2 h"
  define h' where "h' = release [?n + 1, ?n] h2"
  have l: "laid h2 ?n ?L2" unfolding h2_def by (rule laid_place)
  have l0: "laid h0 ?n ?L0" unfolding h0_def by (rule laid_place)
  have l1: "laid h1 ?n ?L1" unfolding h1_def by (rule laid_place)
  have s0: "read_string h0 (At ?n 0) = Some a" "read_string h0 (At (Suc ?n) 0) = Some b"
    using l0 n by (auto intro: read_string_new)
  have d1: "ADM_dataset_create (At ?n 0) h0 = Inr (At (?n + 2) 0, place (dataset_blocks_at (?n + 2) \<lparr>d_id = a\<rparr>) h0)"
    using ADM_dataset_create_done [OF s0(1)] o by (simp add: h0_def dataset_blocks_at_def)
  have "ADM_dataset_create (At (Suc ?n) 0) (place (dataset_blocks_at (?n + 2) \<lparr>d_id = a\<rparr>) h0) =
      Inr (At (?n + 4) 0, h1)"
    using ADM_dataset_create_done [OF read_string_place [OF s0(2)]] o
    by (simp add: h0_def h1_def dataset_blocks_at_def eval_nat_numeral)
  moreover have "read_dataset h1 (At (?n + 2) 0) = Some \<lparr>d_id = a\<rparr>" "read_dataset h1 (At (?n + 4) 0) = Some \<lparr>d_id = b\<rparr>"
    using l1 n by (auto simp: read_dataset_def dataset_blocks_at_def eval_nat_numeral intro!: read_string_new)
  then have "ADM_dataset_route_create (At (?n + 2) 0) (At (?n + 4) 0) h1 = Inr (At (?n + 6) 0, h2)"
    using ADM_dataset_route_create_done [of h1 "At (?n + 2) 0" _ "At (?n + 4) 0"] o
    by (simp add: h1_def h2_def eval_nat_numeral)
  ultimately have run: "create_route a b h = Inr (At (?n + 6) 0, h')"
    using d1 by (simp add: create_route_def with_c_str_def Let_def h0_def h'_def seq_def)
  have k: "keeps h h'" unfolding h'_def h2_def by (rule keeps_release_new) (auto dest: live_below)
  have cells: "cell h' k = cell h2 k" if "?n + 2 \<le> k" for k using that by (simp add: h'_def cell_release)
  have "read_route h' (At (?n + 6) 0) = Some \<lparr>d_src = \<lparr>d_id = a\<rparr>, d_dst = \<lparr>d_id = b\<rparr>\<rparr>"
    using l n cells
    by (auto simp: read_route_Some_iff read_dataset_Some_iff dataset_blocks_at_def eval_nat_numeral
        intro!: read_string_new)
  moreover have "live h2 k" if "k \<in> set [?n + 1, ?n]" for k using l that by (auto simp: live_def)
  then have "blocks_in_use h' + 2 = blocks_in_use h2"
    unfolding h'_def using blocks_in_use_release [of "[?n + 1, ?n]" h2] by simp
  then have "blocks_in_use h' = blocks_in_use h + 9"
    by (simp add: h2_def blocks_in_use_place dataset_blocks_at_def)
  ultimately show ?thesis
    using run k o by (intro exI [of _ "At (?n + 6) 0"] exI [of _ h']) (simp add: h'_def h2_def)
qed

section \<open>The loop\<close>

text \<open>The texts the loop gets through before it ends or meets one that is not a route.\<close>

definition routes_made :: "string \<Rightarrow> nat" where
  "routes_made s = length (takeWhile (\<lambda>rs. is_ok (parse_route rs)) (split_text s (CHR '';'')))"

lemma read_routes_keeps:
  "list_all2 (\<lambda>x v. read_route h x = Some v) xs vs \<Longrightarrow> keeps h h' \<Longrightarrow>
   list_all2 (\<lambda>x v. read_route h' x = Some v) xs vs"
  by (erule list_all2_mono) (rule read_route_keeps)

lemma in_join_parts: "w \<in> set ws \<Longrightarrow> x \<in> set w \<Longrightarrow> x \<in> set (join_parts c ws)"
  by (induction c ws rule: join_parts.induct) auto

lemma split_parts_set: "w \<in> set (split_parts c s) \<Longrightarrow> x \<in> set w \<Longrightarrow> x \<in> set s"
  using in_join_parts [of w "split_parts c s" x c] by (simp add: join_split_parts)

lemma parse_loop_done:
  assumes "\<forall>rs \<in> set tokens. CHR 0x00 \<notin> set rs" "h_oom h = []"
  shows "\<exists>r h'. parse_loop tokens tmp h = Inr (r, h') \<and> keeps h h' \<and> h_oom h' = [] \<and>
    blocks_in_use h' = blocks_in_use h + 9 * length (takeWhile (\<lambda>rs. is_ok (parse_route rs)) tokens) \<and>
    (case try_map parse_route tokens of
       Inl ec \<Rightarrow> r = Inl ec
     | Inr vs \<Rightarrow> \<exists>xs. r = Inr (tmp @ xs) \<and> list_all2 (\<lambda>x v. read_route h' x = Some v) xs vs)"
  using assms
proof (induction tokens arbitrary: h tmp)
  case Nil
  then show ?case by simp
next
  case (Cons rs rest)
  let ?parts = "split_text rs (CHR ''='')"
  show ?case
  proof (cases "length ?parts = 2")
    case False
    then show ?thesis using Cons.prems by (simp add: parse_route_def Let_def)
  next
    case True
    then have v: "parse_route rs = Inr \<lparr>d_src = \<lparr>d_id = ?parts ! 0\<rparr>, d_dst = \<lparr>d_id = ?parts ! 1\<rparr>\<rparr>"
      by (simp add: parse_route_def Let_def)
    have "CHR 0x00 \<notin> set (?parts ! i)" if "i < 2" for i
    proof -
      have "?parts ! i \<in> set (split_parts (CHR ''='') rs)" using True that by (simp flip: split_text_parts)
      moreover have "CHR 0x00 \<notin> set rs" using Cons.prems(1) by simp
      ultimately show ?thesis using split_parts_set by metis
    qed
    from this [of 0] this [of 1] have n: "CHR 0x00 \<notin> set (?parts ! 0)" "CHR 0x00 \<notin> set (?parts ! 1)" by simp_all
    obtain p g where p: "create_route (?parts ! 0) (?parts ! 1) h = Inr (p, g)" "p \<noteq> Null" "keeps h g" "h_oom g = []"
        "read_route g p = Some \<lparr>d_src = \<lparr>d_id = ?parts ! 0\<rparr>, d_dst = \<lparr>d_id = ?parts ! 1\<rparr>\<rparr>"
        "blocks_in_use g = blocks_in_use h + 9"
      using create_route_done [OF n Cons.prems(2)] by (elim exE conjE)
    obtain r h' where r: "parse_loop rest (tmp @ [p]) g = Inr (r, h')" "keeps g h'" "h_oom h' = []"
        "blocks_in_use h' = blocks_in_use g + 9 * length (takeWhile (\<lambda>rs. is_ok (parse_route rs)) rest)"
        "case try_map parse_route rest of Inl ec \<Rightarrow> r = Inl ec
         | Inr vs \<Rightarrow> \<exists>xs. r = Inr ((tmp @ [p]) @ xs) \<and> list_all2 (\<lambda>x v. read_route h' x = Some v) xs vs"
      using Cons.IH [of g "tmp @ [p]"] Cons.prems(1) p(4) by auto
    have run: "parse_loop (rs # rest) tmp h = Inr (r, h')" using True p(1,2) r(1) by (simp add: Let_def)
    have here: "read_route h' p = Some \<lparr>d_src = \<lparr>d_id = ?parts ! 0\<rparr>, d_dst = \<lparr>d_id = ?parts ! 1\<rparr>\<rparr>"
      by (rule read_route_keeps [OF p(5) r(2)])
    have "case try_map parse_route (rs # rest) of Inl ec \<Rightarrow> r = Inl ec
        | Inr vs \<Rightarrow> \<exists>xs. r = Inr (tmp @ xs) \<and> list_all2 (\<lambda>x v. read_route h' x = Some v) xs vs"
    proof (cases "try_map parse_route rest")
      case (Inr vs)
      with r(5) obtain xs where "r = Inr (tmp @ p # xs)" "list_all2 (\<lambda>x v. read_route h' x = Some v) xs vs"
        by auto
      then show ?thesis using Inr here by (auto simp: v intro!: exI [of _ "p # xs"])
    qed (use r(5) in \<open>simp add: v\<close>)
    then show ?thesis
      using run mem_keeps_trans [OF p(3) r(2)] r(3,4) p(6)
      by (intro exI [of _ r] exI [of _ h']) (simp add: v)
  qed
qed

section \<open>The property\<close>

text \<open>C38: While memory lasts, parsing a text with dataset routes returns what the text means, a
  route for every route in it or \<open>ADM_EBADARGS\<close>, and leaves every object there was. The array and the routes
  in it take five blocks for each route and one more; but four more blocks are left behind for each
  route, the two datasets the route was made from, and when a later route of the text is malformed all nine blocks of
  every earlier one are.\<close>

theorem routes_in_memory:
  assumes "read_string h p = Some s" "h_oom h = []"
  shows "\<exists>r h'. scord_utils_parse_dataset_routes p h = Inr (r, h') \<and> keeps h h' \<and>
    (case parse_routes (Some s) of
       Inl ec \<Rightarrow> r = (ec, None) \<and> blocks_in_use h' = blocks_in_use h + 9 * routes_made s
     | Inr vs \<Rightarrow> \<exists>b xs. r = (ADM_SUCCESS, Some (At b 0, xs)) \<and>
         list_all2 (\<lambda>x v. read_route h' x = Some v) xs vs \<and>
         blocks_in_use h' = blocks_in_use h + (1 + 5 * length vs) + 4 * length vs)"
proof (cases "s = []")
  case True
  have "routes_made [] = 0" by (simp add: routes_made_def split_text_Nil parse_route_def)
  with True show ?thesis
    using read_stringD [OF assms(1)] assms(1)
    by (intro exI [of _ "(ADM_EBADARGS, None)"] exI [of _ h])
      (auto simp: scord_utils_parse_dataset_routes_def parse_routes_def)
next
  case False
  let ?tokens = "split_text s (CHR '';'')"
  have "\<forall>rs \<in> set ?tokens. CHR 0x00 \<notin> set rs"
    using read_string_no_nul [OF assms(1)] split_parts_set unfolding split_text_parts by metis
  from parse_loop_done [OF this assms(2), of "[]"] obtain r h' where r: "parse_loop ?tokens [] h = Inr (r, h')"
      "keeps h h'" "h_oom h' = []" "blocks_in_use h' = blocks_in_use h + 9 * routes_made s"
      "case try_map parse_route ?tokens of Inl ec \<Rightarrow> r = Inl ec
       | Inr vs \<Rightarrow> \<exists>xs. r = Inr ([] @ xs) \<and> list_all2 (\<lambda>x v. read_route h' x = Some v) xs vs"
    by (elim exE conjE) (rule that, simp_all add: routes_made_def)
  have call: "scord_utils_parse_dataset_routes p h = (case r of Inl ec \<Rightarrow> Inr ((ec, None), h')
      | Inr tmp \<Rightarrow> seq (allocate (Bytes (replicate (8 * length tmp) (CHR 0x00)))) (\<lambda>a.
          if a = Null then ret (ADM_ENOMEM, Some (Null, [])) else ret (ADM_SUCCESS, Some (a, tmp))) h')"
    using read_stringD [OF assms(1)] assms(1) r(1) False
    by (auto simp: scord_utils_parse_dataset_routes_def split: sum.split)
  show ?thesis
  proof (cases "try_map parse_route ?tokens")
    case (Inl ec)
    with r call False show ?thesis by (simp add: parse_routes_def)
  next
    case (Inr vs)
    with r(5) obtain xs where xs: "r = Inr xs" "list_all2 (\<lambda>x v. read_route h' x = Some v) xs vs" by auto
    let ?g = "place [Bytes (replicate (8 * length xs) (CHR 0x00))] h'"
    have "is_ok (parse_route t)" if "t \<in> set ?tokens" for t
      using that Inr try_map_fails [of t ?tokens parse_route] by (cases "parse_route t") auto
    then have "routes_made s = length vs"
      using try_map_Inr_length [OF Inr] by (simp add: routes_made_def takeWhile_eq_all_conv [THEN iffD2])
    moreover have "scord_utils_parse_dataset_routes p h = Inr ((ADM_SUCCESS, Some (At (next_block h') 0, xs)), ?g)"
      using call xs(1) r(3) by (simp add: allocate_def)
    moreover have "keeps h ?g" by (rule mem_keeps_trans [OF r(2) keeps_place])
    moreover have "list_all2 (\<lambda>x v. read_route ?g x = Some v) xs vs"
      by (rule read_routes_keeps [OF xs(2) keeps_place])
    ultimately show ?thesis
      using Inr False r(4) by (simp add: parse_routes_def blocks_in_use_place)
  qed
qed

theorem routes_in_memory_witness:
  "\<exists>r h'. scord_utils_parse_dataset_routes (At 0 0)
      \<lparr>h_cells = [Live (Bytes (''a=b;c'' @ [CHR 0x00]))], h_oom = [], h_zero_null = False\<rparr> = Inr (r, h') \<and>
    r = (ADM_EBADARGS, None) \<and> blocks_in_use h' = 10"
proof -
  let ?h = "\<lparr>h_cells = [Live (Bytes (''a=b;c'' @ [CHR 0x00]))], h_oom = [], h_zero_null = False\<rparr>"
  have "read_string ?h (At 0 0) = Some ''a=b;c''" by code_simp
  moreover have "parse_routes (Some ''a=b;c'') = Inl ADM_EBADARGS" "routes_made ''a=b;c'' = 1" by code_simp+
  moreover have "{b. live ?h b} = {0}" by (auto simp: live_def cell_def split: if_splits)
  then have "blocks_in_use ?h = 1" by (simp add: blocks_in_use_def)
  ultimately show ?thesis using routes_in_memory [of ?h "At 0 0" "''a=b;c''"] by auto
qed

end
