(* ===== verification/SlurmOptions.thy ===== *)
theory SlurmOptions
  imports Routes
begin

text \<open>
  The options of the Slurm plugin (\<open>src/plugins/slurm/slurmadmcli.c\<close>): the command line of the job, one
  call of \<open>process_opts\<close> for each option, and the line of the plugin in \<open>plugstack.conf\<close>,
  \<open>process_config\<close>.
\<close>

section \<open>The C library\<close>

text \<open>
  \<open>strtol\<close> gives the number, how much of the string it is (0 when there is none) and whether it sets \<open>errno\<close>
  because the number does not fit a \<open>long\<close>, which has 64 bits. Base 0 takes the base from the prefix.
\<close>

definition LONG_MAX :: int where
  "LONG_MAX = 2 ^ 63 - 1"

definition LONG_MIN :: int where
  "LONG_MIN = - (2 ^ 63)"

definition digit_value :: "char \<Rightarrow> nat" where
  "digit_value c =
     (let k = of_char c :: nat
      in if 48 \<le> k \<and> k \<le> 57 then k - 48 else if 97 \<le> k \<and> k \<le> 122 then k - 87
         else if 65 \<le> k \<and> k \<le> 90 then k - 55 else 36)"

definition base_digit :: "nat \<Rightarrow> char \<Rightarrow> bool" where
  "base_digit base c \<longleftrightarrow> digit_value c < base"

definition number_of :: "nat \<Rightarrow> string \<Rightarrow> int" where
  "number_of base ds = foldl (\<lambda>a c. int base * a + int (digit_value c)) 0 ds"

definition hex_prefix :: "string \<Rightarrow> bool" where
  "hex_prefix s \<longleftrightarrow>
     (case s of z # x # d # _ \<Rightarrow> z = CHR ''0'' \<and> (x = CHR ''x'' \<or> x = CHR ''X'') \<and> base_digit 16 d | _ \<Rightarrow> False)"

definition strtol :: "string \<Rightarrow> nat \<Rightarrow> int \<times> nat \<times> bool" where
  "strtol s base =
     (let spaces = length (takeWhile is_space s);
          t = drop spaces s;
          sign = (if t \<noteq> [] \<and> (hd t = CHR ''-'' \<or> hd t = CHR ''+'') then 1 else 0);
          u = drop sign t;
          hex = ((base = 0 \<or> base = 16) \<and> hex_prefix u);
          b = (if base \<noteq> 0 then base
               else if hex then 16 else if u \<noteq> [] \<and> hd u = CHR ''0'' then 8 else 10);
          skip = (if hex then 2 else 0);
          ds = takeWhile (base_digit b) (drop skip u);
          v = (if sign = 1 \<and> hd t = CHR ''-'' then - number_of b ds else number_of b ds)
      in if ds = [] then (0, 0, False)
         else if v > LONG_MAX then (LONG_MAX, spaces + sign + skip + length ds, True)
         else if v < LONG_MIN then (LONG_MIN, spaces + sign + skip + length ds, True)
         else (v, spaces + sign + skip + length ds, False))"

text \<open>The condition on \<open>errno\<close>, \<open>endptr\<close> and the value that both numeric options have.\<close>

definition bad_number :: "string \<Rightarrow> int \<times> nat \<times> bool \<Rightarrow> bool" where
  "bad_number optarg r =
     (case r of (v, n, erange) \<Rightarrow> erange \<or> n = 0 \<or> n \<noteq> length optarg \<or> v \<le> 0)"

section \<open>Options of the command line\<close>

text \<open>Where Slurm calls the plugin (\<open>spank_context\<close>), and a pointer to memory the plugin owns.\<close>

datatype spank_context =
    S_CTX_ERROR
  | S_CTX_LOCAL
  | S_CTX_REMOTE
  | S_CTX_ALLOCATOR
  | S_CTX_SLURMD
  | S_CTX_JOB_SCRIPT

datatype 'a owned = P_null | P_live 'a | P_freed

fun free_owned :: "'a owned \<Rightarrow> cpp_error + 'a owned" where
  "free_owned P_null = Inr P_null"
| "free_owned (P_live x) = Inr P_freed"
| "free_owned P_freed = Inl Undefined_behaviour"

text \<open>
  The static variables. The count of an array is a variable of its own, which a failed option leaves as
  it was.
\<close>

record plugin_options =
  scord_flag :: bool
  adhoc_nnodes :: int
  adhoc_walltime :: int
  adhoc_mode :: nat
  opt_adhoc_type :: nat
  opt_adhoc_id :: string
  input_datasets :: "adm_dataset_route list owned"
  input_datasets_count :: nat
  output_datasets :: "adm_dataset_route list owned"
  output_datasets_count :: nat
  expected_output_datasets :: "adm_dataset_route list owned"
  expected_output_datasets_count :: nat
  expected_inout_datasets :: "adm_dataset_route list owned"
  expected_inout_datasets_count :: nat
  transfer_limit :: int

definition initial_options :: plugin_options where
  "initial_options =
     \<lparr>scord_flag = False, adhoc_nnodes = 0, adhoc_walltime = 0,
      adhoc_mode = execution_mode_code mode_in_job_shared, opt_adhoc_type = 0, opt_adhoc_id = [],
      input_datasets = P_null, input_datasets_count = 0,
      output_datasets = P_null, output_datasets_count = 0,
      expected_output_datasets = P_null, expected_output_datasets_count = 0,
      expected_inout_datasets = P_null, expected_inout_datasets_count = 0,
      transfer_limit = 0\<rparr>"

datatype option_tag =
    TAG_NNODES
  | TAG_ADHOC_TYPE
  | TAG_ADHOC_OVERLAP
  | TAG_ADHOC_EXCLUSIVE
  | TAG_ADHOC_DEDICATED
  | TAG_ADHOC_REMOTE
  | TAG_DATASET_INPUT
  | TAG_DATASET_OUTPUT
  | TAG_DATASET_EXPECTED_OUTPUT
  | TAG_DATASET_EXPECTED_INOUT_DATASET
  | TAG_QOS_LIMIT

text \<open>The table of options, without the help texts: the name, the name of the argument, the tag.\<close>

record spank_option =
  opt_name :: string
  opt_arginfo :: "string option"
  opt_tag :: option_tag

definition spank_opts :: "spank_option list" where
  "spank_opts =
     [\<lparr>opt_name = ''adm-adhoc'', opt_arginfo = Some ''type'', opt_tag = TAG_ADHOC_TYPE\<rparr>,
      \<lparr>opt_name = ''adm-adhoc-overlap'', opt_arginfo = None, opt_tag = TAG_ADHOC_OVERLAP\<rparr>,
      \<lparr>opt_name = ''adm-adhoc-exclusive'', opt_arginfo = None, opt_tag = TAG_ADHOC_EXCLUSIVE\<rparr>,
      \<lparr>opt_name = ''adm-adhoc-dedicated'', opt_arginfo = None, opt_tag = TAG_ADHOC_DEDICATED\<rparr>,
      \<lparr>opt_name = ''adm-adhoc-remote'', opt_arginfo = Some ''adhoc-id'', opt_tag = TAG_ADHOC_REMOTE\<rparr>,
      \<lparr>opt_name = ''adm-adhoc-nodes'', opt_arginfo = Some ''nnodes'', opt_tag = TAG_NNODES\<rparr>,
      \<lparr>opt_name = ''adm-input-datasets'', opt_arginfo = Some ''dataset-route[,dataset-route...]'',
       opt_tag = TAG_DATASET_INPUT\<rparr>,
      \<lparr>opt_name = ''adm-output-datasets'', opt_arginfo = Some ''dataset-route[,dataset-route...]'',
       opt_tag = TAG_DATASET_OUTPUT\<rparr>,
      \<lparr>opt_name = ''adm-expected-output-datasets'', opt_arginfo = Some ''dataset-route[,dataset-route...]'',
       opt_tag = TAG_DATASET_EXPECTED_OUTPUT\<rparr>,
      \<lparr>opt_name = ''adm-expected-inout-datasets'', opt_arginfo = Some ''dataset-route[,dataset-route...]'',
       opt_tag = TAG_DATASET_EXPECTED_INOUT_DATASET\<rparr>,
      \<lparr>opt_name = ''adm-qos-limit'', opt_arginfo = Some ''qos-limit-bw'', opt_tag = TAG_QOS_LIMIT\<rparr>]"

definition ADHOCID_LEN :: nat where
  "ADHOCID_LEN = 64"

text \<open>The name of a type of storage is matched by its first letters only.\<close>

definition adhoc_type_option :: "string \<Rightarrow> adhoc_type option" where
  "adhoc_type_option optarg =
     (if is_prefix ''gekkofs'' optarg then Some adhoc_gekkofs
      else if is_prefix ''expand'' optarg then Some adhoc_expand
      else if is_prefix ''hercules'' optarg then Some adhoc_hercules
      else if is_prefix ''dataclay'' optarg then Some adhoc_dataclay
      else None)"

text \<open>
  An option with routes: the old array is freed, then the text is parsed into the variables. When parsing
  fails nothing is written, and the pointer still leads to the array that was freed. The memory is taken to
  suffice.
\<close>

definition process_routes ::
  "string \<Rightarrow> adm_dataset_route list owned \<Rightarrow> nat \<Rightarrow>
   cpp_error + (adm_dataset_route list owned \<times> nat \<times> int)" where
  "process_routes optarg datasets count =
     bind_sum (free_owned datasets) (\<lambda>datasets.
       case parse_routes (Some optarg) of
         Inl _ \<Rightarrow> Inr (datasets, count, - 1)
       | Inr rs \<Rightarrow> Inr (P_live rs, length rs, 0))"

text \<open>
  An option without an argument has no string; none of its cases reads it. What Slurm gets back is 0 or
  -1.
\<close>

definition process_opts ::
  "spank_context \<Rightarrow> option_tag \<Rightarrow> string \<Rightarrow> plugin_options \<Rightarrow> cpp_error + (plugin_options \<times> int)" where
  "process_opts sctx tag optarg opts =
     (if sctx \<noteq> S_CTX_LOCAL \<and> sctx \<noteq> S_CTX_ALLOCATOR \<and> sctx \<noteq> S_CTX_REMOTE then Inr (opts, 0)
      else
        (let opts = opts\<lparr>scord_flag := True\<rparr>
         in case tag of
              TAG_NNODES \<Rightarrow>
                (let r = strtol optarg 0;
                     opts = opts\<lparr>adhoc_nnodes := fst r\<rparr>
                 in if bad_number optarg r then Inr (opts, - 1) else Inr (opts, 0))
            | TAG_ADHOC_TYPE \<Rightarrow>
                (case adhoc_type_option optarg of
                   Some t \<Rightarrow> Inr (opts\<lparr>opt_adhoc_type := adhoc_type_code t\<rparr>, 0)
                 | None \<Rightarrow> Inr (opts, - 1))
            | TAG_ADHOC_EXCLUSIVE \<Rightarrow>
                Inr (opts\<lparr>adhoc_mode := execution_mode_code mode_in_job_dedicated\<rparr>, 0)
            | TAG_ADHOC_DEDICATED \<Rightarrow>
                Inr (opts\<lparr>adhoc_mode := execution_mode_code mode_separate_new\<rparr>, 0)
            | TAG_ADHOC_REMOTE \<Rightarrow>
                Inr (opts\<lparr>adhoc_mode := execution_mode_code mode_separate_existing,
                          opt_adhoc_id := take (ADHOCID_LEN - 1) optarg\<rparr>, 0)
            | TAG_DATASET_INPUT \<Rightarrow>
                bind_sum (process_routes optarg (input_datasets opts) (input_datasets_count opts))
                  (\<lambda>(p, n, rc). Inr (opts\<lparr>input_datasets := p, input_datasets_count := n\<rparr>, rc))
            | TAG_DATASET_OUTPUT \<Rightarrow>
                bind_sum (process_routes optarg (output_datasets opts) (output_datasets_count opts))
                  (\<lambda>(p, n, rc). Inr (opts\<lparr>output_datasets := p, output_datasets_count := n\<rparr>, rc))
            | TAG_DATASET_EXPECTED_OUTPUT \<Rightarrow>
                bind_sum (process_routes optarg (expected_output_datasets opts)
                            (expected_output_datasets_count opts))
                  (\<lambda>(p, n, rc). Inr (opts\<lparr>expected_output_datasets := p,
                                       expected_output_datasets_count := n\<rparr>, rc))
            | TAG_DATASET_EXPECTED_INOUT_DATASET \<Rightarrow>
                bind_sum (process_routes optarg (expected_inout_datasets opts)
                            (expected_inout_datasets_count opts))
                  (\<lambda>(p, n, rc). Inr (opts\<lparr>expected_inout_datasets := p,
                                       expected_inout_datasets_count := n\<rparr>, rc))
            | TAG_QOS_LIMIT \<Rightarrow>
                (let r = strtol optarg 0;
                     opts = opts\<lparr>transfer_limit := fst r\<rparr>
                 in if bad_number optarg r then Inr (opts, - 1) else Inr (opts, 0))
            | _ \<Rightarrow> Inr (opts, - 1)))"

text \<open>
  \<open>slurm_spank_init\<close>: every option of the table is registered, whatever the earlier registrations
  returned; the result is that of the last one. \<open>register\<close> tells whether Slurm accepts an option.
\<close>

definition slurm_spank_init :: "spank_context \<Rightarrow> (spank_option \<Rightarrow> bool) \<Rightarrow> spank_option list \<times> int" where
  "slurm_spank_init sctx register =
     (if sctx = S_CTX_LOCAL \<or> sctx = S_CTX_ALLOCATOR \<or> sctx = S_CTX_REMOTE
      then (filter register spank_opts, if register (last spank_opts) then 0 else - 1)
      else ([], 0))"

end
