(* ===== verification/SlurmConfig.thy ===== *)
theory SlurmConfig
  imports SlurmOptions
begin

text \<open>
  The configuration of the Slurm plugin (\<open>process_config\<close> in \<open>src/plugins/slurm/slurmadmcli.c\<close>) and the helpers of
  \<open>src/plugins/slurm/utils.c\<close>: the nodes of the job and the address of a server on one of them.
\<close>

section \<open>Configuration\<close>

text \<open>
  A pointer to a string is what reading the string gives: the text, or the fault of a null pointer or of one
  that leads beyond the end of an argument.
\<close>

type_synonym c_text = "cpp_error + string"

definition null_text :: c_text where
  "null_text = Inl Null_dereference"

record scord_server_info =
  info_addr :: c_text
  info_proto :: c_text
  info_port :: int
  info_prog :: c_text
  info_tmpdir :: c_text

record scord_plugin_config =
  scord_info :: scord_server_info
  scordctl_info :: scord_server_info
  cargo_info :: scord_server_info

text \<open>The constants that the build writes into \<open>defaults.h\<close>.\<close>

record plugin_defaults =
  SCORD_SERVER_DEFAULT :: string
  SCORD_PROTO_DEFAULT :: string
  SCORD_PORT_DEFAULT :: int
  SCORDCTL_PROG_DEFAULT :: string
  SCORDCTL_PROTO_DEFAULT :: string
  SCORDCTL_PORT_DEFAULT :: int
  SCORDCTL_TMPDIR_DEFAULT :: string
  CARGO_PROG_DEFAULT :: string
  CARGO_PROTO_DEFAULT :: string
  CARGO_PORT_DEFAULT :: int

definition default_cfg :: "plugin_defaults \<Rightarrow> scord_plugin_config" where
  "default_cfg b =
     \<lparr>scord_info =
        \<lparr>info_addr = Inr (SCORD_SERVER_DEFAULT b), info_proto = Inr (SCORD_PROTO_DEFAULT b),
         info_port = SCORD_PORT_DEFAULT b, info_prog = null_text, info_tmpdir = null_text\<rparr>,
      scordctl_info =
        \<lparr>info_addr = null_text, info_proto = Inr (SCORDCTL_PROTO_DEFAULT b),
         info_port = SCORDCTL_PORT_DEFAULT b, info_prog = Inr (SCORDCTL_PROG_DEFAULT b),
         info_tmpdir = Inr (SCORDCTL_TMPDIR_DEFAULT b)\<rparr>,
      cargo_info =
        \<lparr>info_addr = null_text, info_proto = Inr (CARGO_PROTO_DEFAULT b),
         info_port = CARGO_PORT_DEFAULT b, info_prog = Inr (CARGO_PROG_DEFAULT b),
         info_tmpdir = null_text\<rparr>\<rparr>"

text \<open>The table of settings: a name, the type of the value and where the value goes.\<close>

datatype scord_option =
    TYPE_INT "int \<Rightarrow> scord_plugin_config \<Rightarrow> scord_plugin_config"
  | TYPE_STR "c_text \<Rightarrow> scord_plugin_config \<Rightarrow> scord_plugin_config"

definition scord_options :: "(string \<times> scord_option) list" where
  "scord_options =
     [(''scord_addr'', TYPE_STR (\<lambda>v c. c\<lparr>scord_info := (scord_info c)\<lparr>info_addr := v\<rparr>\<rparr>)),
      (''scord_proto'', TYPE_STR (\<lambda>v c. c\<lparr>scord_info := (scord_info c)\<lparr>info_proto := v\<rparr>\<rparr>)),
      (''scordctl_prog'', TYPE_STR (\<lambda>v c. c\<lparr>scordctl_info := (scordctl_info c)\<lparr>info_prog := v\<rparr>\<rparr>)),
      (''scordctl_port'', TYPE_INT (\<lambda>v c. c\<lparr>scordctl_info := (scordctl_info c)\<lparr>info_port := v\<rparr>\<rparr>)),
      (''scordctl_tmpdir'', TYPE_STR (\<lambda>v c. c\<lparr>scordctl_info := (scordctl_info c)\<lparr>info_tmpdir := v\<rparr>\<rparr>)),
      (''cargo_prog'', TYPE_STR (\<lambda>v c. c\<lparr>cargo_info := (cargo_info c)\<lparr>info_prog := v\<rparr>\<rparr>)),
      (''cargo_port'', TYPE_INT (\<lambda>v c. c\<lparr>cargo_info := (cargo_info c)\<lparr>info_port := v\<rparr>\<rparr>))]"

text \<open>
  The value begins one character after the name, whatever that character is. When the argument is the name
  alone the value is beyond its end. The cast to \<open>int\<close> keeps the low 32 bits.
\<close>

definition value_text :: "string \<Rightarrow> string \<Rightarrow> c_text" where
  "value_text name arg =
     (if length arg \<le> length name then Inl Out_of_bounds else Inr (drop (length name + 1) arg))"

definition to_int :: "int \<Rightarrow> int" where
  "to_int v = sint (word_of_int v :: 32 word)"

fun process_config :: "string list \<Rightarrow> scord_plugin_config \<Rightarrow> cpp_error + (scord_plugin_config \<times> int)" where
  "process_config [] cfg = Inr (cfg, 0)"
| "process_config (arg # av) cfg =
     (case find (\<lambda>(name, _). is_prefix name arg) scord_options of
        None \<Rightarrow> Inr (cfg, - 1)
      | Some (name, TYPE_STR put_value) \<Rightarrow> process_config av (put_value (value_text name arg) cfg)
      | Some (name, TYPE_INT put_value) \<Rightarrow>
          bind_sum (value_text name arg) (\<lambda>value.
            case strtol value 10 of
              (v, used, _) \<Rightarrow>
                if used \<noteq> length value then Inr (cfg, - 1)
                else process_config av (put_value (to_int v) cfg)))"

section \<open>Nodes of the job\<close>

text \<open>
  The list of hosts that Slurm makes of the variable \<open>SLURM_NODELIST\<close>: \<open>hostlist_create\<close> is Slurm's, the
  variable comes from the environment of the plugin or, in the remote context, from that of the job.
\<close>

definition get_slurm_hostlist ::
  "spank_context \<Rightarrow> string option \<Rightarrow> string option \<Rightarrow> (string \<Rightarrow> string list option) \<Rightarrow> string list option" where
  "get_slurm_hostlist sctx own_env job_env hostlist_create =
     (if sctx \<noteq> S_CTX_LOCAL \<and> sctx \<noteq> S_CTX_ALLOCATOR \<and> sctx \<noteq> S_CTX_REMOTE then None
      else
        (let nodelist = (if sctx = S_CTX_LOCAL \<or> sctx = S_CTX_ALLOCATOR then own_env else job_env)
         in case nodelist of None \<Rightarrow> None | Some text \<Rightarrow> hostlist_create text))"

text \<open>
  The nodes are created from the hosts taken off the list one by one; when anything cannot be allocated all
  of them are destroyed and the result is null. \<open>memory\<close> tells which allocations succeed.
\<close>

fun shift_nodes :: "(string \<Rightarrow> bool) \<Rightarrow> nat \<Rightarrow> string list \<Rightarrow> adm_node list option" where
  "shift_nodes memory 0 hosts = Some []"
| "shift_nodes memory (Suc n) [] = None"
| "shift_nodes memory (Suc n) (host # hosts) =
     (if memory ''node''
      then map_option (Cons (mk_adm_node host (node_type_code node_regular))) (shift_nodes memory n hosts)
      else None)"

definition scord_nodelist_create :: "(string \<Rightarrow> bool) \<Rightarrow> string list \<Rightarrow> adm_node list option" where
  "scord_nodelist_create memory hostlist =
     (let n = length hostlist
      in if n = 0 \<or> \<not> memory ''nodes'' then None
         else case shift_nodes memory n hostlist of
                None \<Rightarrow> None
              | Some nodes \<Rightarrow> if memory ''nodelist'' then Some nodes else None)"

definition scord_nodelist_get_nodecount :: "adm_node list option \<Rightarrow> int" where
  "scord_nodelist_get_nodecount nodelist =
     (case nodelist of None \<Rightarrow> - 1 | Some nodes \<Rightarrow> int (length nodes))"

definition scord_nodelist_get_nodes :: "adm_node list option \<Rightarrow> adm_node list option" where
  "scord_nodelist_get_nodes nodelist = nodelist"

definition scord_nodelist_get_node :: "adm_node list option \<Rightarrow> int \<Rightarrow> adm_node option" where
  "scord_nodelist_get_node nodelist index =
     (case nodelist of
        None \<Rightarrow> None
      | Some nodes \<Rightarrow>
          if index < 0 \<or> index \<ge> int (length nodes) then None else Some (nodes ! nat index))"

section \<open>Addresses\<close>

text \<open>
  What \<open>getaddrinfo\<close> answers: an error, or the addresses with their families, in printed form. The first one
  of the family \<open>AF_INET\<close> is taken.
\<close>

definition AF_INET :: nat where
  "AF_INET = 2"

definition resolve_host :: "(string \<Rightarrow> (nat \<times> string) list option) \<Rightarrow> string \<Rightarrow> string option" where
  "resolve_host addrinfo host =
     (case addrinfo host of
        None \<Rightarrow> None
      | Some result \<Rightarrow> map_option snd (find (\<lambda>(family, _). family = AF_INET) result))"

definition int_to_string :: "int \<Rightarrow> string" where
  "int_to_string n = (if n < 0 then CHR ''-'' # nat_to_string (nat (- n)) else nat_to_string (nat n))"

text \<open>
  Without a protocol the address is the host name alone, which is then read without looking. \<open>Inr None\<close> is a
  null pointer. A protocol beyond the end of its argument is a fault where it is printed.
\<close>

definition margo_address_create ::
  "(string \<Rightarrow> (nat \<times> string) list option) \<Rightarrow> bool \<Rightarrow> c_text \<Rightarrow> string option \<Rightarrow> int \<Rightarrow>
   cpp_error + string option" where
  "margo_address_create addrinfo memory protocol host port =
     (if protocol = null_text then
        (case host of None \<Rightarrow> Inl Null_dereference | Some h \<Rightarrow> Inr (if memory then Some h else None))
      else
        (case host of
           None \<Rightarrow> Inr None
         | Some h \<Rightarrow>
             (case resolve_host addrinfo h of
                None \<Rightarrow> Inr None
              | Some buffer \<Rightarrow>
                  bind_sum protocol (\<lambda>p.
                    Inr (if memory then Some (p @ ''://'' @ buffer @ '':'' @ int_to_string port) else None)))))"

end
