(* ===== verification/SlurmOptionClaims.thy ===== *)
theory SlurmOptionClaims
  imports SlurmConfig
begin

text \<open>What the options of a job and the settings of the Slurm plugin mean.\<close>

section \<open>Decimal numbers\<close>

lemma digit_value_digit: "is_digit c \<Longrightarrow> digit_value c = of_char c - 48 \<and> of_char c - 48 < (10::nat)"
  by (auto simp: is_digit_def digit_value_def)

lemma base_digit_10: "is_digit c \<Longrightarrow> base_digit 10 c"
  using digit_value_digit [of c] by (simp add: base_digit_def)

lemma number_of_digits: "list_all is_digit ds \<Longrightarrow> number_of 10 ds = int (digits_value ds)"
proof (induction ds rule: rev_induct)
  case (snoc c ds)
  then show ?case
    using digit_value_digit [of c] by (simp add: number_of_def digits_value_snoc [unfolded digits_value_def] digits_value_def)
qed (simp add: number_of_def digits_value_def)

lemma digit_chars: "is_digit c \<Longrightarrow> \<not> is_space c \<and> c \<noteq> CHR ''-'' \<and> c \<noteq> CHR ''+'' \<and> c \<noteq> CHR ''x'' \<and> c \<noteq> CHR ''X''"
  by (auto simp: is_digit_def is_space_def)

lemma hex_prefix_digits: "list_all is_digit ds \<Longrightarrow> \<not> hex_prefix ds"
  using digit_chars [of "CHR ''x''"] digit_chars [of "CHR ''X''"] by (auto simp: hex_prefix_def split: list.split)

text \<open>Digits alone are read as the number they are, in base 10 or when they do not begin with a zero.\<close>

lemma strtol_digits:
  assumes "list_all is_digit ds" "ds \<noteq> []" "base = 10 \<or> base = 0 \<and> hd ds \<noteq> CHR ''0''"
  shows "strtol ds base =
    (if int (digits_value ds) \<le> LONG_MAX then (int (digits_value ds), length ds, False)
     else (LONG_MAX, length ds, True))"
proof -
  have h: "is_digit (hd ds)" using assms(1,2) by (cases ds) auto
  have space: "takeWhile is_space ds = []" using digit_chars [OF h] assms(2) by (cases ds) auto
  have sign: "hd ds \<noteq> CHR ''-''" "hd ds \<noteq> CHR ''+''" using digit_chars [OF h] by simp_all
  have all: "takeWhile (base_digit 10) ds = ds"
    using assms(1) base_digit_10 by (auto simp: list_all_iff intro: takeWhile_eq_all_conv [THEN iffD2])
  have low: "\<not> int (digits_value ds) < LONG_MIN" by (simp add: LONG_MIN_def)
  show ?thesis
    using assms(2,3)
    by (auto simp: strtol_def Let_def space sign all low hex_prefix_digits [OF assms(1)] number_of_digits [OF assms(1)])
qed

lemma nat_to_string_all_digits: "list_all is_digit (nat_to_string n)"
  by (auto simp: list_all_iff dest: nat_to_string_digits)

lemma hd_nat_to_string: "0 < n \<Longrightarrow> hd (nat_to_string n) \<noteq> CHR ''0''"
proof (induction n rule: nat_to_string.induct)
  case (1 n)
  show ?case
  proof (cases "n < 10")
    case True
    have "char_of (48 + n) \<noteq> CHR ''0''"
    proof
      assume "char_of (48 + n) = CHR ''0''"
      then have "(of_char (char_of (48 + n) :: char) :: nat) = of_char CHR ''0''" by simp
      then show False using True 1(2) by simp
    qed
    with True show ?thesis by (subst nat_to_string.simps) simp
  next
    case False
    then have "hd (nat_to_string n) = hd (nat_to_string (n div 10))"
      by (subst nat_to_string.simps) simp
    with 1 False show ?thesis by simp
  qed
qed

lemma strtol_nat:
  "0 < n \<Longrightarrow> strtol (nat_to_string n) 0 =
     (if int n \<le> LONG_MAX then (int n, length (nat_to_string n), False)
      else (LONG_MAX, length (nat_to_string n), True))"
  using strtol_digits [OF nat_to_string_all_digits, of n 0] hd_nat_to_string [of n] by simp

lemma strtol_range: "LONG_MIN \<le> fst (strtol s base) \<and> fst (strtol s base) \<le> LONG_MAX"
  by (simp add: strtol_def Let_def LONG_MIN_def LONG_MAX_def)

lemma good_number: "\<not> bad_number s r \<Longrightarrow> 0 < fst r"
  by (auto simp: bad_number_def split: prod.splits)

section \<open>Options\<close>

definition active_context :: "spank_context \<Rightarrow> bool" where
  "active_context sctx \<longleftrightarrow> sctx = S_CTX_LOCAL \<or> sctx = S_CTX_ALLOCATOR \<or> sctx = S_CTX_REMOTE"

text \<open>C35: A number of nodes or a bandwidth limit that is accepted is positive and fits a \<open>long\<close>,
  whatever the text was. A positive decimal number is accepted as itself up to \<open>LONG_MAX\<close> and refused beyond; the limit
  then reaches the daemon as that number.\<close>

theorem number_options:
  assumes "active_context sctx"
  shows "(process_opts sctx TAG_NNODES s opts = Inr (opts', 0) \<longrightarrow>
      0 < adhoc_nnodes opts' \<and> adhoc_nnodes opts' \<le> LONG_MAX) \<and>
    (process_opts sctx TAG_QOS_LIMIT s opts = Inr (opts', 0) \<longrightarrow>
      0 < transfer_limit opts' \<and> transfer_limit opts' \<le> LONG_MAX) \<and>
    (0 < n \<longrightarrow> (let v = min (int n) LONG_MAX; rc = if int n \<le> LONG_MAX then 0 else - 1 in
      process_opts sctx TAG_NNODES (nat_to_string n) opts = Inr (opts\<lparr>scord_flag := True, adhoc_nnodes := v\<rparr>, rc) \<and>
      process_opts sctx TAG_QOS_LIMIT (nat_to_string n) opts = Inr (opts\<lparr>scord_flag := True, transfer_limit := v\<rparr>, rc) \<and>
      uint (word_of_int v :: u64) = v))"
proof -
  have sctx: "\<not> (sctx \<noteq> S_CTX_LOCAL \<and> sctx \<noteq> S_CTX_ALLOCATOR \<and> sctx \<noteq> S_CTX_REMOTE)"
    using assms by (auto simp: active_context_def)
  have accepted: "0 < adhoc_nnodes opts' \<and> adhoc_nnodes opts' \<le> LONG_MAX"
    if "process_opts sctx TAG_NNODES s opts = Inr (opts', 0)"
    using that sctx good_number [of s "strtol s 0"] strtol_range [of s 0]
    by (auto simp: process_opts_def Let_def split: if_splits)
  have limited: "0 < transfer_limit opts' \<and> transfer_limit opts' \<le> LONG_MAX"
    if "process_opts sctx TAG_QOS_LIMIT s opts = Inr (opts', 0)"
    using that sctx good_number [of s "strtol s 0"] strtol_range [of s 0]
    by (auto simp: process_opts_def Let_def split: if_splits)
  have word: "uint (word_of_int v :: u64) = v" if "0 \<le> v" "v \<le> LONG_MAX" for v
    using that by (simp add: uint_word_of_int LONG_MAX_def)
  have decimal: "process_opts sctx TAG_NNODES (nat_to_string n) opts =
        Inr (opts\<lparr>scord_flag := True, adhoc_nnodes := min (int n) LONG_MAX\<rparr>, if int n \<le> LONG_MAX then 0 else - 1)"
      "process_opts sctx TAG_QOS_LIMIT (nat_to_string n) opts =
        Inr (opts\<lparr>scord_flag := True, transfer_limit := min (int n) LONG_MAX\<rparr>, if int n \<le> LONG_MAX then 0 else - 1)"
    if "0 < n"
    using assms strtol_nat [OF that] that
    by (auto simp: active_context_def process_opts_def Let_def bad_number_def min_def)
  show ?thesis
    using accepted limited decimal word [of "min (int n) LONG_MAX"] by (simp add: Let_def LONG_MAX_def)
qed

theorem number_options_witness:
  "process_opts S_CTX_LOCAL TAG_NNODES ''12'' initial_options =
     Inr (initial_options\<lparr>scord_flag := True, adhoc_nnodes := 12\<rparr>, 0)"
proof -
  have s: "nat_to_string 12 = ''12''" by code_simp
  have "active_context S_CTX_LOCAL" by (simp add: active_context_def)
  from number_options [OF this, of undefined initial_options undefined 12, THEN conjunct2, THEN conjunct2]
  show ?thesis by (simp add: s Let_def LONG_MAX_def)
qed

text \<open>
  The option whose help says it is the default has a tag no case handles; a second malformed text of routes after a
  good one frees the array twice.
\<close>

lemma overlap_refused:
  "active_context sctx \<Longrightarrow>
   process_opts sctx TAG_ADHOC_OVERLAP s opts = Inr (opts\<lparr>scord_flag := True\<rparr>, - 1)"
  by (auto simp: active_context_def process_opts_def)

lemma routes_freed_twice:
  assumes "active_context sctx" "input_datasets opts = P_live rs" "parse_routes (Some s) = Inl ec"
  shows "process_opts sctx TAG_DATASET_INPUT s opts =
      Inr (opts\<lparr>scord_flag := True, input_datasets := P_freed\<rparr>, - 1) \<and>
    process_opts sctx TAG_DATASET_INPUT t (opts\<lparr>scord_flag := True, input_datasets := P_freed\<rparr>) =
      Inl Undefined_behaviour"
  using assms by (auto simp: active_context_def process_opts_def process_routes_def)

lemma type_by_prefix: "adhoc_type_option (''gekkofs'' @ s) = Some adhoc_gekkofs"
  by (simp add: adhoc_type_option_def)

section \<open>Settings\<close>

text \<open>The settings of the plugin, each with the text that makes it, the values it can have and its effect.\<close>

datatype setting =
    Scord_addr string | Scord_proto string | Scordctl_prog string | Scordctl_port nat | Scordctl_tmpdir string
  | Cargo_prog string | Cargo_port nat

fun print_setting :: "setting \<Rightarrow> string" where
  "print_setting (Scord_addr s) = ''scord_addr='' @ s"
| "print_setting (Scord_proto s) = ''scord_proto='' @ s"
| "print_setting (Scordctl_prog s) = ''scordctl_prog='' @ s"
| "print_setting (Scordctl_port n) = ''scordctl_port='' @ nat_to_string n"
| "print_setting (Scordctl_tmpdir s) = ''scordctl_tmpdir='' @ s"
| "print_setting (Cargo_prog s) = ''cargo_prog='' @ s"
| "print_setting (Cargo_port n) = ''cargo_port='' @ nat_to_string n"

fun setting_ok :: "setting \<Rightarrow> bool" where
  "setting_ok (Scordctl_port n) \<longleftrightarrow> n < 2 ^ 31"
| "setting_ok (Cargo_port n) \<longleftrightarrow> n < 2 ^ 31"
| "setting_ok _ \<longleftrightarrow> True"

fun apply_setting :: "setting \<Rightarrow> scord_plugin_config \<Rightarrow> scord_plugin_config" where
  "apply_setting (Scord_addr s) cfg = cfg\<lparr>scord_info := (scord_info cfg)\<lparr>info_addr := Inr s\<rparr>\<rparr>"
| "apply_setting (Scord_proto s) cfg = cfg\<lparr>scord_info := (scord_info cfg)\<lparr>info_proto := Inr s\<rparr>\<rparr>"
| "apply_setting (Scordctl_prog s) cfg = cfg\<lparr>scordctl_info := (scordctl_info cfg)\<lparr>info_prog := Inr s\<rparr>\<rparr>"
| "apply_setting (Scordctl_port n) cfg = cfg\<lparr>scordctl_info := (scordctl_info cfg)\<lparr>info_port := int n\<rparr>\<rparr>"
| "apply_setting (Scordctl_tmpdir s) cfg = cfg\<lparr>scordctl_info := (scordctl_info cfg)\<lparr>info_tmpdir := Inr s\<rparr>\<rparr>"
| "apply_setting (Cargo_prog s) cfg = cfg\<lparr>cargo_info := (cargo_info cfg)\<lparr>info_prog := Inr s\<rparr>\<rparr>"
| "apply_setting (Cargo_port n) cfg = cfg\<lparr>cargo_info := (cargo_info cfg)\<lparr>info_port := int n\<rparr>\<rparr>"

lemma find_setting:
  "map_of scord_options n = Some v \<Longrightarrow>
   find (\<lambda>(name, _). is_prefix name (n @ ''='' @ s)) scord_options = Some (n, v)"
  by (auto simp: scord_options_def split: if_splits)

lemma value_of_setting: "value_text n (n @ ''='' @ s) = Inr s"
  by (simp add: value_text_def)

lemma to_int_small: "0 \<le> v \<Longrightarrow> v < 2 ^ 31 \<Longrightarrow> to_int v = v"
  unfolding to_int_def by (transfer fixing: v) (simp add: signed_take_bit_int_eq_self)

lemma text_setting_read:
  "case map_of scord_options n of
     Some (TYPE_STR put_value) \<Rightarrow>
       process_config ((n @ ''='' @ s) # av) cfg = process_config av (put_value (Inr s) cfg)
   | _ \<Rightarrow> True"
proof (cases "map_of scord_options n")
  case (Some v)
  then show ?thesis
    using find_setting [OF Some, of s] value_of_setting [of n s] by (simp split: scord_option.split)
qed simp

lemma number_setting_read:
  assumes "v < 2 ^ 31"
  shows "case map_of scord_options n of
     Some (TYPE_INT put_value) \<Rightarrow>
       process_config ((n @ ''='' @ nat_to_string v) # av) cfg = process_config av (put_value (int v) cfg)
   | _ \<Rightarrow> True"
proof -
  have "strtol (nat_to_string v) 10 = (int v, length (nat_to_string v), False)"
    using strtol_digits [OF nat_to_string_all_digits [of v] nat_to_string_nonempty, where base = 10] assms
    by (simp add: LONG_MAX_def)
  moreover have "to_int (int v) = int v" using assms by (intro to_int_small) simp_all
  moreover note value_of_setting [of n "nat_to_string v"]
  ultimately show ?thesis
  proof (cases "map_of scord_options n")
    case (Some x)
    then show ?thesis
      using find_setting [OF Some, of "nat_to_string v"] \<open>strtol _ _ = _\<close> \<open>to_int _ = _\<close> \<open>value_text _ _ = _\<close>
      by (simp split: scord_option.split)
  qed simp
qed

lemma setting_read:
  assumes "setting_ok x"
  shows "process_config (print_setting x # av) cfg = process_config av (apply_setting x cfg)"
proof (cases x)
  case (Scord_addr s)
  then show ?thesis using text_setting_read [of "''scord_addr''" s av cfg] by (simp add: scord_options_def del: process_config.simps)
next
  case (Scord_proto s)
  then show ?thesis using text_setting_read [of "''scord_proto''" s av cfg] by (simp add: scord_options_def del: process_config.simps)
next
  case (Scordctl_prog s)
  then show ?thesis using text_setting_read [of "''scordctl_prog''" s av cfg] by (simp add: scord_options_def del: process_config.simps)
next
  case (Scordctl_port n)
  then show ?thesis using number_setting_read [of n "''scordctl_port''" av cfg] assms by (simp add: scord_options_def del: process_config.simps)
next
  case (Scordctl_tmpdir s)
  then show ?thesis using text_setting_read [of "''scordctl_tmpdir''" s av cfg] by (simp add: scord_options_def del: process_config.simps)
next
  case (Cargo_prog s)
  then show ?thesis using text_setting_read [of "''cargo_prog''" s av cfg] by (simp add: scord_options_def del: process_config.simps)
next
  case (Cargo_port n)
  then show ?thesis using number_setting_read [of n "''cargo_port''" av cfg] assms by (simp add: scord_options_def del: process_config.simps)
qed

text \<open>C36: A configuration of settings \<open>name=value\<close>, whose ports are decimal numbers of at most 31
  bits, is read without error, and each setting changes the one field of the configuration that is written out for its
  name: address and protocol of the daemon, program, port and directory of the controller, program and port of the data
  stager. Of two settings with the same name the later one counts.\<close>

theorem settings_read:
  assumes "list_all setting_ok ss"
  shows "process_config (map print_setting ss) cfg = Inr (fold apply_setting ss cfg, 0)"
  using assms
proof (induction ss arbitrary: cfg)
  case (Cons x ss)
  have step: "process_config (print_setting x # av) cfg = process_config av (apply_setting x cfg)" for av
    using Cons.prems by (intro setting_read) simp
  then show ?case using Cons by (simp del: process_config.simps(2))
qed simp

theorem settings_read_witness:
  "\<forall>cfg. process_config [''scord_addr=tcp://h:1'', ''cargo_port=62000'', ''scordctl_tmpdir=/tmp''] cfg =
     Inr (cfg\<lparr>scord_info := (scord_info cfg)\<lparr>info_addr := Inr ''tcp://h:1''\<rparr>,
              cargo_info := (cargo_info cfg)\<lparr>info_port := 62000\<rparr>,
              scordctl_info := (scordctl_info cfg)\<lparr>info_tmpdir := Inr ''/tmp''\<rparr>\<rparr>, 0)"
proof
  fix cfg
  have port: "nat_to_string 62000 = ''62000''" by (simp add: nat_to_string.simps) code_simp
  have "list_all setting_ok [Scord_addr ''tcp://h:1'', Cargo_port 62000, Scordctl_tmpdir ''/tmp'']" by simp
  from settings_read [OF this, of cfg]
  show "process_config [''scord_addr=tcp://h:1'', ''cargo_port=62000'', ''scordctl_tmpdir=/tmp''] cfg =
     Inr (cfg\<lparr>scord_info := (scord_info cfg)\<lparr>info_addr := Inr ''tcp://h:1''\<rparr>,
              cargo_info := (cargo_info cfg)\<lparr>info_port := 62000\<rparr>,
              scordctl_info := (scordctl_info cfg)\<lparr>info_tmpdir := Inr ''/tmp''\<rparr>\<rparr>, 0)"
    by (simp add: port del: process_config.simps)
qed

text \<open>
  Only the beginning of an argument is compared with the names, the separator is never looked at, and a name
  alone leads beyond its argument.
\<close>

lemma setting_by_prefix:
  "process_config [''scord_addr'' @ c # s] cfg = process_config [''scord_addr='' @ s] cfg"
  by (simp add: scord_options_def value_text_def)

lemma name_alone:
  "process_config [''scordctl_port''] cfg = Inl Out_of_bounds"
  "process_config [''scord_addr''] cfg =
     Inr (cfg\<lparr>scord_info := (scord_info cfg)\<lparr>info_addr := Inl Out_of_bounds\<rparr>\<rparr>, 0)"
  by (simp_all add: scord_options_def value_text_def)

text \<open>The setting the README names is not one of them.\<close>

lemma readme_setting_refused: "process_config [''scordctl_bin=scord-ctl''] cfg = Inr (cfg, - 1)"
  by (simp add: scord_options_def)

end
