(* ===== verification/Statements.thy ===== *)
theory Statements
  imports Client
begin

text \<open>
  Programs that call a service and may end early: the statements of the hooks of the Slurm plugin and of the
  command-line tools, over any state.
\<close>

named_theorems hook_simps "running the statements of hooks and tools"

section \<open>Operations\<close>

text \<open>
  A statement changes the state. It may not return (\<open>None\<close>), end in a fault of the process, or leave the
  function with a code. A code is \<open>None\<close> when the variable returned was never written.
\<close>

datatype stop = Crash cpp_error | Leave "int option"

type_synonym ('s, 'a) process = "'s \<Rightarrow> ('s \<times> (stop + 'a)) option"

definition pure_h :: "'a \<Rightarrow> ('s, 'a) process" where
  "pure_h x s = Some (s, Inr x)"

definition stop_h :: "stop \<Rightarrow> ('s, 'a) process" where
  "stop_h e s = Some (s, Inl e)"

definition bind_h :: "('s, 'a) process \<Rightarrow> ('a \<Rightarrow> ('s, 'b) process) \<Rightarrow> ('s, 'b) process" where
  "bind_h m k s =
     (case m s of None \<Rightarrow> None | Some (s, Inl e) \<Rightarrow> Some (s, Inl e) | Some (s, Inr x) \<Rightarrow> k x s)"

definition get_h :: "('s \<Rightarrow> 'a) \<Rightarrow> ('s, 'a) process" where
  "get_h f s = Some (s, Inr (f s))"

definition put_h :: "('s \<Rightarrow> 's) \<Rightarrow> ('s, unit) process" where
  "put_h f s = Some (f s, Inr ())"

definition when_h :: "bool \<Rightarrow> ('s, unit) process \<Rightarrow> ('s, unit) process" where
  "when_h b m = (if b then m else pure_h ())"

text \<open>An expression that may be a fault, and a value whose absence ends the function with -1.\<close>

definition lift_h :: "cpp_error + 'a \<Rightarrow> ('s, 'a) process" where
  "lift_h r = (case r of Inl e \<Rightarrow> stop_h (Crash e) | Inr x \<Rightarrow> pure_h x)"

definition fail_h :: "('s, 'a) process" where
  "fail_h = stop_h (Leave (Some (- 1)))"

definition need_h :: "'a option \<Rightarrow> ('s, 'a) process" where
  "need_h v = (case v of None \<Rightarrow> fail_h | Some x \<Rightarrow> pure_h x)"

text \<open>A function that ends in the statements after its label \<open>end\<close>, whatever left the others.\<close>

definition finally_h :: "('s, 'a) process \<Rightarrow> ('s, unit) process \<Rightarrow> ('s, 'a) process" where
  "finally_h m f s =
     (case m s of
        None \<Rightarrow> None
      | Some (s, Inl (Crash e)) \<Rightarrow> Some (s, Inl (Crash e))
      | Some (s, r) \<Rightarrow>
          (case f s of None \<Rightarrow> None | Some (s, Inl e) \<Rightarrow> Some (s, Inl e) | Some (s, Inr _) \<Rightarrow> Some (s, r)))"

section \<open>Running them\<close>

lemma bind_h_simps [hook_simps]:
  "bind_h (pure_h x) k = k x" "bind_h (stop_h e) k = stop_h e"
  "bind_h (get_h f) k s = k (f s) s" "bind_h (put_h g) k' s = k' () (g s)"
  by (simp_all add: bind_h_def pure_h_def stop_h_def get_h_def put_h_def fun_eq_iff)

lemma bind_h_assoc [hook_simps]: "bind_h (bind_h m f) g = bind_h m (\<lambda>x. bind_h (f x) g)"
  by (rule ext) (simp add: bind_h_def split: option.split sum.split)

lemma lift_need_simps [hook_simps]:
  "lift_h (Inr x) = pure_h x" "lift_h (Inl e) = stop_h (Crash e)"
  "need_h (Some x) = pure_h x" "need_h None = fail_h"
  "when_h True m = m" "when_h False m = pure_h ()"
  by (simp_all add: lift_h_def need_h_def when_h_def)

lemma bind_fail [hook_simps]: "bind_h fail_h k = fail_h"
  by (simp add: fail_h_def bind_h_simps)

lemma bind_h_run: "m s = Some (s', Inr x) \<Longrightarrow> bind_h m k s = k x s'"
  by (simp add: bind_h_def)

lemma bind_h_stop: "m s = Some (s', Inl e) \<Longrightarrow> bind_h m k s = Some (s', Inl e)"
  by (simp add: bind_h_def)

lemma hook_ends [simp]:
  "pure_h x s = Some (s, Inr x)" "stop_h e s = Some (s, Inl e)" "put_h g s = Some (g s, Inr ())"
  "fail_h s = Some (s, Inl (Leave (Some (- 1))))"
  by (simp_all add: pure_h_def stop_h_def put_h_def fail_h_def)

section \<open>A daemon that is called\<close>

text \<open>
  The daemon as the client library meets it: the connection to a server in each state of the daemon, what a
  request does to that state, and what happens there between two queries of a waiting client.
\<close>

record 'd remote =
  rm_connection :: "adm_server \<Rightarrow> 'd \<Rightarrow> connection"
  rm_after :: "request \<Rightarrow> 'd \<Rightarrow> 'd"
  rm_between :: "'d \<Rightarrow> 'd"

text \<open>
  A client that waits for a transfer: \<open>wait_daemons\<close> are the states of the daemon at its successive queries.
\<close>

definition query_daemon :: "'d remote \<Rightarrow> adm_server \<Rightarrow> job \<Rightarrow> transfer \<Rightarrow> 'd \<Rightarrow> 'd" where
  "query_daemon R sv j t d =
     (if cn_lookup (rm_connection R sv d) then rm_after R (Req_query_transfer (job_id j) (tx_id t)) d else d)"

primrec wait_daemons :: "'d remote \<Rightarrow> adm_server \<Rightarrow> job \<Rightarrow> transfer \<Rightarrow> 'd \<Rightarrow> nat \<Rightarrow> 'd" where
  "wait_daemons R sv j t d 0 = d"
| "wait_daemons R sv j t d (Suc n) = rm_between R (query_daemon R sv j t (wait_daemons R sv j t d n))"

end
