(* ===== verification/SlurmPlugin.thy ===== *)
theory SlurmPlugin
  imports SlurmConfig Client Statements
begin

text \<open>
  The work of the Slurm plugin (\<open>src/plugins/slurm/slurmadmcli.c\<close>): the hook that starts a job registers a storage
  and the job with the daemon, deploys the storage and transfers the input datasets; the hook that
  ends it transfers the output datasets back, terminates the storage and removes the job.
\<close>

section \<open>The surroundings\<close>

text \<open>
  What Slurm and the operating system answer: the context, the identifiers (\<open>None\<close> when the call fails), the
  list of nodes in the two environments, the hosts of such a list, addresses of hosts, and which
  allocations succeed, by the name of what is created. The calls on files are of the operating system too: whether it lets
  the process open a directory, look at an entry, or remove a file or an empty directory, by path.
\<close>

record fs_calls =
  fs_opendir :: "string \<Rightarrow> bool"
  fs_stat :: "string \<Rightarrow> bool"
  fs_unlink :: "string \<Rightarrow> bool"
  fs_rmdir :: "string \<Rightarrow> bool"

record spank =
  sp_context :: spank_context
  sp_nodeid :: "u32 option"
  sp_jobid :: "u32 option"
  sp_own_nodelist :: "string option"
  sp_job_nodelist :: "string option"
  sp_hostlist :: "string \<Rightarrow> string list option"
  sp_addrinfo :: "string \<Rightarrow> (nat \<times> string) list option"
  sp_memory :: "string \<Rightarrow> bool"
  sp_files :: fs_calls

text \<open>The files below a directory: what \<open>readdir\<close> gives apart from \<open>.\<close> and \<open>..\<close>, without links.\<close>

datatype entry = E_file string | E_dir string "entry list"

text \<open>
  The global variables, the variables set for the job, the directories of the node and the daemon. The options
  are those the command line left.
\<close>

record 'd plugin =
  p_options :: plugin_options
  p_server :: "adm_server owned"
  p_nodes :: "adm_node list owned"
  p_job_resources :: "adm_job_resources owned"
  p_adhoc_resources :: "adm_adhoc_resources owned"
  p_adhoc_ctx :: "adm_adhoc_context owned"
  p_adhoc_storage :: "adm_adhoc_storage owned"
  p_reqs :: "adm_job_requirements owned"
  p_job :: "adm_job owned"
  p_transfer :: "adm_transfer owned"
  p_adhoc_path :: "string owned"
  p_job_env :: "(string \<times> string) list"
  p_dirs :: "string \<Rightarrow> entry list option"
  p_daemon :: 'd

definition initial_plugin :: "plugin_options \<Rightarrow> (string \<Rightarrow> entry list option) \<Rightarrow> 'd \<Rightarrow> 'd plugin" where
  "initial_plugin opts dirs d =
     \<lparr>p_options = opts, p_server = P_null, p_nodes = P_null, p_job_resources = P_null,
      p_adhoc_resources = P_null, p_adhoc_ctx = P_null, p_adhoc_storage = P_null, p_reqs = P_null,
      p_job = P_null, p_transfer = P_null, p_adhoc_path = P_null, p_job_env = [], p_dirs = dirs,
      p_daemon = d\<rparr>"

section \<open>Statements\<close>

type_synonym ('d, 'a) hook = "('d plugin, 'a) process"

text \<open>A pointer that is followed without looking.\<close>

fun follow :: "'a owned \<Rightarrow> cpp_error + 'a" where
  "follow P_null = Inl Null_dereference"
| "follow (P_live x) = Inr x"
| "follow P_freed = Inl Undefined_behaviour"

text \<open>A call of the client library: the request is sent when the address resolves.\<close>

definition call_h :: "'d remote \<Rightarrow> adm_server \<Rightarrow> request \<Rightarrow> (connection \<Rightarrow> 'a) \<Rightarrow> ('d, 'a) hook" where
  "call_h R sv q f s =
     (let cn = rm_connection R sv (p_daemon s)
      in Some (s\<lparr>p_daemon := (if cn_lookup cn then rm_after R q (p_daemon s) else p_daemon s)\<rparr>, Inr (f cn)))"

text \<open>The output of a successful call; anything else ends the function with -1.\<close>

definition need_success :: "cpp_error + error_code \<times> 'a option \<Rightarrow> ('d, 'a) hook" where
  "need_success r =
     bind_h (lift_h r) (\<lambda>(ec, out). if ec = ADM_SUCCESS then need_h out else fail_h)"

section \<open>Calls of the client library\<close>

definition register_storage_h ::
  "'d remote \<Rightarrow> adm_server \<Rightarrow> string \<Rightarrow> nat \<Rightarrow> adm_adhoc_context \<Rightarrow> adm_adhoc_resources \<Rightarrow>
   ('d, adm_adhoc_storage) hook" where
  "register_storage_h R sv name type ctx res =
     bind_h
       (call_h R sv
          (Req_register_adhoc_storage name (adhoc_type_of type) (adhoc_ctx_of_adm ctx)
             (adhoc_resources_of_adm res))
          (\<lambda>cn. ADM_register_adhoc_storage cn name type ctx res))
       need_success"

definition register_job_h ::
  "'d remote \<Rightarrow> adm_server \<Rightarrow> adm_job_resources \<Rightarrow> adm_job_requirements \<Rightarrow> u64 \<Rightarrow> ('d, adm_job) hook" where
  "register_job_h R sv res reqs slurm_id =
     bind_h (lift_h (requirements_of_adm reqs)) (\<lambda>r.
     bind_h
       (call_h R sv (Req_register_job (job_resources_of_adm res) r slurm_id)
          (\<lambda>cn. ADM_register_job cn res reqs slurm_id))
       need_success)"

definition deploy_h :: "'d remote \<Rightarrow> adm_server \<Rightarrow> adm_adhoc_storage \<Rightarrow> ('d, string) hook" where
  "deploy_h R sv a =
     bind_h
       (call_h R sv (Req_deploy_adhoc_storage (as_id a)) (\<lambda>cn. ADM_deploy_adhoc_storage cn a))
       need_success"

text \<open>The state of the daemon after the last query of a client that waits for a transfer.\<close>

partial_function (option) daemon_after_wait ::
  "'d remote \<Rightarrow> adm_server \<Rightarrow> job \<Rightarrow> transfer \<Rightarrow> 'd \<Rightarrow> 'd option" where
  "daemon_after_wait R sv j t d =
     (case c_query_transfer (rm_connection R sv d) j t of
        Inr (Inr st) \<Rightarrow>
          if still_active st then daemon_after_wait R sv j t (rm_between R (query_daemon R sv j t d))
          else Some (query_daemon R sv j t d)
      | _ \<Rightarrow> Some (query_daemon R sv j t d))"

definition transfer_h ::
  "'d remote \<Rightarrow> adm_server \<Rightarrow> adm_job \<Rightarrow> adm_dataset list \<Rightarrow> adm_dataset list \<Rightarrow> u64 \<Rightarrow> nat \<Rightarrow>
   ('d, adm_transfer) hook" where
  "transfer_h R sv j sources targets limit nlimit s =
     (let cn = rm_connection R sv (p_daemon s);
          mapping = transfer_mapping_code mapping_one_to_one;
          q = Req_transfer_datasets (job_id (job_of_adm j)) (convert_datasets sources)
                (convert_datasets targets) (convert_limit limit nlimit) (transfer_mapping_of mapping);
          d = (if cn_lookup cn then rm_after R q (p_daemon s) else p_daemon s);
          started = c_transfer_datasets cn (job_of_adm j) (convert_datasets sources)
                      (convert_datasets targets) (convert_limit limit nlimit) (transfer_mapping_of mapping);
          cns = (\<lambda>i. case started of
                   Inr (Inr t) \<Rightarrow> rm_connection R sv (wait_daemons R sv (job_of_adm j) t d i)
                 | _ \<Rightarrow> cn);
          after = (case started of
                     Inr (Inr t) \<Rightarrow> daemon_after_wait R sv (job_of_adm j) t d
                   | _ \<Rightarrow> Some d)
      in case (ADM_transfer_datasets_1 cn cns j sources targets limit nlimit mapping True, after) of
           (Some r, Some d) \<Rightarrow> need_success r (s\<lparr>p_daemon := d\<rparr>)
         | _ \<Rightarrow> None)"

section \<open>Starting a job\<close>

text \<open>An object is created and stored in its variable; a null pointer ends the function.\<close>

definition created :: "('a owned \<Rightarrow> 'd plugin \<Rightarrow> 'd plugin) \<Rightarrow> 'a option \<Rightarrow> ('d, 'a) hook" where
  "created put_p v =
     (case v of
        Some x \<Rightarrow> bind_h (put_h (put_p (P_live x))) (\<lambda>_. pure_h x)
      | None \<Rightarrow> bind_h (put_h (put_p P_null)) (\<lambda>_. fail_h))"

definition allocated :: "spank \<Rightarrow> string \<Rightarrow> 'a \<Rightarrow> 'a option" where
  "allocated sp name x = (if sp_memory sp name then Some x else None)"

text \<open>The first \<open>n\<close> elements of an array of the plugin; none of them is read when \<open>n\<close> is 0.\<close>

definition read_owned :: "'a list owned \<Rightarrow> nat \<Rightarrow> cpp_error + 'a list" where
  "read_owned p n =
     (if n = 0 then Inr []
      else bind_sum (follow p) (\<lambda>xs. if n \<le> length xs then Inr (take n xs) else Inl Out_of_bounds))"

text \<open>The number of nodes for the storage, a \<open>long\<close>, becomes a \<open>size_t\<close>.\<close>

definition adhoc_count :: "int \<Rightarrow> int \<Rightarrow> nat" where
  "adhoc_count requested nnodes = unat (word_of_int (if requested < nnodes then requested else nnodes) :: u64)"

definition server_address_of ::
  "spank \<Rightarrow> string \<Rightarrow> scord_server_info \<Rightarrow> adm_node list option \<Rightarrow> cpp_error + string option" where
  "server_address_of sp name info nodelist =
     margo_address_create (sp_addrinfo sp) (sp_memory sp name) (info_proto info)
       (map_option n_hostname (scord_nodelist_get_node nodelist 0)) (info_port info)"

text \<open>The sources and the targets of the first \<open>n\<close> routes of a list of the requirements.\<close>

definition stage_routes :: "adm_dataset_route list \<Rightarrow> nat \<Rightarrow> cpp_error + (adm_dataset list \<times> adm_dataset list)" where
  "stage_routes routes n =
     bind_sum (try_map (c_index routes) [0..<n]) (\<lambda>rs. Inr (map d_src rs, map d_dst rs))"

definition limit_count :: "int \<Rightarrow> nat" where
  "limit_count limit = (if limit > 0 then 1 else 0)"

text \<open>The variables set for the job once its storage is deployed.\<close>

definition setenv_h :: "string \<Rightarrow> string \<Rightarrow> ('d, unit) hook" where
  "setenv_h name value = put_h (\<lambda>s. s\<lparr>p_job_env := env_set name value (p_job_env s)\<rparr>)"

definition set_job_env :: "nat \<Rightarrow> string \<Rightarrow> ('d, unit) hook" where
  "set_job_env type path =
     bind_h (if type = adhoc_type_code adhoc_gekkofs then
               bind_h (setenv_h ''ADHOC_TYPE'' ''gekkofs'')
                 (\<lambda>_. setenv_h ''LIBGKFS_HOSTS_FILE'' ''/tmp/gekkofs/gkfs_hosts.txt'')
             else if type = adhoc_type_code adhoc_expand then setenv_h ''ADHOC_TYPE'' ''expand''
             else if type = adhoc_type_code adhoc_dataclay then setenv_h ''ADHOC_TYPE'' ''dataclay''
             else if type = adhoc_type_code adhoc_hercules then setenv_h ''ADHOC_TYPE'' ''hercules''
             else pure_h ())
       (\<lambda>_. setenv_h ''ADHOC_PATH'' path)"

text \<open>
  Up to the deployment, in the order of the code. The objects made before a failure stay in their
  variables: the statements that would destroy them are commented out.
\<close>

definition create_server :: "spank \<Rightarrow> scord_plugin_config \<Rightarrow> ('d, adm_server) hook" where
  "create_server sp cfg =
     bind_h (lift_h (info_proto (scord_info cfg))) (\<lambda>proto.
     bind_h (lift_h (info_addr (scord_info cfg))) (\<lambda>addr.
     created (\<lambda>p s. s\<lparr>p_server := p\<rparr>)
       (allocated sp ''server'' \<lparr>s_protocol = proto, s_address = addr\<rparr>)))"

definition create_resources :: "spank \<Rightarrow> adm_node list option \<Rightarrow> ('d, adm_job_resources \<times> adm_adhoc_resources) hook" where
  "create_resources sp nodelist =
     (let nnodes = scord_nodelist_get_nodecount nodelist
      in if nnodes \<le> 0 then fail_h else
         bind_h (created (\<lambda>p s. s\<lparr>p_nodes := p\<rparr>) (scord_nodelist_get_nodes nodelist)) (\<lambda>nodes.
         bind_h (created (\<lambda>p s. s\<lparr>p_job_resources := p\<rparr>)
                   (allocated sp ''job_resources'' \<lparr>jr_nodes = nodes\<rparr>)) (\<lambda>job_res.
         bind_h (get_h (\<lambda>s. adhoc_count (adhoc_nnodes (p_options s)) nnodes)) (\<lambda>n.
         bind_h (lift_h (if n \<le> length nodes then Inr (take n nodes) else Inl Out_of_bounds)) (\<lambda>first_nodes.
         bind_h (created (\<lambda>p s. s\<lparr>p_adhoc_resources := p\<rparr>)
                   (allocated sp ''adhoc_resources'' \<lparr>ar_nodes = first_nodes\<rparr>)) (\<lambda>adhoc_res.
         pure_h (job_res, adhoc_res)))))))"

definition create_context :: "spank \<Rightarrow> string \<Rightarrow> string option \<Rightarrow> ('d, adm_adhoc_context) hook" where
  "create_context sp ctl cargo =
     bind_h (get_h p_options) (\<lambda>opts.
     created (\<lambda>p s. s\<lparr>p_adhoc_ctx := p\<rparr>)
       (case cargo of
          None \<Rightarrow> None
        | Some cargo \<Rightarrow>
            allocated sp ''adhoc_context''
              \<lparr>c_ctl_address = ctl, c_stager_address = cargo, c_mode = adhoc_mode opts,
               c_access = access_type_code access_read_write,
               c_walltime = word_of_int (adhoc_walltime opts), c_should_bg_flush = False\<rparr>))"

definition create_requirements :: "spank \<Rightarrow> adm_adhoc_storage \<Rightarrow> ('d, adm_job_requirements) hook" where
  "create_requirements sp storage =
     bind_h (get_h p_options) (\<lambda>opts.
     bind_h (lift_h (read_owned (input_datasets opts) (input_datasets_count opts))) (\<lambda>ins.
     bind_h (lift_h (read_owned (output_datasets opts) (output_datasets_count opts))) (\<lambda>outs.
     bind_h (lift_h (read_owned (expected_output_datasets opts) (expected_output_datasets_count opts))) (\<lambda>exps.
     created (\<lambda>p s. s\<lparr>p_reqs := p\<rparr>)
       (if known_adhoc_type (as_type storage)
        then allocated sp ''job_requirements''
               \<lparr>r_inputs = ins, r_outputs = outs, r_expected_outputs = exps, r_adhoc_storage = Some storage\<rparr>
        else None)))))"

definition stage_in :: "'d remote \<Rightarrow> adm_server \<Rightarrow> adm_job \<Rightarrow> adm_job_requirements \<Rightarrow> ('d, unit) hook" where
  "stage_in R server job reqs =
     bind_h (get_h p_options) (\<lambda>opts.
     when_h (input_datasets_count opts > 0)
       (bind_h (lift_h (stage_routes (r_inputs reqs) (input_datasets_count opts))) (\<lambda>(sources, targets).
        bind_h (transfer_h R server job sources targets (word_of_int (transfer_limit opts))
                  (limit_count (transfer_limit opts))) (\<lambda>t.
        put_h (\<lambda>s. s\<lparr>p_transfer := P_live t\<rparr>)))))"

definition scord_register_job ::
  "spank \<Rightarrow> 'd remote \<Rightarrow> scord_plugin_config \<Rightarrow> adm_node list option \<Rightarrow> u32 \<Rightarrow> ('d, unit) hook" where
  "scord_register_job sp R cfg nodelist jobid =
     bind_h (lift_h (server_address_of sp ''scordctl_addr'' (scordctl_info cfg) nodelist)) (\<lambda>ctl.
     bind_h (need_h ctl) (\<lambda>ctl.
     bind_h (lift_h (server_address_of sp ''cargo_addr'' (cargo_info cfg) nodelist)) (\<lambda>cargo.
     bind_h (create_server sp cfg) (\<lambda>server.
     bind_h (create_resources sp nodelist) (\<lambda>(job_res, adhoc_res).
     bind_h (create_context sp ctl cargo) (\<lambda>ctx.
     bind_h (get_h (\<lambda>s. opt_adhoc_type (p_options s))) (\<lambda>type.
     bind_h (register_storage_h R server ''mystorage'' type ctx adhoc_res) (\<lambda>storage.
     bind_h (put_h (\<lambda>s. s\<lparr>p_adhoc_storage := P_live storage\<rparr>)) (\<lambda>_.
     bind_h (create_requirements sp storage) (\<lambda>reqs.
     bind_h (register_job_h R server job_res reqs (ucast jobid)) (\<lambda>job.
     bind_h (put_h (\<lambda>s. s\<lparr>p_job := P_live job\<rparr>)) (\<lambda>_.
     bind_h (deploy_h R server storage) (\<lambda>path.
     bind_h (put_h (\<lambda>s. s\<lparr>p_adhoc_path := P_live path\<rparr>)) (\<lambda>_.
     bind_h (set_job_env type path) (\<lambda>_.
     stage_in R server job reqs)))))))))))))))"

text \<open>
  The hook. The list of nodes is destroyed at the end, and with it the array the variable \<open>nodes\<close> leads to.
  The address of the controller in the configuration of the hook is null there, as the one computed is
  in a copy.
\<close>

definition destroy_nodelist :: "('d, unit) hook" where
  "destroy_nodelist = put_h (\<lambda>s. s\<lparr>p_nodes := (if p_nodes s = P_null then P_null else P_freed)\<rparr>)"

definition spank_hosts :: "spank \<Rightarrow> string list option" where
  "spank_hosts sp = get_slurm_hostlist (sp_context sp) (sp_own_nodelist sp) (sp_job_nodelist sp) (sp_hostlist sp)"

definition slurm_spank_user_init ::
  "spank \<Rightarrow> plugin_defaults \<Rightarrow> 'd remote \<Rightarrow> string list \<Rightarrow> ('d, unit) hook" where
  "slurm_spank_user_init sp b R av =
     bind_h (get_h (\<lambda>s. scord_flag (p_options s))) (\<lambda>flag.
     if \<not> flag then pure_h () else
     bind_h (need_h (sp_nodeid sp)) (\<lambda>nodeid.
     if nodeid \<noteq> 0 then pure_h () else
     bind_h (lift_h (process_config av (default_cfg b))) (\<lambda>(cfg, rc).
     if rc \<noteq> 0 then fail_h else
     bind_h (need_h (sp_jobid sp)) (\<lambda>jobid.
     bind_h (need_h (spank_hosts sp)) (\<lambda>hostlist.
     bind_h (need_h (scord_nodelist_create (sp_memory sp) hostlist)) (\<lambda>nodes.
     finally_h (scord_register_job sp R cfg (Some nodes) jobid) destroy_nodelist))))))"

section \<open>Ending a job\<close>

text \<open>
  \<open>remove_dir_content\<close>, with the buffer of 300 characters for the path of an entry (\<open>..\<close> is one of them). What the
  system does not let the process remove stays. The path of a subdirectory is given to \<open>unlinkat\<close> together
  with the open directory: an absolute path counts as it is, a relative one from that directory, where it leads to
  nothing (unless the directory contains its own relative path again, which is left out), and the call fails.
\<close>

definition name_fits :: "string \<Rightarrow> string \<Rightarrow> bool" where
  "name_fits path name \<longleftrightarrow> length path + 1 + length name + 1 \<le> 300"

definition unlinkat_dir :: "fs_calls \<Rightarrow> string \<Rightarrow> entry list \<Rightarrow> bool" where
  "unlinkat_dir fs fname sub \<longleftrightarrow> is_prefix ''/'' fname \<and> sub = [] \<and> fs_rmdir fs fname"

fun remove_entries :: "fs_calls \<Rightarrow> string \<Rightarrow> entry list \<Rightarrow> cpp_error + entry list" where
  "remove_entries fs path [] = (if name_fits path ''..'' then Inr [] else Inl Out_of_bounds)"
| "remove_entries fs path (E_file name # es) =
     (if \<not> name_fits path name then Inl Out_of_bounds
      else bind_sum (remove_entries fs path es) (\<lambda>es.
        let fname = path @ ''/'' @ name
        in Inr (if fs_stat fs fname \<and> fs_unlink fs fname then es else E_file name # es)))"
| "remove_entries fs path (E_dir name sub # es) =
     (if \<not> name_fits path name then Inl Out_of_bounds
      else let fname = path @ ''/'' @ name in
        bind_sum
          (if \<not> fs_stat fs fname then Inr [E_dir name sub]
           else if unlinkat_dir fs fname sub then Inr []
           else bind_sum (if fs_opendir fs fname then remove_entries fs fname sub else Inr sub) (\<lambda>sub.
             Inr (if unlinkat_dir fs fname sub then [] else [E_dir name sub])))
          (\<lambda>kept. bind_sum (remove_entries fs path es) (\<lambda>es. Inr (kept @ es))))"

definition remove_dir_content :: "fs_calls \<Rightarrow> string \<Rightarrow> ('d, unit) hook" where
  "remove_dir_content fs path =
     bind_h (get_h (\<lambda>s. if fs_opendir fs path then p_dirs s path else None)) (\<lambda>dir.
     case dir of
       None \<Rightarrow> pure_h ()
     | Some es \<Rightarrow>
         bind_h (lift_h (remove_entries fs path es)) (\<lambda>es. put_h (\<lambda>s. s\<lparr>p_dirs := (p_dirs s)(path \<mapsto> es)\<rparr>)))"

definition rmdir :: "fs_calls \<Rightarrow> string \<Rightarrow> ('d, unit) hook" where
  "rmdir fs path =
     put_h (\<lambda>s. if p_dirs s path = Some [] \<and> fs_rmdir fs path then s\<lparr>p_dirs := (p_dirs s)(path := None)\<rparr> else s)"

definition stage_out :: "'d remote \<Rightarrow> ('d, unit) hook" where
  "stage_out R =
     bind_h (get_h p_options) (\<lambda>opts.
     when_h (output_datasets_count opts > 0)
       (bind_h (get_h p_reqs) (\<lambda>reqs. bind_h (lift_h (follow reqs)) (\<lambda>reqs.
        bind_h (lift_h (stage_routes (r_outputs reqs) (output_datasets_count opts))) (\<lambda>(sources, targets).
        bind_h (get_h p_server) (\<lambda>server. bind_h (lift_h (follow server)) (\<lambda>server.
        bind_h (get_h p_job) (\<lambda>job. bind_h (lift_h (follow job)) (\<lambda>job.
        bind_h (transfer_h R server job sources targets (word_of_int (transfer_limit opts))
                  (limit_count (transfer_limit opts))) (\<lambda>t.
        put_h (\<lambda>s. s\<lparr>p_transfer := P_live t\<rparr>)))))))))))"

text \<open>The codes of the two calls are not looked at.\<close>

definition end_job :: "spank \<Rightarrow> 'd remote \<Rightarrow> ('d, unit) hook" where
  "end_job sp R =
     bind_h (stage_out R) (\<lambda>_.
     bind_h (get_h p_server) (\<lambda>server. bind_h (lift_h (follow server)) (\<lambda>server.
     bind_h (get_h p_adhoc_storage) (\<lambda>storage. bind_h (lift_h (follow storage)) (\<lambda>storage.
     bind_h (call_h R server (Req_terminate_adhoc_storage (as_id storage))
               (\<lambda>cn. ADM_terminate_adhoc_storage cn storage)) (\<lambda>_.
     bind_h (get_h p_adhoc_path) (\<lambda>path. bind_h (lift_h (follow path)) (\<lambda>path.
     bind_h (remove_dir_content (sp_files sp) path) (\<lambda>_.
     bind_h (rmdir (sp_files sp) path) (\<lambda>_.
     bind_h (get_h p_job) (\<lambda>job. bind_h (lift_h (follow job)) (\<lambda>job.
     bind_h (call_h R server (Req_remove_job (j_id job)) (\<lambda>cn. ADM_remove_job cn job)) (\<lambda>_.
     pure_h ())))))))))))))"

definition release_global :: "('d plugin \<Rightarrow> 'a owned) \<Rightarrow> ('a owned \<Rightarrow> 'd plugin \<Rightarrow> 'd plugin) \<Rightarrow> ('d, unit) hook" where
  "release_global read put_p =
     bind_h (get_h read) (\<lambda>p. bind_h (lift_h (free_owned p)) (\<lambda>p. put_h (put_p p)))"

definition release_globals :: "('d, unit) hook" where
  "release_globals =
     bind_h (release_global p_adhoc_path (\<lambda>p s. s\<lparr>p_adhoc_path := p\<rparr>)) (\<lambda>_.
     bind_h (release_global p_job (\<lambda>p s. s\<lparr>p_job := p\<rparr>)) (\<lambda>_.
     bind_h (release_global p_reqs (\<lambda>p s. s\<lparr>p_reqs := p\<rparr>)) (\<lambda>_.
     bind_h (release_global p_adhoc_storage (\<lambda>p s. s\<lparr>p_adhoc_storage := p\<rparr>)) (\<lambda>_.
     bind_h (release_global p_adhoc_ctx (\<lambda>p s. s\<lparr>p_adhoc_ctx := p\<rparr>)) (\<lambda>_.
     bind_h (release_global p_adhoc_resources (\<lambda>p s. s\<lparr>p_adhoc_resources := p\<rparr>)) (\<lambda>_.
     bind_h (release_global p_job_resources (\<lambda>p s. s\<lparr>p_job_resources := p\<rparr>)) (\<lambda>_.
     release_global p_server (\<lambda>p s. s\<lparr>p_server := p\<rparr>))))))))"

definition scord_unregister_job ::
  "spank \<Rightarrow> 'd remote \<Rightarrow> scord_plugin_config \<Rightarrow> adm_node list option \<Rightarrow> ('d, unit) hook" where
  "scord_unregister_job sp R cfg nodelist =
     bind_h (lift_h (server_address_of sp ''scordctl_addr'' (scordctl_info cfg) nodelist)) (\<lambda>ctl.
     bind_h (need_h ctl) (\<lambda>_.
     bind_h (lift_h (server_address_of sp ''cargo_addr'' (cargo_info cfg) nodelist)) (\<lambda>_.
     finally_h (end_job sp R) release_globals)))"

text \<open>A call whose code is not looked at.\<close>

definition ignore_code :: "('d, unit) hook \<Rightarrow> ('d, unit) hook" where
  "ignore_code m s =
     (case m s of Some (s, Inl (Leave c)) \<Rightarrow> Some (s, Inr ()) | r \<Rightarrow> r)"

text \<open>The hook returns the variable \<open>ec\<close>, which only the failure to make the list of nodes writes.\<close>

definition slurm_spank_exit ::
  "spank \<Rightarrow> plugin_defaults \<Rightarrow> 'd remote \<Rightarrow> string list \<Rightarrow> ('d, unit) hook" where
  "slurm_spank_exit sp b R av =
     bind_h (get_h (\<lambda>s. scord_flag (p_options s))) (\<lambda>flag.
     if \<not> flag then pure_h () else
     if sp_context sp \<noteq> S_CTX_REMOTE then pure_h () else
     bind_h (need_h (sp_nodeid sp)) (\<lambda>nodeid.
     if nodeid \<noteq> 0 then pure_h () else
     bind_h (lift_h (process_config av (default_cfg b))) (\<lambda>(cfg, rc).
     if rc \<noteq> 0 then fail_h else
     bind_h (need_h (sp_jobid sp)) (\<lambda>jobid.
     bind_h (need_h (spank_hosts sp)) (\<lambda>hostlist.
     bind_h (need_h (scord_nodelist_create (sp_memory sp) hostlist)) (\<lambda>nodes.
     bind_h (ignore_code (scord_unregister_job sp R cfg (Some nodes))) (\<lambda>_.
     stop_h (Leave None))))))))"

text \<open>What Slurm gets from a hook: its code, unless the process faults or the hook never returns.\<close>

definition run_hook :: "('d, unit) hook \<Rightarrow> 'd plugin \<Rightarrow> ('d plugin \<times> (cpp_error + int option)) option" where
  "run_hook m s =
     (case m s of
        None \<Rightarrow> None
      | Some (s, Inr _) \<Rightarrow> Some (s, Inr (Some 0))
      | Some (s, Inl (Leave c)) \<Rightarrow> Some (s, Inr c)
      | Some (s, Inl (Crash e)) \<Rightarrow> Some (s, Inl e))"

end
