(* ===== verification/Service.thy ===== *)
theory Service
  imports Statements Served
begin

text \<open>
  What a client needs of the daemon, as a locale: connections and requests that behave like those of the
  database, as long as the daemon has room. The daemon provides it, and so does the database itself.
\<close>

section \<open>Connections to a database\<close>

definition db_connect :: "bool \<Rightarrow> 'h world \<Rightarrow> 'h database \<Rightarrow> connection" where
  "db_connect logging w d =
     \<lparr>cn_lookup = True, cn_logging = logging,
      cn_generic = (\<lambda>q. answer_generic (snd (serve w q d))),
      cn_id = (\<lambda>q. answer_id (snd (serve w q d))),
      cn_info = (\<lambda>q. answer_info (snd (serve w q d))),
      cn_path = (\<lambda>q. answer_path (snd (serve w q d))),
      cn_state = (\<lambda>q. answer_state (snd (serve w q d)))\<rparr>"

lemma db_connect_simps [simp]:
  "cn_lookup (db_connect l w d)" "cn_logging (db_connect l w d) = l"
  "cn_generic (db_connect l w d) q = answer_generic (snd (serve w q d))"
  "cn_id (db_connect l w d) q = answer_id (snd (serve w q d))"
  "cn_info (db_connect l w d) q = answer_info (snd (serve w q d))"
  "cn_path (db_connect l w d) q = answer_path (snd (serve w q d))"
  "cn_state (db_connect l w d) q = answer_state (snd (serve w q d))"
  by (simp_all add: db_connect_def)

lemma connect_db:
  assumes "scord_inv s" "\<And>u. w_meanwhile w u = u"
  shows "connect l w s = db_connect l w (db_of s)"
proof -
  have "snd (handle w q s) = snd (serve w q (db_of s))" for q
    using seen_handle [OF assms, of q] by (metis seen_def snd_conv)
  then show ?thesis by (simp add: connect_def db_connect_def)
qed

section \<open>Requests that keep the tables\<close>

definition same_tables :: "'h database \<Rightarrow> 'h database \<Rightarrow> bool" where
  "same_tables d d' \<longleftrightarrow>
     db_jobs d' = db_jobs d \<and> db_slurm d' = db_slurm d \<and> db_next_job d' = db_next_job d \<and>
     db_storages d' = db_storages d \<and> db_next_storage d' = db_next_storage d \<and> db_redis d' = db_redis d"

lemma same_tables_simps [simp]:
  "same_tables d d" "same_tables d (take_call d)" "same_tables d (fst (log_entry w k kvs r (take_call d)))"
  "same_tables d (fst (log_client w st kvs r (take_call d)))"
  by (simp_all add: same_tables_def take_call_def log_entry_def log_client_def split: option.split)

lemma deploy_same_tables: "same_tables d (fst (db_deploy_adhoc_storage w i d))"
  by (simp add: db_deploy_adhoc_storage_def Let_def split: option.split)

lemma terminate_same_tables: "same_tables d (fst (db_terminate_adhoc_storage w i d))"
  by (simp add: db_terminate_adhoc_storage_def Let_def split: option.split)

section \<open>Room for more objects\<close>

definition has_room :: "nat \<Rightarrow> 'h scord \<Rightarrow> bool" where
  "has_room k s \<longleftrightarrow>
     length (job_objs (m_job_manager s)) + k < 2 ^ 64 \<and> length (adhoc_objs (m_adhoc_manager s)) + k < 2 ^ 64 \<and>
     length (pfs_objs (m_pfs_manager s)) + k < 2 ^ 64 \<and> length (tx_objs (m_transfer_manager s)) + k < 2 ^ 64"

lemma has_room_bounded: "has_room k s \<Longrightarrow> bounded s"
  by (auto simp: has_room_def bounded_def)

definition grows_one :: "'h scord \<Rightarrow> 'h scord \<Rightarrow> bool" where
  "grows_one s t \<longleftrightarrow>
     length (job_objs (m_job_manager t)) \<le> Suc (length (job_objs (m_job_manager s))) \<and>
     length (adhoc_objs (m_adhoc_manager t)) \<le> Suc (length (adhoc_objs (m_adhoc_manager s))) \<and>
     length (pfs_objs (m_pfs_manager t)) \<le> Suc (length (pfs_objs (m_pfs_manager s))) \<and>
     length (tx_objs (m_transfer_manager t)) \<le> Suc (length (tx_objs (m_transfer_manager s)))"

lemma has_room_Suc: "has_room (Suc k) s \<Longrightarrow> grows_one s t \<Longrightarrow> has_room k t"
  by (auto simp: has_room_def grows_one_def)

lemma job_op_lengths:
  "length (job_objs (fst (job_create sl res reqs ap jm))) \<le> Suc (length (job_objs jm))"
  "length (job_objs (fst (job_update k res jm))) = length (job_objs jm)"
  "job_objs (fst (job_remove k jm)) = job_objs jm"
  by (auto simp: job_op_defs split: option.split prod.split)

lemma adhoc_op_lengths:
  "length (adhoc_objs (fst (adhoc_create u ty n c r am))) \<le> Suc (length (adhoc_objs am))"
  "length (adhoc_objs (fst (adhoc_update k r am))) = length (adhoc_objs am)"
  "length (adhoc_objs (fst (adhoc_remove k am))) = length (adhoc_objs am)"
  "length (adhoc_objs (fst (adhoc_ptr_add_client_info a p am))) = length (adhoc_objs am)"
  "length (adhoc_objs (fst (adhoc_remove_client_info k am))) = length (adhoc_objs am)"
  by (auto simp: adhoc_op_defs adhoc_ptr_add_client_info_def adhoc_remove_client_info_def
      adhoc_ptr_remove_client_info_def split: option.splits sum.splits prod.splits)

lemma pfs_op_lengths:
  "length (pfs_objs (fst (pfs_create ty n c pm))) \<le> Suc (length (pfs_objs pm))"
  "length (pfs_objs (fst (pfs_update k c pm))) = length (pfs_objs pm)"
  "length (pfs_objs (fst (pfs_remove k pm))) = length (pfs_objs pm)"
  by (auto simp: pfs_op_defs split: option.splits prod.splits)

lemmas op_lengths = job_op_lengths adhoc_op_lengths pfs_op_lengths

lemma fst_reply_with [simp]: "fst (reply_with f x) = fst x"
  by (simp add: reply_with_def)

lemma grows_one_calls: "grows_one (s\<lparr>sc_rpc_id := c\<rparr>) t \<longleftrightarrow> grows_one s t"
  by (simp add: grows_one_def)

lemma grows_one_log: "grows_one s (t\<lparr>redis_log := l\<rparr>) \<longleftrightarrow> grows_one s t"
  by (simp add: grows_one_def)

lemma grows_one_hmset: "grows_one s t \<Longrightarrow> grows_one s (fst (hmset w k kvs t))"
  by (simp add: hmset_def grows_one_log)

lemma grows_one_managers [simp]:
  "grows_one s s" "grows_one s (s\<lparr>sc_rpc_id := c\<rparr>)"
  "grows_one s (s\<lparr>sc_rpc_id := c, m_job_manager := fst (job_update k res (m_job_manager s))\<rparr>)"
  "grows_one s (s\<lparr>sc_rpc_id := c, m_adhoc_manager := fst (adhoc_create u ty n x r (m_adhoc_manager s))\<rparr>)"
  "grows_one s (s\<lparr>sc_rpc_id := c, m_adhoc_manager := fst (adhoc_update k r (m_adhoc_manager s))\<rparr>)"
  "grows_one s (s\<lparr>sc_rpc_id := c, m_adhoc_manager := fst (adhoc_remove k (m_adhoc_manager s))\<rparr>)"
  "grows_one s (s\<lparr>sc_rpc_id := c, m_pfs_manager := fst (pfs_create pty n pc (m_pfs_manager s))\<rparr>)"
  "grows_one s (s\<lparr>sc_rpc_id := c, m_pfs_manager := fst (pfs_update k pc (m_pfs_manager s))\<rparr>)"
  "grows_one s (s\<lparr>sc_rpc_id := c, m_pfs_manager := fst (pfs_remove k (m_pfs_manager s))\<rparr>)"
  by (simp_all add: grows_one_def op_lengths)

lemma grows_one_register_job: "grows_one s (fst (h_register_job w res reqs sl s))"
  using job_op_lengths(1) [of sl res reqs _ "m_job_manager s"]
  by (auto simp: h_register_job_def handler_simps grows_one_def register_job_client_def op_lengths
      register_job_redis_def hmset_def split: sum.splits option.splits)

lemma grows_one_remove_job: "grows_one s (fst (h_remove_job w k s))"
  by (auto simp: h_remove_job_def handler_simps grows_one_def op_lengths split: sum.splits option.splits)

lemma grows_one_jobs: "grows_one s (fst (h_ping w s))" "grows_one s (fst (h_query w sl s))"
    "grows_one s (fst (h_update_job w k res s))"
  by (auto simp: h_ping_def h_query_def h_update_job_def handler_simps
      split: sum.splits option.splits)

lemma grows_one_storages: "grows_one s (fst (h_register_adhoc_storage w n ty x r s))"
    "grows_one s (fst (h_remove_adhoc_storage w k s))" "grows_one s (fst (h_register_pfs_storage w n pty pc s))"
    "grows_one s (fst (h_update_pfs_storage w k pc s))" "grows_one s (fst (h_remove_pfs_storage w k s))"
  by (auto simp: h_register_adhoc_storage_def h_remove_adhoc_storage_def h_register_pfs_storage_def
      h_update_pfs_storage_def h_remove_pfs_storage_def handler_simps split: sum.splits)

lemma grows_one_waiting:
  assumes q: "\<And>u. w_meanwhile w u = u"
  shows "grows_one s (fst (h_update_adhoc_storage w k r s))" "grows_one s (fst (h_deploy_adhoc_storage w k s))"
    "grows_one s (fst (h_terminate_adhoc_storage w k s))"
  using q by (auto simp: h_update_adhoc_storage_def h_deploy_adhoc_storage_def h_terminate_adhoc_storage_def
      update_helper_def deploy_helper_def terminate_helper_def handler_simps grows_one_def hmset_def op_lengths
      split: sum.splits option.splits)

lemma grows_one_transfer:
  assumes q: "\<And>u. w_meanwhile w u = u"
  shows "grows_one s (fst (h_transfer_datasets w j a b l m s))" "grows_one s (fst (h_query_transfer w k t s))"
  using q by (auto simp: h_transfer_datasets_def h_query_transfer_def handler_simps grows_one_def transfer_op_defs
      split: sum.splits option.splits)

lemma handle_grows_one:
  assumes "\<And>u. w_meanwhile w u = u"
  shows "grows_one s (fst (handle w req s))"
  using assms
  by (cases req) (simp_all add: grows_one_register_job grows_one_remove_job grows_one_jobs grows_one_storages
      grows_one_waiting grows_one_transfer)

section \<open>The service\<close>

text \<open>
  \<open>db\<close> reads the state of the service as a database; \<open>room k\<close> says that it can take \<open>k\<close> more requests. The
  world is what the service meets outside.
\<close>

locale scord_service =
  fixes R :: "'d remote" and db :: "'d \<Rightarrow> 'h database" and w :: "'h world" and logging :: bool
    and room :: "nat \<Rightarrow> 'd \<Rightarrow> bool"
  assumes connects: "room k d \<Longrightarrow> rm_connection R sv d = db_connect logging w (db d)"
    and room_after: "room (Suc k) d \<Longrightarrow> room k (rm_after R q d)"
    and serves: "room (Suc k) d \<Longrightarrow> db (rm_after R q d) = fst (serve w q (db d))"
begin

end

section \<open>Services\<close>

text \<open>The daemon, alone with the client: no other request is handled while one of its requests waits.\<close>

definition alone :: "'h world \<Rightarrow> 'h world" where
  "alone w = w\<lparr>w_meanwhile := (\<lambda>u. u)\<rparr>"

definition daemon_remote :: "bool \<Rightarrow> 'h world \<Rightarrow> ('h scord \<Rightarrow> 'h scord) \<Rightarrow> 'h scord remote" where
  "daemon_remote logging w later =
     \<lparr>rm_connection = (\<lambda>sv s. connect logging (alone w) s),
      rm_after = (\<lambda>q s. fst (handle (alone w) q s)), rm_between = later\<rparr>"

definition ready_for :: "nat \<Rightarrow> 'h scord \<Rightarrow> bool" where
  "ready_for k s \<longleftrightarrow> scord_inv s \<and> has_room k s"

lemma ready_for_after:
  assumes "ready_for (Suc k) s" "\<And>u. w_meanwhile w u = u"
  shows "ready_for k (fst (handle w q s))"
proof -
  have room: "has_room k (fst (handle w q s))"
    using assms handle_grows_one [of w s q] by (auto simp: ready_for_def intro: has_room_Suc)
  moreover have "ok_step s (fst (handle w q s))"
    using assms(2) by (intro handle_step) (simp add: meanwhile_ok_def)
  ultimately show ?thesis
    using assms(1) has_room_bounded [OF room] by (simp add: ready_for_def ok_step_def)
qed

interpretation sv_daemon: scord_service "daemon_remote logging w later" db_of "alone w" logging ready_for
proof
  have q: "w_meanwhile (alone w) u = u" for u by (simp add: alone_def)
  show "rm_connection (daemon_remote logging w later) sv d = db_connect logging (alone w) (db_of d)"
    if "ready_for k d" for k d sv
    using that connect_db [OF _ q] by (simp add: daemon_remote_def ready_for_def)
  show "ready_for k (rm_after (daemon_remote logging w later) r d)" if "ready_for (Suc k) d" for k d r
    using ready_for_after [OF that q] by (simp add: daemon_remote_def)
  show "db_of (rm_after (daemon_remote logging w later) r d) = fst (serve (alone w) r (db_of d))"
    if "ready_for (Suc k) d" for k d r
    using that seen_handle [OF _ q, of d r] fst_conv
    by (simp add: daemon_remote_def ready_for_def) (metis seen_def fst_conv)
qed

definition database_remote :: "bool \<Rightarrow> 'h world \<Rightarrow> 'h database remote" where
  "database_remote logging w =
     \<lparr>rm_connection = (\<lambda>sv d. db_connect logging w d), rm_after = (\<lambda>q d. fst (serve w q d)),
      rm_between = (\<lambda>d. d)\<rparr>"

interpretation sv_database: scord_service "database_remote logging w" "\<lambda>d. d" w logging "\<lambda>k d. True"
  by unfold_locales (simp_all add: database_remote_def)

end
