(* ===== verification/SlurmService.thy ===== *)
theory SlurmService
  imports SlurmPlugin Service
begin

text \<open>The calls of the Slurm plugin, on a service that behaves like the database.\<close>

section \<open>Statements\<close>

lemma need_success_simps [hook_simps]:
  "need_success (Inr (ADM_SUCCESS, Some x)) = pure_h x"
  "ec \<noteq> ADM_SUCCESS \<Longrightarrow> need_success (Inr (ec, v)) = fail_h"
  by (simp_all add: need_success_def lift_need_simps bind_h_simps del: hook_ends)

lemma bind_created [hook_simps]:
  "bind_h (created put_p (Some x)) g s = g x (put_p (P_live x) s)"
  "bind_h (created put_p None) g s = Some (put_p P_null s, Inl (Leave (Some (- 1))))"
  by (simp_all add: created_def bind_h_simps bind_h_assoc bind_fail)

section \<open>The service\<close>

context scord_service
begin

lemma call_served:
  "room (Suc k) (p_daemon s) \<Longrightarrow>
   call_h R sv q f s =
     Some (s\<lparr>p_daemon := rm_after R q (p_daemon s)\<rparr>, Inr (f (db_connect logging w (db (p_daemon s)))))"
  by (simp add: call_h_def connects)

lemma bind_call:
  "room (Suc k) (p_daemon s) \<Longrightarrow>
   bind_h (call_h R sv q f) g s =
     g (f (db_connect logging w (db (p_daemon s)))) (s\<lparr>p_daemon := rm_after R q (p_daemon s)\<rparr>)"
  by (simp add: bind_h_def call_served)

lemma register_storage_served:
  assumes "room (Suc k) (p_daemon s)"
  shows "\<exists>d. register_storage_h R sv name ty ctx res s = Some (s\<lparr>p_daemon := d\<rparr>,
      Inr (adm_of_adhoc_storage \<lparr>adhoc_kind = adhoc_type_of ty, adhoc_name = name,
        adhoc_id = db_next_storage (db (p_daemon s)), adhoc_context = adhoc_ctx_of_adm ctx,
        adhoc_res = adhoc_resources_of_adm res\<rparr>)) \<and>
    room k d \<and>
    db d = fst (db_register_adhoc_storage w name (adhoc_type_of ty) (adhoc_ctx_of_adm ctx)
      (adhoc_resources_of_adm res) (db (p_daemon s)))"
  using room_after [OF assms] serves [OF assms]
  by (intro exI [of _ "rm_after R (Req_register_adhoc_storage name (adhoc_type_of ty) (adhoc_ctx_of_adm ctx)
        (adhoc_resources_of_adm res)) (p_daemon s)"])
    (simp add: register_storage_h_def bind_call [OF assms] hook_simps
      ADM_register_adhoc_storage_def c_register_adhoc_storage_def call_value_def answer_id_def
      db_register_adhoc_storage_def db_reply_def response_value_def out_param_def Let_def)

lemma register_job_served:
  assumes room: "room (Suc k) (p_daemon s)" and r: "requirements_of_adm reqs = Inr r"
    and a: "req_adhoc_storage r = Some a" "db_storages (db (p_daemon s)) (adhoc_id a) \<noteq> None"
    and redis: "db_redis (db (p_daemon s)) \<Longrightarrow> w_redis_ok w"
  shows "\<exists>d. register_job_h R sv res reqs sl s = Some (s\<lparr>p_daemon := d\<rparr>,
      Inr \<lparr>j_id = db_next_job (db (p_daemon s)), j_slurm_id = sl\<rparr>) \<and>
    room k d \<and> db d = fst (db_register_job w (job_resources_of_adm res) r sl (db (p_daemon s)))"
proof -
  have "snd (db_register_job w (job_resources_of_adm res) r sl (db (p_daemon s))) =
      Inr (mk_response_with (db_calls (db (p_daemon s))) ADM_SUCCESS (Some (db_next_job (db (p_daemon s)))))"
    using a redis by (auto simp: db_register_job_def Let_def log_entry_def)
  with r show ?thesis
    using room_after [OF room] serves [OF room]
    by (intro exI [of _ "rm_after R (Req_register_job (job_resources_of_adm res) r sl) (p_daemon s)"])
      (simp add: register_job_h_def bind_call [OF room] hook_simps ADM_register_job_def c_register_job_def
        call_value_def answer_id_def db_reply_def response_value_def out_param_def adm_of_job_def mk_adm_job_def)
qed

lemma deploy_served:
  assumes room: "room (Suc k) (p_daemon s)"
    and answer: "snd (db_deploy_adhoc_storage w (as_id a) (db (p_daemon s))) =
      Inr (mk_response_with (db_calls (db (p_daemon s))) ec (Some path))"
  shows "\<exists>d. deploy_h R sv a s = Some (s\<lparr>p_daemon := d\<rparr>,
      if ec = ADM_SUCCESS then Inr (c_str path) else Inl (Leave (Some (- 1)))) \<and>
    room k d \<and> db d = fst (db_deploy_adhoc_storage w (as_id a) (db (p_daemon s)))"
  using room_after [OF room] serves [OF room] answer
  by (intro exI [of _ "rm_after R (Req_deploy_adhoc_storage (as_id a)) (p_daemon s)"])
    (simp add: deploy_h_def bind_call [OF room] hook_simps ADM_deploy_adhoc_storage_def
      c_deploy_adhoc_storage_def call_value_def answer_path_def db_reply_def response_value_def out_param_def
      adhoc_storage_of_adm_def ec_bool_def)

lemma terminate_served:
  assumes room: "room (Suc k) (p_daemon s)"
  shows "\<exists>d ec. call_h R sv (Req_terminate_adhoc_storage (as_id a)) (\<lambda>cn. ADM_terminate_adhoc_storage cn a) s =
      Some (s\<lparr>p_daemon := d\<rparr>, Inr ec) \<and>
    room k d \<and> db d = fst (db_terminate_adhoc_storage w (as_id a) (db (p_daemon s)))"
  using room_after [OF room] serves [OF room]
  by (intro exI [of _ "rm_after R (Req_terminate_adhoc_storage (as_id a)) (p_daemon s)"])
    (simp add: call_served [OF room] db_reply_def)

lemma remove_served:
  assumes room: "room (Suc k) (p_daemon s)"
  shows "\<exists>d ec. call_h R sv (Req_remove_job (j_id j)) (\<lambda>cn. ADM_remove_job cn j) s =
      Some (s\<lparr>p_daemon := d\<rparr>, Inr ec) \<and>
    room k d \<and> db d = fst (db_remove_job (j_id j) (db (p_daemon s)))"
  using room_after [OF room] serves [OF room]
  by (intro exI [of _ "rm_after R (Req_remove_job (j_id j)) (p_daemon s)"])
    (simp add: call_served [OF room] db_reply_def)

end

end
