(* ===== verification/SlurmJobs.thy ===== *)
theory SlurmJobs
  imports SlurmService
begin

text \<open>
  The hooks of the Slurm plugin run on a service: from the start of a job to the deployment of its
  storage, and its end.
\<close>

section \<open>A job on its first node\<close>

definition allocations :: "string list" where
  "allocations =
     [''nodes'', ''node'', ''nodelist'', ''server'', ''job_resources'', ''adhoc_resources'', ''adhoc_context'',
      ''job_requirements'']"

definition first_node ::
  "spank \<Rightarrow> plugin_defaults \<Rightarrow> string list \<Rightarrow> scord_plugin_config \<Rightarrow> u32 \<Rightarrow> string list \<Rightarrow> bool" where
  "first_node sp b av cfg jobid hosts \<longleftrightarrow>
     sp_nodeid sp = Some 0 \<and> process_config av (default_cfg b) = Inr (cfg, 0) \<and> sp_jobid sp = Some jobid \<and>
     spank_hosts sp = Some hosts \<and> hosts \<noteq> [] \<and> list_all (sp_memory sp) allocations"

definition regular_nodes :: "string list \<Rightarrow> adm_node list" where
  "regular_nodes hosts = map (\<lambda>h. mk_adm_node h (node_type_code node_regular)) hosts"

text \<open>The addresses the hooks compute on the first node, and the server they are told of.\<close>

definition addresses :: "spank \<Rightarrow> scord_plugin_config \<Rightarrow> string list \<Rightarrow> string \<Rightarrow> string \<Rightarrow> adm_server \<Rightarrow> bool" where
  "addresses sp cfg hosts ctl cargo sv \<longleftrightarrow>
     server_address_of sp ''scordctl_addr'' (scordctl_info cfg) (Some (regular_nodes hosts)) = Inr (Some ctl) \<and>
     server_address_of sp ''cargo_addr'' (cargo_info cfg) (Some (regular_nodes hosts)) = Inr (Some cargo) \<and>
     info_proto (scord_info cfg) = Inr (s_protocol sv) \<and> info_addr (scord_info cfg) = Inr (s_address sv)"

text \<open>A job that asks for a storage and no datasets.\<close>

definition plain_options :: "plugin_options \<Rightarrow> bool" where
  "plain_options opts \<longleftrightarrow>
     scord_flag opts \<and> 0 \<le> adhoc_nnodes opts \<and> adhoc_nnodes opts \<le> LONG_MAX \<and>
     known_adhoc_type (opt_adhoc_type opts) \<and> input_datasets_count opts = 0 \<and>
     output_datasets_count opts = 0 \<and> expected_output_datasets_count opts = 0"

section \<open>What the job asks for\<close>

definition job_nodes_of :: "string list \<Rightarrow> job_resources" where
  "job_nodes_of hosts = job_resources_of_adm \<lparr>jr_nodes = regular_nodes hosts\<rparr>"

definition adhoc_nodes_of :: "plugin_options \<Rightarrow> string list \<Rightarrow> adhoc_resources" where
  "adhoc_nodes_of opts hosts = \<lparr>adhoc_nodes = map mk_node (take (nat (adhoc_nnodes opts)) hosts)\<rparr>"

definition job_context :: "plugin_options \<Rightarrow> string \<Rightarrow> string \<Rightarrow> adhoc_ctx" where
  "job_context opts ctl cargo =
     \<lparr>controller_address = ctl, data_stager_address = cargo, exec_mode = execution_mode_of (adhoc_mode opts),
      ctx_access_type = access_read_write, walltime = word_of_int (adhoc_walltime opts), should_flush = False\<rparr>"

lemma shift_nodes_all:
  "memory ''node'' \<Longrightarrow> shift_nodes memory (length hosts) hosts = Some (regular_nodes hosts)"
  by (induction hosts) (simp_all add: regular_nodes_def)

lemma nodelist_all:
  "list_all memory allocations \<Longrightarrow> hosts \<noteq> [] \<Longrightarrow>
   scord_nodelist_create memory hosts = Some (regular_nodes hosts)"
  by (simp add: scord_nodelist_create_def allocations_def shift_nodes_all)

lemma adhoc_count_nat:
  "0 \<le> n \<Longrightarrow> n \<le> LONG_MAX \<Longrightarrow> adhoc_count n (int k) = min (nat n) k" if "int k \<le> LONG_MAX"
  using that unfolding adhoc_count_def LONG_MAX_def
  by (auto simp: unat_eq_nat_uint uint_word_of_int min_def)

lemma take_min_length: "take (min n (length xs)) xs = take n xs"
  by (simp add: min_def)

section \<open>The start\<close>

text \<open>What the start does after the deployment, and the variables it has set before it.\<close>

definition after_deploy ::
  "'d remote \<Rightarrow> adm_server \<Rightarrow> adm_job \<Rightarrow> adm_job_requirements \<Rightarrow> nat \<Rightarrow> string \<Rightarrow> ('d, unit) hook" where
  "after_deploy R sv job reqs ty path =
     bind_h (put_h (\<lambda>s. s\<lparr>p_adhoc_path := P_live path\<rparr>)) (\<lambda>_.
     bind_h (set_job_env ty path) (\<lambda>_. stage_in R sv job reqs))"

definition prepared :: "'d plugin \<Rightarrow> adm_server \<Rightarrow> string list \<Rightarrow> string \<Rightarrow> string \<Rightarrow> 'd plugin" where
  "prepared P sv hosts ctl cargo =
     P\<lparr>p_server := P_live sv, p_nodes := P_live (regular_nodes hosts),
       p_job_resources := P_live \<lparr>jr_nodes = regular_nodes hosts\<rparr>,
       p_adhoc_resources := P_live \<lparr>ar_nodes = take (nat (adhoc_nnodes (p_options P))) (regular_nodes hosts)\<rparr>,
       p_adhoc_ctx := P_live \<lparr>c_ctl_address = ctl, c_stager_address = cargo, c_mode = adhoc_mode (p_options P),
         c_access = access_type_code access_read_write, c_walltime = word_of_int (adhoc_walltime (p_options P)),
         c_should_bg_flush = False\<rparr>\<rparr>"

lemma prepared_simps [simp]:
  "p_daemon (prepared P sv hosts ctl cargo) = p_daemon P"
  "p_options (prepared P sv hosts ctl cargo) = p_options P"
  by (simp_all add: prepared_def)

definition empty_reqs :: "adm_adhoc_storage \<Rightarrow> adm_job_requirements" where
  "empty_reqs storage =
     \<lparr>r_inputs = [], r_outputs = [], r_expected_outputs = [], r_adhoc_storage = Some storage\<rparr>"

definition job_reqs_of :: "adm_adhoc_storage \<Rightarrow> job_requirements" where
  "job_reqs_of storage =
     \<lparr>req_inputs = [], req_outputs = [], req_expected_outputs = [],
      req_adhoc_storage = Some (adhoc_storage_of_adm storage)\<rparr>"

lemma requirements_of_empty: "requirements_of_adm (empty_reqs storage) = Inr (job_reqs_of storage)"
  by (simp add: requirements_of_adm_def empty_reqs_def job_reqs_of_def)

text \<open>The database once storage and job are registered.\<close>

definition with_storage ::
  "'h world \<Rightarrow> plugin_options \<Rightarrow> string list \<Rightarrow> string \<Rightarrow> string \<Rightarrow> 'h database \<Rightarrow> 'h database" where
  "with_storage w opts hosts ctl cargo d =
     fst (db_register_adhoc_storage w ''mystorage'' (adhoc_type_of (opt_adhoc_type opts))
       (job_context opts ctl cargo) (adhoc_nodes_of opts hosts) d)"

definition storage_uuid :: "'h world \<Rightarrow> plugin_options \<Rightarrow> string" where
  "storage_uuid w opts = adhoc_type_format (CHR ''e'') (adhoc_type_of (opt_adhoc_type opts)) @ ''-'' @ w_random w"

text \<open>The database with a job started: the storage under its identifier, with the job as its client, and the job.\<close>

definition job_registered ::
  "'h world \<Rightarrow> plugin_options \<Rightarrow> string list \<Rightarrow> string \<Rightarrow> string \<Rightarrow> u64 \<Rightarrow> 'h database \<Rightarrow> 'h database \<Rightarrow> bool" where
  "job_registered w opts hosts ctl cargo slurm_id d d' \<longleftrightarrow>
     (let aid = db_next_storage d; jid = db_next_job d; uuid = storage_uuid w opts;
          storage = \<lparr>adhoc_kind = adhoc_type_of (opt_adhoc_type opts), adhoc_name = ''mystorage'', adhoc_id = aid,
                     adhoc_context = job_context opts ctl cargo, adhoc_res = adhoc_nodes_of opts hosts\<rparr>
      in db_storages d' = (db_storages d)(aid \<mapsto>
            \<lparr>ds_uuid = uuid, ds_storage = storage, ds_client = Some jid\<rparr>) \<and>
         (\<exists>reqs. map_option adhoc_id (req_adhoc_storage reqs) = Some aid \<and>
            db_jobs d' = (db_jobs d)(jid \<mapsto>
              \<lparr>dj_job = \<lparr>job_id = jid, job_slurm_id = slurm_id\<rparr>, dj_resources = job_nodes_of hosts,
               dj_requirements = reqs,
               dj_storage = Some \<lparr>ref_controller = ctl, ref_stager = cargo, ref_uuid = uuid\<rparr>\<rparr>)) \<and>
         db_slurm d' = (if db_slurm d slurm_id = None then (db_slurm d)(slurm_id \<mapsto> jid) else db_slurm d) \<and>
         db_redis d' = db_redis d)"

lemma registered_tables:
  assumes "as_id storage = db_next_storage d"
  shows "job_registered w opts hosts ctl cargo sl d
    (fst (db_register_job w (job_nodes_of hosts) (job_reqs_of storage) sl (with_storage w opts hosts ctl cargo d)))"
  using assms unfolding job_registered_def Let_def
  by (intro conjI exI [of _ "job_reqs_of storage"])
    (simp_all add: db_register_job_def Let_def log_entry_def with_storage_def job_reqs_of_def
      db_register_adhoc_storage_def add_job_def take_call_def storage_uuid_def adhoc_storage_of_adm_def ref_of_def
      job_context_def)

lemma registered_same_tables:
  "job_registered w opts hosts ctl cargo sl d d' \<Longrightarrow> same_tables d' d'' \<Longrightarrow>
   job_registered w opts hosts ctl cargo sl d d''"
  by (simp add: job_registered_def same_tables_def Let_def)

text \<open>What the deployment of the registered storage answers when its controller does.\<close>

lemma deploy_registered:
  assumes "job_registered w opts hosts ctl cargo sl d d'" "db_redis d \<Longrightarrow> w_redis_ok w" "w_lookup w ctl"
    and "w_ctl_deploy w ctl ''ADM_deploy_adhoc_storage'' (storage_uuid w opts)
      (adhoc_type_of (opt_adhoc_type opts)) (adhoc_nodes_of opts hosts) = Some resp"
    and "resp_error_code resp = ADM_SUCCESS \<longrightarrow> resp_value resp = Some path"
  shows "snd (db_deploy_adhoc_storage w (db_next_storage d) d') =
    Inr (mk_response_with (db_calls d') (resp_error_code resp)
      (Some (if resp_error_code resp = ADM_SUCCESS then path else [])))"
  using assms
  by (auto simp: job_registered_def Let_def db_deploy_adhoc_storage_def ref_of_def job_context_def
      log_client_def log_entry_def take_call_def)

text \<open>The variables of the job.\<close>

definition job_env_of :: "nat \<Rightarrow> string \<Rightarrow> environment \<Rightarrow> environment" where
  "job_env_of ty path env =
     env_set ''ADHOC_PATH'' path
       (if ty = 0 then env_set ''LIBGKFS_HOSTS_FILE'' ''/tmp/gekkofs/gkfs_hosts.txt''
                         (env_set ''ADHOC_TYPE'' ''gekkofs'' env)
        else env_set ''ADHOC_TYPE'' (if ty = 1 then ''dataclay'' else if ty = 2 then ''expand'' else ''hercules'') env)"

lemma set_job_env_run:
  "known_adhoc_type ty \<Longrightarrow>
   bind_h (set_job_env ty path) g s = g () (s\<lparr>p_job_env := job_env_of ty path (p_job_env s)\<rparr>)"
  by (auto simp: set_job_env_def setenv_h_def hook_simps known_adhoc_type_def job_env_of_def)

text \<open>The variables of the plugin while a job runs.\<close>

definition job_running :: "adm_server \<Rightarrow> u64 \<Rightarrow> u64 \<Rightarrow> 'd plugin \<Rightarrow> bool" where
  "job_running sv aid jid P \<longleftrightarrow>
     p_server P = P_live sv \<and> (\<exists>storage. p_adhoc_storage P = P_live storage \<and> as_id storage = aid) \<and>
     (\<exists>job. p_job P = P_live job \<and> j_id job = jid) \<and> p_reqs P \<noteq> P_freed \<and> p_adhoc_ctx P \<noteq> P_freed \<and>
     p_adhoc_resources P \<noteq> P_freed \<and> p_job_resources P \<noteq> P_freed"

context scord_service
begin

lemma register_until_deploy:
  assumes node: "first_node sp b av cfg jobid hosts" and addr: "addresses sp cfg hosts ctl cargo sv"
    and opts: "plain_options (p_options P)" and len: "int (length hosts) \<le> LONG_MAX"
    and room: "room (Suc (Suc k)) (p_daemon P)"
    and redis: "db_redis (db (p_daemon P)) \<Longrightarrow> w_redis_ok w"
  defines "d \<equiv> db (p_daemon P)" and "ty \<equiv> opt_adhoc_type (p_options P)"
  defines "job \<equiv> \<lparr>j_id = db_next_job d, j_slurm_id = ucast jobid\<rparr>"
  shows "\<exists>storage d'.
    scord_register_job sp R cfg (Some (regular_nodes hosts)) jobid P =
      bind_h (deploy_h R sv storage) (after_deploy R sv job (empty_reqs storage) ty)
        ((prepared P sv hosts ctl cargo)\<lparr>p_adhoc_storage := P_live storage,
           p_reqs := P_live (empty_reqs storage), p_daemon := d', p_job := P_live job\<rparr>) \<and>
    as_id storage = db_next_storage d \<and> room k d' \<and>
    db d' = fst (db_register_job w (job_nodes_of hosts) (job_reqs_of storage) (ucast jobid)
      (with_storage w (p_options P) hosts ctl cargo d))"
proof -
  let ?ctx = "\<lparr>c_ctl_address = ctl, c_stager_address = cargo, c_mode = adhoc_mode (p_options P),
      c_access = access_type_code access_read_write, c_walltime = word_of_int (adhoc_walltime (p_options P)),
      c_should_bg_flush = False\<rparr>"
  let ?ar = "\<lparr>ar_nodes = take (nat (adhoc_nnodes (p_options P))) (regular_nodes hosts)\<rparr>"
  let ?P1 = "prepared P sv hosts ctl cargo"
  have room1: "room (Suc (Suc k)) (p_daemon ?P1)" using room by simp
  have ctx: "adhoc_ctx_of_adm ?ctx = job_context (p_options P) ctl cargo"
    by (simp add: adhoc_ctx_of_adm_def job_context_def access_type_of_def)
  have ar: "adhoc_resources_of_adm ?ar = adhoc_nodes_of (p_options P) hosts"
    by (simp add: adhoc_resources_of_adm_def adhoc_nodes_of_def regular_nodes_def take_map comp_def mk_adm_node_def)
  define storage where "storage = adm_of_adhoc_storage \<lparr>adhoc_kind = adhoc_type_of ty, adhoc_name = ''mystorage'',
      adhoc_id = db_next_storage d, adhoc_context = job_context (p_options P) ctl cargo,
      adhoc_res = adhoc_nodes_of (p_options P) hosts\<rparr>"
  obtain d1 where reg: "register_storage_h R sv ''mystorage'' ty ?ctx ?ar ?P1 =
        Some (?P1\<lparr>p_daemon := d1\<rparr>, Inr storage)" "room (Suc k) d1"
      "db d1 = with_storage w (p_options P) hosts ctl cargo d"
    using register_storage_served [OF room1, of sv "''mystorage''" ty ?ctx ?ar]
    unfolding ctx ar storage_def with_storage_def d_def ty_def prepared_simps by (elim exE conjE)
  have storage: "as_id storage = db_next_storage d" "as_type storage = ty"
    by (simp_all add: storage_def adm_of_adhoc_storage_def)
  let ?P2 = "?P1\<lparr>p_daemon := d1, p_adhoc_storage := P_live storage, p_reqs := P_live (empty_reqs storage)\<rparr>"
  have stored: "db_storages (db (p_daemon ?P2)) (adhoc_id (adhoc_storage_of_adm storage)) \<noteq> None"
    using reg(3) storage(1) by (simp add: adhoc_storage_of_adm_def with_storage_def db_register_adhoc_storage_def d_def Let_def)
  have next_job: "db_next_job (db (p_daemon ?P2)) = db_next_job d"
    using reg(3) by (simp add: with_storage_def db_register_adhoc_storage_def Let_def take_call_def)
  have redis2: "db_redis (db (p_daemon ?P2)) \<Longrightarrow> w_redis_ok w"
    using reg(3) redis by (simp add: with_storage_def db_register_adhoc_storage_def Let_def take_call_def d_def)
  have room2: "room (Suc k) (p_daemon ?P2)" using reg(2) by simp
  obtain d' where job: "register_job_h R sv \<lparr>jr_nodes = regular_nodes hosts\<rparr> (empty_reqs storage) (ucast jobid) ?P2 =
        Some (?P2\<lparr>p_daemon := d'\<rparr>, Inr job)" "room k d'"
      "db d' = fst (db_register_job w (job_nodes_of hosts) (job_reqs_of storage) (ucast jobid) (db d1))"
    using register_job_served [OF room2 requirements_of_empty [of storage] _ stored redis2,
        where sv = sv and res = "\<lparr>jr_nodes = regular_nodes hosts\<rparr>" and sl = "ucast jobid"] next_job
    by (auto simp: job_reqs_of_def job_def job_nodes_of_def)
  define tail where "tail st = bind_h (put_h (\<lambda>s. s\<lparr>p_adhoc_storage := P_live st\<rparr>)) (\<lambda>_.
      bind_h (create_requirements sp st) (\<lambda>reqs.
      bind_h (register_job_h R sv \<lparr>jr_nodes = regular_nodes hosts\<rparr> reqs (ucast jobid)) (\<lambda>job.
      bind_h (put_h (\<lambda>s. s\<lparr>p_job := P_live job\<rparr>)) (\<lambda>_.
      bind_h (deploy_h R sv st) (after_deploy R sv job reqs ty)))))" for st
  have count: "adhoc_count (adhoc_nnodes (p_options P)) (int (length hosts)) =
      min (nat (adhoc_nnodes (p_options P))) (length hosts)"
    using opts len by (intro adhoc_count_nat) (simp_all add: plain_options_def)
  have sv: "\<lparr>s_protocol = s_protocol sv, s_address = s_address sv\<rparr> = sv" by simp
  have nodes: "length (regular_nodes hosts) = length hosts" "hosts \<noteq> []"
    using node by (simp_all add: regular_nodes_def first_node_def)
  have first: "take (min n (length hosts)) (regular_nodes hosts) = take n (regular_nodes hosts)" for n
    using take_min_length [of n "regular_nodes hosts"] nodes(1) by simp
  have mem: "sp_memory sp ''server''" "sp_memory sp ''job_resources''" "sp_memory sp ''adhoc_resources''"
      "sp_memory sp ''adhoc_context''" "sp_memory sp ''job_requirements''"
    using node by (simp_all add: first_node_def allocations_def)
  have server: "bind_h (create_server sp cfg) g s = g sv (s\<lparr>p_server := P_live sv\<rparr>)" for g s
    using addr mem by (simp add: create_server_def addresses_def hook_simps allocated_def sv)
  have resources: "bind_h (create_resources sp (Some (regular_nodes hosts))) g (P\<lparr>p_server := P_live sv\<rparr>) =
      g (\<lparr>jr_nodes = regular_nodes hosts\<rparr>, ?ar)
        (P\<lparr>p_server := P_live sv, p_nodes := P_live (regular_nodes hosts),
          p_job_resources := P_live \<lparr>jr_nodes = regular_nodes hosts\<rparr>, p_adhoc_resources := P_live ?ar\<rparr>)" for g
    using nodes mem by (simp add: create_resources_def hook_simps allocated_def scord_nodelist_get_nodecount_def
        scord_nodelist_get_nodes_def count first Let_def)
  have context': "bind_h (create_context sp ctl (Some cargo)) g s = g ?ctx (s\<lparr>p_adhoc_ctx := P_live ?ctx\<rparr>)"
    if "p_options s = p_options P" for g s
    using mem that by (simp add: create_context_def hook_simps allocated_def)
  have reqs: "bind_h (create_requirements sp storage) g s =
      g (empty_reqs storage) (s\<lparr>p_reqs := P_live (empty_reqs storage)\<rparr>)" if "p_options s = p_options P" for g s
    using opts that mem storage
    by (simp add: create_requirements_def hook_simps plain_options_def read_owned_def allocated_def empty_reqs_def ty_def)
  have "scord_register_job sp R cfg (Some (regular_nodes hosts)) jobid P =
      bind_h (register_storage_h R sv ''mystorage'' ty ?ctx ?ar) tail ?P1"
    using addr
    by (simp add: scord_register_job_def addresses_def hook_simps server resources context' prepared_def
        tail_def [abs_def] after_deploy_def [abs_def] ty_def)
  also have "\<dots> = tail storage (?P1\<lparr>p_daemon := d1\<rparr>)" using reg(1) by (simp add: bind_h_def)
  also have "\<dots> = bind_h (register_job_h R sv \<lparr>jr_nodes = regular_nodes hosts\<rparr> (empty_reqs storage) (ucast jobid))
      (\<lambda>job. bind_h (put_h (\<lambda>s. s\<lparr>p_job := P_live job\<rparr>)) (\<lambda>_.
        bind_h (deploy_h R sv storage) (after_deploy R sv job (empty_reqs storage) ty))) ?P2"
    by (simp add: tail_def hook_simps reqs)
  also have "\<dots> = bind_h (deploy_h R sv storage) (after_deploy R sv job (empty_reqs storage) ty)
        (?P2\<lparr>p_daemon := d', p_job := P_live job\<rparr>)"
    using job(1) by (simp add: bind_h_def put_h_def)
  finally have "scord_register_job sp R cfg (Some (regular_nodes hosts)) jobid P =
      bind_h (deploy_h R sv storage) (after_deploy R sv job (empty_reqs storage) ty)
        (?P1\<lparr>p_adhoc_storage := P_live storage, p_reqs := P_live (empty_reqs storage), p_daemon := d',
           p_job := P_live job\<rparr>)"
    by simp
  then show ?thesis using storage job(2,3) reg(3) by (intro exI [of _ storage] exI [of _ d']) simp
qed

lemma user_init_registers:
  assumes node: "first_node sp b av cfg jobid hosts" and flag: "scord_flag (p_options P)"
  shows "slurm_spank_user_init sp b R av P =
    finally_h (scord_register_job sp R cfg (Some (regular_nodes hosts)) jobid) destroy_nodelist P"
  using assms nodelist_all [of "sp_memory sp" hosts]
  by (simp add: slurm_spank_user_init_def first_node_def hook_simps)

lemma start_deploys:
  assumes node: "first_node sp b av cfg jobid hosts" and addr: "addresses sp cfg hosts ctl cargo sv"
    and opts: "plain_options (p_options P)" and len: "int (length hosts) \<le> LONG_MAX"
    and room: "room (Suc (Suc (Suc k))) (p_daemon P)"
    and redis: "db_redis (db (p_daemon P)) \<Longrightarrow> w_redis_ok w" and ctl: "w_lookup w ctl"
    and resp: "w_ctl_deploy w ctl ''ADM_deploy_adhoc_storage'' (storage_uuid w (p_options P))
      (adhoc_type_of (opt_adhoc_type (p_options P))) (adhoc_nodes_of (p_options P) hosts) = Some resp"
    and path: "resp_error_code resp = ADM_SUCCESS \<longrightarrow> resp_value resp = Some path"
  defines "d \<equiv> db (p_daemon P)"
  shows "\<exists>P'. slurm_spank_user_init sp b R av P = Some (P',
        if resp_error_code resp = ADM_SUCCESS then Inr () else Inl (Leave (Some (- 1)))) \<and>
      job_running sv (db_next_storage d) (db_next_job d) P' \<and> p_options P' = p_options P \<and>
      p_dirs P' = p_dirs P \<and> room k (p_daemon P') \<and>
      job_registered w (p_options P) hosts ctl cargo (ucast jobid) d (db (p_daemon P')) \<and>
      (if resp_error_code resp = ADM_SUCCESS
       then p_adhoc_path P' = P_live (c_str path) \<and>
         p_job_env P' = job_env_of (opt_adhoc_type (p_options P)) (c_str path) (p_job_env P)
       else p_adhoc_path P' = p_adhoc_path P \<and> p_job_env P' = p_job_env P)"
proof -
  let ?ty = "opt_adhoc_type (p_options P)"
  define job where "job = \<lparr>j_id = db_next_job d, j_slurm_id = ucast jobid :: u64\<rparr>"
  obtain storage d1 where reg: "scord_register_job sp R cfg (Some (regular_nodes hosts)) jobid P =
      bind_h (deploy_h R sv storage) (after_deploy R sv job (empty_reqs storage) ?ty)
        ((prepared P sv hosts ctl cargo)\<lparr>p_adhoc_storage := P_live storage,
           p_reqs := P_live (empty_reqs storage), p_daemon := d1, p_job := P_live job\<rparr>)"
      "as_id storage = db_next_storage d" "room (Suc k) d1"
      "db d1 = fst (db_register_job w (job_nodes_of hosts) (job_reqs_of storage) (ucast jobid)
        (with_storage w (p_options P) hosts ctl cargo d))"
    using register_until_deploy [OF node addr opts len room redis] unfolding d_def job_def by blast
  let ?P1 = "(prepared P sv hosts ctl cargo)\<lparr>p_adhoc_storage := P_live storage,
      p_reqs := P_live (empty_reqs storage), p_daemon := d1, p_job := P_live job\<rparr>"
  have tables: "job_registered w (p_options P) hosts ctl cargo (ucast jobid) d (db d1)"
    unfolding reg(4) by (rule registered_tables [OF reg(2)])
  have room1: "room (Suc k) (p_daemon ?P1)" using reg(3) by simp
  have answer: "snd (db_deploy_adhoc_storage w (as_id storage) (db (p_daemon ?P1))) =
      Inr (mk_response_with (db_calls (db (p_daemon ?P1))) (resp_error_code resp)
        (Some (if resp_error_code resp = ADM_SUCCESS then path else [])))"
    using deploy_registered [OF tables _ ctl resp path] redis by (simp add: reg(2) d_def)
  obtain d2 where deploy: "deploy_h R sv storage ?P1 = Some (?P1\<lparr>p_daemon := d2\<rparr>,
        if resp_error_code resp = ADM_SUCCESS
        then Inr (c_str (if resp_error_code resp = ADM_SUCCESS then path else [])) else Inl (Leave (Some (- 1))))"
      "room k d2" "db d2 = fst (db_deploy_adhoc_storage w (as_id storage) (db d1))"
    using deploy_served [OF room1 answer, of sv] by auto
  have tables2: "job_registered w (p_options P) hosts ctl cargo (ucast jobid) d (db d2)"
    unfolding deploy(3) by (rule registered_same_tables [OF tables deploy_same_tables])
  have flag: "scord_flag (p_options P)" "known_adhoc_type ?ty" "input_datasets_count (p_options P) = 0"
    using opts by (simp_all add: plain_options_def)
  show ?thesis
  proof (cases "resp_error_code resp = ADM_SUCCESS")
    case True
    let ?P2 = "?P1\<lparr>p_daemon := d2, p_adhoc_path := P_live (c_str path),
        p_job_env := job_env_of ?ty (c_str path) (p_job_env P)\<rparr>"
    have "after_deploy R sv job (empty_reqs storage) ?ty (c_str path) (?P1\<lparr>p_daemon := d2\<rparr>) = Some (?P2, Inr ())"
      using flag by (simp add: after_deploy_def hook_simps set_job_env_run stage_in_def prepared_def)
    with True deploy(1) have "scord_register_job sp R cfg (Some (regular_nodes hosts)) jobid P = Some (?P2, Inr ())"
      unfolding reg(1) bind_h_def [of "deploy_h R sv storage"] by simp
    moreover have "p_nodes ?P2 \<noteq> P_null" by (simp add: prepared_def)
    ultimately have "slurm_spank_user_init sp b R av P = Some (?P2\<lparr>p_nodes := P_freed\<rparr>, Inr ())"
      using user_init_registers [OF node flag(1)] by (simp add: finally_h_def destroy_nodelist_def)
    with True tables2 deploy(2) show ?thesis using reg(2)
      by (intro exI [of _ "?P2\<lparr>p_nodes := P_freed\<rparr>"]) (simp add: prepared_def job_running_def job_def)
  next
    case False
    with deploy(1) have "scord_register_job sp R cfg (Some (regular_nodes hosts)) jobid P =
        Some (?P1\<lparr>p_daemon := d2\<rparr>, Inl (Leave (Some (- 1))))"
      unfolding reg(1) bind_h_def [of "deploy_h R sv storage"] by simp
    moreover have "p_nodes (?P1\<lparr>p_daemon := d2\<rparr>) \<noteq> P_null" by (simp add: prepared_def)
    ultimately have "slurm_spank_user_init sp b R av P =
        Some (?P1\<lparr>p_daemon := d2, p_nodes := P_freed\<rparr>, Inl (Leave (Some (- 1))))"
      using user_init_registers [OF node flag(1)] by (simp add: finally_h_def destroy_nodelist_def)
    with False tables2 deploy(2) show ?thesis using reg(2)
      by (intro exI [of _ "?P1\<lparr>p_daemon := d2, p_nodes := P_freed\<rparr>"])
        (simp add: prepared_def job_running_def job_def)
  qed
qed

end

section \<open>The end\<close>

text \<open>The paths of the entries below a directory fit the buffer of \<open>remove_dir_content\<close>.\<close>

fun names_fit :: "string \<Rightarrow> entry list \<Rightarrow> bool" where
  "names_fit path [] = name_fits path ''..''"
| "names_fit path (E_file name # es) = (name_fits path name \<and> names_fit path es)"
| "names_fit path (E_dir name sub # es) =
     (name_fits path name \<and> names_fit (path @ ''/'' @ name) sub \<and> names_fit path es)"

definition dir_fits :: "(string \<Rightarrow> entry list option) \<Rightarrow> string \<Rightarrow> bool" where
  "dir_fits dirs path = (case dirs path of None \<Rightarrow> True | Some es \<Rightarrow> path \<noteq> [] \<and> names_fit path es)"

text \<open>The system lets the process open, look at and remove everything.\<close>

definition files_allowed :: "fs_calls \<Rightarrow> bool" where
  "files_allowed fs \<longleftrightarrow> (\<forall>p. fs_opendir fs p \<and> fs_stat fs p \<and> fs_unlink fs p \<and> fs_rmdir fs p)"

text \<open>
  What is left of a directory when everything can be removed: nothing under an absolute path; under a relative one the
  tree of its subdirectories without their files.
\<close>

fun only_dirs :: "entry list \<Rightarrow> entry list" where
  "only_dirs [] = []"
| "only_dirs (E_file name # es) = only_dirs es"
| "only_dirs (E_dir name sub # es) = E_dir name (only_dirs sub) # only_dirs es"

definition left_of_dir :: "string \<Rightarrow> entry list option \<Rightarrow> entry list option" where
  "left_of_dir path dir =
     (case dir of
        None \<Rightarrow> None
      | Some es \<Rightarrow> if is_prefix ''/'' path \<or> only_dirs es = [] then None else Some (only_dirs es))"

lemma is_prefix_slash: "path \<noteq> [] \<Longrightarrow> is_prefix ''/'' (path @ s) \<longleftrightarrow> is_prefix ''/'' path"
  by (cases path) auto

lemma remove_entries_eq:
  assumes "files_allowed fs"
  shows "path \<noteq> [] \<Longrightarrow> names_fit path es \<Longrightarrow>
    remove_entries fs path es = Inr (if is_prefix ''/'' path then [] else only_dirs es)"
  using assms
proof (induction fs path es rule: remove_entries.induct)
  case (3 fs path name sub es)
  then show ?case
    by (cases "is_prefix ''/'' path"; cases sub) (simp_all add: Let_def unlinkat_dir_def is_prefix_slash files_allowed_def)
qed (simp_all add: files_allowed_def Let_def)

lemma release_run:
  "read s \<noteq> P_freed \<Longrightarrow>
   bind_h (release_global read put_p) g s = g () (put_p (if read s = P_null then P_null else P_freed) s)"
  by (cases "read s") (simp_all add: release_global_def hook_simps)

lemma release_globals_run:
  assumes "p_server P \<noteq> P_freed" "p_adhoc_storage P \<noteq> P_freed" "p_job P \<noteq> P_freed" "p_reqs P \<noteq> P_freed"
    "p_adhoc_ctx P \<noteq> P_freed" "p_adhoc_resources P \<noteq> P_freed" "p_job_resources P \<noteq> P_freed"
    "p_adhoc_path P \<noteq> P_freed"
  shows "\<exists>P'. release_globals P = Some (P', Inr ()) \<and> p_dirs P' = p_dirs P \<and> p_daemon P' = p_daemon P"
proof -
  have "bind_h release_globals pure_h P = release_globals P"
    by (cases "release_globals P") (auto simp: bind_h_def split: sum.split prod.split)
  moreover have "\<exists>P'. bind_h release_globals pure_h P = Some (P', Inr ()) \<and> p_dirs P' = p_dirs P \<and> p_daemon P' = p_daemon P"
    using assms by (simp add: release_globals_def hook_simps release_run)
  ultimately show ?thesis by simp
qed

lemma bind_assign: "bind_h (\<lambda>a. Some (f a, Inr x)) g s = g x (f s)"
  by (simp add: bind_h_def)

lemma remove_dir_run:
  assumes "dir_fits (p_dirs s) path" "files_allowed fs"
  shows "bind_h (remove_dir_content fs path) (\<lambda>_. bind_h (rmdir fs path) g) s =
    g () (s\<lparr>p_dirs := (p_dirs s)(path := left_of_dir path (p_dirs s path))\<rparr>)"
proof (cases "p_dirs s path")
  case None
  then show ?thesis
    by (simp add: remove_dir_content_def rmdir_def hook_simps left_of_dir_def fun_upd_idem bind_assign)
next
  case (Some es)
  have allowed: "fs_opendir fs path" "fs_rmdir fs path" using assms(2) by (simp_all add: files_allowed_def)
  have "remove_entries fs path es = Inr (if is_prefix ''/'' path then [] else only_dirs es)"
    using assms Some by (intro remove_entries_eq) (simp_all add: dir_fits_def)
  with Some allowed show ?thesis
    by (auto simp add: remove_dir_content_def rmdir_def hook_simps left_of_dir_def bind_assign)
qed

context scord_service
begin

lemma exit_unregisters:
  assumes node: "first_node sp b av cfg jobid hosts" and flag: "scord_flag (p_options P)"
    and remote: "sp_context sp = S_CTX_REMOTE" and addr: "addresses sp cfg hosts ctl cargo sv"
  shows "slurm_spank_exit sp b R av P =
    bind_h (ignore_code (finally_h (end_job sp R) release_globals)) (\<lambda>_. stop_h (Leave None)) P"
  using assms nodelist_all [of "sp_memory sp" hosts]
  by (simp add: slurm_spank_exit_def first_node_def addresses_def scord_unregister_job_def hook_simps)

lemma end_cleans_up:
  assumes node: "first_node sp b av cfg jobid hosts" and flag: "scord_flag (p_options P)"
    and remote: "sp_context sp = S_CTX_REMOTE" and addr: "addresses sp cfg hosts ctl cargo sv"
    and outs: "output_datasets_count (p_options P) = 0"
    and running: "job_running sv aid jid P" and path: "p_adhoc_path P = P_live path"
    and fit: "dir_fits (p_dirs P) path" and files: "files_allowed (sp_files sp)"
    and room: "room (Suc (Suc k)) (p_daemon P)"
  shows "\<exists>P'. slurm_spank_exit sp b R av P = Some (P', Inl (Leave None)) \<and>
    p_dirs P' = (p_dirs P)(path := left_of_dir path (p_dirs P path)) \<and> room k (p_daemon P') \<and>
    db (p_daemon P') = fst (db_remove_job jid (fst (db_terminate_adhoc_storage w aid (db (p_daemon P)))))"
proof -
  obtain storage job where g: "p_server P = P_live sv" "p_adhoc_storage P = P_live storage" "as_id storage = aid"
      "p_job P = P_live job" "j_id job = jid"
    using running by (auto simp: job_running_def)
  obtain d1 ec1 where d1: "call_h R sv (Req_terminate_adhoc_storage (as_id storage))
        (\<lambda>cn. ADM_terminate_adhoc_storage cn storage) P = Some (P\<lparr>p_daemon := d1\<rparr>, Inr ec1)"
      "room (Suc k) d1" "db d1 = fst (db_terminate_adhoc_storage w aid (db (p_daemon P)))"
    using terminate_served [OF room, of sv storage] g(3) by auto
  let ?P1 = "P\<lparr>p_daemon := d1, p_dirs := (p_dirs P)(path := left_of_dir path (p_dirs P path))\<rparr>"
  have room1: "room (Suc k) (p_daemon ?P1)" using d1(2) by simp
  obtain d2 ec2 where d2: "call_h R sv (Req_remove_job (j_id job)) (\<lambda>cn. ADM_remove_job cn job) ?P1 =
        Some (?P1\<lparr>p_daemon := d2\<rparr>, Inr ec2)" "room k d2" "db d2 = fst (db_remove_job jid (db d1))"
    using remove_served [OF room1, of sv job] g(5) by auto
  have stage: "bind_h (stage_out R) h P = h () P" for h
    using outs by (simp add: stage_out_def hook_simps)
  have terminate: "bind_h (call_h R sv (Req_terminate_adhoc_storage aid)
        (\<lambda>cn. ADM_terminate_adhoc_storage cn storage)) h P = h ec1 (P\<lparr>p_daemon := d1\<rparr>)" for h
    using d1(1) g(3) by (simp add: bind_h_def)
  have remove: "bind_h (call_h R sv (Req_remove_job jid) (\<lambda>cn. ADM_remove_job cn job)) h ?P1 =
      h ec2 (?P1\<lparr>p_daemon := d2\<rparr>)" for h
    using d2(1) g(5) by (simp add: bind_h_def)
  have dir: "bind_h (remove_dir_content (sp_files sp) path) (\<lambda>_. bind_h (rmdir (sp_files sp) path) h) (P\<lparr>p_daemon := d1\<rparr>) = h () ?P1" for h
    using remove_dir_run [of "P\<lparr>p_daemon := d1\<rparr>" path "sp_files sp" h] fit files by simp
  have "end_job sp R P = Some (?P1\<lparr>p_daemon := d2\<rparr>, Inr ())"
    using g path by (simp add: end_job_def stage hook_simps terminate dir remove)
  moreover obtain P' where "release_globals (?P1\<lparr>p_daemon := d2\<rparr>) = Some (P', Inr ())"
      "p_dirs P' = (p_dirs P)(path := left_of_dir path (p_dirs P path))" "p_daemon P' = d2"
    using release_globals_run [of "?P1\<lparr>p_daemon := d2\<rparr>"] running path by (auto simp: job_running_def)
  ultimately have "slurm_spank_exit sp b R av P = Some (P', Inl (Leave None))"
    by (simp add: exit_unregisters [OF node flag remote addr] finally_h_def ignore_code_def bind_h_def)
  with \<open>p_dirs P' = _\<close> \<open>p_daemon P' = d2\<close> d2(2,3) d1(3) show ?thesis by simp
qed

text \<open>Without a path, which only a deployment gives, the storage is terminated and then the process fails.\<close>

lemma end_without_path:
  assumes node: "first_node sp b av cfg jobid hosts" and flag: "scord_flag (p_options P)"
    and remote: "sp_context sp = S_CTX_REMOTE" and addr: "addresses sp cfg hosts ctl cargo sv"
    and outs: "output_datasets_count (p_options P) = 0"
    and running: "job_running sv aid jid P" and path: "p_adhoc_path P = P_null"
    and room: "room (Suc k) (p_daemon P)"
  shows "\<exists>P'. slurm_spank_exit sp b R av P = Some (P', Inl (Crash Null_dereference)) \<and>
    db (p_daemon P') = fst (db_terminate_adhoc_storage w aid (db (p_daemon P)))"
proof -
  obtain storage where g: "p_server P = P_live sv" "p_adhoc_storage P = P_live storage" "as_id storage = aid"
    using running by (auto simp: job_running_def)
  obtain d1 ec1 where d1: "call_h R sv (Req_terminate_adhoc_storage (as_id storage))
        (\<lambda>cn. ADM_terminate_adhoc_storage cn storage) P = Some (P\<lparr>p_daemon := d1\<rparr>, Inr ec1)"
      "db d1 = fst (db_terminate_adhoc_storage w aid (db (p_daemon P)))"
    using terminate_served [OF room, of sv storage] g(3) by auto
  have stage: "bind_h (stage_out R) h P = h () P" for h
    using outs by (simp add: stage_out_def hook_simps)
  have terminate: "bind_h (call_h R sv (Req_terminate_adhoc_storage aid)
        (\<lambda>cn. ADM_terminate_adhoc_storage cn storage)) h P = h ec1 (P\<lparr>p_daemon := d1\<rparr>)" for h
    using d1(1) g(3) by (simp add: bind_h_def)
  have "end_job sp R P = Some (P\<lparr>p_daemon := d1\<rparr>, Inl (Crash Null_dereference))"
    using g path by (simp add: end_job_def stage hook_simps terminate)
  then show ?thesis using d1(2)
    by (simp add: exit_unregisters [OF node flag remote addr] finally_h_def ignore_code_def bind_h_def)
qed

end

end
