(* ===== verification/SlurmClaims.thy ===== *)
theory SlurmClaims
  imports SlurmJobs ScordProps
begin

text \<open>
  The promises of the Slurm plugin: what its hooks do to the daemon, and what its options and settings
  mean.
\<close>

section \<open>The life of a job\<close>

lemma ready_for_reachable: "reachable r s \<Longrightarrow> has_room k s \<Longrightarrow> ready_for k s"
  by (simp add: ready_for_def reachable_inv has_room_bounded)


lemma alone_simps [simp]:
  "w_lookup (alone w) = w_lookup w" "w_redis_ok (alone w) = w_redis_ok w" "w_random (alone w) = w_random w"
  "w_ctl_deploy (alone w) = w_ctl_deploy w"
  by (simp_all add: alone_def)

text \<open>
  The hypotheses of the hooks: a job on its first node with a storage and no datasets, whose controller answers
  the deployment with \<open>resp\<close>, and a daemon the plugin talks to alone.
\<close>

definition job_ready ::
  "spank \<Rightarrow> plugin_defaults \<Rightarrow> string list \<Rightarrow> scord_plugin_config \<Rightarrow> plugin_options \<Rightarrow> u32 \<Rightarrow>
   string list \<Rightarrow> string \<Rightarrow> string \<Rightarrow> adm_server \<Rightarrow> 'h world \<Rightarrow> string response_with_value \<Rightarrow> bool" where
  "job_ready sp b av cfg opts jobid hosts ctl cargo sv w resp \<longleftrightarrow>
     first_node sp b av cfg jobid hosts \<and> int (length hosts) \<le> LONG_MAX \<and> plain_options opts \<and>
     addresses sp cfg hosts ctl cargo sv \<and> w_redis_ok w \<and> w_lookup w ctl \<and>
     w_ctl_deploy w ctl ''ADM_deploy_adhoc_storage'' (storage_uuid w opts)
       (adhoc_type_of (opt_adhoc_type opts)) (adhoc_nodes_of opts hosts) = Some resp"

lemma uuid_alone [simp]: "storage_uuid (alone w) opts = storage_uuid w opts"
  by (simp add: storage_uuid_def)

lemma registered_alone [simp]: "job_registered (alone w) = job_registered w"
  by (simp add: fun_eq_iff job_registered_def)

lemma daemon_start:
  assumes "reachable r s" "has_room (k + 3) s" and job: "job_ready sp b av cfg opts jobid hosts ctl cargo sv w resp"
    and path: "resp_error_code resp = ADM_SUCCESS \<longrightarrow> resp_value resp = Some path"
  obtains P' where
    "slurm_spank_user_init sp b (daemon_remote lg w later) av (initial_plugin opts dirs s) =
       Some (P', if resp_error_code resp = ADM_SUCCESS then Inr () else Inl (Leave (Some (- 1))))"
    "job_running sv (db_next_storage (db_of s)) (db_next_job (db_of s)) P'" "p_options P' = opts"
    "p_dirs P' = dirs" "ready_for k (p_daemon P')"
    "job_registered w opts hosts ctl cargo (ucast jobid) (db_of s) (db_of (p_daemon P'))"
    "if resp_error_code resp = ADM_SUCCESS
     then p_adhoc_path P' = P_live (c_str path) \<and> p_job_env P' = job_env_of (opt_adhoc_type opts) (c_str path) []
     else p_adhoc_path P' = P_null \<and> p_job_env P' = []"
proof -
  let ?P = "initial_plugin opts dirs s"
  have p: "p_options ?P = opts" "p_daemon ?P = s" "p_dirs ?P = dirs" "p_adhoc_path ?P = P_null" "p_job_env ?P = []"
    by (simp_all add: initial_plugin_def)
  have c: "first_node sp b av cfg jobid hosts" "addresses sp cfg hosts ctl cargo sv"
      "plain_options (p_options ?P)" "int (length hosts) \<le> LONG_MAX"
      "w_redis_ok (alone w)" "w_lookup (alone w) ctl"
      "w_ctl_deploy (alone w) ctl ''ADM_deploy_adhoc_storage'' (storage_uuid (alone w) (p_options ?P))
         (adhoc_type_of (opt_adhoc_type (p_options ?P))) (adhoc_nodes_of (p_options ?P) hosts) = Some resp"
    using job by (simp_all add: job_ready_def p)
  have room: "ready_for (Suc (Suc (Suc k))) (p_daemon ?P)"
    using ready_for_reachable [OF assms(1,2)] p(2) by (simp add: eval_nat_numeral)
  show ?thesis
    using sv_daemon.start_deploys [OF c(1-4) room c(5-7) path, where logging = lg and later = later]
    unfolding p registered_alone by (elim exE conjE) (rule that)
qed


text \<open>A job with two nodes, one of them for its storage, and controllers that deploy or refuse to.\<close>

definition demo_spank :: spank where
  "demo_spank =
     \<lparr>sp_context = S_CTX_REMOTE, sp_nodeid = Some 0, sp_jobid = Some 42, sp_own_nodelist = None,
      sp_job_nodelist = Some ''n[0-1]'', sp_hostlist = (\<lambda>_. Some [''n0'', ''n1'']),
      sp_addrinfo = (\<lambda>_. Some [(10, ''::1''), (2, ''10.0.0.1'')]), sp_memory = (\<lambda>_. True),
      sp_files = \<lparr>fs_opendir = (\<lambda>_. True), fs_stat = (\<lambda>_. True), fs_unlink = (\<lambda>_. True), fs_rmdir = (\<lambda>_. True)\<rparr>\<rparr>"

definition demo_defaults :: plugin_defaults where
  "demo_defaults =
     \<lparr>SCORD_SERVER_DEFAULT = ''tcp://s:1'', SCORD_PROTO_DEFAULT = ''tcp'', SCORD_PORT_DEFAULT = 1,
      SCORDCTL_PROG_DEFAULT = ''scord-ctl'', SCORDCTL_PROTO_DEFAULT = ''tcp'', SCORDCTL_PORT_DEFAULT = 2,
      SCORDCTL_TMPDIR_DEFAULT = ''/tmp'', CARGO_PROG_DEFAULT = ''cargo'', CARGO_PROTO_DEFAULT = ''tcp'',
      CARGO_PORT_DEFAULT = 3\<rparr>"

definition demo_options :: plugin_options where
  "demo_options = initial_options\<lparr>scord_flag := True, adhoc_nnodes := 1\<rparr>"

definition refusing_world :: "nat world" where
  "refusing_world = quiet_world\<lparr>w_ctl_deploy := (\<lambda>_ _ _ _ _. Some (mk_response_with 0 ADM_ESNAFU None))\<rparr>"

lemma demo_refuses: "refusing_world \<noteq> quiet_world"
proof
  assume "refusing_world = quiet_world"
  then have "w_ctl_deploy refusing_world [] [] [] adhoc_gekkofs \<lparr>adhoc_nodes = []\<rparr> =
      w_ctl_deploy quiet_world [] [] [] adhoc_gekkofs \<lparr>adhoc_nodes = []\<rparr>" by simp
  then show False by (simp add: refusing_world_def mk_response_with_def)
qed

lemma demo_job_ready:
  assumes "w \<in> {quiet_world, refusing_world}"
  shows "job_ready demo_spank demo_defaults [] (default_cfg demo_defaults) demo_options 42 [''n0'', ''n1'']
    ''tcp://10.0.0.1:2'' ''tcp://10.0.0.1:3'' \<lparr>s_protocol = ''tcp'', s_address = ''tcp://s:1''\<rparr> w
    (if w = quiet_world then mk_response_with 0 ADM_SUCCESS (Some ''/mnt'') else mk_response_with 0 ADM_ESNAFU None)"
proof -
  have node: "first_node demo_spank demo_defaults [] (default_cfg demo_defaults) 42 [''n0'', ''n1'']"
    by (simp add: first_node_def demo_spank_def spank_hosts_def get_slurm_hostlist_def allocations_def)
  have ports: "int_to_string 2 = ''2''" "int_to_string 3 = ''3''"
    by code_simp+
  have addr: "addresses demo_spank (default_cfg demo_defaults) [''n0'', ''n1''] ''tcp://10.0.0.1:2''
      ''tcp://10.0.0.1:3'' \<lparr>s_protocol = ''tcp'', s_address = ''tcp://s:1''\<rparr>"
    by (simp add: addresses_def server_address_of_def margo_address_create_def default_cfg_def demo_defaults_def
        null_text_def scord_nodelist_get_node_def regular_nodes_def mk_adm_node_def resolve_host_def demo_spank_def
        AF_INET_def ports)
  have opts: "plain_options demo_options"
    by (simp add: plain_options_def demo_options_def initial_options_def LONG_MAX_def known_adhoc_type_def)
  have "w_redis_ok refusing_world" "w_lookup refusing_world x"
      "w_ctl_deploy refusing_world a b c d e = Some (mk_response_with 0 ADM_ESNAFU None)" for x a b c d e
    by (simp_all add: refusing_world_def)
  then show ?thesis
    using assms node addr opts demo_refuses by (auto simp: job_ready_def LONG_MAX_def)
qed

lemma demo_room: "has_room 5 (initial_scord r)" "has_room 4 (initial_scord r)" "has_room 3 (initial_scord r)"
  by (simp_all add: has_room_def initial_defs)





text \<open>C34: When the controller of such a job refuses to deploy its storage, the start of the job
  returns -1 and the job stays registered in the daemon, as the client of a storage nobody uses. The hook at the end of
  the job then terminates the storage and crashes on the path it never got, before it would remove the job.\<close>

theorem failed_deployment:
  assumes "reachable r s" "has_room 4 s" "job_ready sp b av cfg opts jobid hosts ctl cargo sv w resp"
    and failed: "resp_error_code resp \<noteq> ADM_SUCCESS" and remote: "sp_context sp = S_CTX_REMOTE"
  shows "\<exists>P1 P2. run_hook (slurm_spank_user_init sp b (daemon_remote lg w later) av) (initial_plugin opts dirs s) =
      Some (P1, Inr (Some (- 1))) \<and>
    run_hook (slurm_spank_exit sp b (daemon_remote lg w later) av) P1 = Some (P2, Inl Null_dereference) \<and>
    job_registered w opts hosts ctl cargo (ucast jobid) (db_of s) (db_of (p_daemon P1)) \<and>
    job_registered w opts hosts ctl cargo (ucast jobid) (db_of s) (db_of (p_daemon P2))"
proof -
  have room4: "has_room (1 + 3) s" using assms(2) by simp
  have answer: "resp_error_code resp = ADM_SUCCESS \<longrightarrow> resp_value resp = Some path" for path using failed by simp
  obtain P1 where P1: "slurm_spank_user_init sp b (daemon_remote lg w later) av (initial_plugin opts dirs s) =
       Some (P1, if resp_error_code resp = ADM_SUCCESS then Inr () else Inl (Leave (Some (- 1))))"
    "job_running sv (db_next_storage (db_of s)) (db_next_job (db_of s)) P1" "p_options P1 = opts"
    "p_dirs P1 = dirs" "ready_for 1 (p_daemon P1)"
    "job_registered w opts hosts ctl cargo (ucast jobid) (db_of s) (db_of (p_daemon P1))"
    "if resp_error_code resp = ADM_SUCCESS
     then p_adhoc_path P1 = P_live (c_str []) \<and> p_job_env P1 = job_env_of (opt_adhoc_type opts) (c_str []) []
     else p_adhoc_path P1 = P_null \<and> p_job_env P1 = []"
    by (rule daemon_start [OF assms(1) room4 assms(3) answer])
  have ready: "first_node sp b av cfg jobid hosts" "addresses sp cfg hosts ctl cargo sv" "scord_flag (p_options P1)"
      "output_datasets_count (p_options P1) = 0"
    using assms(3) P1(3) by (simp_all add: job_ready_def plain_options_def)
  have room: "ready_for (Suc 0) (p_daemon P1)" using P1(5) by simp
  have path: "p_adhoc_path P1 = P_null" using P1(7) failed by simp
  obtain P2 where P2: "slurm_spank_exit sp b (daemon_remote lg w later) av P1 = Some (P2, Inl (Crash Null_dereference))"
      "db_of (p_daemon P2) = fst (db_terminate_adhoc_storage (alone w) (db_next_storage (db_of s)) (db_of (p_daemon P1)))"
    using sv_daemon.end_without_path [OF ready(1,3) remote ready(2,4) P1(2) path room,
        where logging = lg and later = later and w = w]
    by (elim exE conjE)
  have "job_registered w opts hosts ctl cargo (ucast jobid) (db_of s) (db_of (p_daemon P2))"
    unfolding P2(2) by (rule registered_same_tables [OF P1(6) terminate_same_tables])
  with P1(1,6) P2(1) failed show ?thesis
    by (intro exI [of _ P1] exI [of _ P2]) (simp add: run_hook_def)
qed

theorem failed_deployment_witness:
  "\<exists>P1 P2. run_hook (slurm_spank_exit demo_spank demo_defaults (daemon_remote True refusing_world (\<lambda>d. d)) []) P1 =
      Some (P2, Inl Null_dereference) \<and> db_jobs (db_of (p_daemon P2)) 0 \<noteq> None"
proof -
  have ready: "job_ready demo_spank demo_defaults [] (default_cfg demo_defaults) demo_options 42 [''n0'', ''n1'']
      ''tcp://10.0.0.1:2'' ''tcp://10.0.0.1:3'' \<lparr>s_protocol = ''tcp'', s_address = ''tcp://s:1''\<rparr> refusing_world
      (mk_response_with 0 ADM_ESNAFU None)"
    using demo_job_ready [of refusing_world] demo_refuses by simp
  have failed: "resp_error_code (mk_response_with 0 ADM_ESNAFU None) \<noteq> ADM_SUCCESS"
    by (simp add: mk_response_with_def)
  have ctx: "sp_context demo_spank = S_CTX_REMOTE" by (simp add: demo_spank_def)
  obtain P1 P2 where P: "run_hook (slurm_spank_exit demo_spank demo_defaults
        (daemon_remote True refusing_world (\<lambda>d. d)) []) P1 = Some (P2, Inl Null_dereference)"
      "job_registered refusing_world demo_options [''n0'', ''n1''] ''tcp://10.0.0.1:2'' ''tcp://10.0.0.1:3'' (ucast (42 :: u32))
        (db_of (initial_scord True :: nat scord)) (db_of (p_daemon P2))"
    using failed_deployment [OF reachable_initial demo_room(2) ready failed ctx, of True "\<lambda>d. d" "\<lambda>_. None" True]
    by (elim exE conjE) (rule that)
  have "db_next_job (db_of (initial_scord True :: nat scord)) = 0" by (simp add: initial_defs)
  with P(2) have "db_jobs (db_of (p_daemon P2)) 0 \<noteq> None"
    by (auto simp: job_registered_def Let_def simp del: db_of_fields)
  with P(1) show ?thesis by (intro exI [of _ P1] exI [of _ P2]) simp
qed

text \<open>Without the option \<open>--adm-adhoc-nodes\<close> the storage gets no node.\<close>

lemma no_nodes_by_default:
  "0 < nnodes \<Longrightarrow> adhoc_count (adhoc_nnodes initial_options) nnodes = 0"
  "adhoc_nodes_of initial_options hosts = \<lparr>adhoc_nodes = []\<rparr>"
  by (simp_all add: adhoc_count_def adhoc_nodes_of_def initial_options_def)

end
