(* ===== verification/Tools.thy ===== *)
theory Tools
  imports Statements
begin

text \<open>
  The command-line tools (\<open>src/cli/scord_ping.cpp\<close>, \<open>scord_query.cpp\<close>, \<open>scord_adhoc.cpp\<close>): what they ask of the
  daemon, what they print and how they exit. They start from the structure that the CLI11 library has
  filled from the command line.
\<close>

section \<open>Options\<close>

text \<open>The structure of \<open>scord_adhoc\<close>. Those of the other two tools are arguments.\<close>

record adhoc_query =
  q_server_address :: string
  q_controller_address :: string
  q_stager_address :: string
  q_slurm_id :: u32
  q_job_id :: u32
  q_adhocid :: u32
  q_nodes :: string
  q_adhocfs :: string
  q_inputs :: string
  q_outputs :: string
  q_function :: string
  q_qos :: u32

text \<open>
  \<open>std::getline\<close> takes what is before the next delimiter and fails when nothing is left of the text, so that an
  empty text has no token and a delimiter at the end begins none.
\<close>

function split_tokens :: "char \<Rightarrow> string \<Rightarrow> string list" where
  "split_tokens d [] = []"
| "split_tokens d (c # s) =
     takeWhile (\<lambda>x. x \<noteq> d) (c # s) #
       (case dropWhile (\<lambda>x. x \<noteq> d) (c # s) of [] \<Rightarrow> [] | _ # rest \<Rightarrow> split_tokens d rest)"
  by pat_completeness auto

lemma dropWhile_rest_shorter: "dropWhile P s = x # rest \<Longrightarrow> length rest < length s"
  using length_dropWhile_le [of P s] by simp

termination split_tokens
  by (relation "measure (\<lambda>(d, s). length s)") (auto dest: dropWhile_rest_shorter simp: less_Suc_eq split: if_splits)

definition parse_address :: "string \<Rightarrow> cpp_error + adm_server" where
  "parse_address address =
     (case str_find ''://'' address of
        None \<Rightarrow> Inl (Runtime_error (''Invalid address: '' @ address))
      | Some pos \<Rightarrow> Inr \<lparr>s_protocol = take pos address, s_address = address\<rparr>)"

definition create_adhoc_type_from_name :: "string \<Rightarrow> cpp_error + adhoc_type" where
  "create_adhoc_type_from_name name =
     (if name = ''gekkofs'' then Inr adhoc_gekkofs
      else if name = ''hercules'' then Inr adhoc_hercules
      else if name = ''expand'' then Inr adhoc_expand
      else if name = ''dataclay'' then Inr adhoc_dataclay
      else Inl (Runtime_error (''Invalid adhoc fs type: '' @ name)))"

text \<open>A route is read at the indices 0 and 1 of its tokens, however many there are.\<close>

definition route_of_text :: "string \<Rightarrow> cpp_error + dataset_route" where
  "route_of_text src_dst =
     (let route = split_tokens (CHR '','') src_dst
      in bind_sum (c_index route 0) (\<lambda>src. bind_sum (c_index route 1) (\<lambda>dst.
           Inr \<lparr>route_source = \<lparr>dataset_id = src\<rparr>, route_destination = \<lparr>dataset_id = dst\<rparr>\<rparr>)))"

definition routes_of_text :: "string \<Rightarrow> cpp_error + dataset_route list" where
  "routes_of_text routes = try_map route_of_text (split_tokens (CHR '';'') routes)"

section \<open>Running a tool\<close>

record 'd tool =
  t_daemon :: 'd
  t_stdout :: string
  t_stderr :: string

definition initial_tool :: "'d \<Rightarrow> 'd tool" where
  "initial_tool d = \<lparr>t_daemon = d, t_stdout = [], t_stderr = []\<rparr>"

definition print_t :: "string \<Rightarrow> ('d tool, unit) process" where
  "print_t line = put_h (\<lambda>s. s\<lparr>t_stdout := t_stdout s @ line\<rparr>)"

abbreviation newline :: string where
  "newline \<equiv> [CHR 0x0A]"

text \<open>A function of the C++ interface, with the request it sends when the address resolves.\<close>

definition call_t ::
  "'d remote \<Rightarrow> adm_server \<Rightarrow> request \<Rightarrow> (connection \<Rightarrow> cpp_error + 'a) \<Rightarrow> ('d tool, 'a) process" where
  "call_t R sv q f s =
     (let cn = rm_connection R sv (t_daemon s)
      in lift_h (f cn)
           (s\<lparr>t_daemon := (if cn_lookup cn then rm_after R q (t_daemon s) else t_daemon s)\<rparr>))"

text \<open>
  The value that \<open>main\<close> returns is an \<open>int\<close>, of which the system keeps the low 8 bits. The text of an
  exception of another library is not known here.
\<close>

definition int_of_u64 :: "u64 \<Rightarrow> int" where
  "int_of_u64 x = sint (ucast x :: 32 word)"

definition exit_status :: "int \<Rightarrow> nat" where
  "exit_status n = nat (n mod 256)"

definition EXIT_FAILURE_int :: int where
  "EXIT_FAILURE_int = 1"

fun what_text :: "cpp_error \<Rightarrow> string" where
  "what_text (Runtime_error m) = m"
| "what_text (Invalid_argument m) = m"
| "what_text _ = []"

definition run_tool ::
  "string \<Rightarrow> ('d tool, unit) process \<Rightarrow> 'd tool \<Rightarrow> ('d tool \<times> (cpp_error + nat)) option" where
  "run_tool prefix m s =
     (case m s of
        None \<Rightarrow> None
      | Some (s, Inr _) \<Rightarrow> Some (s, Inr 0)
      | Some (s, Inl (Leave c)) \<Rightarrow> Some (s, Inr (case c of None \<Rightarrow> 0 | Some c \<Rightarrow> exit_status c))
      | Some (s, Inl (Crash e)) \<Rightarrow>
          if is_exception e
          then Some (s\<lparr>t_stderr := t_stderr s @ prefix @ '': '' @ what_text e @ newline\<rparr>,
                     Inr (exit_status EXIT_FAILURE_int))
          else Some (s, Inl e))"

section \<open>Ping and query\<close>

definition scord_ping :: "'d remote \<Rightarrow> string \<Rightarrow> ('d tool, unit) process" where
  "scord_ping R address =
     bind_h (lift_h (parse_address address)) (\<lambda>sv.
     bind_h (call_t R sv Req_ping lib_ping) (\<lambda>_.
     print_t (''Ping succeeded!'' @ newline)))"

definition scord_query :: "'d remote \<Rightarrow> string \<Rightarrow> u32 \<Rightarrow> bool \<Rightarrow> ('d tool, unit) process" where
  "scord_query R address i verbose =
     bind_h (lift_h (parse_address address)) (\<lambda>sv.
     bind_h (call_t R sv (Req_query (ucast i)) (\<lambda>cn. lib_query cn (ucast i))) (\<lambda>info.
     if verbose
     then print_t (''Job metadata:'' @ newline @ ''  adhoc_controller: '' @ adhoc_controller_address info @
            newline @ ''  adhoc_uuid: '' @ info_uuid info @ newline @
            ''  io_procs: '' @ nat_to_string (unat (procs_for_io info)) @ newline)
     else print_t (info_uuid info @ newline)))"

section \<open>Adhoc storages\<close>

text \<open>
  \<open>create\<close>: the storage is registered and deployed first, then the routes are read and the job is registered. The
  identifier of the job is the value returned.
\<close>

definition adhoc_context_of :: "adhoc_query \<Rightarrow> adhoc_ctx" where
  "adhoc_context_of cfg =
     \<lparr>controller_address = q_controller_address cfg, data_stager_address = q_stager_address cfg,
      exec_mode = mode_separate_new, ctx_access_type = access_read_write, walltime = 100, should_flush = False\<rparr>"

definition tool_create :: "'d remote \<Rightarrow> adm_server \<Rightarrow> adhoc_query \<Rightarrow> ('d tool, unit) process" where
  "tool_create R sv cfg =
     (let nodes = map mk_node (split_tokens (CHR '','') (q_nodes cfg));
          name = q_adhocfs cfg @ nat_to_string (unat (q_slurm_id cfg));
          res = \<lparr>adhoc_nodes = nodes\<rparr>; ctx = adhoc_context_of cfg; slurm_id = ucast (q_slurm_id cfg)
      in bind_h (lift_h (create_adhoc_type_from_name (q_adhocfs cfg))) (\<lambda>type.
         bind_h (call_t R sv (Req_register_adhoc_storage name type ctx res)
                   (\<lambda>cn. lib_register_adhoc_storage cn name type ctx res)) (\<lambda>storage.
         bind_h (call_t R sv (Req_deploy_adhoc_storage (adhoc_id storage))
                   (\<lambda>cn. lib_deploy_adhoc_storage cn storage)) (\<lambda>path.
         bind_h (print_t (path @ '','' @ u64_to_string (adhoc_id storage) @ newline)) (\<lambda>_.
         bind_h (lift_h (routes_of_text (q_inputs cfg))) (\<lambda>ins.
         bind_h (lift_h (routes_of_text (q_outputs cfg))) (\<lambda>outs.
           let job_res = \<lparr>job_nodes = nodes\<rparr>;
               reqs = \<lparr>req_inputs = ins, req_outputs = outs, req_expected_outputs = [],
                       req_adhoc_storage = Some storage\<rparr>
           in bind_h (call_t R sv (Req_register_job job_res reqs slurm_id)
                        (\<lambda>cn. lib_register_job cn job_res reqs slurm_id)) (\<lambda>job.
              stop_h (Leave (Some (int_of_u64 (job_id job))))))))))))"

text \<open>\<open>stage-in\<close> and \<open>stage-out\<close> differ in the routes they take.\<close>

definition tool_stage :: "'d remote \<Rightarrow> adm_server \<Rightarrow> adhoc_query \<Rightarrow> string \<Rightarrow> ('d tool, unit) process" where
  "tool_stage R sv cfg routes =
     bind_h (lift_h (routes_of_text routes)) (\<lambda>rs.
       let sources = map route_source rs; targets = map route_destination rs;
           job = \<lparr>job_id = ucast (q_job_id cfg), job_slurm_id = ucast (q_slurm_id cfg)\<rparr>;
           limits = (if q_qos cfg \<noteq> 0
                     then [Some \<lparr>lim_subclass = qos_class_bandwidth, lim_value = ucast (q_qos cfg), lim_entity = None\<rparr>]
                     else [])
       in bind_h (call_t R sv (Req_transfer_datasets (job_id job) sources targets limits mapping_n_to_n)
                    (\<lambda>cn. lib_transfer_datasets cn job sources targets limits mapping_n_to_n)) (\<lambda>t.
          stop_h (Leave (Some (int_of_u64 (tx_id t))))))"

text \<open>
  \<open>wait\<close>: a first query, and further ones while the last did not say finished. A failure is noticed in the
  further ones. The loop may run forever.
\<close>

definition query_t :: "'d remote \<Rightarrow> adm_server \<Rightarrow> job \<Rightarrow> transfer \<Rightarrow> ('d tool, transfer_state) process" where
  "query_t R sv j t = call_t R sv (Req_query_transfer (job_id j) (tx_id t)) (\<lambda>cn. lib_query_transfer cn j t)"

partial_function (option) wait_finished ::
  "'d remote \<Rightarrow> adm_server \<Rightarrow> job \<Rightarrow> transfer \<Rightarrow> transfer_state \<Rightarrow> 'd tool \<Rightarrow> ('d tool \<times> (stop + unit)) option" where
  "wait_finished R sv j t response s =
     (if tx_status response = tx_finished then Some (s, Inr ())
      else
        (case query_t R sv j t (s\<lparr>t_daemon := rm_between R (t_daemon s)\<rparr>) of
           None \<Rightarrow> None
         | Some (s, Inl e) \<Rightarrow> Some (s, Inl e)
         | Some (s, Inr response) \<Rightarrow>
             if tx_status response = tx_failed
             then Some (s\<lparr>t_stdout := t_stdout s @ ''Transfer failed'' @ newline\<rparr>, Inl (Leave (Some EXIT_FAILURE_int)))
             else wait_finished R sv j t response s))"

definition tool_wait :: "'d remote \<Rightarrow> adm_server \<Rightarrow> adhoc_query \<Rightarrow> ('d tool, unit) process" where
  "tool_wait R sv cfg =
     (let t = \<lparr>tx_id = ucast (q_slurm_id cfg)\<rparr>;
          j = \<lparr>job_id = ucast (q_job_id cfg), job_slurm_id = ucast (q_slurm_id cfg)\<rparr>
      in bind_h (query_t R sv j t) (wait_finished R sv j t))"

text \<open>
  \<open>destroy\<close> makes a storage around the identifier; \<open>blank\<close> is the context made by default, whose numbers are
  indeterminate.
\<close>

definition tool_destroy :: "adhoc_ctx \<Rightarrow> 'd remote \<Rightarrow> adm_server \<Rightarrow> adhoc_query \<Rightarrow> ('d tool, unit) process" where
  "tool_destroy blank R sv cfg =
     bind_h (lift_h (create_adhoc_type_from_name (q_adhocfs cfg))) (\<lambda>type.
       let storage = \<lparr>adhoc_kind = type, adhoc_name = [], adhoc_id = ucast (q_adhocid cfg),
                      adhoc_context = blank, adhoc_res = \<lparr>adhoc_nodes = []\<rparr>\<rparr>
       in call_t R sv (Req_terminate_adhoc_storage (adhoc_id storage))
            (\<lambda>cn. lib_terminate_adhoc_storage cn storage))"

text \<open>The function is compared with the five known names; any other does nothing and succeeds.\<close>

definition scord_adhoc :: "adhoc_ctx \<Rightarrow> 'd remote \<Rightarrow> adhoc_query \<Rightarrow> ('d tool, unit) process" where
  "scord_adhoc blank R cfg =
     bind_h (lift_h (parse_address (q_server_address cfg))) (\<lambda>sv.
     if q_function cfg = ''create'' then tool_create R sv cfg
     else if q_function cfg = ''stage-in'' then tool_stage R sv cfg (q_inputs cfg)
     else if q_function cfg = ''wait'' then tool_wait R sv cfg
     else if q_function cfg = ''stage-out'' then tool_stage R sv cfg (q_outputs cfg)
     else if q_function cfg = ''destroy'' then tool_destroy blank R sv cfg
     else pure_h ())"

end
