(* ===== verification/ToolClaims.thy ===== *)
theory ToolClaims
  imports Tools Service ScordProps
begin

text \<open>What the command-line tools do to the daemon, and what they say about it.\<close>

section \<open>Creating a storage\<close>

lemma routes_fail: "routes_of_text s = Inl e \<Longrightarrow> e = Out_of_bounds"
proof -
  have "route_of_text x = Inl e \<Longrightarrow> e = Out_of_bounds" for x e
    by (auto simp: route_of_text_def Let_def c_index_def split: if_splits)
  moreover have "try_map route_of_text xs = Inl e \<Longrightarrow> \<exists>x. route_of_text x = Inl e" for xs
    by (induction xs) (auto simp: bind_sum_eq_Inl)
  ultimately show "routes_of_text s = Inl e \<Longrightarrow> e = Out_of_bounds"
    unfolding routes_of_text_def by blast
qed

text \<open>The storage that \<open>create\<close> asks for, with its deployment, and what it asks the controller.\<close>

definition tool_nodes :: "adhoc_query \<Rightarrow> node list" where
  "tool_nodes cfg = map mk_node (split_tokens (CHR '','') (q_nodes cfg))"

definition tool_storage_name :: "adhoc_query \<Rightarrow> string" where
  "tool_storage_name cfg = q_adhocfs cfg @ nat_to_string (unat (q_slurm_id cfg))"

definition tool_storage :: "adhoc_query \<Rightarrow> adhoc_type \<Rightarrow> u64 \<Rightarrow> adhoc_storage" where
  "tool_storage cfg ty aid =
     \<lparr>adhoc_kind = ty, adhoc_name = tool_storage_name cfg, adhoc_id = aid,
      adhoc_context = adhoc_context_of cfg, adhoc_res = \<lparr>adhoc_nodes = tool_nodes cfg\<rparr>\<rparr>"

definition tool_uuid :: "'h world \<Rightarrow> adhoc_type \<Rightarrow> string" where
  "tool_uuid w ty = adhoc_type_format (CHR ''e'') ty @ ''-'' @ w_random w"

definition controller_deploys :: "'h world \<Rightarrow> adhoc_query \<Rightarrow> adhoc_type \<Rightarrow> string \<Rightarrow> bool" where
  "controller_deploys w cfg ty path \<longleftrightarrow>
     w_lookup w (q_controller_address cfg) \<and>
     (\<exists>resp. w_ctl_deploy w (q_controller_address cfg) ''ADM_deploy_adhoc_storage'' (tool_uuid w ty) ty
          \<lparr>adhoc_nodes = tool_nodes cfg\<rparr> = Some resp \<and>
        resp_error_code resp = ADM_SUCCESS \<and> resp_value resp = Some path)"

text \<open>The tables with the storage, used by the job \<open>client\<close> if there is one.\<close>

definition tool_storage_added :: "'h world \<Rightarrow> adhoc_query \<Rightarrow> adhoc_type \<Rightarrow> job_id option \<Rightarrow> 'h database \<Rightarrow> 'h database \<Rightarrow> bool" where
  "tool_storage_added w cfg ty client d d' \<longleftrightarrow>
     db_storages d' = (db_storages d)(db_next_storage d \<mapsto>
       \<lparr>ds_uuid = tool_uuid w ty, ds_storage = tool_storage cfg ty (db_next_storage d), ds_client = client\<rparr>)"

definition tool_job_added ::
  "'h world \<Rightarrow> adhoc_query \<Rightarrow> adhoc_type \<Rightarrow> dataset_route list \<Rightarrow> dataset_route list \<Rightarrow>
   'h database \<Rightarrow> 'h database \<Rightarrow> bool" where
  "tool_job_added w cfg ty ins outs d d' \<longleftrightarrow>
     db_jobs d' = (db_jobs d)(db_next_job d \<mapsto>
       \<lparr>dj_job = \<lparr>job_id = db_next_job d, job_slurm_id = ucast (q_slurm_id cfg)\<rparr>,
        dj_resources = \<lparr>job_nodes = tool_nodes cfg\<rparr>,
        dj_requirements = \<lparr>req_inputs = ins, req_outputs = outs, req_expected_outputs = [],
          req_adhoc_storage = Some (tool_storage cfg ty (db_next_storage d))\<rparr>,
        dj_storage = Some \<lparr>ref_controller = q_controller_address cfg, ref_stager = q_stager_address cfg,
          ref_uuid = tool_uuid w ty\<rparr>\<rparr>)"

context scord_service
begin

lemma tool_call:
  "room (Suc k) (t_daemon s) \<Longrightarrow>
   call_t R sv q f s =
     lift_h (f (db_connect logging w (db (t_daemon s)))) (s\<lparr>t_daemon := rm_after R q (t_daemon s)\<rparr>)"
  by (simp add: call_t_def connects)

lemma bind_tool_call:
  assumes "room (Suc k) (t_daemon s)" "f (db_connect logging w (db (t_daemon s))) = r"
  shows "bind_h (call_t R sv q f) g s =
    (case r of Inl e \<Rightarrow> Some (s\<lparr>t_daemon := rm_after R q (t_daemon s)\<rparr>, Inl (Crash e))
             | Inr x \<Rightarrow> g x (s\<lparr>t_daemon := rm_after R q (t_daemon s)\<rparr>))"
  using assms by (simp add: bind_h_def tool_call lift_h_def split: sum.split)

lemma create_served:
  assumes room: "room (Suc (Suc (Suc k))) (t_daemon s)" and ty: "create_adhoc_type_from_name (q_adhocfs cfg) = Inr ty"
    and redis: "\<not> db_redis (db (t_daemon s))" and ctl: "controller_deploys w cfg ty path"
  defines "d \<equiv> db (t_daemon s)"
  shows "\<exists>s'. t_stdout s' = t_stdout s @ path @ '','' @ u64_to_string (db_next_storage d) @ newline \<and>
    (case bind_sum (routes_of_text (q_inputs cfg)) (\<lambda>ins.
            bind_sum (routes_of_text (q_outputs cfg)) (\<lambda>outs. Inr (ins, outs))) of
       Inl e \<Rightarrow> tool_create R sv cfg s = Some (s', Inl (Crash e)) \<and>
         tool_storage_added w cfg ty None d (db (t_daemon s')) \<and> db_jobs (db (t_daemon s')) = db_jobs d
     | Inr (ins, outs) \<Rightarrow>
         tool_create R sv cfg s = Some (s', Inl (Leave (Some (int_of_u64 (db_next_job d))))) \<and>
         tool_storage_added w cfg ty (Some (db_next_job d)) d (db (t_daemon s')) \<and>
         tool_job_added w cfg ty ins outs d (db (t_daemon s')))"
proof -
  let ?aid = "db_next_storage d" and ?jid = "db_next_job d" and ?ctx = "adhoc_context_of cfg"
    and ?res = "\<lparr>adhoc_nodes = tool_nodes cfg\<rparr>" and ?sl = "ucast (q_slurm_id cfg) :: u64"
  let ?q1 = "Req_register_adhoc_storage (tool_storage_name cfg) ty ?ctx ?res"
  define s1 where "s1 = s\<lparr>t_daemon := rm_after R ?q1 (t_daemon s)\<rparr>"
  define s2 where "s2 = s1\<lparr>t_daemon := rm_after R (Req_deploy_adhoc_storage ?aid) (t_daemon s1)\<rparr>"
  define s3 where "s3 = s2\<lparr>t_stdout := t_stdout s2 @ path @ '','' @ u64_to_string ?aid @ newline\<rparr>"
  have r1: "room (Suc (Suc k)) (t_daemon s1)" using room_after [OF room] by (simp add: s1_def)
  have r2: "room (Suc k) (t_daemon s2)" using room_after [OF r1] by (simp add: s2_def)
  have d1: "db (t_daemon s1) = fst (db_register_adhoc_storage w (tool_storage_name cfg) ty ?ctx ?res d)"
    using serves [OF room] by (simp add: s1_def d_def db_reply_def)
  have d2: "db (t_daemon s2) = take_call (db (t_daemon s1))"
    using serves [OF r1] redis
    by (simp add: s2_def d1 db_reply_def db_register_adhoc_storage_def db_deploy_adhoc_storage_def Let_def
        log_client_def d_def take_call_def split: option.split)
  have register: "bind_h (call_t R sv ?q1 (\<lambda>cn. lib_register_adhoc_storage cn (tool_storage_name cfg) ty ?ctx ?res)) g s =
      g (tool_storage cfg ty ?aid) s1" for g :: "adhoc_storage \<Rightarrow> ('d tool, unit) process"
    by (simp add: bind_tool_call [OF room refl] s1_def lib_register_adhoc_storage_def c_register_adhoc_storage_def
        call_value_def value_or_throw_def answer_id_def db_register_adhoc_storage_def db_reply_def response_value_def
        Let_def tool_storage_def d_def)
  have deploy: "bind_h (call_t R sv (Req_deploy_adhoc_storage ?aid)
        (\<lambda>cn. lib_deploy_adhoc_storage cn (tool_storage cfg ty ?aid))) g s1 = g path s2"
    for g :: "string \<Rightarrow> ('d tool, unit) process"
    using ctl redis
    by (auto simp: bind_tool_call [OF r1 refl] s2_def lib_deploy_adhoc_storage_def c_deploy_adhoc_storage_def
        call_value_def value_or_throw_def answer_path_def db_deploy_adhoc_storage_def db_reply_def response_value_def
        Let_def tool_storage_def d1 db_register_adhoc_storage_def ref_of_def adhoc_context_of_def
        controller_deploys_def tool_uuid_def take_call_def d_def)
  have id: "adhoc_id (tool_storage cfg ty ?aid) = ?aid" by (simp add: tool_storage_def)
  define job_res reqs where "job_res = \<lparr>job_nodes = tool_nodes cfg\<rparr>"
    and "reqs ins outs = \<lparr>req_inputs = ins, req_outputs = outs, req_expected_outputs = [],
           req_adhoc_storage = Some (tool_storage cfg ty ?aid)\<rparr>" for ins outs
  have create: "tool_create R sv cfg s =
      bind_h (lift_h (routes_of_text (q_inputs cfg))) (\<lambda>ins.
      bind_h (lift_h (routes_of_text (q_outputs cfg))) (\<lambda>outs.
      bind_h (call_t R sv (Req_register_job job_res (reqs ins outs) ?sl)
                (\<lambda>cn. lib_register_job cn job_res (reqs ins outs) ?sl)) (\<lambda>job.
      stop_h (Leave (Some (int_of_u64 (job_id job))))))) s3"
    unfolding tool_create_def Let_def tool_nodes_def [symmetric] tool_storage_name_def [symmetric]
      job_res_def [symmetric] reqs_def [symmetric]
    by (simp add: ty hook_simps register deploy id print_t_def s3_def job_res_def [symmetric] reqs_def [symmetric])
  have d3: "db_storages (db (t_daemon s3)) ?aid =
      Some \<lparr>ds_uuid = tool_uuid w ty, ds_storage = tool_storage cfg ty ?aid, ds_client = None\<rparr>"
    "\<not> db_redis (db (t_daemon s3))" "db_next_job (db (t_daemon s3)) = ?jid"
    "db_jobs (db (t_daemon s3)) = db_jobs d" "tool_storage_added w cfg ty None d (db (t_daemon s3))"
    using redis
    by (simp_all add: s3_def d2 d1 db_register_adhoc_storage_def Let_def take_call_def tool_uuid_def
        tool_storage_def d_def tool_storage_added_def)
  have r3: "room (Suc k) (t_daemon s3)" "t_stdout s3 = t_stdout s @ path @ '','' @ u64_to_string ?aid @ newline"
    using r2 by (simp_all add: s3_def s2_def s1_def)
  define s4 where "s4 ins outs = s3\<lparr>t_daemon := rm_after R (Req_register_job job_res (reqs ins outs) ?sl) (t_daemon s3)\<rparr>"
    for ins outs
  have job: "bind_h (call_t R sv (Req_register_job job_res (reqs ins outs) ?sl)
        (\<lambda>cn. lib_register_job cn job_res (reqs ins outs) ?sl)) g s3 =
      g \<lparr>job_id = ?jid, job_slurm_id = ?sl\<rparr> (s4 ins outs)" for ins outs and g :: "job \<Rightarrow> ('d tool, unit) process"
    using d3 by (simp add: bind_tool_call [OF r3(1) refl] s4_def lib_register_job_def c_register_job_def
        call_value_def value_or_throw_def answer_id_def db_register_job_def db_reply_def response_value_def
        Let_def reqs_def id)
  have served: "db (t_daemon (s4 ins outs)) = fst (db_register_job w job_res (reqs ins outs) ?sl (db (t_daemon s3)))"
    for ins outs using serves [OF r3(1)] by (simp add: s4_def db_reply_def)
  have tables: "t_stdout (s4 ins outs) = t_stdout s3"
      "tool_storage_added w cfg ty (Some ?jid) d (db (t_daemon (s4 ins outs)))"
      "tool_job_added w cfg ty ins outs d (db (t_daemon (s4 ins outs)))" for ins outs
    using d3 unfolding served
    by (simp_all add: s4_def db_register_job_def Let_def reqs_def id add_job_def take_call_def ref_of_def
        tool_storage_added_def tool_job_added_def job_res_def tool_storage_def adhoc_context_of_def)
  show ?thesis
  proof (cases "routes_of_text (q_inputs cfg)")
    case (Inl e)
    with create r3 d3 show ?thesis by (intro exI [of _ s3]) (simp add: hook_simps)
  next
    case ins: (Inr ins)
    show ?thesis
    proof (cases "routes_of_text (q_outputs cfg)")
      case (Inl e)
      with create ins r3 d3 show ?thesis by (intro exI [of _ s3]) (simp add: hook_simps)
    next
      case (Inr outs)
      with create ins r3 tables show ?thesis by (intro exI [of _ "s4 ins outs"]) (simp add: hook_simps job)
    qed
  qed
qed

end

text \<open>What the request of \<open>create\<close> and the answers of its surroundings have to be.\<close>

definition creation_ready :: "'h scord \<Rightarrow> 'h world \<Rightarrow> adhoc_query \<Rightarrow> adhoc_type \<Rightarrow> string \<Rightarrow> bool" where
  "creation_ready s w cfg ty path \<longleftrightarrow>
     has_room 3 s \<and> \<not> db_redis (db_of s) \<and> str_find ''://'' (q_server_address cfg) \<noteq> None \<and>
     q_function cfg = ''create'' \<and> create_adhoc_type_from_name (q_adhocfs cfg) = Inr ty \<and>
     controller_deploys w cfg ty path"

lemma tool_alone [simp]:
  "tool_uuid (alone w) = tool_uuid w" "tool_storage_added (alone w) = tool_storage_added w"
  "tool_job_added (alone w) = tool_job_added w" "controller_deploys (alone w) = controller_deploys w"
  by (simp_all add: fun_eq_iff tool_uuid_def tool_storage_added_def tool_job_added_def controller_deploys_def alone_def)

lemma run_crash: "\<not> is_exception e \<Longrightarrow> m s = Some (s', Inl (Crash e)) \<Longrightarrow> run_tool p m s = Some (s', Inl e)"
  by (simp add: run_tool_def)

lemma exit_status_id: "exit_status (int_of_u64 i) = unat i mod 256"
proof -
  have "take_bit 8 (sint (ucast i :: 32 word)) = take_bit 8 (uint i)"
    by (simp add: sint_uint unsigned_ucast_eq take_bit_signed_take_bit take_bit_take_bit)
  then have "sint (ucast i :: 32 word) mod 256 = uint i mod 256" by (simp add: take_bit_eq_mod)
  then show ?thesis by (simp add: exit_status_def int_of_u64_def nat_mod_distrib)
qed

text \<open>C26: \<open>scord_adhoc -f create\<close> on a daemon without Redis whose controller deploys prints the path and
  the identifier of a new storage that has the nodes of the command line. When all routes of the command line have
  two names the job with these routes is registered as the client of the storage, and the tool exits with the
  identifier of the job modulo 256, so that job 1 looks like a failure and job 256 like job 0. A route
  without a comma is an access beyond the end of its tokens, and leaves the storage deployed, without a job.\<close>

theorem tool_creates:
  assumes "reachable r s" "creation_ready s w cfg ty path"
  shows "\<exists>s'. t_stdout s' = path @ '','' @ u64_to_string (db_next_storage (db_of s)) @ newline \<and>
    (case bind_sum (routes_of_text (q_inputs cfg)) (\<lambda>ins.
            bind_sum (routes_of_text (q_outputs cfg)) (\<lambda>outs. Inr (ins, outs))) of
       Inl e \<Rightarrow> run_tool ''Error'' (scord_adhoc blank (daemon_remote lg w later) cfg) (initial_tool s) =
           Some (s', Inl Out_of_bounds) \<and>
         tool_storage_added w cfg ty None (db_of s) (db_of (t_daemon s')) \<and>
         db_jobs (db_of (t_daemon s')) = db_jobs (db_of s)
     | Inr (ins, outs) \<Rightarrow>
         run_tool ''Error'' (scord_adhoc blank (daemon_remote lg w later) cfg) (initial_tool s) =
           Some (s', Inr (unat (db_next_job (db_of s)) mod 256)) \<and>
         tool_storage_added w cfg ty (Some (db_next_job (db_of s))) (db_of s) (db_of (t_daemon s')) \<and>
         tool_job_added w cfg ty ins outs (db_of s) (db_of (t_daemon s')))"
proof -
  let ?sv = "\<lparr>s_protocol = take (the (str_find ''://'' (q_server_address cfg))) (q_server_address cfg),
      s_address = q_server_address cfg\<rparr>" and ?s = "initial_tool s"
  have ready: "has_room 3 s" "\<not> db_redis (db_of s)" "create_adhoc_type_from_name (q_adhocfs cfg) = Inr ty"
      "controller_deploys (alone w) cfg ty path"
    using assms(2) by (simp_all add: creation_ready_def)
  have t: "t_daemon ?s = s" "t_stdout ?s = []" by (simp_all add: initial_tool_def)
  have room: "ready_for (Suc (Suc (Suc 0))) (t_daemon ?s)"
    using reachable_inv [OF assms(1) has_room_bounded [OF ready(1)]] ready(1)
    by (simp add: t ready_for_def eval_nat_numeral)
  have redis: "\<not> db_redis (db_of (t_daemon ?s))" using ready(2) by (simp only: t not_False_eq_True)
  have main: "scord_adhoc blank (daemon_remote lg w later) cfg ?s = tool_create (daemon_remote lg w later) ?sv cfg ?s"
    using assms(2) by (auto simp: creation_ready_def scord_adhoc_def parse_address_def hook_simps)
  let ?routes = "bind_sum (routes_of_text (q_inputs cfg)) (\<lambda>ins.
      bind_sum (routes_of_text (q_outputs cfg)) (\<lambda>outs. Inr (ins, outs)))"
  have bounds: "?routes = Inl e \<Longrightarrow> e = Out_of_bounds" for e
    by (auto simp: bind_sum_eq_Inl dest: routes_fail)
  have created: "\<exists>s'. t_stdout s' = t_stdout ?s @ path @ '','' @ u64_to_string (db_next_storage (db_of (t_daemon ?s))) @ newline \<and>
    (case ?routes of
       Inl e \<Rightarrow> tool_create (daemon_remote lg w later) ?sv cfg ?s = Some (s', Inl (Crash e)) \<and>
         tool_storage_added (alone w) cfg ty None (db_of (t_daemon ?s)) (db_of (t_daemon s')) \<and>
         db_jobs (db_of (t_daemon s')) = db_jobs (db_of (t_daemon ?s))
     | Inr (ins, outs) \<Rightarrow>
         tool_create (daemon_remote lg w later) ?sv cfg ?s =
           Some (s', Inl (Leave (Some (int_of_u64 (db_next_job (db_of (t_daemon ?s))))))) \<and>
         tool_storage_added (alone w) cfg ty (Some (db_next_job (db_of (t_daemon ?s)))) (db_of (t_daemon ?s)) (db_of (t_daemon s')) \<and>
         tool_job_added (alone w) cfg ty ins outs (db_of (t_daemon ?s)) (db_of (t_daemon s')))"
    by (rule sv_daemon.create_served [OF room ready(3) redis ready(4)])
  show ?thesis
  proof (cases ?routes)
    case (Inl e)
    with created bounds [OF Inl] show ?thesis unfolding t tool_alone main [symmetric]
      by (auto simp: run_tool_def simp del: db_of_fields)
  next
    case (Inr r)
    obtain ins outs where r: "r = (ins, outs)" by (cases r)
    with created Inr show ?thesis unfolding t tool_alone main [symmetric]
      by (auto simp: run_tool_def exit_status_id simp del: db_of_fields)
  qed
qed

definition demo_query :: adhoc_query where
  "demo_query =
     \<lparr>q_server_address = ''tcp://s:1'', q_controller_address = ''tcp://c:1'', q_stager_address = ''tcp://d:1'',
      q_slurm_id = 7, q_job_id = 0, q_adhocid = 0, q_nodes = ''n0,n1'', q_adhocfs = ''gekkofs'',
      q_inputs = ''a,b;'', q_outputs = [], q_function = ''create'', q_qos = 0\<rparr>"

theorem tool_creates_witness:
  "\<exists>s' :: nat scord tool.
    run_tool ''Error'' (scord_adhoc \<lparr>controller_address = [], data_stager_address = [], exec_mode = mode_separate_new,
        ctx_access_type = access_read_write, walltime = 0, should_flush = False\<rparr>
        (daemon_remote True quiet_world (\<lambda>d. d)) demo_query) (initial_tool (initial_scord False)) = Some (s', Inr 0) \<and>
    t_stdout s' = ''/mnt,0'' @ newline"
proof -
  have ready: "creation_ready (initial_scord False :: nat scord) quiet_world demo_query adhoc_gekkofs ''/mnt''"
    by (simp add: creation_ready_def has_room_def initial_defs demo_query_def create_adhoc_type_from_name_def
        controller_deploys_def mk_response_with_def)
  have routes: "routes_of_text (q_inputs demo_query) =
      Inr [\<lparr>route_source = \<lparr>dataset_id = ''a''\<rparr>, route_destination = \<lparr>dataset_id = ''b''\<rparr>\<rparr>]"
    "routes_of_text (q_outputs demo_query) = Inr []"
    by (simp_all add: demo_query_def routes_of_text_def route_of_text_def c_index_def)
  have zero: "db_next_job (db_of (initial_scord False :: nat scord)) = 0"
    "db_next_storage (db_of (initial_scord False :: nat scord)) = 0" by (simp_all add: initial_defs)
  have "u64_to_string 0 = ''0''" by code_simp
  with tool_creates [OF reachable_initial ready] show ?thesis
    unfolding routes bind_sum.simps sum.case prod.case zero by simp blast
qed

section \<open>Waiting\<close>

text \<open>The answer to the \<open>i\<close>-th query, whether the loop goes on after it, and what else it does.\<close>

definition wait_answer :: "'d remote \<Rightarrow> adm_server \<Rightarrow> job \<Rightarrow> transfer \<Rightarrow> 'd \<Rightarrow> nat \<Rightarrow> cpp_error + transfer_state" where
  "wait_answer R sv j t d i = lib_query_transfer (rm_connection R sv (wait_daemons R sv j t d i)) j t"

definition goes_on :: "nat \<Rightarrow> cpp_error + transfer_state \<Rightarrow> bool" where
  "goes_on i a = (case a of Inl e \<Rightarrow> False | Inr st \<Rightarrow> tx_status st \<noteq> tx_finished \<and> (i = 0 \<or> tx_status st \<noteq> tx_failed))"

definition wait_verdict :: "cpp_error + transfer_state \<Rightarrow> stop + unit" where
  "wait_verdict a =
     (case a of Inl e \<Rightarrow> Inl (Crash e)
      | Inr st \<Rightarrow> if tx_status st = tx_finished then Inr () else Inl (Leave (Some EXIT_FAILURE_int)))"

lemma query_t_daemon:
  assumes "t_daemon s = wait_daemons R sv j t d i"
  shows "\<exists>s'. t_daemon s' = query_daemon R sv j t (wait_daemons R sv j t d i) \<and>
    query_t R sv j t s = Some (s', case wait_answer R sv j t d i of Inl e \<Rightarrow> Inl (Crash e) | Inr st \<Rightarrow> Inr st)"
  by (intro exI [of _ "s\<lparr>t_daemon := query_daemon R sv j t (wait_daemons R sv j t d i)\<rparr>"])
    (simp add: assms query_t_def call_t_def Let_def wait_answer_def query_daemon_def lift_h_def split: sum.split)

lemma wait_done: "tx_status st = tx_finished \<Longrightarrow> wait_finished R sv j t st s = Some (s, Inr ())"
  by (subst wait_finished.simps) simp

lemma wait_finished_step:
  assumes "t_daemon s = query_daemon R sv j t (wait_daemons R sv j t d i)" "tx_status st \<noteq> tx_finished"
  shows "\<exists>s'. t_daemon s' = query_daemon R sv j t (wait_daemons R sv j t d (Suc i)) \<and>
    wait_finished R sv j t st s =
      (if goes_on (Suc i) (wait_answer R sv j t d (Suc i))
       then wait_finished R sv j t (projr (wait_answer R sv j t d (Suc i))) s'
       else Some (s', wait_verdict (wait_answer R sv j t d (Suc i))))"
proof -
  let ?s = "s\<lparr>t_daemon := rm_between R (t_daemon s)\<rparr>"
  have "t_daemon ?s = wait_daemons R sv j t d (Suc i)" using assms(1) by simp
  from query_t_daemon [OF this] obtain s' where s': "t_daemon s' = query_daemon R sv j t (wait_daemons R sv j t d (Suc i))"
    "query_t R sv j t ?s =
      Some (s', case wait_answer R sv j t d (Suc i) of Inl e \<Rightarrow> Inl (Crash e) | Inr st \<Rightarrow> Inr st)"
    by (elim exE conjE)
  let ?p = "s'\<lparr>t_stdout := t_stdout s' @ ''Transfer failed'' @ newline\<rparr>"
  let ?s' = "if wait_answer R sv j t d (Suc i) = Inr \<lparr>tx_status = tx_failed\<rparr> then ?p else s'"
  have failed: "tx_status st' = tx_failed \<longleftrightarrow> st' = \<lparr>tx_status = tx_failed\<rparr>" for st' by (cases st') simp
  show ?thesis
    using assms(2) s'
    by (intro exI [of _ ?s'], subst wait_finished.simps)
      (auto simp: goes_on_def wait_verdict_def failed wait_done
        split: sum.split)
qed

lemma wait_finished_from:
  assumes "t_daemon s = query_daemon R sv j t (wait_daemons R sv j t d i)" "tx_status st \<noteq> tx_finished"
    and "i < n" "\<forall>k. i < k \<and> k < n \<longrightarrow> goes_on k (wait_answer R sv j t d k)" "\<not> goes_on n (wait_answer R sv j t d n)"
  shows "\<exists>s'. wait_finished R sv j t st s = Some (s', wait_verdict (wait_answer R sv j t d n))"
  using assms
proof (induction "n - i" arbitrary: i st s)
  case (Suc m)
  obtain s' where s': "t_daemon s' = query_daemon R sv j t (wait_daemons R sv j t d (Suc i))"
    "wait_finished R sv j t st s =
      (if goes_on (Suc i) (wait_answer R sv j t d (Suc i))
       then wait_finished R sv j t (projr (wait_answer R sv j t d (Suc i))) s'
       else Some (s', wait_verdict (wait_answer R sv j t d (Suc i))))"
    using wait_finished_step [OF Suc.prems(1,2)] by (elim exE conjE)
  show ?case
  proof (cases "Suc i = n")
    case True
    with s'(2) Suc.prems(5) show ?thesis by simp
  next
    case False
    with Suc.prems(3,4) have n: "Suc i < n" and g: "goes_on (Suc i) (wait_answer R sv j t d (Suc i))" by simp_all
    then have "tx_status (projr (wait_answer R sv j t d (Suc i))) \<noteq> tx_finished"
      by (auto simp: goes_on_def split: sum.splits)
    with Suc.hyps(1) [OF _ s'(1) _ n _ Suc.prems(5)] Suc.hyps(2) Suc.prems(4) g s'(2) show ?thesis by simp
  qed
qed simp

lemma wait_finished_ends:
  assumes "wait_finished R sv j t st s = Some r"
    and "t_daemon s = query_daemon R sv j t (wait_daemons R sv j t d i)" "tx_status st \<noteq> tx_finished"
  shows "\<exists>n > i. \<not> goes_on n (wait_answer R sv j t d n)"
  using assms
proof (induction arbitrary: i rule: wait_finished.raw_induct [rotated, consumes 1, case_names step])
  case (step wf R sv j t st s r)
  let ?s = "s\<lparr>t_daemon := rm_between R (t_daemon s)\<rparr>"
  have "t_daemon ?s = wait_daemons R sv j t d (Suc i)" using step.prems(1) by simp
  from query_t_daemon [OF this] obtain s' where s': "t_daemon s' = query_daemon R sv j t (wait_daemons R sv j t d (Suc i))"
    "query_t R sv j t ?s =
      Some (s', case wait_answer R sv j t d (Suc i) of Inl e \<Rightarrow> Inl (Crash e) | Inr st \<Rightarrow> Inr st)"
    by (elim exE conjE)
  show ?case
  proof (cases "goes_on (Suc i) (wait_answer R sv j t d (Suc i))")
    case False
    then show ?thesis by (intro exI [of _ "Suc i"]) simp
  next
    case True
    then obtain st' where st': "wait_answer R sv j t d (Suc i) = Inr st'" "tx_status st' \<noteq> tx_finished"
        "tx_status st' \<noteq> tx_failed"
      by (auto simp: goes_on_def split: sum.splits)
    with step.hyps step.prems(2) s'(2) have "wf R sv j t st' s' = Some r" by simp
    from step.IH [OF this s'(1) st'(2)] obtain n where "Suc i < n" "\<not> goes_on n (wait_answer R sv j t d n)"
      by (elim exE conjE)
    then show ?thesis by (intro exI [of _ n]) simp
  qed
qed

definition query_job :: "adhoc_query \<Rightarrow> job" where
  "query_job cfg = \<lparr>job_id = ucast (q_job_id cfg), job_slurm_id = ucast (q_slurm_id cfg)\<rparr>"

definition query_transfer_of :: "adhoc_query \<Rightarrow> transfer" where
  "query_transfer_of cfg = \<lparr>tx_id = ucast (q_slurm_id cfg)\<rparr>"

lemma tool_wait_eq:
  "tool_wait R sv cfg =
     bind_h (query_t R sv (query_job cfg) (query_transfer_of cfg))
       (wait_finished R sv (query_job cfg) (query_transfer_of cfg))"
  by (simp add: tool_wait_def Let_def query_job_def query_transfer_of_def)

lemma tool_wait_runs:
  fixes R :: "'d remote" and cfg :: adhoc_query and sv :: adm_server and d :: 'd
  defines "a \<equiv> wait_answer R sv (query_job cfg) (query_transfer_of cfg) d"
  shows "\<not> goes_on n (a n) \<Longrightarrow> \<forall>i < n. goes_on i (a i) \<Longrightarrow>
      \<exists>s'. tool_wait R sv cfg (initial_tool d) = Some (s', wait_verdict (a n))"
    and "tool_wait R sv cfg (initial_tool d) \<noteq> None \<Longrightarrow> \<exists>n. \<not> goes_on n (a n)"
proof -
  let ?j = "query_job cfg" and ?t = "query_transfer_of cfg"
  have "t_daemon (initial_tool d) = wait_daemons R sv ?j ?t d 0" by (simp add: initial_tool_def)
  from query_t_daemon [OF this] obtain s where s: "t_daemon s = query_daemon R sv ?j ?t (wait_daemons R sv ?j ?t d 0)"
    "query_t R sv ?j ?t (initial_tool d) = Some (s, case a 0 of Inl e \<Rightarrow> Inl (Crash e) | Inr st \<Rightarrow> Inr st)"
    unfolding a_def by (elim exE conjE)
  have first: "tool_wait R sv cfg (initial_tool d) =
      (if goes_on 0 (a 0) then wait_finished R sv ?j ?t (projr (a 0)) s else Some (s, wait_verdict (a 0)))"
    using s(2) by (auto simp: tool_wait_eq bind_h_def goes_on_def wait_verdict_def wait_done split: sum.split)
  have active: "goes_on 0 (a 0) \<Longrightarrow> tx_status (projr (a 0)) \<noteq> tx_finished"
    by (auto simp: goes_on_def split: sum.splits)
  show "\<exists>s'. tool_wait R sv cfg (initial_tool d) = Some (s', wait_verdict (a n))"
    if n: "\<not> goes_on n (a n)" "\<forall>i < n. goes_on i (a i)"
  proof (cases "n = 0")
    case True
    with n first show ?thesis by simp
  next
    case False
    with n first wait_finished_from [OF s(1) active, of n] show ?thesis by (simp add: a_def)
  qed
  show "\<exists>n. \<not> goes_on n (a n)" if returns: "tool_wait R sv cfg (initial_tool d) \<noteq> None"
  proof (cases "goes_on 0 (a 0)")
    case True
    with returns first obtain r where "wait_finished R sv ?j ?t (projr (a 0)) s = Some r" by auto
    from wait_finished_ends [OF this s(1) active [OF True]] show ?thesis unfolding a_def by (elim exE conjE) (rule exI)
  qed (rule exI)
qed

text \<open>C27: \<open>scord_adhoc -f wait\<close> ends exactly when some query is answered with an error, with the state
  finished, or, except for the first query, with the state failed. It exits with 0 when the first such answer says finished
  and with 1 otherwise. In particular it does not end while the transfer is cancelled, nor when it had failed
  before the first query, until the daemon has forgotten the transfer.\<close>

theorem tool_waits:
  fixes R :: "'d remote" and cfg :: adhoc_query and sv :: adm_server and d :: 'd
  defines "a \<equiv> wait_answer R sv (query_job cfg) (query_transfer_of cfg) d"
  shows "(run_tool p (tool_wait R sv cfg) (initial_tool d) \<noteq> None \<longleftrightarrow> (\<exists>n. \<not> goes_on n (a n))) \<and>
    (\<forall>n. \<not> goes_on n (a n) \<and> (\<forall>i < n. goes_on i (a i)) \<longrightarrow>
       (\<exists>s'. run_tool p (tool_wait R sv cfg) (initial_tool d) =
          Some (s', case a n of Inr st \<Rightarrow> Inr (if tx_status st = tx_finished then 0 else 1)
                    | Inl e \<Rightarrow> if is_exception e then Inr 1 else Inl e)))"
proof (intro conjI allI impI)
  have ran: "\<exists>s'. run_tool p (tool_wait R sv cfg) (initial_tool d) =
          Some (s', case a n of Inr st \<Rightarrow> Inr (if tx_status st = tx_finished then 0 else 1)
                    | Inl e \<Rightarrow> if is_exception e then Inr 1 else Inl e)"
    if n: "\<not> goes_on n (a n) \<and> (\<forall>i < n. goes_on i (a i))" for n
  proof -
    have "\<exists>s'. tool_wait R sv cfg (initial_tool d) = Some (s', wait_verdict (a n))"
      using n tool_wait_runs(1) [of n R sv cfg d] by (simp add: a_def)
    then obtain s' where "tool_wait R sv cfg (initial_tool d) = Some (s', wait_verdict (a n))" by (elim exE)
    then show ?thesis
      by (cases "a n") (auto simp: run_tool_def wait_verdict_def exit_status_def EXIT_FAILURE_int_def)
  qed
  show "\<exists>s'. run_tool p (tool_wait R sv cfg) (initial_tool d) =
          Some (s', case a n of Inr st \<Rightarrow> Inr (if tx_status st = tx_finished then 0 else 1)
                    | Inl e \<Rightarrow> if is_exception e then Inr 1 else Inl e)"
    if "\<not> goes_on n (a n) \<and> (\<forall>i < n. goes_on i (a i))" for n
    using that by (rule ran)
  show "run_tool p (tool_wait R sv cfg) (initial_tool d) \<noteq> None \<longleftrightarrow> (\<exists>n. \<not> goes_on n (a n))"
  proof
    assume "run_tool p (tool_wait R sv cfg) (initial_tool d) \<noteq> None"
    then have "tool_wait R sv cfg (initial_tool d) \<noteq> None" by (rule contrapos_nn) (simp add: run_tool_def)
    then show "\<exists>n. \<not> goes_on n (a n)" unfolding a_def by (rule tool_wait_runs(2))
  next
    assume "\<exists>n. \<not> goes_on n (a n)"
    then obtain n where "\<not> goes_on n (a n) \<and> (\<forall>i < n. goes_on i (a i))"
      using exists_least_iff [of "\<lambda>n. \<not> goes_on n (a n)"] by auto
    from ran [OF this] show "run_tool p (tool_wait R sv cfg) (initial_tool d) \<noteq> None" by (elim exE) simp
  qed
qed

text \<open>A daemon that counts the queries and reports the end of the transfer in the third one.\<close>

definition counting_remote :: "nat remote" where
  "counting_remote =
     \<lparr>rm_connection = (\<lambda>sv k. \<lparr>cn_lookup = True, cn_logging = False, cn_generic = (\<lambda>_. None), cn_id = (\<lambda>_. None),
        cn_info = (\<lambda>_. None), cn_path = (\<lambda>_. None),
        cn_state = (\<lambda>_. Some (mk_response_with 0 ADM_SUCCESS
          (Some \<lparr>tx_status = if k < 2 then tx_running else tx_finished\<rparr>)))\<rparr>),
      rm_after = (\<lambda>q k. k), rm_between = Suc\<rparr>"

theorem tool_waits_witness:
  "\<exists>s'. run_tool ''Error'' (tool_wait counting_remote \<lparr>s_protocol = ''tcp'', s_address = ''tcp://s''\<rparr> demo_query)
     (initial_tool 0) = Some (s', Inr 0)"
proof -
  let ?sv = "\<lparr>s_protocol = ''tcp'', s_address = ''tcp://s''\<rparr>"
  let ?a = "wait_answer counting_remote ?sv (query_job demo_query) (query_transfer_of demo_query) 0"
  have d: "wait_daemons counting_remote ?sv j t 0 i = i" for j t i
    by (induction i) (simp_all add: counting_remote_def query_daemon_def)
  have a: "?a i = Inr \<lparr>tx_status = if i < 2 then tx_running else tx_finished\<rparr>" for i
    unfolding wait_answer_def d by (simp add: counting_remote_def lib_query_transfer_def c_query_transfer_def call_value_def
        value_or_throw_def response_value_def)
  have "\<not> goes_on 2 (?a 2) \<and> (\<forall>i < 2. goes_on i (?a i))" by (simp add: a goes_on_def)
  then have "\<exists>s'. run_tool ''Error'' (tool_wait counting_remote ?sv demo_query) (initial_tool 0) =
      Some (s', case ?a 2 of Inr st \<Rightarrow> Inr (if tx_status st = tx_finished then 0 else 1)
                | Inl e \<Rightarrow> if is_exception e then Inr 1 else Inl e)"
    by (rule tool_waits [THEN conjunct2, rule_format])
  then show ?thesis by (simp add: a)
qed

text \<open>
  A transfer that the daemon has forgotten, as the scheduler makes it do with every transfer that has ended,
  makes \<open>wait\<close> fail at once.
\<close>

lemma forgotten_transfer_waited_for:
  assumes "c_query_transfer (rm_connection R sv d) (query_job cfg) (query_transfer_of cfg) = Inr (Inl ADM_ENOENT)"
  shows "\<exists>s'. run_tool p (tool_wait R sv cfg) (initial_tool d) = Some (s', Inr 1)"
proof -
  let ?a = "wait_answer R sv (query_job cfg) (query_transfer_of cfg) d"
  have a: "?a 0 = Inl (Runtime_error (''ADM_query_transfer() error: '' @ error_code_message ADM_ENOENT))"
    using assms by (simp add: wait_answer_def lib_query_transfer_def value_or_throw_def)
  then have "\<exists>s'. tool_wait R sv cfg (initial_tool d) = Some (s', wait_verdict (?a 0))"
    by (intro tool_wait_runs(1)) (simp_all add: goes_on_def)
  with a show ?thesis by (auto simp: run_tool_def wait_verdict_def exit_status_def EXIT_FAILURE_int_def)
qed

text \<open>With Redis the deployment of the new storage, which no job uses yet, crashes the daemon.\<close>

lemma create_with_redis:
  assumes "db_redis d" "controller_deploys w cfg ty path"
  shows "snd (db_deploy_adhoc_storage w (db_next_storage d) (fst (db_register_adhoc_storage w (tool_storage_name cfg) ty
    (adhoc_context_of cfg) \<lparr>adhoc_nodes = tool_nodes cfg\<rparr> d))) = Inl Null_dereference"
  using assms
  by (auto simp: controller_deploys_def tool_uuid_def db_deploy_adhoc_storage_def db_register_adhoc_storage_def Let_def
      ref_of_def adhoc_context_of_def log_client_def take_call_def)

text \<open>A function that is none of the five does nothing, and the tool succeeds.\<close>

lemma unknown_function_succeeds:
  assumes "str_find ''://'' (q_server_address cfg) \<noteq> None"
    and "q_function cfg \<notin> {''create'', ''stage-in'', ''wait'', ''stage-out'', ''destroy''}"
  shows "run_tool p (scord_adhoc blank R cfg) s = Some (s, Inr 0)"
  using assms by (auto simp: run_tool_def scord_adhoc_def parse_address_def hook_simps)

end
