(* ===== verification/Formats.thy ===== *)
theory Formats
  imports Adhocs
begin

text \<open>
  How the data types are printed into the log and into messages: the \<open>fmt::formatter\<close> specialisations of
  \<open>src/src/lib/scord/types.hpp\<close>. What the fmt library prints by itself is an argument: a string in debug
  presentation (\<open>{:?}\<close>) and a path.
\<close>

record fmt_library =
  fmt_debug :: "string \<Rightarrow> string"
  fmt_path :: "string \<Rightarrow> string"

text \<open>\<open>fmt::join\<close> with a comma and a space, between brackets, as for every vector.\<close>

fun fmt_join :: "string list \<Rightarrow> string" where
  "fmt_join [] = []"
| "fmt_join [w] = w"
| "fmt_join (w # ws) = w @ '', '' @ fmt_join ws"

definition format_vector :: "('a \<Rightarrow> string) \<Rightarrow> 'a list \<Rightarrow> string" where
  "format_vector f xs = ''['' @ fmt_join (map f xs) @ '']''"

definition format_optional :: "('a \<Rightarrow> string) \<Rightarrow> 'a option \<Rightarrow> string" where
  "format_optional f v = (case v of Some x \<Rightarrow> f x | None \<Rightarrow> ''none'')"


section \<open>Enumerations\<close>

fun format_node_type :: "node_type \<Rightarrow> string" where
  "format_node_type node_regular = ''regular''"
| "format_node_type node_administrative = ''administrative''"
| "format_node_type _ = ''unknown''"

fun format_mapping :: "transfer_mapping \<Rightarrow> string" where
  "format_mapping mapping_one_to_one = ''ADM_MAPPING_ONE_TO_ONE''"
| "format_mapping mapping_one_to_n = ''ADM_MAPPING_ONE_TO_N''"
| "format_mapping mapping_n_to_n = ''ADM_MAPPING_N_TO_N''"
| "format_mapping _ = ''unknown''"



fun format_pfs_type :: "pfs_type \<Rightarrow> string" where
  "format_pfs_type pfs_lustre = ''ADM_PFS_STORAGE_LUSTRE''"
| "format_pfs_type pfs_gpfs = ''ADM_PFS_STORAGE_GPFS''"
| "format_pfs_type _ = ''unknown''"

fun format_scope :: "qos_scope \<Rightarrow> string" where
  "format_scope qos_scope_dataset = ''ADM_QOS_SCOPE_DATASET''"
| "format_scope qos_scope_node = ''ADM_QOS_SCOPE_NODE''"
| "format_scope qos_scope_job = ''ADM_QOS_SCOPE_JOB''"
| "format_scope qos_scope_transfer = ''ADM_QOS_SCOPE_TRANSFER''"
| "format_scope _ = ''unknown''"

fun format_subclass :: "qos_subclass \<Rightarrow> string" where
  "format_subclass qos_class_bandwidth = ''ADM_QOS_CLASS_BANDWIDTH''"
| "format_subclass qos_class_iops = ''ADM_QOS_CLASS_IOPS''"
| "format_subclass _ = ''unknown''"

definition format_transfer_state :: "transfer_state \<Rightarrow> string" where
  "format_transfer_state t =
     (case tx_status t of
        tx_queued \<Rightarrow> ''queued''
      | tx_running \<Rightarrow> ''running''
      | tx_finished \<Rightarrow> ''finished''
      | tx_failed \<Rightarrow> ''failed''
      | tx_cancelled \<Rightarrow> ''cancelled''
      | _ \<Rightarrow> ''unknown'')"

section \<open>Classes\<close>

definition format_error_code :: "error_code \<Rightarrow> string" where
  "format_error_code ec = error_code_name ec"

definition format_job_info :: "job_info \<Rightarrow> string" where
  "format_job_info ji =
     ''{adhoc_controller: '' @ adhoc_controller_address ji @ '', io_procs: '' @
     nat_to_string (unat (procs_for_io ji)) @ ''}''"

definition format_job :: "job \<Rightarrow> string" where
  "format_job j =
     ''{id: '' @ u64_to_string (job_id j) @ '', slurm_id: '' @ u64_to_string (job_slurm_id j) @ ''}''"



definition format_node :: "fmt_library \<Rightarrow> node \<Rightarrow> string" where
  "format_node F n = ''{hostname: '' @ fmt_debug F (hostname n) @ '', type: '' @ format_node_type (get_type n) @ ''}''"

definition format_transfer :: "transfer \<Rightarrow> string" where
  "format_transfer tx = ''{id: '' @ u64_to_string (tx_id tx) @ ''}''"



definition format_adhoc_resources :: "fmt_library \<Rightarrow> adhoc_resources \<Rightarrow> string" where
  "format_adhoc_resources F r = ''{nodes: '' @ format_vector (format_node F) (adhoc_nodes r) @ ''}''"

definition format_pfs_ctx :: "fmt_library \<Rightarrow> pfs_ctx \<Rightarrow> string" where
  "format_pfs_ctx F c = ''{mount_point: '' @ fmt_path F (mount_point c) @ ''}''"

definition format_pfs_storage :: "fmt_library \<Rightarrow> pfs_storage \<Rightarrow> string" where
  "format_pfs_storage F s = ''{context: '' @ format_pfs_ctx F (pfs_context s) @ ''}''"

definition format_job_resources :: "fmt_library \<Rightarrow> job_resources \<Rightarrow> string" where
  "format_job_resources F r = ''{nodes: '' @ format_vector (format_node F) (job_nodes r) @ ''}''"


section \<open>Limits\<close>

text \<open>
  The data of an entity is printed into a temporary string, and a view of it is kept beyond the statement: using
  it afterwards is undefined behaviour. When the variant does not hold what the scope says, \<open>std::get\<close> throws
  before. Only a scope without a name prints the constant.
\<close>

definition format_entity :: "qos_entity option \<Rightarrow> cpp_error + string" where
  "format_entity e =
     (case e of
        None \<Rightarrow> Inr ''none''
      | Some e \<Rightarrow>
          bind_sum
            (case ent_scope e of
               qos_scope_dataset \<Rightarrow> bind_sum (entity_data_dataset e) (\<lambda>_. Inl Undefined_behaviour)
             | qos_scope_node \<Rightarrow> bind_sum (entity_data_node e) (\<lambda>_. Inl Undefined_behaviour)
             | qos_scope_job \<Rightarrow> bind_sum (entity_data_job e) (\<lambda>_. Inl Undefined_behaviour)
             | qos_scope_transfer \<Rightarrow> bind_sum (entity_data_transfer e) (\<lambda>_. Inl Undefined_behaviour)
             | _ \<Rightarrow> Inr ''unknown'')
            (\<lambda>text. Inr (''{scope: '' @ format_scope (ent_scope e) @ '', data: '' @ text @ ''}'')))"

definition format_limit :: "qos_limit \<Rightarrow> cpp_error + string" where
  "format_limit l =
     (case l of
        None \<Rightarrow> Inl Null_dereference
      | Some l \<Rightarrow>
          bind_sum (format_entity (lim_entity l)) (\<lambda>e.
            Inr (''{entity: '' @ e @ '', subclass: '' @ format_subclass (lim_subclass l) @ '', value: '' @
                 u64_to_string (lim_value l) @ ''}'')))"

definition format_limits :: "qos_limit list \<Rightarrow> cpp_error + string" where
  "format_limits ls = bind_sum (try_map format_limit ls) (\<lambda>ws. Inr (''['' @ fmt_join ws @ '']''))"

section \<open>Printing without ambiguity\<close>

text \<open>
  \<open>f\<close> prints the values that are \<open>ok\<close> so that \<open>g\<close> of them can be read back, whatever is printed behind: \<open>g\<close> is what
  of a value is printed.
\<close>

locale legible =
  fixes f :: "'a \<Rightarrow> string" and g :: "'a \<Rightarrow> 'b" and ok :: "'a \<Rightarrow> bool"
  assumes read_back: "ok x \<Longrightarrow> ok y \<Longrightarrow> f x @ r = f y @ s \<Longrightarrow> g x = g y \<and> r = s"
begin

lemma elements_split:
  "fmt_join (map f (z # zs)) @ t = f z @ (if zs = [] then t else '', '' @ fmt_join (map f zs) @ t)"
  by (cases zs) auto

lemma elements_start:
  assumes "\<And>x. hd (f x) \<noteq> c \<and> f x \<noteq> []"
  shows "fmt_join (map f (z # zs)) @ t \<noteq> c # s" "c # s \<noteq> fmt_join (map f (z # zs)) @ t"
proof -
  have "hd (fmt_join (map f (z # zs)) @ t) \<noteq> c"
    using assms [of z] by (simp only: elements_split) (simp add: hd_append)
  then show "fmt_join (map f (z # zs)) @ t \<noteq> c # s" "c # s \<noteq> fmt_join (map f (z # zs)) @ t"
    by (metis list.sel(1))+
qed

lemma elements_read_back:
  assumes brace: "\<And>x. hd (f x) \<noteq> CHR '']'' \<and> f x \<noteq> []"
  shows "list_all ok xs \<Longrightarrow> list_all ok ys \<Longrightarrow>
    fmt_join (map f xs) @ CHR '']'' # r = fmt_join (map f ys) @ CHR '']'' # s \<Longrightarrow> map g xs = map g ys \<and> r = s"
proof (induction xs arbitrary: ys)
  case Nil
  then show ?case
    using elements_start(2) [OF brace, where t = "CHR '']'' # s"] by (cases ys) (simp_all del: list.map(2))
next
  case (Cons x xs)
  obtain y zs where ys: "ys = y # zs"
    using Cons.prems elements_start(1) [OF brace, of x xs] by (cases ys) (simp_all del: list.map(2))
  have ok: "ok x" "ok y" "list_all ok xs" "list_all ok zs" using Cons.prems(1,2) ys by simp_all
  from Cons.prems(3) have "g x = g y \<and>
      (if xs = [] then CHR '']'' # r else '', '' @ fmt_join (map f xs) @ CHR '']'' # r) =
      (if zs = [] then CHR '']'' # s else '', '' @ fmt_join (map f zs) @ CHR '']'' # s)"
    unfolding ys elements_split by (rule read_back [OF ok(1,2)])
  with Cons.IH [OF ok(3,4)] show ?case by (auto simp: ys split: if_splits)
qed

lemma vector_read_back:
  "(\<And>x. hd (f x) \<noteq> CHR '']'' \<and> f x \<noteq> []) \<Longrightarrow> legible (format_vector f) (map g) (list_all ok)"
proof (rule legible.intro)
  fix x y r s
  assume "\<And>x. hd (f x) \<noteq> CHR '']'' \<and> f x \<noteq> []" "list_all ok x" "list_all ok y"
    "format_vector f x @ r = format_vector f y @ s"
  then show "map g x = map g y \<and> r = s" by (intro elements_read_back) (simp_all add: format_vector_def)
qed

text \<open>An optional value; none is printed with the letter \<open>n\<close>.\<close>

lemma optional_read_back:
  assumes "\<And>x. hd (f x) \<noteq> CHR ''n'' \<and> f x \<noteq> []"
  shows "legible (format_optional f) (map_option g) (pred_option ok)"
proof (rule legible.intro)
  have no: "f x @ r \<noteq> ''none'' @ s" for x r s
    using assms [of x] by (cases "f x") auto
  show "map_option g x = map_option g y \<and> r = s"
    if "pred_option ok x" "pred_option ok y" "format_optional f x @ r = format_optional f y @ s" for x y r s
  proof (cases x; cases y)
    fix a b assume "x = Some a" "y = Some b"
    then show ?thesis using that read_back [of a b r s] by (simp add: format_optional_def)
  next
    fix a assume "x = Some a" "y = None"
    then show ?thesis using that no [of a r s] by (simp add: format_optional_def)
  next
    fix b assume "x = None" "y = Some b"
    then show ?thesis using that no [of b s r] by (simp add: format_optional_def)
  next
    assume "x = None" "y = None"
    then show ?thesis using that by (simp add: format_optional_def)
  qed
qed

end

text \<open>A number ends where no digit follows, a name of an enumeration at the next comma or brace.\<close>

lemma number_read_back:
  assumes "nat_to_string m @ c # r = nat_to_string n @ d # s" "\<not> is_digit c" "\<not> is_digit d"
  shows "m = n \<and> c = d \<and> r = s"
proof -
  have tw: "takeWhile is_digit (nat_to_string k @ e # t) = nat_to_string k" if "\<not> is_digit e" for k e t
    using that by (simp add: takeWhile_append2 nat_to_string_digits)
  from tw [OF assms(2), of m r] tw [OF assms(3), of n s] assms(1) have "nat_to_string m = nat_to_string n" by simp
  with assms(1) show ?thesis by (simp add: nat_to_string_inj)
qed


lemma format_job_start: "hd (format_job j) \<noteq> CHR '']'' \<and> format_job j \<noteq> []"
  by (simp add: format_job_def)

lemma legible_u64:
  assumes "u64_to_string v @ c # r = u64_to_string w @ c # s" "\<not> is_digit c"
  shows "v = w \<and> r = s"
  using number_read_back [of "unat v" c r "unat w" c s] assms by (simp add: u64_to_string_def word_unat_eq_iff)

lemma punctuation [simp]: "\<not> is_digit (CHR '','')" "\<not> is_digit (CHR ''}'')"
  by (simp_all add: is_digit_def)

interpretation l_job: legible format_job "\<lambda>j. j" "\<lambda>_. True"
proof
  fix x y :: job and r s
  assume "format_job x @ r = format_job y @ s"
  then have "u64_to_string (job_id x) @ CHR '','' # '' slurm_id: '' @ u64_to_string (job_slurm_id x) @ CHR ''}'' # r =
      u64_to_string (job_id y) @ CHR '','' # '' slurm_id: '' @ u64_to_string (job_slurm_id y) @ CHR ''}'' # s"
    by (simp add: format_job_def)
  from legible_u64 [OF this] have "job_id x = job_id y \<and>
      u64_to_string (job_slurm_id x) @ CHR ''}'' # r = u64_to_string (job_slurm_id y) @ CHR ''}'' # s" by simp
  then show "x = y \<and> r = s" by (auto dest: legible_u64)
qed

interpretation l_transfer: legible format_transfer "\<lambda>t. t" "\<lambda>_. True"
  by unfold_locales (auto simp: format_transfer_def dest: legible_u64)
































section \<open>Limits that can be printed\<close>

definition printable_entity :: "qos_entity option \<Rightarrow> bool" where
  "printable_entity e =
     (case e of
        None \<Rightarrow> True
      | Some e \<Rightarrow> ent_scope e \<notin> {qos_scope_dataset, qos_scope_node, qos_scope_job, qos_scope_transfer})"

definition printable_limit :: "qos_limit \<Rightarrow> bool" where
  "printable_limit l = (case l of None \<Rightarrow> False | Some l \<Rightarrow> printable_entity (lim_entity l))"

lemma named_entity_unprinted: "bind_sum (bind_sum m (\<lambda>_. Inl x)) f \<noteq> Inr w"
  by (cases m) simp_all

lemma entity_printed: "(\<exists>w. format_entity e = Inr w) \<longleftrightarrow> printable_entity e"
proof (cases e)
  case (Some d)
  then show ?thesis
    by (cases "ent_scope d") (simp_all add: format_entity_def printable_entity_def named_entity_unprinted)
qed (simp add: format_entity_def printable_entity_def)

lemma limit_printed: "(\<exists>w. format_limit l = Inr w) \<longleftrightarrow> printable_limit l"
proof (cases l)
  case (Some m)
  then show ?thesis
    using entity_printed [of "lim_entity m"]
    by (cases "format_entity (lim_entity m)") (simp_all add: format_limit_def printable_limit_def)
qed (simp add: format_limit_def printable_limit_def)

lemma limits_printable: "(\<exists>w. format_limits ls = Inr w) \<longleftrightarrow> list_all printable_limit ls"
proof -
  have "(\<exists>ws. try_map format_limit ls = Inr ws) \<longleftrightarrow> list_all printable_limit ls"
  proof (induction ls)
    case (Cons l ls)
    then show ?case
      using limit_printed [of l] by (cases "format_limit l"; cases "try_map format_limit ls") auto
  qed simp
  then show ?thesis by (cases "try_map format_limit ls") (auto simp: format_limits_def)
qed

lemma entity_printed_dangling:
  "ent_scope e = qos_scope_job \<Longrightarrow> entity_data_job e = Inr j \<Longrightarrow> format_entity (Some e) = Inl Undefined_behaviour"
  by (simp add: format_entity_def)

end
