(* ===== verification/Endpoints.thy ===== *)
theory Endpoints
  imports Client
begin

text \<open>
  The client side of the network layer (\<open>src/src/common/net/client.cpp\<close>, \<open>endpoint.hpp\<close>): what the Thallium library
  throws becomes an empty optional, except in the constructor of the client. \<open>engine_connection\<close> is the connection that the
  functions of \<open>Client\<close> meet.
\<close>

text \<open>
  What the library answers: to the making of an engine for a protocol, to a lookup, to the question for the own
  address, and to requests, by the type of response. A text is that of an exception. A call with a time limit, which only the
  ping has, throws when the time is over, and differs in nothing else.
\<close>

record 'e thallium =
  th_engine :: "string \<Rightarrow> string + unit"
  th_lookup :: "string \<Rightarrow> string + 'e"
  th_self :: "string + string"
  th_generic :: "'e \<Rightarrow> request \<Rightarrow> string + generic_response"
  th_id :: "'e \<Rightarrow> request \<Rightarrow> string + response_with_id"
  th_info :: "'e \<Rightarrow> request \<Rightarrow> string + job_info response_with_value"
  th_path :: "'e \<Rightarrow> request \<Rightarrow> string + string response_with_value"
  th_state :: "'e \<Rightarrow> request \<Rightarrow> string + transfer_state response_with_value"

definition make_client :: "'e thallium \<Rightarrow> string \<Rightarrow> cpp_error + unit" where
  "make_client T protocol = (case th_engine T protocol of Inl what \<Rightarrow> Inl Library_error | Inr _ \<Rightarrow> Inr ())"

definition client_lookup :: "'e thallium \<Rightarrow> string \<Rightarrow> 'e option" where
  "client_lookup T address = (case th_lookup T address of Inl what \<Rightarrow> None | Inr e \<Rightarrow> Some e)"

definition client_self_address :: "'e thallium \<Rightarrow> string" where
  "client_self_address T = (case th_self T of Inl what \<Rightarrow> ''unknown'' | Inr a \<Rightarrow> a)"

definition endpoint_call :: "('e \<Rightarrow> request \<Rightarrow> string + 'r) \<Rightarrow> 'e \<Rightarrow> request \<Rightarrow> 'r option" where
  "endpoint_call call e q = (case call e q of Inl what \<Rightarrow> None | Inr r \<Rightarrow> Some r)"

text \<open>
  A function of the client library makes a client for the protocol of the server, looks its address up, and calls.
\<close>

definition engine_connection :: "'e thallium \<Rightarrow> bool \<Rightarrow> server \<Rightarrow> cpp_error + connection" where
  "engine_connection T logging srv =
     bind_sum (make_client T (server_protocol srv)) (\<lambda>_.
       let found = client_lookup T (server_address srv)
       in Inr \<lparr>cn_lookup = (found \<noteq> None), cn_logging = logging,
               cn_generic = (\<lambda>q. Option.bind found (\<lambda>e. endpoint_call (th_generic T) e q)),
               cn_id = (\<lambda>q. Option.bind found (\<lambda>e. endpoint_call (th_id T) e q)),
               cn_info = (\<lambda>q. Option.bind found (\<lambda>e. endpoint_call (th_info T) e q)),
               cn_path = (\<lambda>q. Option.bind found (\<lambda>e. endpoint_call (th_path T) e q)),
               cn_state = (\<lambda>q. Option.bind found (\<lambda>e. endpoint_call (th_state T) e q))\<rparr>)"

text \<open>A ping is answered with a code, \<open>ADM_EOTHER\<close> when the library throws, once there is a client at all.\<close>

definition lib_ping_over :: "'e thallium \<Rightarrow> bool \<Rightarrow> server \<Rightarrow> cpp_error + unit" where
  "lib_ping_over T logging srv = bind_sum (engine_connection T logging srv) lib_ping"

lemma ping_outcome:
  "bind_sum (engine_connection T logging srv) (\<lambda>cn. Inr (c_ping cn)) =
     (case th_engine T (server_protocol srv) of
        Inl _ \<Rightarrow> Inl Library_error
      | Inr _ \<Rightarrow> Inr (case th_lookup T (server_address srv) of
            Inl _ \<Rightarrow> ADM_EOTHER
          | Inr e \<Rightarrow> (case th_generic T e Req_ping of Inl _ \<Rightarrow> ADM_EOTHER | Inr r \<Rightarrow> resp_error_code r)))"
  by (simp add: engine_connection_def make_client_def client_lookup_def endpoint_call_def c_ping_def call_generic_def
      split: sum.split)

text \<open>
  So a protocol that Thallium does not know makes the functions of the C interface throw a C++ exception, as the making of the
  client is outside every handler.
\<close>

lemma unknown_protocol_throws:
  "th_engine T (server_protocol srv) = Inl what \<Longrightarrow> lib_ping_over T logging srv = Inl Library_error"
  by (simp add: lib_ping_over_def engine_connection_def make_client_def)

text \<open>Every connection comes from some behaviour of the library, so what holds for all connections is about all of them.\<close>

lemma connection_arises: "\<exists>T :: unit thallium. engine_connection T (cn_logging cn) srv =
    Inr (cn\<lparr>cn_generic := (\<lambda>q. if cn_lookup cn then cn_generic cn q else None),
            cn_id := (\<lambda>q. if cn_lookup cn then cn_id cn q else None),
            cn_info := (\<lambda>q. if cn_lookup cn then cn_info cn q else None),
            cn_path := (\<lambda>q. if cn_lookup cn then cn_path cn q else None),
            cn_state := (\<lambda>q. if cn_lookup cn then cn_state cn q else None)\<rparr>)"
proof
  let ?T = "\<lparr>th_engine = (\<lambda>_. Inr ()), th_lookup = (\<lambda>_. if cn_lookup cn then Inr () else Inl []), th_self = Inr [],
      th_generic = (\<lambda>_ q. case cn_generic cn q of None \<Rightarrow> Inl [] | Some r \<Rightarrow> Inr r),
      th_id = (\<lambda>_ q. case cn_id cn q of None \<Rightarrow> Inl [] | Some r \<Rightarrow> Inr r),
      th_info = (\<lambda>_ q. case cn_info cn q of None \<Rightarrow> Inl [] | Some r \<Rightarrow> Inr r),
      th_path = (\<lambda>_ q. case cn_path cn q of None \<Rightarrow> Inl [] | Some r \<Rightarrow> Inr r),
      th_state = (\<lambda>_ q. case cn_state cn q of None \<Rightarrow> Inl [] | Some r \<Rightarrow> Inr r)\<rparr> :: unit thallium"
  show "engine_connection ?T (cn_logging cn) srv =
    Inr (cn\<lparr>cn_generic := (\<lambda>q. if cn_lookup cn then cn_generic cn q else None),
            cn_id := (\<lambda>q. if cn_lookup cn then cn_id cn q else None),
            cn_info := (\<lambda>q. if cn_lookup cn then cn_info cn q else None),
            cn_path := (\<lambda>q. if cn_lookup cn then cn_path cn q else None),
            cn_state := (\<lambda>q. if cn_lookup cn then cn_state cn q else None)\<rparr>)"
    by (cases cn) (auto simp: engine_connection_def make_client_def client_lookup_def endpoint_call_def fun_eq_iff split: option.split)
qed

end
