(* ===== verification/Placeholders.thy ===== *)
theory Placeholders
  imports Client
begin

text \<open>
  The functions of the client library for operations that the daemon does not offer (\<open>src/src/lib/libscord.cpp\<close>,
  \<open>src/src/lib/c_wrapper.cpp\<close>): priorities, cancelling, QoS constraints, data operations, statistics. Their remote
  calls are disabled, so that none of them has a connection. A result with an option is that of a function with an
  output parameter, which is \<open>None\<close> when nothing is written to it.
\<close>

section \<open>The C++ interface\<close>

definition lib_set_dataset_information :: "server \<Rightarrow> adm_job \<Rightarrow> adm_dataset \<Rightarrow> 'i \<Rightarrow> error_code" where
  "lib_set_dataset_information srv job target info = ADM_SUCCESS"

definition lib_set_io_resources :: "server \<Rightarrow> adm_job \<Rightarrow> adm_adhoc_storage \<Rightarrow> adm_adhoc_resources \<Rightarrow> error_code" where
  "lib_set_io_resources srv job tier resources = ADM_SUCCESS"

definition lib_get_transfer_priority :: "server \<Rightarrow> adm_job \<Rightarrow> adm_transfer \<Rightarrow> error_code \<times> 'p option" where
  "lib_get_transfer_priority srv job transfer = (ADM_SUCCESS, None)"

definition lib_set_transfer_priority :: "server \<Rightarrow> adm_job \<Rightarrow> adm_transfer \<Rightarrow> u32 \<Rightarrow> error_code" where
  "lib_set_transfer_priority srv job transfer incr = ADM_SUCCESS"

definition lib_cancel_transfer :: "server \<Rightarrow> adm_job \<Rightarrow> adm_transfer \<Rightarrow> error_code" where
  "lib_cancel_transfer srv job transfer = ADM_SUCCESS"

definition lib_get_pending_transfers :: "server \<Rightarrow> adm_job \<Rightarrow> error_code \<times> adm_transfer list option" where
  "lib_get_pending_transfers srv job = (ADM_SUCCESS, None)"

definition lib_set_qos_constraints :: "server \<Rightarrow> adm_job \<Rightarrow> adm_qos_entity \<Rightarrow> adm_qos_limit \<Rightarrow> error_code" where
  "lib_set_qos_constraints srv job entity limit = ADM_SUCCESS"

definition lib_get_qos_constraints :: "server \<Rightarrow> adm_job \<Rightarrow> adm_qos_entity \<Rightarrow> error_code \<times> adm_qos_limit list option" where
  "lib_get_qos_constraints srv job entity = (ADM_SUCCESS, None)"

definition lib_define_data_operation :: "server \<Rightarrow> adm_job \<Rightarrow> string \<Rightarrow> 'v \<Rightarrow> error_code \<times> 'o option" where
  "lib_define_data_operation srv job path args = (ADM_SUCCESS, None)"

definition lib_connect_data_operation :: "server \<Rightarrow> adm_job \<Rightarrow> adm_dataset \<Rightarrow> adm_dataset \<Rightarrow> bool \<Rightarrow> 'v \<Rightarrow> error_code" where
  "lib_connect_data_operation srv job input output should_stream args = ADM_SUCCESS"

definition lib_finalize_data_operation :: "server \<Rightarrow> adm_job \<Rightarrow> 'o \<Rightarrow> error_code \<times> 't option" where
  "lib_finalize_data_operation srv job op = (ADM_SUCCESS, None)"

definition lib_link_transfer_to_data_operation :: "server \<Rightarrow> adm_job \<Rightarrow> 'o \<Rightarrow> adm_transfer \<Rightarrow> bool \<Rightarrow> 'v \<Rightarrow> error_code" where
  "lib_link_transfer_to_data_operation srv job op transfer should_stream args = ADM_SUCCESS"

definition lib_get_statistics :: "server \<Rightarrow> adm_job \<Rightarrow> error_code \<times> 'j option" where
  "lib_get_statistics srv job = (ADM_SUCCESS, None)"

section \<open>The C interface\<close>

definition ADM_set_dataset_information :: "adm_server \<Rightarrow> adm_job \<Rightarrow> adm_dataset \<Rightarrow> 'i \<Rightarrow> error_code" where
  "ADM_set_dataset_information srv job target info = lib_set_dataset_information (server_of_adm srv) job target info"

definition ADM_set_io_resources :: "adm_server \<Rightarrow> adm_job \<Rightarrow> adm_adhoc_storage \<Rightarrow> adm_adhoc_resources \<Rightarrow> error_code" where
  "ADM_set_io_resources srv job tier resources = lib_set_io_resources (server_of_adm srv) job tier resources"

definition ADM_get_transfer_priority :: "adm_server \<Rightarrow> adm_job \<Rightarrow> adm_transfer \<Rightarrow> error_code \<times> 'p option" where
  "ADM_get_transfer_priority srv job transfer = lib_get_transfer_priority (server_of_adm srv) job transfer"

definition ADM_set_transfer_priority :: "adm_server \<Rightarrow> adm_job \<Rightarrow> adm_transfer \<Rightarrow> u32 \<Rightarrow> error_code" where
  "ADM_set_transfer_priority srv job transfer incr = lib_set_transfer_priority (server_of_adm srv) job transfer incr"

definition ADM_cancel_transfer :: "adm_server \<Rightarrow> adm_job \<Rightarrow> adm_transfer \<Rightarrow> error_code" where
  "ADM_cancel_transfer srv job transfer = lib_cancel_transfer (server_of_adm srv) job transfer"

definition ADM_get_pending_transfers :: "adm_server \<Rightarrow> adm_job \<Rightarrow> error_code \<times> adm_transfer list option" where
  "ADM_get_pending_transfers srv job = lib_get_pending_transfers (server_of_adm srv) job"

definition ADM_set_qos_constraints :: "adm_server \<Rightarrow> adm_job \<Rightarrow> adm_qos_entity \<Rightarrow> adm_qos_limit \<Rightarrow> error_code" where
  "ADM_set_qos_constraints srv job entity limit = lib_set_qos_constraints (server_of_adm srv) job entity limit"

definition ADM_get_qos_constraints :: "adm_server \<Rightarrow> adm_job \<Rightarrow> adm_qos_entity \<Rightarrow> error_code \<times> adm_qos_limit list option" where
  "ADM_get_qos_constraints srv job entity = lib_get_qos_constraints (server_of_adm srv) job entity"

definition ADM_define_data_operation :: "adm_server \<Rightarrow> adm_job \<Rightarrow> string \<Rightarrow> 'v \<Rightarrow> error_code \<times> 'o option" where
  "ADM_define_data_operation srv job path args = lib_define_data_operation (server_of_adm srv) job path args"

definition ADM_connect_data_operation :: "adm_server \<Rightarrow> adm_job \<Rightarrow> adm_dataset \<Rightarrow> adm_dataset \<Rightarrow> u32 \<Rightarrow> 'v \<Rightarrow> error_code" where
  "ADM_connect_data_operation srv job input output should_stream args = lib_connect_data_operation (server_of_adm srv) job input output (should_stream \<noteq> 0) args"

definition ADM_finalize_data_operation :: "adm_server \<Rightarrow> adm_job \<Rightarrow> 'o \<Rightarrow> error_code \<times> 't option" where
  "ADM_finalize_data_operation srv job op = lib_finalize_data_operation (server_of_adm srv) job op"

definition ADM_link_transfer_to_data_operation :: "adm_server \<Rightarrow> adm_job \<Rightarrow> 'o \<Rightarrow> adm_transfer \<Rightarrow> u32 \<Rightarrow> 'v \<Rightarrow> error_code" where
  "ADM_link_transfer_to_data_operation srv job op transfer should_stream args = lib_link_transfer_to_data_operation (server_of_adm srv) job op transfer (should_stream \<noteq> 0) args"

definition ADM_get_statistics :: "adm_server \<Rightarrow> adm_job \<Rightarrow> error_code \<times> 'j option" where
  "ADM_get_statistics srv job = lib_get_statistics (server_of_adm srv) job"

text \<open>Whatever they are asked, they report success; those with an output parameter leave it as it was.\<close>

lemmas placeholder_defs =
  lib_set_dataset_information_def ADM_set_dataset_information_def
  lib_set_io_resources_def ADM_set_io_resources_def
  lib_get_transfer_priority_def ADM_get_transfer_priority_def
  lib_set_transfer_priority_def ADM_set_transfer_priority_def
  lib_cancel_transfer_def ADM_cancel_transfer_def
  lib_get_pending_transfers_def ADM_get_pending_transfers_def
  lib_set_qos_constraints_def ADM_set_qos_constraints_def
  lib_get_qos_constraints_def ADM_get_qos_constraints_def
  lib_define_data_operation_def ADM_define_data_operation_def
  lib_connect_data_operation_def ADM_connect_data_operation_def
  lib_finalize_data_operation_def ADM_finalize_data_operation_def
  lib_link_transfer_to_data_operation_def ADM_link_transfer_to_data_operation_def
  lib_get_statistics_def ADM_get_statistics_def

lemma outputs_unwritten:
  "ADM_get_transfer_priority srv job transfer = (ADM_SUCCESS, None)"
  "ADM_get_pending_transfers srv job = (ADM_SUCCESS, None)"
  "ADM_get_qos_constraints srv job entity = (ADM_SUCCESS, None)"
  "ADM_define_data_operation srv job path args = (ADM_SUCCESS, None)"
  "ADM_finalize_data_operation srv job op = (ADM_SUCCESS, None)"
  "ADM_get_statistics srv job = (ADM_SUCCESS, None)"
  by (simp_all add: placeholder_defs)

end
